(* ===== verification/Go_Prelude.thy ===== *)
theory Go_Prelude
  imports Complex_Main
begin

text \<open>
  What the Go sources take from the language, its standard library and the decimal package.

  \<^item> Strings are lists of bytes. \<open>TrimSpace\<close>, \<open>ToLower\<close>, \<open>ToUpper\<close>, \<open>EqualFold\<close> and \<open>Contains\<close> are the
    functions of the package \<^verbatim>\<open>strings\<close> on ASCII text.
  \<^item> \<open>int64\<close> values are integers; \<open>wrap64\<close> is the wrap-around of their arithmetic, applied where
    a result can leave the range. \<open>time\<close> is the number of nanoseconds since the Unix epoch,
    \<open>duration\<close> a number of nanoseconds, and \<open>zero_time\<close> the zero value of \<^verbatim>\<open>time.Time\<close>.
  \<^item> A \<^verbatim>\<open>decimal.Decimal\<close> of \<^verbatim>\<open>github.com/shopspring/decimal\<close> is the rational number it denotes,
    so \<^verbatim>\<open>Add\<close>, \<^verbatim>\<open>Sub\<close>, \<^verbatim>\<open>Mul\<close>, \<^verbatim>\<open>Neg\<close>, \<^verbatim>\<open>Abs\<close>, \<^verbatim>\<open>Min\<close>, \<^verbatim>\<open>Max\<close> and the comparisons,
    which the package documents as exact, are the arithmetic and the order of the rationals.
    What is not settled by the number alone is not defined here: parsing, printing, rounding
    division and the scale of the stored representation are the fields of the record
    \<open>decimal_lib\<close>, which every definition that uses them takes as an argument. The locale
    \<open>decimal_library\<close> states what the package documents of them.
\<close>

section \<open>Collections of simplification rules\<close>

named_theorems go_simps \<open>defining equations of small helpers that proofs unfold together\<close>

section \<open>Strings\<close>

definition is_space :: "char \<Rightarrow> bool" where
  "is_space c \<longleftrightarrow> c \<in> set [CHR 0x20, CHR 0x09, CHR 0x0A, CHR 0x0B, CHR 0x0C, CHR 0x0D]"

definition TrimSpace :: "string \<Rightarrow> string" where
  "TrimSpace s = rev (dropWhile is_space (rev (dropWhile is_space s)))"

definition lower_char :: "char \<Rightarrow> char" where
  "lower_char c =
     (let n = (of_char c :: int) in if 65 \<le> n \<and> n \<le> 90 then char_of (n + 32) else c)"

definition upper_char :: "char \<Rightarrow> char" where
  "upper_char c =
     (let n = (of_char c :: int) in if 97 \<le> n \<and> n \<le> 122 then char_of (n - 32) else c)"

definition ToLower :: "string \<Rightarrow> string" where
  "ToLower s = map lower_char s"

definition ToUpper :: "string \<Rightarrow> string" where
  "ToUpper s = map upper_char s"

definition EqualFold :: "string \<Rightarrow> string \<Rightarrow> bool" where
  "EqualFold s t \<longleftrightarrow> ToLower s = ToLower t"

text \<open>Whether a string occurs in another.\<close>

fun starts_with :: "string \<Rightarrow> string \<Rightarrow> bool" where
  "starts_with [] s = True"
| "starts_with (x # xs) [] = False"
| "starts_with (x # xs) (y # ys) = (x = y \<and> starts_with xs ys)"

fun Contains :: "string \<Rightarrow> string \<Rightarrow> bool" where
  "Contains [] needle = starts_with needle []"
| "Contains (y # ys) needle = (starts_with needle (y # ys) \<or> Contains ys needle)"

lemma EqualFold_refl [simp]: "EqualFold s s"
  by (simp add: EqualFold_def)

lemma EqualFold_sym: "EqualFold s t \<longleftrightarrow> EqualFold t s"
  by (auto simp: EqualFold_def)

lemma lower_char_idem [simp]: "lower_char (lower_char c) = lower_char c"
proof -
  have "(of_char c :: int) = int (of_char c)" "(of_char c :: nat) < 256"
    by (simp_all add: of_nat_of_char)
  then have "(of_char c :: int) < 256" "0 \<le> (of_char c :: int)" by linarith+
  then show ?thesis
    by (auto simp: lower_char_def Let_def of_char_of take_bit_eq_mod)
qed

lemma ToLower_idem [simp]: "ToLower (ToLower s) = ToLower s"
  by (simp add: ToLower_def)

lemma dropWhile_id: "(s \<noteq> [] \<Longrightarrow> \<not> P (hd s)) \<Longrightarrow> dropWhile P s = s"
  by (cases s) auto

lemma TrimSpace_no_space:
  assumes "\<And>c. c \<in> set s \<Longrightarrow> \<not> is_space c"
  shows "TrimSpace s = s"
proof -
  have "dropWhile is_space s = s" "dropWhile is_space (rev s) = rev s"
    using assms by (auto intro!: dropWhile_id simp: hd_rev)
  then show ?thesis by (simp add: TrimSpace_def)
qed

lemma TrimSpace_ends:
  assumes "TrimSpace s \<noteq> []"
  shows "\<not> is_space (hd (TrimSpace s))" "\<not> is_space (last (TrimSpace s))"
proof -
  let ?t = "dropWhile is_space s"
  let ?u = "dropWhile is_space (rev ?t)"
  have u: "?u \<noteq> []" using assms by (simp add: TrimSpace_def)
  then show "\<not> is_space (last (TrimSpace s))"
    using hd_dropWhile [of is_space "rev ?t"] by (simp add: TrimSpace_def last_rev)
  have "?t \<noteq> []" using u by (metis dropWhile.simps(1) rev.simps(1))
  then have hd_t: "\<not> is_space (hd ?t)" by (rule hd_dropWhile)
  obtain v where v: "rev ?t = v @ ?u" by (metis takeWhile_dropWhile_id)
  then have "?t = rev ?u @ rev v" by (metis rev_append rev_rev_ident)
  then have "hd ?t = hd (rev ?u)" using u by (metis hd_append2 rev_is_Nil_conv)
  then show "\<not> is_space (hd (TrimSpace s))" using hd_t by (simp add: TrimSpace_def)
qed

lemma TrimSpace_idem [simp]: "TrimSpace (TrimSpace s) = TrimSpace s"
proof (cases "TrimSpace s = []")
  case True
  then show ?thesis by (simp only: True) (simp add: TrimSpace_def)
next
  case False
  have "dropWhile is_space (TrimSpace s) = TrimSpace s"
    using TrimSpace_ends(1) [OF False] by (simp add: dropWhile_id)
  moreover have "dropWhile is_space (rev (TrimSpace s)) = rev (TrimSpace s)"
    using TrimSpace_ends(2) [OF False] by (intro dropWhile_id) (simp add: hd_rev)
  ultimately show ?thesis by (metis TrimSpace_def rev_rev_ident)
qed

section \<open>Machine integers and time\<close>

definition wrap64 :: "int \<Rightarrow> int" where
  "wrap64 x = (x + 2 ^ 63) mod 2 ^ 64 - 2 ^ 63"

definition in_int64 :: "int \<Rightarrow> bool" where
  "in_int64 x \<longleftrightarrow> - (2 ^ 63) \<le> x \<and> x < 2 ^ 63"

lemma wrap64_id [simp]: "in_int64 x \<Longrightarrow> wrap64 x = x"
  by (simp add: wrap64_def in_int64_def)

lemma wrap64_in_int64 [simp]: "in_int64 (wrap64 x)"
proof -
  have "0 \<le> (x + 2 ^ 63) mod 2 ^ 64" "(x + 2 ^ 63) mod 2 ^ 64 < (2 ^ 64 :: int)" by simp_all
  then show ?thesis by (simp add: wrap64_def in_int64_def)
qed

text \<open>Integer division of Go rounds towards zero.\<close>

definition go_div :: "int \<Rightarrow> int \<Rightarrow> int" where
  "go_div a b = sgn a * sgn b * (\<bar>a\<bar> div \<bar>b\<bar>)"

lemma go_div_nonneg: "0 \<le> a \<Longrightarrow> 0 < b \<Longrightarrow> go_div a b = a div b"
  by (cases "a = 0") (simp_all add: go_div_def)

type_synonym "time" = int
type_synonym duration = int

definition zero_time :: "time" where
  "zero_time = - 62135596800000000000"

definition epoch_time :: "time" where
  "epoch_time = 0"

definition IsZero :: "time \<Rightarrow> bool" where
  "IsZero t \<longleftrightarrow> t = zero_time"

definition Nanosecond :: duration where "Nanosecond = 1"
definition Millisecond :: duration where "Millisecond = 1000000"
definition Second :: duration where "Second = 1000000000"
definition Minute :: duration where "Minute = 60000000000"
definition Hour :: duration where "Hour = 3600000000000"

lemmas duration_units = Nanosecond_def Millisecond_def Second_def Minute_def Hour_def

text \<open>\<^verbatim>\<open>t.Sub(u)\<close> saturates at the ends of the range of a duration.\<close>

definition time_Sub :: "time \<Rightarrow> time \<Rightarrow> duration" where
  "time_Sub t u = max (- (2 ^ 63)) (min (2 ^ 63 - 1) (t - u))"

lemma time_Sub_exact: "in_int64 (t - u) \<Longrightarrow> time_Sub t u = t - u"
  by (simp add: time_Sub_def in_int64_def)

lemma time_Sub_sign [simp]:
  "0 \<le> time_Sub t u \<longleftrightarrow> u \<le> t" "0 < time_Sub t u \<longleftrightarrow> u < t" "time_Sub t u \<le> 0 \<longleftrightarrow> t \<le> u"
  by (auto simp: time_Sub_def)

section \<open>The decimal package\<close>

type_synonym decimal = rat

record decimal_lib =
  NewFromString :: "string \<Rightarrow> decimal option"
  StringOf :: "decimal \<Rightarrow> string"
  Div :: "decimal \<Rightarrow> decimal \<Rightarrow> decimal"
  Exponent :: "decimal \<Rightarrow> int"

definition is_decimal :: "decimal \<Rightarrow> bool" where
  "is_decimal x \<longleftrightarrow> (\<exists>(c::int) (k::nat). x = of_int c / 10 ^ k)"

text \<open>\<^verbatim>\<open>x.Mod(y)\<close> has the sign of \<open>x\<close>; \<^verbatim>\<open>x.Truncate(0)\<close> drops the fraction.\<close>

definition decimal_Truncate0 :: "decimal \<Rightarrow> decimal" where
  "decimal_Truncate0 x = (if 0 \<le> x then of_int \<lfloor>x\<rfloor> else of_int \<lceil>x\<rceil>)"

definition decimal_Mod :: "decimal \<Rightarrow> decimal \<Rightarrow> decimal" where
  "decimal_Mod x y = x - y * decimal_Truncate0 (x / y)"

definition Sign :: "decimal \<Rightarrow> int" where
  "Sign x = (if x < 0 then - 1 else if x = 0 then 0 else 1)"

lemma Sign_eq_iff:
  "Sign x = Sign y \<longleftrightarrow> (x < 0 \<longleftrightarrow> y < 0) \<and> (x = 0 \<longleftrightarrow> y = 0)"
  by (auto simp: Sign_def)

lemma Mod_zero_iff:
  assumes "0 < s"
  shows "decimal_Mod x s = 0 \<longleftrightarrow> (\<exists>n::int. x = of_int n * s)"
proof
  assume "decimal_Mod x s = 0"
  then have "x = s * decimal_Truncate0 (x / s)" by (simp add: decimal_Mod_def)
  then show "\<exists>n::int. x = of_int n * s"
    by (auto simp: decimal_Truncate0_def mult.commute split: if_splits)
next
  assume "\<exists>n::int. x = of_int n * s"
  then obtain n :: int where "x = of_int n * s" by blast
  then show "decimal_Mod x s = 0" using assms by (simp add: decimal_Mod_def decimal_Truncate0_def)
qed

subsection \<open>Numbers with a finite decimal expansion\<close>

lemma is_decimal_of_int [simp, intro]: "is_decimal (of_int n)"
  unfolding is_decimal_def by (rule exI [of _ n], rule exI [of _ 0]) simp

lemma is_decimal_consts [simp]: "is_decimal 0" "is_decimal 1" "is_decimal (numeral n)"
  using is_decimal_of_int [of 0] is_decimal_of_int [of 1] is_decimal_of_int [of "numeral n"]
  by simp_all

lemma is_decimal_mult [intro]:
  assumes "is_decimal x" "is_decimal y" shows "is_decimal (x * y)"
proof -
  obtain c k d l where "x = of_int c / 10 ^ k" "y = of_int d / 10 ^ l"
    using assms unfolding is_decimal_def by blast
  then have "x * y = of_int (c * d) / 10 ^ (k + l)" by (simp add: power_add)
  then show ?thesis unfolding is_decimal_def by blast
qed

lemma is_decimal_uminus [intro]:
  assumes "is_decimal x" shows "is_decimal (- x)"
proof -
  obtain c k where "x = of_int c / 10 ^ k" using assms unfolding is_decimal_def by blast
  then have "- x = of_int (- c) / 10 ^ k" by simp
  then show ?thesis unfolding is_decimal_def by blast
qed

lemma is_decimal_add [intro]:
  assumes "is_decimal x" "is_decimal y" shows "is_decimal (x + y)"
proof -
  obtain c k d l where "x = of_int c / 10 ^ k" "y = of_int d / 10 ^ l"
    using assms unfolding is_decimal_def by blast
  then have "x + y = of_int (c * 10 ^ l + d * 10 ^ k) / 10 ^ (k + l)"
    by (simp add: power_add add_divide_distrib)
  then show ?thesis unfolding is_decimal_def by blast
qed

lemma is_decimal_diff [intro]: "is_decimal x \<Longrightarrow> is_decimal y \<Longrightarrow> is_decimal (x - y)"
  using is_decimal_add [of x "- y"] is_decimal_uminus [of y] by simp

lemma is_decimal_abs [intro]: "is_decimal x \<Longrightarrow> is_decimal \<bar>x\<bar>"
  by (auto simp: abs_if)

lemma is_decimal_min_max [intro]:
  "is_decimal x \<Longrightarrow> is_decimal y \<Longrightarrow> is_decimal (min x y)"
  "is_decimal x \<Longrightarrow> is_decimal y \<Longrightarrow> is_decimal (max x y)"
  by (auto simp: min_def max_def)

end
