(* ===== verification/Decimal_Library.thy ===== *)
theory Decimal_Library
  imports Go_Prelude
begin

text \<open>
  The contract of the decimal package, as a locale over the record of its operations, and a
  concrete implementation of that record.

  \<^item> \<^verbatim>\<open>Div\<close> is documented as rounding to \<^verbatim>\<open>DivisionPrecision\<close> = 16 digits after the point: the
    result is a function of the quotient, a multiple of \<open>10\<^sup>-\<^sup>1\<^sup>6\<close> at most half a unit away from it.
  \<^item> \<^verbatim>\<open>NewFromString\<close> refuses a text with a space in it, yields a number with a finite decimal expansion and reads back what
    \<^verbatim>\<open>String\<close> prints, which consists of digits, a sign and a point.
  \<^item> \<^verbatim>\<open>Exponent\<close> is the scale of the stored coefficient.

  \<open>std_lib\<close> shows that the contract can be met: it prints and parses positional decimals and
  rounds half away from zero.
\<close>

section \<open>The contract\<close>

definition div_unit :: decimal where
  "div_unit = 1 / 10 ^ 16"

lemma div_unit_pos: "0 < div_unit"
  by (simp add: div_unit_def)

lemma div_unit_scale: "div_unit * 10 ^ 16 = 1"
  by (simp add: div_unit_def)

definition decimal_chars :: string where
  "decimal_chars = ''0123456789.-''"

lemma decimal_chars_no_space: "c \<in> set decimal_chars \<Longrightarrow> \<not> is_space c"
  by (auto simp: decimal_chars_def is_space_def)

locale decimal_library =
  fixes L :: decimal_lib
  assumes Div_unit: "b \<noteq> 0 \<Longrightarrow> \<exists>n::int. Div L a b = of_int n * div_unit"
    and Div_quotient: "b \<noteq> 0 \<Longrightarrow> d \<noteq> 0 \<Longrightarrow> a / b = c / d \<Longrightarrow> Div L a b = Div L c d"
    and Div_close: "b \<noteq> 0 \<Longrightarrow> \<bar>Div L a b - a / b\<bar> \<le> div_unit / 2"
    and parse_decimal: "NewFromString L s = Some x \<Longrightarrow> is_decimal x"
    and parse_space: "NewFromString L s = Some x \<Longrightarrow> ch \<in> set s \<Longrightarrow> \<not> is_space ch"
    and parse_print: "is_decimal x \<Longrightarrow> NewFromString L (StringOf L x) = Some x"
    and print_nonempty: "is_decimal x \<Longrightarrow> StringOf L x \<noteq> []"
    and print_chars: "is_decimal x \<Longrightarrow> set (StringOf L x) \<subseteq> set decimal_chars"
    and Exponent_scale: "is_decimal x \<Longrightarrow> \<exists>c::int. x = of_int c * 10 powi Exponent L x"
begin

lemma Div_exact:
  assumes "b \<noteq> 0" and n: "a / b = of_int n * div_unit"
  shows "Div L a b = a / b"
proof -
  obtain m :: int where m: "Div L a b = of_int m * div_unit" using Div_unit [OF assms(1)] by blast
  have "\<bar>(of_int m - of_int n) * div_unit\<bar> \<le> div_unit / 2"
    using Div_close [OF assms(1), of a] m n by (simp add: algebra_simps)
  then have "\<bar>of_int (m - n) :: rat\<bar> \<le> 1 / 2"
    by (simp add: div_unit_def abs_mult)
  then have "m = n" by linarith
  with m n show ?thesis by simp
qed

lemma Div_bounds:
  assumes "b \<noteq> 0"
  shows "a / b - div_unit / 2 \<le> Div L a b" "Div L a b \<le> a / b + div_unit / 2"
  using Div_close [OF assms, of a] by linarith+

lemma Div_nonneg:
  assumes "0 \<le> a" "0 < b" shows "0 \<le> Div L a b"
proof -
  have b: "b \<noteq> 0" using assms(2) by simp
  obtain m :: int where m: "Div L a b = of_int m * div_unit" using Div_unit [OF b] by blast
  have "0 \<le> a / b" using assms by simp
  then have "- (div_unit / 2) \<le> of_int m * div_unit" using Div_bounds(1) [OF b, of a] m by linarith
  then have "- (1 / 2) \<le> (of_int m :: rat)" by (simp add: div_unit_def)
  then have "0 \<le> m" by linarith
  with m show ?thesis by (simp add: div_unit_def)
qed

lemma Div_mono:
  assumes "b \<noteq> 0" "d \<noteq> 0" "a / b \<le> c / d"
  shows "Div L a b \<le> Div L c d"
proof (cases "a / b = c / d")
  case True
  then show ?thesis using Div_quotient [OF assms(1,2) True] by simp
next
  case False
  obtain m n :: int where mn: "Div L a b = of_int m * div_unit" "Div L c d = of_int n * div_unit"
    using Div_unit assms(1,2) by meson
  have "of_int m * div_unit - div_unit / 2 < of_int n * div_unit + div_unit / 2"
    using Div_bounds(2) [OF assms(1), of a] Div_bounds(1) [OF assms(2), of c] assms(3) False mn
    by linarith
  then have "of_int m < (of_int n + 1 :: rat)" by (simp add: div_unit_def)
  then have "m \<le> n" by linarith
  then show ?thesis using mn div_unit_pos by simp
qed

lemma parse_trim: "NewFromString L s = Some x \<Longrightarrow> TrimSpace s = s"
  using parse_space by (blast intro: TrimSpace_no_space)

lemma print_trim: "is_decimal x \<Longrightarrow> TrimSpace (StringOf L x) = StringOf L x"
  using print_chars [of x] decimal_chars_no_space by (intro TrimSpace_no_space) blast

lemma is_decimal_div_unit: "is_decimal div_unit"
  unfolding is_decimal_def div_unit_def by (rule exI [of _ 1], rule exI [of _ 16]) simp

lemma is_decimal_Div:
  assumes "b \<noteq> 0"
  shows "is_decimal (Div L a b)"
proof -
  obtain n :: int where "Div L a b = of_int n * div_unit" using Div_unit [OF assms] by blast
  then show ?thesis by (simp add: is_decimal_mult is_decimal_div_unit)
qed

end

section \<open>An implementation\<close>

definition digit_chars :: string where
  "digit_chars = ''0123456789''"

definition digit_char :: "int \<Rightarrow> char" where
  "digit_char d = digit_chars ! nat d"

definition char_digit :: "char \<Rightarrow> int option" where
  "char_digit c =
     (let n = (of_char c :: int) in if 48 \<le> n \<and> n \<le> 57 then Some (n - 48) else None)"

function show_nat :: "int \<Rightarrow> string" where
  "show_nat n = (if n < 10 then [digit_char n] else show_nat (n div 10) @ [digit_char (n mod 10)])"
  by pat_completeness auto
termination
  by (relation "measure nat") auto

fun show_pad :: "nat \<Rightarrow> int \<Rightarrow> string" where
  "show_pad 0 n = []"
| "show_pad (Suc k) n = show_pad k (n div 10) @ [digit_char (n mod 10)]"

fun read_digits :: "int \<Rightarrow> string \<Rightarrow> int option" where
  "read_digits acc [] = Some acc"
| "read_digits acc (c # cs) =
     (case char_digit c of None \<Rightarrow> None | Some d \<Rightarrow> read_digits (10 * acc + d) cs)"

definition read_unsigned :: "string \<Rightarrow> decimal option" where
  "read_unsigned s =
     (let a = takeWhile (\<lambda>c. c \<noteq> CHR ''.'') s; f = drop (length a + 1) s
      in if a = [] \<and> f = [] then None
         else map_option (\<lambda>n. of_int n / 10 ^ length f) (read_digits 0 (a @ f)))"

definition read_decimal :: "string \<Rightarrow> decimal option" where
  "read_decimal s =
     (case s of [] \<Rightarrow> None
      | c # cs \<Rightarrow> if c = CHR ''-'' then map_option uminus (read_unsigned cs)
                 else if c = CHR ''+'' then read_unsigned cs
                 else read_unsigned s)"

partial_function (option) dec_scale :: "decimal \<Rightarrow> nat \<Rightarrow> nat option" where
  "dec_scale x k =
     (if of_int \<lfloor>x * 10 ^ k\<rfloor> = x * 10 ^ k then Some k else dec_scale x (Suc k))"

declare dec_scale.simps [code]

definition show_unsigned :: "nat \<Rightarrow> int \<Rightarrow> string" where
  "show_unsigned k c =
     show_nat (c div 10 ^ k) @ (if k = 0 then [] else CHR ''.'' # show_pad k (c mod 10 ^ k))"

definition show_decimal :: "decimal \<Rightarrow> string" where
  "show_decimal x =
     (case dec_scale \<bar>x\<bar> 0 of None \<Rightarrow> []
      | Some k \<Rightarrow> (if x < 0 then ''-'' else []) @ show_unsigned k \<lfloor>\<bar>x\<bar> * 10 ^ k\<rfloor>)"

definition round16 :: "decimal \<Rightarrow> decimal" where
  "round16 q = of_int (Sign q * \<lfloor>\<bar>q\<bar> * 10 ^ 16 + 1 / 2\<rfloor>) * div_unit"

definition div_round :: "decimal \<Rightarrow> decimal \<Rightarrow> decimal" where
  "div_round a b = round16 (a / b)"

definition std_lib :: decimal_lib where
  "std_lib =
     \<lparr>NewFromString = read_decimal, StringOf = show_decimal, Div = div_round,
      Exponent = (\<lambda>x. case dec_scale x 0 of None \<Rightarrow> 0 | Some k \<Rightarrow> - int k)\<rparr>"

declare show_nat.simps [simp del]

lemma digit_char_cases:
  assumes "0 \<le> d" "d < 10"
  shows "char_digit (digit_char d) = Some d \<and> digit_char d \<in> set digit_chars"
proof -
  from assms have "d \<in> {0, 1, 2, 3, 4, 5, 6, 7, 8, 9}" by (simp, presburger)
  then show ?thesis by (auto simp: digit_char_def digit_chars_def char_digit_def)
qed

lemmas char_digit_digit [simp] = digit_char_cases [THEN conjunct1]

lemma digit_chars_facts:
  "set digit_chars \<subseteq> set decimal_chars"
  "c \<in> set digit_chars \<Longrightarrow> c \<noteq> CHR ''.'' \<and> c \<noteq> CHR ''-'' \<and> c \<noteq> CHR ''+''"
  "set ''-'' \<subseteq> set decimal_chars" "CHR ''.'' \<in> set decimal_chars"
  by (auto simp: digit_chars_def decimal_chars_def)

lemma show_nat_chars: "0 \<le> n \<Longrightarrow> set (show_nat n) \<subseteq> set digit_chars \<and> show_nat n \<noteq> []"
proof (induction n rule: show_nat.induct)
  case (1 n)
  show ?case
  proof (cases "n < 10")
    case True
    then show ?thesis
      using "1.prems" digit_char_cases [of n] by (subst (1 2) show_nat.simps) simp
  next
    case False
    with "1.IH" have "set (show_nat (n div 10)) \<subseteq> set digit_chars" by simp
    with False show ?thesis
      using digit_char_cases [of "n mod 10"] by (subst (1 2) show_nat.simps) simp
  qed
qed

lemma show_pad_chars: "0 \<le> n \<Longrightarrow> set (show_pad k n) \<subseteq> set digit_chars"
proof (induction k arbitrary: n)
  case (Suc k)
  then show ?case using digit_char_cases [of "n mod 10"] by auto
qed simp

lemma length_show_pad [simp]: "length (show_pad k n) = k"
  by (induction k arbitrary: n) auto

lemma read_digits_append:
  "read_digits acc (s @ t) = Option.bind (read_digits acc s) (\<lambda>a. read_digits a t)"
  by (induction s arbitrary: acc) (auto split: option.splits)

lemma read_show_nat: "0 \<le> n \<Longrightarrow> read_digits 0 (show_nat n) = Some n"
proof (induction n rule: show_nat.induct)
  case (1 n)
  then show ?case
    by (subst show_nat.simps) (auto simp: read_digits_append)
qed

lemma read_show_pad: "0 \<le> n \<Longrightarrow> n < 10 ^ k \<Longrightarrow> read_digits acc (show_pad k n) = Some (acc * 10 ^ k + n)"
proof (induction k arbitrary: n acc)
  case (Suc k)
  have "0 \<le> n div 10" "n div 10 < 10 ^ k" using Suc.prems by simp_all
  then have "read_digits acc (show_pad k (n div 10)) = Some (acc * 10 ^ k + n div 10)"
    by (rule Suc.IH)
  moreover have "10 * (acc * 10 ^ k + n div 10) + n mod 10 = acc * 10 ^ Suc k + n"
    by (simp add: algebra_simps)
  ultimately show ?case by (simp add: read_digits_append)
qed simp

lemma takeWhile_show_nat:
  "0 \<le> n \<Longrightarrow> takeWhile (\<lambda>c. c \<noteq> CHR ''.'') (show_nat n @ t) = show_nat n @ takeWhile (\<lambda>c. c \<noteq> CHR ''.'') t"
  using show_nat_chars [of n] digit_chars_facts(2) by (intro takeWhile_append2) blast

lemma read_show_unsigned:
  assumes "0 \<le> c"
  shows "read_unsigned (show_unsigned k c) = Some (of_int c / 10 ^ k)"
proof -
  have parts: "0 \<le> c div 10 ^ k" "0 \<le> c mod 10 ^ k" "c mod 10 ^ k < 10 ^ k"
    using assms by (simp_all add: pos_imp_zdiv_nonneg_iff)
  let ?a = "show_nat (c div 10 ^ k)" and ?f = "show_pad k (c mod 10 ^ k)"
  have split: "takeWhile (\<lambda>ch. ch \<noteq> CHR ''.'') (show_unsigned k c) = ?a"
    "drop (length ?a + 1) (show_unsigned k c) = ?f"
    using parts by (simp_all add: show_unsigned_def takeWhile_show_nat)
  have "read_digits 0 (?a @ ?f) = Some c"
    using parts by (simp add: read_digits_append read_show_nat read_show_pad div_mult_mod_eq)
  then show ?thesis
    using show_nat_chars [OF parts(1)] unfolding read_unsigned_def Let_def split by simp
qed

lemma show_unsigned_nonempty: "0 \<le> c \<Longrightarrow> show_unsigned k c \<noteq> []"
  using show_nat_chars [of "c div 10 ^ k"] by (simp add: show_unsigned_def pos_imp_zdiv_nonneg_iff)

lemma show_unsigned_head:
  assumes "0 \<le> c" "show_unsigned k c = d # ds"
  shows "d \<in> set digit_chars"
proof -
  have "0 \<le> c div 10 ^ k" using assms(1) by (simp add: pos_imp_zdiv_nonneg_iff)
  then have "show_nat (c div 10 ^ k) \<noteq> []" "set (show_nat (c div 10 ^ k)) \<subseteq> set digit_chars"
    using show_nat_chars by blast+
  with assms(2) show ?thesis
    by (cases "show_nat (c div 10 ^ k)") (auto simp: show_unsigned_def)
qed

lemma dec_scale_found:
  assumes "\<exists>n::int. x * 10 ^ (k + m) = of_int n"
  shows "\<exists>r. dec_scale x k = Some r"
  using assms
proof (induction m arbitrary: k)
  case 0
  then show ?case by (subst dec_scale.simps) auto
next
  case (Suc m)
  then have "\<exists>r. dec_scale x (Suc k) = Some r" by simp
  then show ?case by (subst dec_scale.simps) auto
qed

lemma dec_scale_is_decimal: "is_decimal x \<Longrightarrow> \<exists>r. dec_scale x 0 = Some r"
proof -
  assume "is_decimal x"
  then obtain c k where "x = of_int c / 10 ^ k" unfolding is_decimal_def by blast
  then have "x * 10 ^ (0 + k) = of_int c" by simp
  then show ?thesis by (blast intro: dec_scale_found)
qed

lemma dec_scale_Some:
  assumes "dec_scale x k = Some r"
  shows "of_int \<lfloor>x * 10 ^ r\<rfloor> = x * 10 ^ r"
proof -
  let ?P = "\<lambda>x (k::nat) r. of_int \<lfloor>x * 10 ^ r\<rfloor> = x * 10 ^ r"
  have "(case (x, k) of (x, k) \<Rightarrow> ?P x k) r"
  proof (rule dec_scale.raw_induct)
    fix f x k r
    assume IH: "\<And>x k r. f x k = Some r \<Longrightarrow> ?P x k r"
      and eq: "(if of_int \<lfloor>x * 10 ^ k\<rfloor> = x * 10 ^ k then Some k else f x (Suc k)) = Some r"
    show "?P x k r" using eq IH [of x "Suc k" r] by (auto split: if_splits)
  qed (use assms in simp)
  then show ?thesis by simp
qed

lemma is_decimal_scaled:
  fixes x :: decimal
  assumes "of_int \<lfloor>x * 10 ^ r\<rfloor> = x * 10 ^ r"
  shows "of_int \<lfloor>x * 10 ^ r\<rfloor> / 10 ^ r = x"
  unfolding assms by simp

lemma read_decimal_shown:
  assumes "is_decimal x"
  shows "read_decimal (show_decimal x) = Some x"
proof -
  obtain k where k: "dec_scale \<bar>x\<bar> 0 = Some k"
    using dec_scale_is_decimal [OF is_decimal_abs [OF assms]] by blast
  let ?c = "\<lfloor>\<bar>x\<bar> * 10 ^ k\<rfloor>"
  have c0: "0 \<le> ?c" by simp
  have c: "of_int ?c / 10 ^ k = \<bar>x\<bar>" by (rule is_decimal_scaled [OF dec_scale_Some [OF k]])
  have u: "read_unsigned (show_unsigned k ?c) = Some \<bar>x\<bar>" by (simp only: read_show_unsigned [OF c0] c)
  obtain d ds where d: "show_unsigned k ?c = d # ds"
    using show_unsigned_nonempty [OF c0] by (meson list.exhaust)
  have "d \<noteq> CHR ''-''" "d \<noteq> CHR ''+''"
    using digit_chars_facts(2) [OF show_unsigned_head [OF c0 d]] by simp_all
  then have "read_decimal (show_unsigned k ?c) = Some \<bar>x\<bar>" "read_decimal (CHR ''-'' # show_unsigned k ?c) = Some (- \<bar>x\<bar>)"
    using u unfolding d by (simp_all add: read_decimal_def)
  moreover have "show_decimal x = (if x < 0 then ''-'' else []) @ show_unsigned k ?c"
    by (simp only: show_decimal_def k option.case)
  ultimately show ?thesis by (cases "x < 0") (simp_all only: if_True if_False append.simps, simp_all)
qed

lemma read_decimal_is_decimal: "read_decimal s = Some x \<Longrightarrow> is_decimal x"
proof -
  have u: "is_decimal y" if "read_unsigned t = Some y" for t y
  proof -
    from that obtain n f where "y = of_int n / 10 ^ f"
      by (auto simp: read_unsigned_def Let_def split: if_splits)
    then show ?thesis unfolding is_decimal_def by blast
  qed
  assume "read_decimal s = Some x"
  then show ?thesis
    by (auto simp: read_decimal_def split: list.splits if_splits dest: u intro: is_decimal_uminus)
qed

lemma show_unsigned_chars:
  assumes "0 \<le> c"
  shows "set (show_unsigned k c) \<subseteq> set decimal_chars"
proof -
  have "0 \<le> c div 10 ^ k" "0 \<le> c mod 10 ^ k" using assms by (simp_all add: pos_imp_zdiv_nonneg_iff)
  then have "set (show_nat (c div 10 ^ k)) \<subseteq> set decimal_chars" "set (show_pad k (c mod 10 ^ k)) \<subseteq> set decimal_chars"
    using show_nat_chars show_pad_chars digit_chars_facts(1) by blast+
  then show ?thesis using digit_chars_facts(4) by (simp add: show_unsigned_def)
qed

lemma show_decimal_chars:
  assumes "is_decimal x"
  shows "show_decimal x \<noteq> []" "set (show_decimal x) \<subseteq> set decimal_chars"
proof -
  obtain k where k: "dec_scale \<bar>x\<bar> 0 = Some k"
    using dec_scale_is_decimal [OF is_decimal_abs [OF assms]] by blast
  let ?c = "\<lfloor>\<bar>x\<bar> * 10 ^ k\<rfloor>"
  show "show_decimal x \<noteq> []" by (simp add: show_decimal_def k show_unsigned_nonempty)
  have "set (show_unsigned k ?c) \<subseteq> set decimal_chars" by (rule show_unsigned_chars) simp
  then show "set (show_decimal x) \<subseteq> set decimal_chars"
    using digit_chars_facts(3) by (cases "x < 0") (simp_all only: show_decimal_def k option.case if_True if_False set_append Un_subset_iff, simp)
qed

lemma round16_close: "\<bar>round16 q - q\<bar> \<le> div_unit / 2"
proof -
  define n where "n = \<lfloor>\<bar>q\<bar> * 10 ^ 16 + 1 / 2\<rfloor>"
  have n: "of_int n \<le> \<bar>q\<bar> * 10 ^ 16 + 1 / 2" "\<bar>q\<bar> * 10 ^ 16 + 1 / 2 \<le> of_int n + 1"
    using floor_correct [of "\<bar>q\<bar> * 10 ^ 16 + 1 / 2"] unfolding n_def by linarith+
  have "of_int n * div_unit \<le> (\<bar>q\<bar> * 10 ^ 16 + 1 / 2) * div_unit"
       "(\<bar>q\<bar> * 10 ^ 16 + 1 / 2) * div_unit \<le> (of_int n + 1) * div_unit"
    using n div_unit_pos by (simp_all only: mult_right_mono less_imp_le)
  moreover have "(\<bar>q\<bar> * 10 ^ 16 + 1 / 2) * div_unit = \<bar>q\<bar> + div_unit / 2"
    using div_unit_scale by (simp add: div_unit_def)
  ultimately have close: "\<bar>of_int n * div_unit - \<bar>q\<bar>\<bar> \<le> div_unit / 2"
    by (simp only: distrib_right abs_le_iff) linarith
  have "round16 q = of_int (Sign q * n) * div_unit" by (simp only: round16_def n_def)
  then have "round16 q - q = (of_int (Sign q) :: rat) * (of_int n * div_unit - \<bar>q\<bar>)"
    by (simp add: Sign_def)
  with close show ?thesis by (auto simp: Sign_def abs_mult div_unit_pos less_imp_le)
qed

lemma div_round_close: "\<bar>div_round a b - a / b\<bar> \<le> div_unit / 2"
  unfolding div_round_def by (rule round16_close)

lemma div_round_unit: "\<exists>n::int. div_round a b = of_int n * div_unit"
  unfolding div_round_def round16_def by blast

lemma read_digits_no_space: "read_digits acc cs = Some n \<Longrightarrow> c \<in> set cs \<Longrightarrow> \<not> is_space c"
proof (induction acc cs rule: read_digits.induct)
  case (2 acc d cs)
  then obtain k where k: "char_digit d = Some k" "read_digits (10 * acc + k) cs = Some n" by (auto split: option.splits)
  have "\<not> is_space d" using k(1) by (auto simp: char_digit_def is_space_def Let_def split: if_splits)
  then show ?case using 2 k by auto
qed simp

lemma read_unsigned_no_space:
  assumes "read_unsigned s = Some x" "c \<in> set s" shows "\<not> is_space c"
proof -
  let ?a = "takeWhile (\<lambda>c. c \<noteq> CHR ''.'') s" let ?f = "drop (length ?a + 1) s"
  obtain n where n: "read_digits 0 (?a @ ?f) = Some n" using assms(1) by (auto simp: read_unsigned_def Let_def split: if_splits)
  have "c \<in> set (?a @ ?f) \<or> c = CHR ''.''"
  proof (cases "CHR ''.'' \<in> set s")
    case True
    then obtain xs ys where s: "s = xs @ CHR ''.'' # ys" "CHR ''.'' \<notin> set xs" using split_list_first by metis
    then have "?a = xs" by (induction xs arbitrary: s) auto
    then show ?thesis using assms(2) s(1) by auto
  next
    case False
    then have "?a = s" by (induction s) auto
    then show ?thesis using assms(2) by (metis UnI1 set_append)
  qed
  then show ?thesis using read_digits_no_space [OF n] by (auto simp: is_space_def)
qed

lemma read_decimal_no_space: "read_decimal s = Some x \<Longrightarrow> c \<in> set s \<Longrightarrow> \<not> is_space c"
proof (cases s)
  case (Cons d ds)
  assume "read_decimal s = Some x" "c \<in> set s"
  moreover have "\<not> is_space CHR ''-''" "\<not> is_space CHR ''+''" by (simp_all add: is_space_def)
  ultimately show ?thesis
    using Cons read_unsigned_no_space by (auto simp: read_decimal_def split: if_splits)
qed simp

interpretation std: decimal_library std_lib
proof (unfold_locales, goal_cases)
  case (1 b a)
  show ?case using div_round_unit by (simp add: std_lib_def)
next
  case (2 b d a c)
  then show ?case by (simp add: std_lib_def div_round_def)
next
  case (3 b a)
  show ?case using div_round_close by (simp add: std_lib_def)
next
  case (4 s x)
  then show ?case by (simp add: std_lib_def read_decimal_is_decimal)
next
  case (5 s x ch)
  then show ?case using read_decimal_no_space by (simp add: std_lib_def)
next
  case (6 x)
  then show ?case by (simp add: std_lib_def read_decimal_shown)
next
  case (7 x)
  then show ?case by (simp add: std_lib_def show_decimal_chars)
next
  case (8 x)
  then show ?case using show_decimal_chars(2) by (simp add: std_lib_def)
next
  case (9 x)
  then obtain k where "dec_scale x 0 = Some k" using dec_scale_is_decimal by blast
  then have "x = of_int \<lfloor>x * 10 ^ k\<rfloor> * 10 powi (- int k)"
    using is_decimal_scaled [OF dec_scale_Some, of x 0 k] by (simp add: power_int_minus divide_inverse)
  then show ?case using \<open>dec_scale x 0 = Some k\<close> by (auto simp: std_lib_def)
qed

end
