(* ===== verification/Trader_Types.thy ===== *)
theory Trader_Types
  imports Decimal_Library
begin

text \<open>
  The data of the package \<^verbatim>\<open>trader\<close> (\<^verbatim>\<open>types.go\<close>, \<^verbatim>\<open>arbitrage_types.go\<close>) and what it uses of
  \<^verbatim>\<open>trader/exchange/types.go\<close> and \<^verbatim>\<open>trader/marketdata/types.go\<close>: one record per struct with all
  of its fields, in the order of the source. A field carries a prefix that names its struct, as
  the structs share field names. Quantities and prices stay strings, as they are stored; they
  are parsed where the code parses them.
\<close>

section \<open>Structs\<close>

text \<open>A value of type \<^verbatim>\<open>any\<close>: a string, nil, or another value with its \<^verbatim>\<open>fmt.Sprint\<close> text. A map
  with such values is the list of its entries in iteration order.\<close>

datatype any_value = AnyString string | AnyNil | AnyOther string

record ArbitrageLeg =
  leg_TradingAccountID :: int
  leg_InstrumentID :: int
  leg_ProductName :: string
  leg_AccountName :: string
  leg_Exchange :: string
  leg_ContractType :: string
  leg_ExchangeSymbol :: string
  leg_BaseAsset :: string
  leg_QuoteAsset :: string

record ArbitrageCombination =
  ac_ID :: string
  ac_IdempotencyKey :: string
  ac_RequestFingerprint :: string
  ac_OwnerUsername :: string
  ac_LegA :: ArbitrageLeg
  ac_LegB :: ArbitrageLeg
  ac_AskThresholdBps :: string
  ac_BidThresholdBps :: string
  ac_TargetNotional :: string
  ac_OrderNotional :: string
  ac_RunMode :: string
  ac_EntryDirection :: string
  ac_LegALeverage :: string
  ac_LegBLeverage :: string
  ac_ExitPolicy :: string
  ac_ExitAnnualizedRate :: string
  ac_ExitAfterSeconds :: int
  ac_EarlyExitFunding8hAnnualizedFloor :: string
  ac_EarlyExitLiquidationDistancePct :: string
  ac_TargetReachedAt :: "time"
  ac_ScheduledExitAt :: "time"
  ac_OneShotPhase :: string
  ac_ExecutionMode :: string
  ac_MakerLeg :: string
  ac_Status :: string
  ac_RuntimeState :: string
  ac_PositionNotional :: string
  ac_CumulativeTurnoverNotional :: string
  ac_GrossTurnoverNotional :: string
  ac_LegABasePosition :: string
  ac_LegBBasePosition :: string
  ac_CarryBaseQuantity :: string
  ac_LegAAverageEntryPrice :: string
  ac_LegBAverageEntryPrice :: string
  ac_AverageEntrySpreadBps :: string
  ac_LegAUnrealizedPnl :: string
  ac_LegBUnrealizedPnl :: string
  ac_RealizedSpreadPnl :: string
  ac_EstimatedFundingPnl :: string
  ac_EstimatedTradingFee :: string
  ac_MetricsQuality :: string
  ac_NotionalExposureSeconds :: string
  ac_HoldingSeconds :: string
  ac_ExposureUpdatedAt :: "time"
  ac_CombinedPositionAnnualized :: string
  ac_FundingHistoryComplete :: bool
  ac_LegAVenueBaselineBasePosition :: string
  ac_LegBVenueBaselineBasePosition :: string
  ac_VenueBaselineCapturedAt :: "time"
  ac_LegAVenueBasePosition :: string
  ac_LegBVenueBasePosition :: string
  ac_LegAVenueNotional :: string
  ac_LegBVenueNotional :: string
  ac_LegAVenueValuationPrice :: string
  ac_LegBVenueValuationPrice :: string
  ac_LegAVenueValuationAt :: "time"
  ac_LegBVenueValuationAt :: "time"
  ac_LegAPositionDifference :: string
  ac_LegBPositionDifference :: string
  ac_LegAReconciliationAdjustment :: string
  ac_LegBReconciliationAdjustment :: string
  ac_LastPositionReconciledAt :: "time"
  ac_CurrentAskSpreadBps :: string
  ac_CurrentBidSpreadBps :: string
  ac_MarketDataStale :: bool
  ac_ErrorMessage :: string
  ac_ConsecutiveFailures :: int
  ac_NextRetryAt :: "time"
  ac_PositionUncertain :: bool
  ac_LastFailureKey :: string
  ac_RepeatedFailureCount :: int
  ac_CircuitOpen :: bool
  ac_Version :: int
  ac_SchedulerLeaseUntil :: "time"
  ac_CreatedAt :: "time"
  ac_UpdatedAt :: "time"
  ac_ClosedAt :: "time"
  ac_MetricsCalculatedAt :: "time"
  ac_FinalMetricsStatus :: string
  ac_FinalMetricsRetryCount :: int
  ac_FinalMetricsLastError :: string
  ac_FinalMetricsNextRetryAt :: "time"
  ac_FinalMetricsRetryFinite :: bool
  ac_FinalMetricsCompletedAt :: "time"
  ac_LegALiquidationDistancePct :: string
  ac_LegBLiquidationDistancePct :: string

record ArbitrageExecution =
  ae_ID :: string
  ae_CombinationID :: string
  ae_Direction :: string
  ae_Sequence :: int
  ae_Status :: string
  ae_TriggerAskSpread :: string
  ae_TriggerBidSpread :: string
  ae_TriggerLegABid :: string
  ae_TriggerLegAAsk :: string
  ae_TriggerLegBBid :: string
  ae_TriggerLegBAsk :: string
  ae_TargetBaseQuantity :: string
  ae_RequestedNotional :: string
  ae_PositionEffect :: string
  ae_ReduceOnly :: bool
  ae_LastCloseClip :: bool
  ae_LegAFilledQuantity :: string
  ae_LegBFilledQuantity :: string
  ae_DeltaNotional :: string
  ae_MakerOrderID :: string
  ae_HedgeOrderID :: string
  ae_HedgeSequence :: int
  ae_Attempt :: int
  ae_ErrorMessage :: string
  ae_CreatedAt :: "time"
  ae_UpdatedAt :: "time"
  ae_ClosedAt :: "time"

record Instrument =
  inst_ID :: int
  inst_Exchange :: string
  inst_ContractType :: string
  inst_ExchangeSymbol :: string
  inst_BaseAsset :: string
  inst_QuoteAsset :: string
  inst_SettleAsset :: string
  inst_ContractSize :: string
  inst_PriceTick :: string
  inst_QuantityStep :: string
  inst_MinQuantity :: string
  inst_MinNotional :: string
  inst_MinQuantityStatus :: string
  inst_MinNotionalStatus :: string
  inst_MaxQuantity :: string
  inst_MarketQuantityStep :: string
  inst_MarketMinQuantity :: string
  inst_MarketMaxQuantity :: string
  inst_MarketMinNotional :: string
  inst_MaxQuantityStatus :: string
  inst_MarketQuantityStepStatus :: string
  inst_MarketMinQuantityStatus :: string
  inst_MarketMaxQuantityStatus :: string
  inst_MarketMinNotionalStatus :: string
  inst_Metadata :: "(string \<times> any_value) list"

record OrderActualFee =
  oaf_Amount :: string
  oaf_Currency :: string

record Order =
  ord_ID :: string
  ord_IdempotencyKey :: string
  ord_OwnerUsername :: string
  ord_TradingAccountID :: int
  ord_ProductName :: string
  ord_Exchange :: string
  ord_InstrumentID :: int
  ord_ContractType :: string
  ord_ExchangeSymbol :: string
  ord_BaseAsset :: string
  ord_QuoteAsset :: string
  ord_ClientOrderID :: string
  ord_VenueOrderID :: string
  ord_Side :: string
  ord_OrderType :: string
  ord_Quantity :: string
  ord_Price :: string
  ord_FilledQuantity :: string
  ord_AveragePrice :: string
  ord_Status :: string
  ord_ErrorCode :: string
  ord_ErrorMessage :: string
  ord_RequestFingerprint :: string
  ord_CreatedAt :: "time"
  ord_UpdatedAt :: "time"
  ord_LastReconciledAt :: "time"
  ord_LastStreamEventAt :: "time"
  ord_LastVenueEventAt :: "time"
  ord_SyncState :: string
  ord_ReconcileFailures :: int
  ord_TwapJobID :: string
  ord_TwapSliceIndex :: int
  ord_TwapAttemptIndex :: int
  ord_ArbitrageExecutionID :: string
  ord_ArbitrageLeg :: string
  ord_ArbitrageRole :: string
  ord_ReduceOnly :: bool
  ord_AbsenceConfirmations :: int
  ord_LastFilledAt :: "time"
  ord_ActualFees :: "OrderActualFee list"
  ord_LiquidityRole :: string

record PlaceOrderInput =
  poi_Token :: string
  poi_TradingAccountID :: int
  poi_InstrumentID :: int
  poi_Side :: string
  poi_OrderType :: string
  poi_Quantity :: string
  poi_Price :: string
  poi_IdempotencyKey :: string

record VenueReference =
  ref_ClientOrderID :: string
  ref_VenueOrderID :: string
  ref_Cloid :: string
  ref_TxHash :: string
  ref_Nonce :: int
  ref_AccountIndex :: int
  ref_APIKeyIndex :: int
  ref_ClientOrderIndex :: int
  ref_EventAt :: "time"
  ref_ReconcileStatus :: string

record VenueResult =
  vr_VenueOrderID :: string
  vr_Status :: string
  vr_FilledQuantity :: string
  vr_AveragePrice :: string
  vr_ErrorCode :: string
  vr_ErrorMessage :: string
  vr_Raw :: "(string \<times> any_value) list"
  vr_Reference :: VenueReference
  vr_LocalCommandAck :: bool

record OrderFill =
  fill_TradeID :: string
  fill_Quantity :: string
  fill_Price :: string
  fill_ExecutedAt :: "time"
  fill_FeeAmount :: string
  fill_FeeCurrency :: string
  fill_LiquidityRole :: string

record TwapJob =
  tj_ID :: string
  tj_IdempotencyKey :: string
  tj_RequestFingerprint :: string
  tj_OwnerUsername :: string
  tj_TradingAccountID :: int
  tj_ProductName :: string
  tj_Exchange :: string
  tj_InstrumentID :: int
  tj_ContractType :: string
  tj_ExchangeSymbol :: string
  tj_BaseAsset :: string
  tj_QuoteAsset :: string
  tj_Side :: string
  tj_TotalQuantity :: string
  tj_FilledQuantity :: string
  tj_AveragePrice :: string
  tj_StartAt :: "time"
  tj_EndAt :: "time"
  tj_IntervalSeconds :: int
  tj_LimitPrice :: string
  tj_MaxQuantity :: string
  tj_ExecutionType :: string
  tj_OrderTimeoutSeconds :: int
  tj_Status :: string
  tj_CurrentSlice :: int
  tj_CurrentAttempt :: int
  tj_NextActionAt :: "time"
  tj_ActiveOrderID :: string
  tj_SchedulerLeaseUntil :: "time"
  tj_SchedulerFailures :: int
  tj_ErrorMessage :: string
  tj_CreatedAt :: "time"
  tj_UpdatedAt :: "time"
  tj_StartedAt :: "time"
  tj_ClosedAt :: "time"

record CreateTwapInput =
  cti_Token :: string
  cti_TradingAccountID :: int
  cti_InstrumentID :: int
  cti_Side :: string
  cti_TotalQuantity :: string
  cti_StartAt :: "time"
  cti_EndAt :: "time"
  cti_IntervalSeconds :: int
  cti_LimitPrice :: string
  cti_MaxQuantity :: string
  cti_ExecutionType :: string
  cti_OrderTimeoutSeconds :: int
  cti_IdempotencyKey :: string

record Key =
  key_Venue :: string
  key_Product :: string
  key_Symbol :: string

record BBO =
  bbo_Key :: Key
  bbo_BidPrice :: string
  bbo_AskPrice :: string
  bbo_BidQuantity :: string
  bbo_AskQuantity :: string
  bbo_VenueTimestamp :: "time"
  bbo_ReceiveTimestamp :: "time"

record VenueInstrument =
  xi_Exchange :: string
  xi_ContractType :: string
  xi_ExchangeSymbol :: string
  xi_BaseAsset :: string
  xi_QuoteAsset :: string
  xi_SettleAsset :: string
  xi_ContractSize :: string
  xi_PriceTick :: string
  xi_QuantityStep :: string
  xi_MinQuantity :: string
  xi_MinNotional :: string
  xi_MinQuantityStatus :: string
  xi_MinNotionalStatus :: string
  xi_MaxQuantity :: string
  xi_MarketQuantityStep :: string
  xi_MarketMinQuantity :: string
  xi_MarketMaxQuantity :: string
  xi_MarketMinNotional :: string
  xi_MaxQuantityStatus :: string
  xi_MarketQuantityStepStatus :: string
  xi_MarketMinQuantityStatus :: string
  xi_MarketMaxQuantityStatus :: string
  xi_MarketMinNotionalStatus :: string
  xi_Metadata :: "(string \<times> any_value) list"

section \<open>Zero values\<close>

text \<open>The value of a struct none of whose fields is set; the source builds its composite literals
  on it.\<close>

definition zero_ArbitrageLeg :: ArbitrageLeg where
  "zero_ArbitrageLeg =
     \<lparr>leg_TradingAccountID = 0, leg_InstrumentID = 0, leg_ProductName = [], leg_AccountName = [],
      leg_Exchange = [], leg_ContractType = [], leg_ExchangeSymbol = [], leg_BaseAsset = [],
      leg_QuoteAsset = []\<rparr>"

definition zero_ArbitrageCombination :: ArbitrageCombination where
  "zero_ArbitrageCombination =
     \<lparr>ac_ID = [], ac_IdempotencyKey = [], ac_RequestFingerprint = [], ac_OwnerUsername = [],
      ac_LegA = zero_ArbitrageLeg, ac_LegB = zero_ArbitrageLeg, ac_AskThresholdBps = [],
      ac_BidThresholdBps = [], ac_TargetNotional = [], ac_OrderNotional = [], ac_RunMode = [],
      ac_EntryDirection = [], ac_LegALeverage = [], ac_LegBLeverage = [], ac_ExitPolicy = [],
      ac_ExitAnnualizedRate = [], ac_ExitAfterSeconds = 0,
      ac_EarlyExitFunding8hAnnualizedFloor = [], ac_EarlyExitLiquidationDistancePct = [],
      ac_TargetReachedAt = zero_time, ac_ScheduledExitAt = zero_time, ac_OneShotPhase = [],
      ac_ExecutionMode = [], ac_MakerLeg = [], ac_Status = [], ac_RuntimeState = [],
      ac_PositionNotional = [], ac_CumulativeTurnoverNotional = [], ac_GrossTurnoverNotional = [],
      ac_LegABasePosition = [], ac_LegBBasePosition = [], ac_CarryBaseQuantity = [],
      ac_LegAAverageEntryPrice = [], ac_LegBAverageEntryPrice = [], ac_AverageEntrySpreadBps = [],
      ac_LegAUnrealizedPnl = [], ac_LegBUnrealizedPnl = [], ac_RealizedSpreadPnl = [],
      ac_EstimatedFundingPnl = [], ac_EstimatedTradingFee = [], ac_MetricsQuality = [],
      ac_NotionalExposureSeconds = [], ac_HoldingSeconds = [], ac_ExposureUpdatedAt = zero_time,
      ac_CombinedPositionAnnualized = [], ac_FundingHistoryComplete = False,
      ac_LegAVenueBaselineBasePosition = [], ac_LegBVenueBaselineBasePosition = [],
      ac_VenueBaselineCapturedAt = zero_time, ac_LegAVenueBasePosition = [],
      ac_LegBVenueBasePosition = [], ac_LegAVenueNotional = [], ac_LegBVenueNotional = [],
      ac_LegAVenueValuationPrice = [], ac_LegBVenueValuationPrice = [],
      ac_LegAVenueValuationAt = zero_time, ac_LegBVenueValuationAt = zero_time,
      ac_LegAPositionDifference = [], ac_LegBPositionDifference = [],
      ac_LegAReconciliationAdjustment = [], ac_LegBReconciliationAdjustment = [],
      ac_LastPositionReconciledAt = zero_time, ac_CurrentAskSpreadBps = [],
      ac_CurrentBidSpreadBps = [], ac_MarketDataStale = False, ac_ErrorMessage = [],
      ac_ConsecutiveFailures = 0, ac_NextRetryAt = zero_time, ac_PositionUncertain = False,
      ac_LastFailureKey = [], ac_RepeatedFailureCount = 0, ac_CircuitOpen = False, ac_Version = 0,
      ac_SchedulerLeaseUntil = zero_time, ac_CreatedAt = zero_time, ac_UpdatedAt = zero_time,
      ac_ClosedAt = zero_time, ac_MetricsCalculatedAt = zero_time, ac_FinalMetricsStatus = [],
      ac_FinalMetricsRetryCount = 0, ac_FinalMetricsLastError = [],
      ac_FinalMetricsNextRetryAt = zero_time, ac_FinalMetricsRetryFinite = False,
      ac_FinalMetricsCompletedAt = zero_time, ac_LegALiquidationDistancePct = [],
      ac_LegBLiquidationDistancePct = []\<rparr>"

definition zero_ArbitrageExecution :: ArbitrageExecution where
  "zero_ArbitrageExecution =
     \<lparr>ae_ID = [], ae_CombinationID = [], ae_Direction = [], ae_Sequence = 0, ae_Status = [],
      ae_TriggerAskSpread = [], ae_TriggerBidSpread = [], ae_TriggerLegABid = [],
      ae_TriggerLegAAsk = [], ae_TriggerLegBBid = [], ae_TriggerLegBAsk = [],
      ae_TargetBaseQuantity = [], ae_RequestedNotional = [], ae_PositionEffect = [],
      ae_ReduceOnly = False, ae_LastCloseClip = False, ae_LegAFilledQuantity = [],
      ae_LegBFilledQuantity = [], ae_DeltaNotional = [], ae_MakerOrderID = [], ae_HedgeOrderID = [],
      ae_HedgeSequence = 0, ae_Attempt = 0, ae_ErrorMessage = [], ae_CreatedAt = zero_time,
      ae_UpdatedAt = zero_time, ae_ClosedAt = zero_time\<rparr>"

definition zero_Instrument :: Instrument where
  "zero_Instrument =
     \<lparr>inst_ID = 0, inst_Exchange = [], inst_ContractType = [], inst_ExchangeSymbol = [],
      inst_BaseAsset = [], inst_QuoteAsset = [], inst_SettleAsset = [], inst_ContractSize = [],
      inst_PriceTick = [], inst_QuantityStep = [], inst_MinQuantity = [], inst_MinNotional = [],
      inst_MinQuantityStatus = [], inst_MinNotionalStatus = [], inst_MaxQuantity = [],
      inst_MarketQuantityStep = [], inst_MarketMinQuantity = [], inst_MarketMaxQuantity = [],
      inst_MarketMinNotional = [], inst_MaxQuantityStatus = [], inst_MarketQuantityStepStatus = [],
      inst_MarketMinQuantityStatus = [], inst_MarketMaxQuantityStatus = [],
      inst_MarketMinNotionalStatus = [], inst_Metadata = []\<rparr>"

definition zero_VenueReference :: VenueReference where
  "zero_VenueReference =
     \<lparr>ref_ClientOrderID = [], ref_VenueOrderID = [], ref_Cloid = [], ref_TxHash = [], ref_Nonce = 0,
      ref_AccountIndex = 0, ref_APIKeyIndex = 0, ref_ClientOrderIndex = 0, ref_EventAt = zero_time,
      ref_ReconcileStatus = []\<rparr>"

definition zero_VenueResult :: VenueResult where
  "zero_VenueResult =
     \<lparr>vr_VenueOrderID = [], vr_Status = [], vr_FilledQuantity = [], vr_AveragePrice = [],
      vr_ErrorCode = [], vr_ErrorMessage = [], vr_Raw = [], vr_Reference = zero_VenueReference,
      vr_LocalCommandAck = False\<rparr>"

definition zero_Order :: Order where
  "zero_Order =
     \<lparr>ord_ID = [], ord_IdempotencyKey = [], ord_OwnerUsername = [], ord_TradingAccountID = 0,
      ord_ProductName = [], ord_Exchange = [], ord_InstrumentID = 0, ord_ContractType = [],
      ord_ExchangeSymbol = [], ord_BaseAsset = [], ord_QuoteAsset = [], ord_ClientOrderID = [],
      ord_VenueOrderID = [], ord_Side = [], ord_OrderType = [], ord_Quantity = [], ord_Price = [],
      ord_FilledQuantity = [], ord_AveragePrice = [], ord_Status = [], ord_ErrorCode = [],
      ord_ErrorMessage = [], ord_RequestFingerprint = [], ord_CreatedAt = zero_time,
      ord_UpdatedAt = zero_time, ord_LastReconciledAt = zero_time,
      ord_LastStreamEventAt = zero_time, ord_LastVenueEventAt = zero_time, ord_SyncState = [],
      ord_ReconcileFailures = 0, ord_TwapJobID = [], ord_TwapSliceIndex = 0,
      ord_TwapAttemptIndex = 0, ord_ArbitrageExecutionID = [], ord_ArbitrageLeg = [],
      ord_ArbitrageRole = [], ord_ReduceOnly = False, ord_AbsenceConfirmations = 0,
      ord_LastFilledAt = zero_time, ord_ActualFees = [], ord_LiquidityRole = []\<rparr>"

definition zero_OrderFill :: OrderFill where
  "zero_OrderFill =
     \<lparr>fill_TradeID = [], fill_Quantity = [], fill_Price = [], fill_ExecutedAt = zero_time,
      fill_FeeAmount = [], fill_FeeCurrency = [], fill_LiquidityRole = []\<rparr>"

definition zero_TwapJob :: TwapJob where
  "zero_TwapJob =
     \<lparr>tj_ID = [], tj_IdempotencyKey = [], tj_RequestFingerprint = [], tj_OwnerUsername = [],
      tj_TradingAccountID = 0, tj_ProductName = [], tj_Exchange = [], tj_InstrumentID = 0,
      tj_ContractType = [], tj_ExchangeSymbol = [], tj_BaseAsset = [], tj_QuoteAsset = [],
      tj_Side = [], tj_TotalQuantity = [], tj_FilledQuantity = [], tj_AveragePrice = [],
      tj_StartAt = zero_time, tj_EndAt = zero_time, tj_IntervalSeconds = 0, tj_LimitPrice = [],
      tj_MaxQuantity = [], tj_ExecutionType = [], tj_OrderTimeoutSeconds = 0, tj_Status = [],
      tj_CurrentSlice = 0, tj_CurrentAttempt = 0, tj_NextActionAt = zero_time,
      tj_ActiveOrderID = [], tj_SchedulerLeaseUntil = zero_time, tj_SchedulerFailures = 0,
      tj_ErrorMessage = [], tj_CreatedAt = zero_time, tj_UpdatedAt = zero_time,
      tj_StartedAt = zero_time, tj_ClosedAt = zero_time\<rparr>"

definition zero_Key :: Key where
  "zero_Key =
     \<lparr>key_Venue = [], key_Product = [], key_Symbol = []\<rparr>"

definition zero_BBO :: BBO where
  "zero_BBO =
     \<lparr>bbo_Key = zero_Key, bbo_BidPrice = [], bbo_AskPrice = [], bbo_BidQuantity = [],
      bbo_AskQuantity = [], bbo_VenueTimestamp = zero_time, bbo_ReceiveTimestamp = zero_time\<rparr>"

lemmas zero_values = zero_ArbitrageLeg_def
  zero_ArbitrageCombination_def
  zero_ArbitrageExecution_def
  zero_Instrument_def
  zero_VenueReference_def
  zero_VenueResult_def
  zero_Order_def
  zero_OrderFill_def
  zero_TwapJob_def
  zero_Key_def
  zero_BBO_def

section \<open>Errors\<close>

text \<open>The sentinel errors of \<^verbatim>\<open>trader/types.go\<close> and \<^verbatim>\<open>trader/exchange/types.go\<close>, a
  cancelled context, one whose deadline has passed, a panic, and an error that is only a text. An error that wraps
  two sentinels (\<^verbatim>\<open>%w ... %w\<close>) matches both under \<^verbatim>\<open>errors.Is\<close>; it is a constructor of its own.\<close>

datatype trader_error =
    ErrInvalidArgument
  | ErrInvalidArgumentBelowMinimum
  | ErrInvalidServiceToken
  | ErrOrderBelowMinimum
  | ErrNotFound
  | ErrIdempotencyConflict
  | ErrActiveTwapLimit
  | ErrUnsupportedExchange
  | ErrInstrumentUnavailable
  | ErrOrderNotCancelable
  | ErrTwapNotCancelable
  | ErrArbitrageConflict
  | ErrActiveArbitrageInstrumentConflict
  | ErrArbitrageConfigInvalid
  | ErrArbitrageCreateFailed
  | ErrArbitrageNotClosable
  | ErrArbitrageCloseWaitingSnapshot
  | ErrMarketDataStale
  | ErrRiskLimit
  | ErrPositionMode
  | ErrPersistence
  | ErrVenueRejected
  | ErrVenueRateLimited
  | ErrVenueUnavailable
  | ErrVenueUncertain
  | ErrArbitrageReconciling
  | ErrArbitrageExecutionTerminal
  | errHyperliquidFillUnknown
  | ErrArbitrageUnsafeHedge
  | ErrArbitrageHedgeSequence
  | ErrArbitrageHedgeAdmissionConflict
  | ErrArbitrageLastCloseClipUnbalancedConflict
  | ErrCloseOrderOpen
  | ErrCloseOrderUncertain
  | ErrFinalMetricsNotReady
  | ErrFinalMetricsPersist
  | ErrAmbiguousCancel
  | ErrOrderNotFound
  | ErrInvalidQuantity
  | ErrUnsupported
  | ErrUncertain
  | ErrRejected
  | ErrRateLimited
  | DeadlineExceeded
  | ErrPreviousAttemptNotFound
  | ErrContext
  | PanicDivideByZero
  | ErrText string

definition is_ErrInvalidArgument :: "trader_error \<Rightarrow> bool" where
  "is_ErrInvalidArgument e \<longleftrightarrow> e = ErrInvalidArgument \<or> e = ErrInvalidArgumentBelowMinimum"

definition is_ErrOrderBelowMinimum :: "trader_error \<Rightarrow> bool" where
  "is_ErrOrderBelowMinimum e \<longleftrightarrow> e = ErrOrderBelowMinimum \<or> e = ErrInvalidArgumentBelowMinimum"

type_synonym 'a go_result = "trader_error + 'a"

section \<open>Status predicates\<close>

definition terminalTwapStatus :: "string \<Rightarrow> bool" where
  "terminalTwapStatus status \<longleftrightarrow>
     status \<in> set [''completed'', ''partially_completed'', ''canceled'', ''failed'']"

definition terminalStatus :: "string \<Rightarrow> bool" where
  "terminalStatus status \<longleftrightarrow> status \<in> set [''filled'', ''canceled'', ''rejected'', ''expired'']"

definition cancelableStatus :: "string \<Rightarrow> bool" where
  "cancelableStatus status \<longleftrightarrow>
     status \<in> set [''open'', ''partially_filled'', ''unknown'', ''pending'']"

lemma cancelable_not_terminal: "cancelableStatus s \<Longrightarrow> \<not> terminalStatus s"
  by (auto simp: cancelableStatus_def terminalStatus_def)

section \<open>Parsing stored numbers\<close>

definition parseDecimal :: "decimal_lib \<Rightarrow> string \<Rightarrow> decimal" where
  "parseDecimal L value =
     (case NewFromString L (TrimSpace value) of None \<Rightarrow> 0 | Some parsed \<Rightarrow> parsed)"

definition parsePositiveDecimal :: "decimal_lib \<Rightarrow> string \<Rightarrow> decimal" where
  "parsePositiveDecimal L value =
     (case NewFromString L (TrimSpace value) of
        None \<Rightarrow> 0
      | Some parsed \<Rightarrow> if \<not> 0 < parsed then 0 else parsed)"

lemma parsePositiveDecimal_nonneg [simp]: "0 \<le> parsePositiveDecimal L s"
  by (simp add: parsePositiveDecimal_def split: option.splits)

lemma parsePositiveDecimal_eq:
  "parsePositiveDecimal L s = (if 0 < parseDecimal L s then parseDecimal L s else 0)"
  by (auto simp: parsePositiveDecimal_def parseDecimal_def split: option.splits)

context decimal_library
begin

lemma parseDecimal_print [simp]: "is_decimal x \<Longrightarrow> parseDecimal L (StringOf L x) = x"
  by (simp add: parseDecimal_def print_trim parse_print)

lemma parsePositiveDecimal_print [simp]:
  "is_decimal x \<Longrightarrow> 0 \<le> x \<Longrightarrow> parsePositiveDecimal L (StringOf L x) = x"
  by (simp add: parsePositiveDecimal_eq)

lemma is_decimal_parse [simp]:
  "is_decimal (parseDecimal L s)" "is_decimal (parsePositiveDecimal L s)"
  by (auto simp: parsePositiveDecimal_def parseDecimal_def split: option.splits dest: parse_decimal)

end

end
