(* ===== verification/Quantity_Steps.thy ===== *)
theory Quantity_Steps
  imports Trader_Types
begin

text \<open>
  Rounding to the quantity step and the price tick of a venue: \<^verbatim>\<open>floorToStep\<close> and \<^verbatim>\<open>ceilToStep\<close>
  of \<^verbatim>\<open>twap_scheduler.go\<close>, and \<^verbatim>\<open>commonQuantityStep\<close> of \<^verbatim>\<open>arbitrage_math.go\<close>, the step on which
  both legs of a combination can trade. The lemmas say that the results lie on the grid, how
  far they are from the argument (the division in \<^verbatim>\<open>floorToStep\<close> rounds to 16 digits before the
  floor is taken), and that \<^verbatim>\<open>commonQuantityStep\<close> is the least common multiple of the steps.
\<close>

section \<open>Rounding to a step\<close>

definition floorToStep :: "decimal_lib \<Rightarrow> decimal \<Rightarrow> decimal \<Rightarrow> decimal" where
  "floorToStep L v step =
     (if \<not> 0 < step then v else of_int \<lfloor>Div L v step\<rfloor> * step)"

definition ceilToStep :: "decimal_lib \<Rightarrow> decimal \<Rightarrow> decimal \<Rightarrow> decimal" where
  "ceilToStep L v step =
     (if \<not> 0 < step then v else of_int \<lceil>Div L v step\<rceil> * step)"

definition on_grid :: "decimal \<Rightarrow> decimal \<Rightarrow> bool" where
  "on_grid step x \<longleftrightarrow> (\<exists>n::int. x = of_int n * step)"

lemma on_grid_Mod: "0 < step \<Longrightarrow> on_grid step x \<longleftrightarrow> decimal_Mod x step = 0"
  by (simp add: on_grid_def Mod_zero_iff)

lemma on_grid_trans: "on_grid r x \<Longrightarrow> on_grid s r \<Longrightarrow> on_grid s x"
  unfolding on_grid_def by (metis mult.assoc of_int_mult)

lemma on_grid_0 [simp]: "on_grid s 0" and on_grid_self [simp]: "on_grid s s"
  unfolding on_grid_def by (rule exI [of _ 0], simp) (rule exI [of _ 1], simp)

lemma on_grid_minus: "on_grid s x \<Longrightarrow> on_grid s (- x)"
  unfolding on_grid_def by (metis mult_minus_left of_int_minus)

lemma floorToStep_on_grid: "0 < step \<Longrightarrow> on_grid step (floorToStep L v step)"
  by (auto simp: floorToStep_def on_grid_def)

lemma ceilToStep_on_grid: "0 < step \<Longrightarrow> on_grid step (ceilToStep L v step)"
  by (auto simp: ceilToStep_def on_grid_def)

context decimal_library
begin

lemma floorToStep_upper:
  assumes "0 < step"
  shows "floorToStep L v step \<le> v + step * div_unit / 2"
proof -
  have "of_int \<lfloor>Div L v step\<rfloor> \<le> v / step + div_unit / 2"
    using of_int_floor_le [of "Div L v step"] Div_bounds(2) [of step v] assms by linarith
  then have "of_int \<lfloor>Div L v step\<rfloor> * step \<le> (v / step + div_unit / 2) * step"
    using assms by (simp only: mult_right_mono less_imp_le)
  moreover have "(v / step + div_unit / 2) * step = v + step * div_unit / 2"
    using assms by (simp add: distrib_right)
  ultimately show ?thesis using assms by (simp only: floorToStep_def if_False not_True_eq_False)
qed

lemma floorToStep_lower:
  assumes "0 < step"
  shows "v - step * (1 + div_unit / 2) < floorToStep L v step"
proof -
  have "v / step - div_unit / 2 - 1 < of_int \<lfloor>Div L v step\<rfloor>"
    using floor_correct [of "Div L v step"] Div_bounds(1) [of step v] assms
    by linarith
  then have "(v / step - div_unit / 2 - 1) * step < of_int \<lfloor>Div L v step\<rfloor> * step"
    using assms by (simp add: mult_strict_right_mono)
  moreover have "(v / step - div_unit / 2 - 1) * step = v - step * (1 + div_unit / 2)"
    using assms by (simp add: left_diff_distrib distrib_left)
  ultimately show ?thesis using assms by (simp add: floorToStep_def)
qed

lemma quotient_exact:
  assumes "0 < step" "on_grid (step * div_unit) v"
  shows "Div L v step = v / step"
proof -
  obtain n :: int where "v = of_int n * (step * div_unit)" using assms(2) on_grid_def by blast
  then have "v / step = of_int n * div_unit" using assms(1) by simp
  then show ?thesis using assms(1) Div_exact by auto
qed

lemma floorToStep_exact:
  assumes "0 < step" "on_grid (step * div_unit) v"
  shows "floorToStep L v step \<le> v" "v < floorToStep L v step + step"
proof -
  have eq: "floorToStep L v step = of_int \<lfloor>v / step\<rfloor> * step"
    using assms by (simp add: floorToStep_def quotient_exact)
  have "of_int \<lfloor>v / step\<rfloor> * step \<le> v / step * step"
    "v / step * step < (of_int \<lfloor>v / step\<rfloor> + 1) * step"
    using floor_correct [of "v / step"] assms(1)
    by (simp_all only: mult_right_mono mult_strict_right_mono less_imp_le of_int_add of_int_1)
  then show "floorToStep L v step \<le> v" "v < floorToStep L v step + step"
    using assms(1) unfolding eq by (simp_all add: distrib_right)
qed

lemma on_grid_fine: "on_grid step x \<Longrightarrow> on_grid (step * div_unit) x"
proof -
  have "step = of_int (10 ^ 16) * (step * div_unit)" by (simp add: div_unit_def)
  then have "on_grid (step * div_unit) step" unfolding on_grid_def by blast
  then show "on_grid step x \<Longrightarrow> on_grid (step * div_unit) x" using on_grid_trans by blast
qed

lemma floorToStep_id:
  assumes "0 < step" "on_grid step x"
  shows "floorToStep L x step = x"
proof -
  obtain n :: int where n: "x = of_int n * step" using assms(2) on_grid_def by blast
  have "Div L x step = x / step" by (rule quotient_exact [OF assms(1) on_grid_fine [OF assms(2)]])
  then show ?thesis using assms(1) n by (simp add: floorToStep_def)
qed

lemma floorToStep_idem: "floorToStep L (floorToStep L x step) step = floorToStep L x step"
  using floorToStep_on_grid floorToStep_id by (cases "0 < step") (auto simp: floorToStep_def)

lemma floorToStep_nonneg: "0 \<le> x \<Longrightarrow> 0 \<le> floorToStep L x step"
  using Div_nonneg [of x step] by (simp add: floorToStep_def)

lemma is_decimal_floorToStep:
  "is_decimal x \<Longrightarrow> is_decimal step \<Longrightarrow> is_decimal (floorToStep L x step)"
  by (auto simp: floorToStep_def)

lemma ceilToStep_lower:
  assumes "0 < step"
  shows "v - step * div_unit / 2 \<le> ceilToStep L v step"
proof -
  have "v / step - div_unit / 2 \<le> of_int \<lceil>Div L v step\<rceil>"
    using le_of_int_ceiling [of "Div L v step"] Div_bounds(1) [of step v] assms by linarith
  then have "(v / step - div_unit / 2) * step \<le> of_int \<lceil>Div L v step\<rceil> * step"
    using assms by (simp only: mult_right_mono less_imp_le)
  moreover have "(v / step - div_unit / 2) * step = v - step * div_unit / 2"
    using assms by (simp add: left_diff_distrib)
  ultimately show ?thesis using assms by (simp only: ceilToStep_def if_False not_True_eq_False)
qed

end

section \<open>The common step of two legs\<close>

text \<open>The coefficient of a decimal is its v scaled by its exponent.\<close>

definition Coefficient :: "decimal_lib \<Rightarrow> decimal \<Rightarrow> int" where
  "Coefficient L x = \<lfloor>x / 10 powi Exponent L x\<rfloor>"

definition scaled_coefficient :: "decimal_lib \<Rightarrow> int \<Rightarrow> decimal \<Rightarrow> int" where
  "scaled_coefficient L exponent v =
     (let result = Coefficient L v; shift = Exponent L v - exponent
      in \<bar>if shift > 0 then result * 10 ^ nat shift else result\<bar>)"

definition commonQuantityStep :: "decimal_lib \<Rightarrow> decimal \<Rightarrow> decimal \<Rightarrow> decimal" where
  "commonQuantityStep L a b =
     (if \<not> 0 < a \<or> \<not> 0 < b then 0
      else let exponent = (if Exponent L b < Exponent L a then Exponent L b else Exponent L a);
               aInt = scaled_coefficient L exponent a;
               bInt = scaled_coefficient L exponent b;
               g = gcd aInt bInt
           in if g = 0 then 0 else of_int (aInt * bInt div g) * 10 powi exponent)"

lemma commonQuantityStep_nonpos: "\<not> 0 < a \<or> \<not> 0 < b \<Longrightarrow> commonQuantityStep L a b = 0"
  by (auto simp: commonQuantityStep_def)

context decimal_library
begin

lemma Coefficient_scale:
  assumes "is_decimal x"
  shows "x = of_int (Coefficient L x) * 10 powi Exponent L x"
proof -
  obtain c :: int where c: "x = of_int c * 10 powi Exponent L x" using Exponent_scale [OF assms] by blast
  then have "x / 10 powi Exponent L x = of_int c" by (metis nonzero_mult_div_cancel_right power_int_not_zero zero_neq_numeral)
  with c show ?thesis by (simp add: Coefficient_def)
qed

lemma scaled_coefficient_scale:
  assumes "is_decimal x" "0 < x" "e \<le> Exponent L x"
  shows "x = of_int (scaled_coefficient L e x) * 10 powi e" "0 < scaled_coefficient L e x"
proof -
  let ?d = "nat (Exponent L x - e)"
  have "Exponent L x = int ?d + e" using assms(3) by simp
  then have "(10::rat) powi Exponent L x = 10 ^ ?d * 10 powi e"
    by (metis power_int_add power_int_of_nat zero_neq_numeral)
  then have x: "x = of_int (Coefficient L x * 10 ^ ?d) * 10 powi e"
    using Coefficient_scale [OF assms(1)] by simp
  have p: "0 < (10::rat) powi e" by simp
  have "0 < (of_int (Coefficient L x * 10 ^ ?d) :: rat)"
    using assms(2) x p by (metis mult_pos_pos not_less_iff_gr_or_eq zero_less_mult_iff)
  then have pos: "0 < Coefficient L x * 10 ^ ?d" by (simp only: of_int_0_less_iff)
  have "scaled_coefficient L e x = Coefficient L x * 10 ^ ?d"
    using pos assms(3) by (auto simp: scaled_coefficient_def Let_def)
  with x pos show "x = of_int (scaled_coefficient L e x) * 10 powi e" "0 < scaled_coefficient L e x"
    by simp_all
qed

lemma commonQuantityStep_lcm:
  assumes "is_decimal a" "is_decimal b" "0 < a" "0 < b"
  obtains A B :: int and u where "0 < u" "0 < A" "0 < B" "a = of_int A * u" "b = of_int B * u"
    "commonQuantityStep L a b = of_int (lcm A B) * u"
proof -
  define e where "e = (if Exponent L b < Exponent L a then Exponent L b else Exponent L a)"
  have le: "e \<le> Exponent L a" "e \<le> Exponent L b" by (simp_all add: e_def)
  let ?A = "scaled_coefficient L e a" and ?B = "scaled_coefficient L e b"
  note A = scaled_coefficient_scale [OF assms(1,3) le(1)]
  note B = scaled_coefficient_scale [OF assms(2,4) le(2)]
  have "gcd ?A ?B \<noteq> 0" using A(2) by simp
  moreover have "?A * ?B div gcd ?A ?B = lcm ?A ?B"
    using A(2) B(2) by (simp add: lcm_altdef_int)
  ultimately have "commonQuantityStep L a b = of_int (lcm ?A ?B) * 10 powi e"
    using assms(3,4) by (simp add: commonQuantityStep_def Let_def e_def)
  moreover have "0 < (10::rat) powi e" by simp
  ultimately show ?thesis using that A B by blast
qed

lemma commonQuantityStep_pos:
  assumes "is_decimal a" "is_decimal b" "0 < a" "0 < b"
  shows "0 < commonQuantityStep L a b"
  by (rule commonQuantityStep_lcm [OF assms]) (simp add: lcm_pos_int)

lemma commonQuantityStep_pos_iff:
  "is_decimal a \<Longrightarrow> is_decimal b \<Longrightarrow> 0 < commonQuantityStep L a b \<longleftrightarrow> 0 < a \<and> 0 < b"
  using commonQuantityStep_pos commonQuantityStep_nonpos by (metis less_irrefl)

lemma commonQuantityStep_multiple:
  assumes "is_decimal a" "is_decimal b" "0 < a" "0 < b"
  shows "on_grid a (commonQuantityStep L a b)" "on_grid b (commonQuantityStep L a b)"
proof -
  obtain A B :: int and u where *: "a = of_int A * u" "b = of_int B * u"
    "commonQuantityStep L a b = of_int (lcm A B) * u"
    by (rule commonQuantityStep_lcm [OF assms]) blast
  obtain m n where "lcm A B = m * A" "lcm A B = n * B" by (metis dvd_def dvd_lcm1 dvd_lcm2 mult.commute)
  then have "commonQuantityStep L a b = of_int m * a" "commonQuantityStep L a b = of_int n * b"
    using * by (metis mult.assoc of_int_mult)+
  then show "on_grid a (commonQuantityStep L a b)" "on_grid b (commonQuantityStep L a b)"
    unfolding on_grid_def by blast+
qed

lemma commonQuantityStep_least:
  assumes "is_decimal a" "is_decimal b" "0 < a" "0 < b" and x: "on_grid a x" "on_grid b x"
  shows "on_grid (commonQuantityStep L a b) x"
proof -
  obtain A B :: int and u where *: "0 < u" "a = of_int A * u" "b = of_int B * u"
    "commonQuantityStep L a b = of_int (lcm A B) * u"
    by (rule commonQuantityStep_lcm [OF assms(1-4)]) blast
  obtain i j :: int where ij: "x = of_int i * a" "x = of_int j * b" using x on_grid_def by blast
  then have "(of_int (i * A) :: rat) = of_int (j * B)" using * by simp
  then have "i * A = j * B" by (simp only: of_int_eq_iff)
  then have "lcm A B dvd i * A" by (metis dvd_triv_right lcm_least)
  then obtain k where "i * A = k * lcm A B" by (metis dvd_def mult.commute)
  then have "x = of_int k * commonQuantityStep L a b"
    using ij(1) * by (metis mult.assoc of_int_mult)
  then show ?thesis unfolding on_grid_def by blast
qed

lemma is_decimal_commonQuantityStep:
  assumes "is_decimal a" "is_decimal b"
  shows "is_decimal (commonQuantityStep L a b)"
proof (cases "0 < a \<and> 0 < b")
  case True
  then obtain n :: int where "commonQuantityStep L a b = of_int n * a"
    using commonQuantityStep_multiple(1) [OF assms] on_grid_def by blast
  then show ?thesis using assms(1) by (simp add: is_decimal_mult)
qed (auto simp: commonQuantityStep_nonpos)

end

end
