(* ===== verification/Order_Rules.thy ===== *)
theory Order_Rules
  imports Quantity_Steps
begin

text \<open>
  The checks an order passes before it reaches a venue (\<^verbatim>\<open>trader/validate.go\<close>) and the
  conversion between base quantities and the units of the venue
  (\<^verbatim>\<open>trader/exchange/quantity.go\<close>). The lemmas state what an accepted order satisfies, that
  accepting is idempotent, and when the conversion to venue units can be inverted.
\<close>

section \<open>Order placement input\<close>

definition place_input_trimmed :: "PlaceOrderInput \<Rightarrow> PlaceOrderInput" where
  "place_input_trimmed input = input\<lparr>
     poi_Token := TrimSpace (poi_Token input),
     poi_Side := ToLower (TrimSpace (poi_Side input)),
     poi_OrderType := ToLower (TrimSpace (poi_OrderType input)),
     poi_Quantity := TrimSpace (poi_Quantity input),
     poi_Price := TrimSpace (poi_Price input),
     poi_IdempotencyKey := TrimSpace (poi_IdempotencyKey input)\<rparr>"

definition place_input_shape_ok :: "PlaceOrderInput \<Rightarrow> bool" where
  "place_input_shape_ok input \<longleftrightarrow>
     \<not> (poi_Token input = [] \<or> poi_TradingAccountID input \<le> 0 \<or> poi_InstrumentID input \<le> 0 \<or>
        poi_IdempotencyKey input = [] \<or>
        (poi_Side input \<noteq> ''buy'' \<and> poi_Side input \<noteq> ''sell'') \<or>
        (poi_OrderType input \<noteq> ''market'' \<and> poi_OrderType input \<noteq> ''limit''))"

definition normalizePlaceInput :: "decimal_lib \<Rightarrow> PlaceOrderInput \<Rightarrow> PlaceOrderInput go_result" where
  "normalizePlaceInput L input0 =
     (let input = place_input_trimmed input0 in
      if \<not> place_input_shape_ok input then Inl ErrInvalidArgument
      else case NewFromString L (poi_Quantity input) of
             None \<Rightarrow> Inl ErrInvalidArgument
           | Some quantity \<Rightarrow>
               if \<not> 0 < quantity then Inl ErrInvalidArgument
               else if poi_OrderType input = ''market'' \<and> poi_Price input \<noteq> []
               then Inl ErrInvalidArgument
               else if poi_OrderType input = ''limit''
               then (case NewFromString L (poi_Price input) of
                       None \<Rightarrow> Inl ErrInvalidArgument
                     | Some price \<Rightarrow>
                         if \<not> 0 < price then Inl ErrInvalidArgument
                         else Inr (input\<lparr>poi_Price := StringOf L price,
                                         poi_Quantity := StringOf L quantity\<rparr>))
               else Inr (input\<lparr>poi_Quantity := StringOf L quantity\<rparr>))"

section \<open>Instrument rules\<close>

definition ConstraintKnown :: string where "ConstraintKnown = ''known''"
definition ConstraintNotApplicable :: string where "ConstraintNotApplicable = ''not_applicable''"
definition ConstraintUnknown :: string where "ConstraintUnknown = ''unknown''"

lemmas constraint_defs = ConstraintKnown_def ConstraintNotApplicable_def ConstraintUnknown_def

definition ruleDecimal :: "decimal_lib \<Rightarrow> string \<Rightarrow> string \<Rightarrow> decimal" where
  "ruleDecimal L v status =
     (if status \<noteq> ConstraintKnown then 0 else parsePositiveDecimal L v)"

definition statusKnown :: "string \<Rightarrow> bool" where
  "statusKnown status \<longleftrightarrow> status = ConstraintKnown \<or> status = ConstraintNotApplicable"

definition instrumentRulesReady :: "decimal_lib \<Rightarrow> Instrument \<Rightarrow> string \<Rightarrow> bool" where
  "instrumentRulesReady L instrument orderType =
     (let t = ToLower (TrimSpace orderType) in
      if t = ''limit'' then
        0 < parsePositiveDecimal L (inst_QuantityStep instrument) \<and>
        0 < parsePositiveDecimal L (inst_PriceTick instrument) \<and>
        statusKnown (inst_MinQuantityStatus instrument) \<and>
        statusKnown (inst_MaxQuantityStatus instrument) \<and>
        statusKnown (inst_MinNotionalStatus instrument)
      else if t = ''market'' then
        0 < ruleDecimal L (inst_MarketQuantityStep instrument)
              (inst_MarketQuantityStepStatus instrument) \<and>
        statusKnown (inst_MarketMinQuantityStatus instrument) \<and>
        statusKnown (inst_MarketMaxQuantityStatus instrument) \<and>
        statusKnown (inst_MarketMinNotionalStatus instrument)
      else False)"

definition allowBelowMinNotional :: "ArbitrageExecution \<Rightarrow> Instrument \<Rightarrow> bool" where
  "allowBelowMinNotional execution instrument \<longleftrightarrow>
     ae_LastCloseClip execution \<and>
     EqualFold (TrimSpace (ae_PositionEffect execution)) ''close'' \<and>
     ae_ReduceOnly execution \<and>
     EqualFold (inst_ContractType instrument) ''perpetual''"

definition validateMinimumRule :: "decimal_lib \<Rightarrow> decimal \<Rightarrow> string \<Rightarrow> string \<Rightarrow> unit go_result" where
  "validateMinimumRule L quantity v status =
     (if status = ConstraintKnown then
        (let minimum = parsePositiveDecimal L v in
         if \<not> 0 < minimum then Inl ErrInstrumentUnavailable
         else if quantity < minimum then Inl ErrInvalidArgumentBelowMinimum
         else Inr ())
      else if status = ConstraintNotApplicable then Inr ()
      else Inl ErrInstrumentUnavailable)"

definition validateMaximumRule :: "decimal_lib \<Rightarrow> decimal \<Rightarrow> string \<Rightarrow> string \<Rightarrow> unit go_result" where
  "validateMaximumRule L quantity v status =
     (if status = ConstraintKnown then
        (let maximum = parsePositiveDecimal L v in
         if \<not> 0 < maximum then Inl ErrInstrumentUnavailable
         else if quantity > maximum then Inl ErrInvalidArgument
         else Inr ())
      else if status = ConstraintNotApplicable then Inr ()
      else Inl ErrInstrumentUnavailable)"

definition validateNotionalRule ::
  "decimal_lib \<Rightarrow> decimal \<Rightarrow> string \<Rightarrow> string \<Rightarrow> string \<Rightarrow> unit go_result" where
  "validateNotionalRule L quantity referencePrice v status =
     (if status = ConstraintKnown then
        (let minimum = parsePositiveDecimal L v; price = parsePositiveDecimal L referencePrice in
         if \<not> 0 < minimum \<or> \<not> 0 < price then Inl ErrInstrumentUnavailable
         else if quantity * price < minimum then Inl ErrInvalidArgumentBelowMinimum
         else Inr ())
      else if status = ConstraintNotApplicable then Inr ()
      else Inl ErrInstrumentUnavailable)"

text \<open>The rules that \<^verbatim>\<open>prepareOrderMode\<close> selects by order type: the step, and value and status of
  the minimum quantity, the maximum quantity and the minimum notional.\<close>

record order_limits =
  lim_step :: decimal
  lim_minQuantity :: string
  lim_minQuantityStatus :: string
  lim_maxQuantity :: string
  lim_maxQuantityStatus :: string
  lim_minNotional :: string
  lim_minNotionalStatus :: string

definition order_limits_for :: "decimal_lib \<Rightarrow> Instrument \<Rightarrow> string \<Rightarrow> order_limits go_result" where
  "order_limits_for L instrument orderType =
     (if orderType = ''market'' then Inr
        \<lparr>lim_step = ruleDecimal L (inst_MarketQuantityStep instrument)
                      (inst_MarketQuantityStepStatus instrument),
         lim_minQuantity = inst_MarketMinQuantity instrument,
         lim_minQuantityStatus = inst_MarketMinQuantityStatus instrument,
         lim_maxQuantity = inst_MarketMaxQuantity instrument,
         lim_maxQuantityStatus = inst_MarketMaxQuantityStatus instrument,
         lim_minNotional = inst_MarketMinNotional instrument,
         lim_minNotionalStatus = inst_MarketMinNotionalStatus instrument\<rparr>
      else if orderType \<noteq> ''limit'' then Inl ErrInvalidArgument
      else Inr
        \<lparr>lim_step = parsePositiveDecimal L (inst_QuantityStep instrument),
         lim_minQuantity = inst_MinQuantity instrument,
         lim_minQuantityStatus = inst_MinQuantityStatus instrument,
         lim_maxQuantity = inst_MaxQuantity instrument,
         lim_maxQuantityStatus = inst_MaxQuantityStatus instrument,
         lim_minNotional = inst_MinNotional instrument,
         lim_minNotionalStatus = inst_MinNotionalStatus instrument\<rparr>)"

text \<open>The price part of \<^verbatim>\<open>prepareOrderMode\<close>: the canonical price and the reference price.\<close>

definition limit_price ::
  "decimal_lib \<Rightarrow> Instrument \<Rightarrow> string \<Rightarrow> string \<Rightarrow> string \<Rightarrow> (string \<times> string) go_result" where
  "limit_price L instrument orderType price referencePrice =
     (if orderType = ''limit'' then
        (case NewFromString L price of
           None \<Rightarrow> Inl ErrInvalidArgument
         | Some px \<Rightarrow>
             if \<not> 0 < px then Inl ErrInvalidArgument
             else let tick = parsePositiveDecimal L (inst_PriceTick instrument) in
                  if \<not> 0 < tick \<or> decimal_Mod px tick \<noteq> 0 then Inl ErrInvalidArgument
                  else Inr (StringOf L px, StringOf L px))
      else Inr ([], referencePrice))"

definition prepareOrderMode ::
  "decimal_lib \<Rightarrow> Instrument \<Rightarrow> string \<Rightarrow> string \<Rightarrow> string \<Rightarrow> string \<Rightarrow> bool \<Rightarrow>
   (string \<times> string) go_result" where
  "prepareOrderMode L instrument orderType0 quantity price referencePrice0 skipMinNotional =
     (case NewFromString L quantity of
        None \<Rightarrow> Inl ErrInvalidArgument
      | Some qty \<Rightarrow>
          if \<not> 0 < qty then Inl ErrInvalidArgument
          else let orderType = ToLower (TrimSpace orderType0) in
            (case order_limits_for L instrument orderType of
              Inl e \<Rightarrow> Inl e
            | Inr limits \<Rightarrow>
                if \<not> 0 < lim_step limits \<or> decimal_Mod qty (lim_step limits) \<noteq> 0
                then Inl ErrInvalidArgument
                else (case validateMinimumRule L qty (lim_minQuantity limits) (lim_minQuantityStatus limits) of
                  Inl e \<Rightarrow> Inl e
                | Inr _ \<Rightarrow>
                    (case validateMaximumRule L qty (lim_maxQuantity limits) (lim_maxQuantityStatus limits) of
                       Inl e \<Rightarrow> Inl e
                     | Inr _ \<Rightarrow>
                        (case limit_price L instrument orderType price referencePrice0 of
                           Inl e \<Rightarrow> Inl e
                         | Inr (canonicalPrice, referencePrice) \<Rightarrow>
                            if \<not> skipMinNotional
                            then (case validateNotionalRule L qty referencePrice
                                         (lim_minNotional limits) (lim_minNotionalStatus limits) of
                                    Inl e \<Rightarrow> Inl e
                                  | Inr _ \<Rightarrow> Inr (StringOf L qty, canonicalPrice))
                            else Inr (StringOf L qty, canonicalPrice))))))"

definition prepareOrder ::
  "decimal_lib \<Rightarrow> Instrument \<Rightarrow> string \<Rightarrow> string \<Rightarrow> string \<Rightarrow> string \<Rightarrow> (string \<times> string) go_result" where
  "prepareOrder L instrument orderType quantity price referencePrice =
     prepareOrderMode L instrument orderType quantity price referencePrice False"

definition prepareOrderSkippingMinNotional ::
  "decimal_lib \<Rightarrow> Instrument \<Rightarrow> string \<Rightarrow> string \<Rightarrow> string \<Rightarrow> string \<Rightarrow> (string \<times> string) go_result" where
  "prepareOrderSkippingMinNotional L instrument orderType quantity price referencePrice =
     prepareOrderMode L instrument orderType quantity price referencePrice True"

definition prepareArbitrageOrder ::
  "decimal_lib \<Rightarrow> Instrument \<Rightarrow> string \<Rightarrow> string \<Rightarrow> string \<Rightarrow> string \<Rightarrow> ArbitrageExecution \<Rightarrow>
   (string \<times> string) go_result" where
  "prepareArbitrageOrder L instrument orderType quantity price referencePrice execution =
     (if allowBelowMinNotional execution instrument
      then prepareOrderSkippingMinNotional L instrument orderType quantity price referencePrice
      else prepareOrder L instrument orderType quantity price referencePrice)"

definition validateInstrumentRules ::
  "decimal_lib \<Rightarrow> Instrument \<Rightarrow> string \<Rightarrow> string \<Rightarrow> string \<Rightarrow> unit go_result" where
  "validateInstrumentRules L instrument orderType quantity price =
     (case prepareOrder L instrument orderType quantity price price of
        Inl e \<Rightarrow> Inl e | Inr _ \<Rightarrow> Inr ())"

section \<open>TWAP input\<close>

definition twap_slices :: "CreateTwapInput \<Rightarrow> int go_result" where
  "twap_slices input =
     (let step = wrap64 (cti_IntervalSeconds input * Second) in
      if step = 0 then Inl PanicDivideByZero
      else Inr (go_div (wrap64 (time_Sub (cti_EndAt input) (cti_StartAt input) + step - 1)) step))"

text \<open>Parses an optional positive number; an empty string stays as it is.\<close>

definition optional_positive :: "decimal_lib \<Rightarrow> string \<Rightarrow> (decimal option) go_result" where
  "optional_positive L s =
     (if s = [] then Inr None
      else case NewFromString L s of
             None \<Rightarrow> Inl ErrInvalidArgument
           | Some x \<Rightarrow> if \<not> 0 < x then Inl ErrInvalidArgument else Inr (Some x))"

definition twap_input_trimmed :: "CreateTwapInput \<Rightarrow> CreateTwapInput" where
  "twap_input_trimmed input = input\<lparr>
     cti_Token := TrimSpace (cti_Token input),
     cti_Side := ToLower (TrimSpace (cti_Side input)),
     cti_TotalQuantity := TrimSpace (cti_TotalQuantity input),
     cti_LimitPrice := TrimSpace (cti_LimitPrice input),
     cti_MaxQuantity := TrimSpace (cti_MaxQuantity input),
     cti_ExecutionType := ToLower (TrimSpace (cti_ExecutionType input)),
     cti_IdempotencyKey := TrimSpace (cti_IdempotencyKey input)\<rparr>"

definition twap_input_shape_ok :: "CreateTwapInput \<Rightarrow> time \<Rightarrow> bool" where
  "twap_input_shape_ok input now \<longleftrightarrow>
     \<not> (cti_Token input = [] \<or> cti_TradingAccountID input \<le> 0 \<or> cti_InstrumentID input \<le> 0 \<or>
        cti_IdempotencyKey input = [] \<or>
        (cti_Side input \<noteq> ''buy'' \<and> cti_Side input \<noteq> ''sell'') \<or>
        (cti_ExecutionType input \<noteq> ''maker'' \<and> cti_ExecutionType input \<noteq> ''market'') \<or>
        IsZero (cti_StartAt input) \<or> IsZero (cti_EndAt input) \<or>
        \<not> cti_EndAt input > cti_StartAt input \<or>
        cti_IntervalSeconds input \<le> 0 \<or>
        time_Sub (cti_EndAt input) (cti_StartAt input) > 7 * 24 * Hour \<or>
        cti_StartAt input > now + 30 * 24 * Hour) \<and>
     \<not> cti_StartAt input < now - Minute"

definition twap_timeout_ok :: "CreateTwapInput \<Rightarrow> bool" where
  "twap_timeout_ok input \<longleftrightarrow>
     (if cti_ExecutionType input = ''maker''
      then \<not> (cti_OrderTimeoutSeconds input \<le> 0 \<or>
              cti_OrderTimeoutSeconds input \<ge> cti_IntervalSeconds input)
      else \<not> cti_OrderTimeoutSeconds input \<noteq> 0)"

definition normalizeTwapInput ::
  "decimal_lib \<Rightarrow> CreateTwapInput \<Rightarrow> time \<Rightarrow> CreateTwapInput go_result" where
  "normalizeTwapInput L input0 now =
     (let input = twap_input_trimmed input0 in
      if \<not> twap_input_shape_ok input now then Inl ErrInvalidArgument
      else case NewFromString L (cti_TotalQuantity input) of
        None \<Rightarrow> Inl ErrInvalidArgument
      | Some totalQty \<Rightarrow>
          if \<not> 0 < totalQty then Inl ErrInvalidArgument
          else (case optional_positive L (cti_LimitPrice input) of
            Inl e \<Rightarrow> Inl e
          | Inr limit \<Rightarrow>
              (case optional_positive L (cti_MaxQuantity input) of
                 Inl e \<Rightarrow> Inl e
               | Inr maxQty \<Rightarrow>
                   (case (case maxQty of None \<Rightarrow> Inr True
                          | Some m \<Rightarrow>
                              (case twap_slices input of Inl e \<Rightarrow> Inl e
                               | Inr slices \<Rightarrow> Inr (\<not> m * of_int slices < totalQty))) of
                      Inl e \<Rightarrow> Inl e
                    | Inr capacity_ok \<Rightarrow>
                        if \<not> capacity_ok then Inl ErrInvalidArgument
                        else if \<not> twap_timeout_ok input then Inl ErrInvalidArgument
                        else Inr (input\<lparr>
                          cti_TotalQuantity := StringOf L totalQty,
                          cti_LimitPrice := (case limit of None \<Rightarrow> cti_LimitPrice input
                                             | Some p \<Rightarrow> StringOf L p),
                          cti_MaxQuantity := (case maxQty of None \<Rightarrow> cti_MaxQuantity input
                                              | Some m \<Rightarrow> StringOf L m)\<rparr>)))))"

definition validateTwapInstrument ::
  "decimal_lib \<Rightarrow> Instrument \<Rightarrow> CreateTwapInput \<Rightarrow> unit go_result" where
  "validateTwapInstrument L instrument input =
     (case validateInstrumentRules L instrument ''market'' (cti_TotalQuantity input) [] of
        Inl e \<Rightarrow> Inl e
      | Inr _ \<Rightarrow>
          (case (if cti_MaxQuantity input \<noteq> []
                 then validateInstrumentRules L instrument ''market'' (cti_MaxQuantity input) []
                 else Inr ()) of
             Inl e \<Rightarrow> Inl e
           | Inr _ \<Rightarrow>
               (if cti_LimitPrice input \<noteq> []
                then validateInstrumentRules L instrument ''limit'' (cti_TotalQuantity input)
                       (cti_LimitPrice input)
                else Inr ())))"

section \<open>Venue quantities\<close>

definition toVenueInstrument :: "Instrument \<Rightarrow> VenueInstrument" where
  "toVenueInstrument i =
     \<lparr>xi_Exchange = inst_Exchange i, xi_ContractType = inst_ContractType i,
      xi_ExchangeSymbol = inst_ExchangeSymbol i, xi_BaseAsset = inst_BaseAsset i,
      xi_QuoteAsset = inst_QuoteAsset i, xi_SettleAsset = inst_SettleAsset i,
      xi_ContractSize = inst_ContractSize i, xi_PriceTick = inst_PriceTick i,
      xi_QuantityStep = inst_QuantityStep i, xi_MinQuantity = inst_MinQuantity i,
      xi_MinNotional = inst_MinNotional i, xi_MinQuantityStatus = inst_MinQuantityStatus i,
      xi_MinNotionalStatus = inst_MinNotionalStatus i, xi_MaxQuantity = inst_MaxQuantity i,
      xi_MarketQuantityStep = inst_MarketQuantityStep i,
      xi_MarketMinQuantity = inst_MarketMinQuantity i,
      xi_MarketMaxQuantity = inst_MarketMaxQuantity i,
      xi_MarketMinNotional = inst_MarketMinNotional i,
      xi_MaxQuantityStatus = inst_MaxQuantityStatus i,
      xi_MarketQuantityStepStatus = inst_MarketQuantityStepStatus i,
      xi_MarketMinQuantityStatus = inst_MarketMinQuantityStatus i,
      xi_MarketMaxQuantityStatus = inst_MarketMaxQuantityStatus i,
      xi_MarketMinNotionalStatus = inst_MarketMinNotionalStatus i,
      xi_Metadata = inst_Metadata i\<rparr>"

fun metadataString_entries :: "(string \<times> any_value) list \<Rightarrow> string \<Rightarrow> string" where
  "metadataString_entries [] name = []"
| "metadataString_entries ((key, v) # rest) name =
     (if \<not> EqualFold key name then metadataString_entries rest name
      else case v of
             AnyString text \<Rightarrow> text
           | AnyOther text \<Rightarrow> text
           | AnyNil \<Rightarrow> metadataString_entries rest name)"

definition metadataString :: "VenueInstrument \<Rightarrow> string \<Rightarrow> string" where
  "metadataString instrument name = metadataString_entries (xi_Metadata instrument) name"

definition metadataDecimal :: "decimal_lib \<Rightarrow> VenueInstrument \<Rightarrow> string \<Rightarrow> decimal" where
  "metadataDecimal L instrument name =
     (case NewFromString L (TrimSpace (metadataString instrument name)) of
        None \<Rightarrow> 0 | Some parsed \<Rightarrow> parsed)"

definition quantityFactor :: "decimal_lib \<Rightarrow> VenueInstrument \<Rightarrow> (decimal \<times> bool) go_result" where
  "quantityFactor L instrument =
     (if xi_ContractType instrument \<noteq> ''perpetual'' then Inr (1, False)
      else let exchange = ToLower (TrimSpace (xi_Exchange instrument)) in
        if exchange \<noteq> ''okx'' \<and> exchange \<noteq> ''gate'' then Inr (1, False)
        else case NewFromString L (TrimSpace (xi_ContractSize instrument)) of
               None \<Rightarrow> Inl ErrInvalidQuantity
             | Some csize \<Rightarrow>
                 if \<not> 0 < csize then Inl ErrInvalidQuantity
                 else let multiplier = metadataDecimal L instrument ''ctMult'' in
                      Inr (if exchange = ''okx'' \<and> 0 < multiplier then csize * multiplier else csize,
                           True))"

definition venueQuantityStep :: "decimal_lib \<Rightarrow> VenueInstrument \<Rightarrow> decimal \<Rightarrow> decimal" where
  "venueQuantityStep L instrument factor =
     (case NewFromString L (TrimSpace (xi_QuantityStep instrument)) of
        None \<Rightarrow> 0
      | Some baseStep \<Rightarrow>
          if \<not> 0 < baseStep \<or> \<not> 0 < factor then 0 else Div L baseStep factor)"

definition ToVenueQuantity :: "decimal_lib \<Rightarrow> VenueInstrument \<Rightarrow> string \<Rightarrow> string go_result" where
  "ToVenueQuantity L instrument baseQuantity =
     (case NewFromString L (TrimSpace baseQuantity) of
        None \<Rightarrow> Inl ErrInvalidQuantity
      | Some quantity \<Rightarrow>
          if \<not> 0 < quantity then Inl ErrInvalidQuantity
          else (case quantityFactor L instrument of
            Inl e \<Rightarrow> Inl e
          | Inr (factor, contracts) \<Rightarrow>
              if \<not> contracts then Inr (StringOf L quantity)
              else let wire = Div L quantity factor;
                       step0 = venueQuantityStep L instrument factor;
                       step = (if \<not> 0 < step0 then 1 else step0)
                   in if Div L wire step \<noteq> decimal_Truncate0 (Div L wire step)
                      then Inl ErrInvalidQuantity
                      else Inr (StringOf L wire)))"

definition FromVenueQuantity :: "decimal_lib \<Rightarrow> VenueInstrument \<Rightarrow> string \<Rightarrow> string go_result" where
  "FromVenueQuantity L instrument venueQuantity =
     (case NewFromString L (TrimSpace venueQuantity) of
        None \<Rightarrow> Inl ErrInvalidArgument
      | Some quantity \<Rightarrow>
          (case quantityFactor L instrument of
             Inl e \<Rightarrow> Inl e
           | Inr (factor, contracts) \<Rightarrow>
               Inr (StringOf L \<bar>if contracts then quantity * factor else quantity\<bar>)))"

definition BaseQuantityStep :: "decimal_lib \<Rightarrow> VenueInstrument \<Rightarrow> string \<Rightarrow> string go_result" where
  "BaseQuantityStep L instrument venueStep =
     (case NewFromString L (TrimSpace venueStep) of
        None \<Rightarrow> Inl ErrInvalidArgument
      | Some step \<Rightarrow>
          if \<not> 0 < step then Inl ErrInvalidArgument
          else (case quantityFactor L instrument of
            Inl e \<Rightarrow> Inl e
          | Inr (factor, contracts) \<Rightarrow>
              Inr (StringOf L (if contracts then step * factor else step))))"

section \<open>What an accepted order satisfies\<close>

text \<open>The declarative reading of the instrument rules: a constraint that is known bounds the
  quantity by a positive number, one that does not apply is void, any other status is refused.\<close>

definition bound_rule :: "decimal_lib \<Rightarrow> string \<Rightarrow> string \<Rightarrow> (decimal \<Rightarrow> bool) \<Rightarrow> bool" where
  "bound_rule L v status P \<longleftrightarrow>
     status = ConstraintNotApplicable \<or>
     status = ConstraintKnown \<and> 0 < parsePositiveDecimal L v \<and> P (parsePositiveDecimal L v)"

lemma validateMinimumRule_iff:
  "validateMinimumRule L q v status = Inr u \<longleftrightarrow> bound_rule L v status (\<lambda>m. m \<le> q)"
  by (auto simp: validateMinimumRule_def bound_rule_def constraint_defs Let_def)

lemma validateMaximumRule_iff:
  "validateMaximumRule L q v status = Inr u \<longleftrightarrow> bound_rule L v status (\<lambda>m. q \<le> m)"
  by (auto simp: validateMaximumRule_def bound_rule_def constraint_defs Let_def)

lemma validateNotionalRule_iff:
  "validateNotionalRule L q r v status = Inr u \<longleftrightarrow>
     bound_rule L v status (\<lambda>m. 0 < parsePositiveDecimal L r \<and> m \<le> q * parsePositiveDecimal L r)"
  by (auto simp: validateNotionalRule_def bound_rule_def constraint_defs Let_def)

definition quantity_allowed :: "decimal_lib \<Rightarrow> order_limits \<Rightarrow> decimal \<Rightarrow> bool" where
  "quantity_allowed L limits qty \<longleftrightarrow>
     0 < lim_step limits \<and> on_grid (lim_step limits) qty \<and>
     bound_rule L (lim_minQuantity limits) (lim_minQuantityStatus limits) (\<lambda>m. m \<le> qty) \<and>
     bound_rule L (lim_maxQuantity limits) (lim_maxQuantityStatus limits) (\<lambda>m. qty \<le> m)"

definition notional_allowed :: "decimal_lib \<Rightarrow> order_limits \<Rightarrow> decimal \<Rightarrow> string \<Rightarrow> bool" where
  "notional_allowed L limits qty ref \<longleftrightarrow>
     bound_rule L (lim_minNotional limits) (lim_minNotionalStatus limits)
       (\<lambda>m. 0 < parsePositiveDecimal L ref \<and> m \<le> qty * parsePositiveDecimal L ref)"

lemma quantity_allowed_iff:
  "quantity_allowed L limits qty \<longleftrightarrow>
     0 < lim_step limits \<and> decimal_Mod qty (lim_step limits) = 0 \<and>
     validateMinimumRule L qty (lim_minQuantity limits) (lim_minQuantityStatus limits) = Inr () \<and>
     validateMaximumRule L qty (lim_maxQuantity limits) (lim_maxQuantityStatus limits) = Inr ()"
  by (auto simp: quantity_allowed_def validateMinimumRule_iff validateMaximumRule_iff on_grid_Mod)

lemma notional_allowed_iff:
  "notional_allowed L limits qty ref \<longleftrightarrow>
     validateNotionalRule L qty ref (lim_minNotional limits) (lim_minNotionalStatus limits) = Inr ()"
  by (simp add: notional_allowed_def validateNotionalRule_iff)

lemma limit_price_iff:
  "limit_price L instrument t p r = Inr (cp, r') \<longleftrightarrow>
     (if t = ''limit''
      then \<exists>px. NewFromString L p = Some px \<and> 0 < px \<and>
             0 < parsePositiveDecimal L (inst_PriceTick instrument) \<and>
             on_grid (parsePositiveDecimal L (inst_PriceTick instrument)) px \<and>
             cp = StringOf L px \<and> r' = StringOf L px
      else cp = [] \<and> r' = r)"
  by (auto simp: limit_price_def Let_def on_grid_Mod split: option.splits)

lemma prepareOrderMode_iff:
  "prepareOrderMode L instrument t0 q p r skip = Inr (q', p') \<longleftrightarrow>
     (\<exists>qty limits r'.
        NewFromString L q = Some qty \<and> 0 < qty \<and>
        order_limits_for L instrument (ToLower (TrimSpace t0)) = Inr limits \<and>
        quantity_allowed L limits qty \<and>
        limit_price L instrument (ToLower (TrimSpace t0)) p r = Inr (p', r') \<and>
        (skip \<or> notional_allowed L limits qty r') \<and>
        q' = StringOf L qty)"
proof (cases "NewFromString L q")
  case (Some qty)
  show ?thesis
  proof (cases "order_limits_for L instrument (ToLower (TrimSpace t0))")
    case (Inr limits)
    let ?price = "limit_price L instrument (ToLower (TrimSpace t0)) p r"
    show ?thesis
    proof (cases "0 < qty \<and> quantity_allowed L limits qty")
      case True
      then have step: "0 < qty" "0 < lim_step limits" "decimal_Mod qty (lim_step limits) = 0"
        and rules: "validateMinimumRule L qty (lim_minQuantity limits) (lim_minQuantityStatus limits) = Inr ()"
          "validateMaximumRule L qty (lim_maxQuantity limits) (lim_maxQuantityStatus limits) = Inr ()"
        by (simp_all add: quantity_allowed_iff)
      show ?thesis
      proof (cases ?price)
        case price: (Inr b)
        obtain cp ref where b: "b = (cp, ref)" by (cases b)
        show ?thesis
          using True step rules
          by (cases "validateNotionalRule L qty ref (lim_minNotional limits) (lim_minNotionalStatus limits)")
            (auto simp: prepareOrderMode_def Some Inr price b notional_allowed_iff)
      qed (simp add: prepareOrderMode_def Some Inr step rules)
    next
      case False
      then show ?thesis
        by (auto simp: prepareOrderMode_def Some Inr quantity_allowed_iff split: sum.splits)
    qed
  qed (simp add: prepareOrderMode_def Some)
qed (simp add: prepareOrderMode_def)

text \<open>C12: an order accepted by \<^verbatim>\<open>prepareOrder\<close> has a positive quantity on the step of its order
  type, within the minimum and maximum quantity that the instrument states; a limit order has a
  positive price on the price tick and meets the minimum notional at that price; conversely every
  order that satisfies these rules is accepted, with its quantity and price in canonical form.\<close>

theorem prepareOrder_limit_iff:
  "prepareOrder L instrument ''limit'' q p r = Inr (q', p') \<longleftrightarrow>
     (\<exists>qty px limits.
        NewFromString L q = Some qty \<and> 0 < qty \<and> NewFromString L p = Some px \<and> 0 < px \<and>
        order_limits_for L instrument ''limit'' = Inr limits \<and>
        quantity_allowed L limits qty \<and>
        0 < parsePositiveDecimal L (inst_PriceTick instrument) \<and>
        on_grid (parsePositiveDecimal L (inst_PriceTick instrument)) px \<and>
        notional_allowed L limits qty (StringOf L px) \<and>
        q' = StringOf L qty \<and> p' = StringOf L px)"
proof -
  have t: "ToLower (TrimSpace ''limit'') = ''limit''" by code_simp
  show ?thesis
    unfolding prepareOrder_def prepareOrderMode_iff t limit_price_iff by auto
qed

context decimal_library
begin

lemma prepareOrderMode_canonical:
  assumes "prepareOrderMode L instrument t q p r skip = Inr (q', p')"
  shows "prepareOrderMode L instrument t q' p' r skip = Inr (q', p')"
proof -
  let ?t = "ToLower (TrimSpace t)"
  obtain qty limits r' where *: "NewFromString L q = Some qty" "0 < qty"
    "order_limits_for L instrument ?t = Inr limits" "quantity_allowed L limits qty"
    "limit_price L instrument ?t p r = Inr (p', r')" "skip \<or> notional_allowed L limits qty r'"
    "q' = StringOf L qty"
    using assms unfolding prepareOrderMode_iff by blast
  have q': "NewFromString L q' = Some qty" using * parse_decimal parse_print by blast
  have "limit_price L instrument ?t p' r = Inr (p', r')"
    using *(5) parse_decimal parse_print unfolding limit_price_iff by (auto split: if_splits)
  then show ?thesis using * q' unfolding prepareOrderMode_iff by blast
qed

lemma normalizePlaceInput_canonical:
  assumes "normalizePlaceInput L i = Inr j"
  shows "normalizePlaceInput L j = Inr j"
proof -
  have lits: "TrimSpace ''buy'' = ''buy''" "TrimSpace ''sell'' = ''sell''"
    "TrimSpace ''market'' = ''market''" "TrimSpace ''limit'' = ''limit''" "TrimSpace [] = []"
    "ToLower ''buy'' = ''buy''" "ToLower ''sell'' = ''sell''"
    "ToLower ''market'' = ''market''" "ToLower ''limit'' = ''limit''"
    by code_simp+
  let ?t = "place_input_trimmed i"
  obtain x where x: "NewFromString L (poi_Quantity ?t) = Some x" "0 < x" "place_input_shape_ok ?t"
    and j: "if poi_OrderType ?t = ''limit''
      then \<exists>px. NewFromString L (poi_Price ?t) = Some px \<and> 0 < px \<and>
             j = ?t\<lparr>poi_Price := StringOf L px, poi_Quantity := StringOf L x\<rparr>
      else poi_Price ?t = [] \<and> j = ?t\<lparr>poi_Quantity := StringOf L x\<rparr>"
    using assms unfolding normalizePlaceInput_def Let_def
    by (simp split: if_splits option.splits) (auto simp: place_input_shape_ok_def)
  have ok: "place_input_shape_ok j" using x(3) j by (auto simp: place_input_shape_ok_def split: if_splits)
  have side: "poi_Side ?t = ''buy'' \<or> poi_Side ?t = ''sell''"
    and type: "poi_OrderType ?t = ''market'' \<or> poi_OrderType ?t = ''limit''"
    using x(3) by (auto simp: place_input_shape_ok_def)
  have trims: "TrimSpace (poi_Token ?t) = poi_Token ?t" "TrimSpace (poi_Price ?t) = poi_Price ?t"
    "TrimSpace (poi_IdempotencyKey ?t) = poi_IdempotencyKey ?t"
    by (simp_all add: place_input_trimmed_def)
  have lows: "ToLower (TrimSpace (poi_Side ?t)) = poi_Side ?t"
    "ToLower (TrimSpace (poi_OrderType ?t)) = poi_OrderType ?t"
    using side type by (auto simp: lits)
  note px = print_trim [OF parse_decimal] parse_print [OF parse_decimal]
  have "place_input_trimmed j = j"
    using j trims lows px(1) [OF x(1)] unfolding place_input_trimmed_def [of j]
    by (auto split: if_splits simp: px(1))
  then show ?thesis
    using ok j x px unfolding normalizePlaceInput_def Let_def by (auto split: if_splits)
qed

lemma is_decimal_metadataDecimal: "is_decimal (metadataDecimal L instrument name)"
  by (auto simp: metadataDecimal_def split: option.splits dest: parse_decimal)

lemma quantityFactor_pos:
  assumes "quantityFactor L instrument = Inr (factor, contracts)"
  shows "0 < factor \<and> is_decimal factor"
  using assms is_decimal_metadataDecimal
  by (auto simp: quantityFactor_def Let_def split: if_splits option.splits
      dest: parse_decimal intro!: is_decimal_mult)

lemma ToVenueQuantity_wire:
  assumes "ToVenueQuantity L instrument q = Inr w"
  obtains qty factor contracts where
    "NewFromString L (TrimSpace q) = Some qty" "0 < qty"
    "quantityFactor L instrument = Inr (factor, contracts)"
    "w = StringOf L (if contracts then Div L qty factor else qty)"
  using assms unfolding ToVenueQuantity_def
  by (auto simp: Let_def split: option.splits if_splits sum.splits prod.splits)

lemma venue_quantity_error:
  assumes to: "ToVenueQuantity L instrument q = Inr w"
    and qty: "NewFromString L (TrimSpace q) = Some qty"
    and factor: "quantityFactor L instrument = Inr (factor, contracts)"
  shows "\<exists>back. FromVenueQuantity L instrument w = Inr (StringOf L back) \<and>
           \<bar>back - qty\<bar> \<le> factor * div_unit / 2 \<and>
           (on_grid (factor * div_unit) qty \<longrightarrow> back = qty)"
proof -
  have f: "0 < factor" "is_decimal factor" using quantityFactor_pos [OF factor] by auto
  have q: "0 < qty" "is_decimal qty" and w: "w = StringOf L (if contracts then Div L qty factor else qty)"
    using to qty factor parse_decimal by (auto elim!: ToVenueQuantity_wire)
  show ?thesis
  proof (cases contracts)
    case False
    then have "FromVenueQuantity L instrument w = Inr (StringOf L qty)"
      using w q factor by (simp add: FromVenueQuantity_def print_trim parse_print)
    then show ?thesis using f div_unit_pos by (intro exI [of _ qty]) (simp add: less_imp_le)
  next
    case True
    let ?wire = "Div L qty factor"
    have wire: "is_decimal ?wire" "0 \<le> ?wire" using f q Div_nonneg is_decimal_Div by auto
    have "FromVenueQuantity L instrument w = Inr (StringOf L (?wire * factor))"
      using w True factor f wire by (simp add: FromVenueQuantity_def print_trim parse_print abs_mult)
    moreover have "\<bar>?wire * factor - qty\<bar> \<le> factor * div_unit / 2"
    proof -
      have "?wire * factor - qty = (?wire - qty / factor) * factor" using f by (simp add: left_diff_distrib)
      then have "\<bar>?wire * factor - qty\<bar> = \<bar>?wire - qty / factor\<bar> * factor" using f by (simp add: abs_mult)
      also have "\<dots> \<le> div_unit / 2 * factor"
        using Div_close [of factor qty] f by (intro mult_right_mono) simp_all
      finally show ?thesis by (simp add: mult.commute)
    qed
    moreover have "?wire * factor = qty" if "on_grid (factor * div_unit) qty"
      using quotient_exact [OF f(1) that] f by simp
    ultimately show ?thesis by blast
  qed
qed

end

section \<open>The number of slices of a TWAP\<close>

lemma ceiling_division:
  fixes d i :: int
  assumes "0 < d" "0 < i"
  shows "((d + i - 1) div i - 1) * i < d \<and> d \<le> (d + i - 1) div i * i"
proof -
  have "(d + i - 1) div i * i + (d + i - 1) mod i = d + i - 1" by simp
  moreover have "0 \<le> (d + i - 1) mod i" "(d + i - 1) mod i < i" using assms(2) by simp_all
  ultimately show ?thesis by (simp only: left_diff_distrib) linarith
qed

lemma twap_slices_ceiling:
  assumes ok: "twap_input_shape_ok input now" and small: "cti_IntervalSeconds input < 2 ^ 31"
  shows "\<exists>n. twap_slices input = Inr n \<and>
     (n - 1) * (cti_IntervalSeconds input * Second) < cti_EndAt input - cti_StartAt input \<and>
     cti_EndAt input - cti_StartAt input \<le> n * (cti_IntervalSeconds input * Second)"
proof -
  let ?i = "cti_IntervalSeconds input * Second" and ?d = "cti_EndAt input - cti_StartAt input"
  have i: "0 < cti_IntervalSeconds input" and d: "0 < ?d"
    and week: "time_Sub (cti_EndAt input) (cti_StartAt input) \<le> 7 * 24 * Hour"
    using ok by (auto simp: twap_input_shape_ok_def)
  have ib: "0 < ?i" "?i < 2 ^ 31 * Second" using i small by (simp_all add: Second_def)
  have sub: "time_Sub (cti_EndAt input) (cti_StartAt input) = ?d"
    using week d by (auto simp: time_Sub_def Hour_def min_def max_def split: if_splits)
  have wraps: "wrap64 ?i = ?i" "wrap64 (?d + ?i - 1) = ?d + ?i - 1"
    using ib d week sub by (simp_all add: in_int64_def Second_def Hour_def)
  have "twap_slices input = Inr ((?d + ?i - 1) div ?i)"
    using i ib d by (simp add: twap_slices_def Let_def sub wraps go_div_nonneg)
  then show ?thesis using ceiling_division [OF d ib(1)] by blast
qed

lemma normalizeTwapInput_capacity:
  assumes "normalizeTwapInput L input now = Inr out" "cti_MaxQuantity (twap_input_trimmed input) \<noteq> []"
  obtains t m n where
    "NewFromString L (cti_TotalQuantity (twap_input_trimmed input)) = Some t"
    "NewFromString L (cti_MaxQuantity (twap_input_trimmed input)) = Some m"
    "twap_input_shape_ok (twap_input_trimmed input) now"
    "twap_slices (twap_input_trimmed input) = Inr n"
    "0 < t" "0 < m" "t \<le> m * of_int n"
    "cti_TotalQuantity out = StringOf L t" "cti_MaxQuantity out = StringOf L m"
  using assms unfolding normalizeTwapInput_def Let_def optional_positive_def
  by (auto split: if_splits option.splits sum.splits)

section \<open>Properties\<close>

text \<open>C34: an order that passed \<^verbatim>\<open>prepareOrderMode\<close> is in canonical form: preparing the returned
  quantity and price again accepts them and returns them unchanged.\<close>

theorem prepareOrderMode_idempotent:
  assumes "decimal_library L" "prepareOrderMode L instrument t q p r skip = Inr (q', p')"
  shows "prepareOrderMode L instrument t q' p' r skip = Inr (q', p')"
  using decimal_library.prepareOrderMode_canonical [OF assms] .

definition sample_instrument :: Instrument where
  "sample_instrument =
     \<lparr>inst_ID = 7, inst_Exchange = ''okx'', inst_ContractType = ''perpetual'',
      inst_ExchangeSymbol = ''BTC-USDT-SWAP'', inst_BaseAsset = ''BTC'', inst_QuoteAsset = ''USDT'',
      inst_SettleAsset = ''USDT'', inst_ContractSize = ''0.01'', inst_PriceTick = ''0.1'',
      inst_QuantityStep = ''0.001'', inst_MinQuantity = ''0.001'', inst_MinNotional = ''5'',
      inst_MinQuantityStatus = ''known'', inst_MinNotionalStatus = ''known'',
      inst_MaxQuantity = ''100'', inst_MarketQuantityStep = ''0.001'',
      inst_MarketMinQuantity = ''0.001'', inst_MarketMaxQuantity = ''50'',
      inst_MarketMinNotional = ''5'', inst_MaxQuantityStatus = ''known'',
      inst_MarketQuantityStepStatus = ''known'', inst_MarketMinQuantityStatus = ''known'',
      inst_MarketMaxQuantityStatus = ''known'', inst_MarketMinNotionalStatus = ''known'',
      inst_Metadata = [(''ctMult'', AnyString ''1'')]\<rparr>"

theorem prepareOrderMode_idempotent_witness:
  "prepareOrderMode std_lib sample_instrument ''Limit '' ''0.0120'' ''5000.10'' [] False =
     Inr (''0.012'', ''5000.1'') \<and>
   prepareOrderMode std_lib sample_instrument ''Limit '' ''0.012'' ''5000.1'' [] False =
     Inr (''0.012'', ''5000.1'')"
proof -
  have "prepareOrderMode std_lib sample_instrument ''Limit '' ''0.0120'' ''5000.10'' [] False =
     Inr (''0.012'', ''5000.1'')"
    by code_simp
  then show ?thesis
    using prepareOrderMode_idempotent [OF std.decimal_library_axioms] by blast
qed

text \<open>C35: converting a base quantity to venue contracts and back loses at most half a unit of the
  16-digit division per contract, and nothing when the quotient has at most 16 decimals.\<close>

theorem venue_quantity_round_trip:
  assumes "decimal_library L"
    and "ToVenueQuantity L instrument q = Inr w"
    and "NewFromString L (TrimSpace q) = Some qty"
    and "quantityFactor L instrument = Inr (factor, contracts)"
  shows "\<exists>back. FromVenueQuantity L instrument w = Inr (StringOf L back) \<and>
           \<bar>back - qty\<bar> \<le> factor * div_unit / 2 \<and>
           (on_grid (factor * div_unit) qty \<longrightarrow> back = qty)"
  using decimal_library.venue_quantity_error [OF assms] .

theorem venue_quantity_round_trip_witness:
  "\<exists>back. FromVenueQuantity std_lib (toVenueInstrument sample_instrument) ''1.2'' =
       Inr (StringOf std_lib back) \<and> \<bar>back - 3 / 250\<bar> \<le> 1 / 100 * div_unit / 2 \<and>
     (on_grid (1 / 100 * div_unit) (3 / 250) \<longrightarrow> back = 3 / 250)"
proof -
  have to: "ToVenueQuantity std_lib (toVenueInstrument sample_instrument) '' 0.012'' = Inr ''1.2''"
    and q: "NewFromString std_lib (TrimSpace '' 0.012'') = Some (3 / 250)"
    and f: "quantityFactor std_lib (toVenueInstrument sample_instrument) = Inr (1 / 100, True)"
    by code_simp+
  show ?thesis by (rule venue_quantity_round_trip [OF std.decimal_library_axioms to q f])
qed

text \<open>C39: a TWAP request with a slice cap that passes validation can be filled: the cap times the
  number of slices in the execution window, rounded up, covers the requested quantity. For
  interval lengths in the range of the wire format the computation of the number of slices
  neither overflows nor divides by zero.\<close>

theorem twap_capacity:
  assumes "normalizeTwapInput L input now = Inr out"
    and "cti_MaxQuantity (twap_input_trimmed input) \<noteq> []"
    and "cti_IntervalSeconds input < 2 ^ 31"
  shows "\<exists>t m (n::int). cti_TotalQuantity out = StringOf L t \<and> cti_MaxQuantity out = StringOf L m \<and>
     t \<le> m * of_int n \<and>
     (n - 1) * (cti_IntervalSeconds input * Second) < cti_EndAt input - cti_StartAt input \<and>
     cti_EndAt input - cti_StartAt input \<le> n * (cti_IntervalSeconds input * Second)"
proof -
  let ?i = "twap_input_trimmed input"
  have same: "cti_IntervalSeconds ?i = cti_IntervalSeconds input" "cti_EndAt ?i = cti_EndAt input"
    "cti_StartAt ?i = cti_StartAt input"
    by (simp_all add: twap_input_trimmed_def)
  obtain t m n where n: "twap_input_shape_ok ?i now" "twap_slices ?i = Inr n" "t \<le> m * of_int n"
    "cti_TotalQuantity out = StringOf L t" "cti_MaxQuantity out = StringOf L m"
    by (rule normalizeTwapInput_capacity [OF assms(1,2)])
  have small: "cti_IntervalSeconds ?i < 2 ^ 31" using assms(3) same by simp
  from twap_slices_ceiling [OF n(1) small] n show ?thesis unfolding same by auto
qed

definition sample_twap :: CreateTwapInput where
  "sample_twap =
     \<lparr>cti_Token = ''tok'', cti_TradingAccountID = 1, cti_InstrumentID = 7, cti_Side = '' BUY'',
      cti_TotalQuantity = ''1.0'', cti_StartAt = 1000 * Second, cti_EndAt = 1100 * Second,
      cti_IntervalSeconds = 30, cti_LimitPrice = [], cti_MaxQuantity = ''0.25'',
      cti_ExecutionType = ''market'', cti_OrderTimeoutSeconds = 0, cti_IdempotencyKey = ''k''\<rparr>"

theorem twap_capacity_witness:
  "\<exists>out t m (n::int). normalizeTwapInput std_lib sample_twap (1000 * Second) = Inr out \<and>
     cti_TotalQuantity out = StringOf std_lib t \<and> cti_MaxQuantity out = StringOf std_lib m \<and>
     t \<le> m * of_int n \<and>
     (n - 1) * (30 * Second) < 100 * Second \<and> 100 * Second \<le> n * (30 * Second)"
proof -
  have "isl (normalizeTwapInput std_lib sample_twap (1000 * Second)) = False"
    and m: "cti_MaxQuantity (twap_input_trimmed sample_twap) \<noteq> []"
    by code_simp+
  then obtain out where "normalizeTwapInput std_lib sample_twap (1000 * Second) = Inr out"
    by (cases "normalizeTwapInput std_lib sample_twap (1000 * Second)") simp_all
  moreover note twap_capacity [OF this m]
  ultimately show ?thesis by (auto simp: sample_twap_def Second_def)
qed

end
