(* ===== verification/Arbitrage_Math.thy ===== *)
theory Arbitrage_Math
  imports Order_Rules
begin

text \<open>
  The decisions of the arbitrage engine that depend on numbers only:
  \<^verbatim>\<open>trader/arbitrage_math.go\<close>, with \<^verbatim>\<open>executableHedgeQuantity\<close> and \<^verbatim>\<open>hedgeQuantityDustReason\<close> of
  \<^verbatim>\<open>arbitrage_executor.go\<close>, \<^verbatim>\<open>ownedPairedQuantity\<close> of \<^verbatim>\<open>arbitrage_one_shot_exit.go\<close> and the quote
  accessors of \<^verbatim>\<open>arbitrage_order_size.go\<close>. A combination holds a long and a short leg; the
  direction \<^verbatim>\<open>ask\<close> buys leg A and sells leg B, \<^verbatim>\<open>bid\<close> does the opposite. A pair \<^verbatim>\<open>(value, ok)\<close>
  of the source is an option. Where the source reads the clock because the caller passed the
  zero time, the model takes the reading as the argument \<open>clock\<close>.
\<close>

section \<open>Spreads and triggers\<close>

definition tenThousand :: decimal where
  "tenThousand = 10000"

definition calculateArbitrageSpreads ::
  "decimal_lib \<Rightarrow> decimal \<Rightarrow> decimal \<Rightarrow> decimal \<Rightarrow> decimal \<Rightarrow> (decimal \<times> decimal) option" where
  "calculateArbitrageSpreads L legABid legAAsk legBBid legBAsk =
     (if \<not> 0 < legABid \<or> \<not> 0 < legAAsk \<or> \<not> 0 < legBBid \<or> \<not> 0 < legBAsk then None
      else Some ((Div L legBAsk legAAsk - 1) * tenThousand, (Div L legBBid legABid - 1) * tenThousand))"

definition executableArbitrageSpreads ::
  "decimal_lib \<Rightarrow> ArbitrageCombination \<Rightarrow> decimal \<Rightarrow> decimal \<Rightarrow> decimal \<Rightarrow> decimal \<Rightarrow>
   (decimal \<times> decimal) option" where
  "executableArbitrageSpreads L combination legABid legAAsk legBBid legBAsk =
     (if EqualFold (TrimSpace (ac_ExecutionMode combination)) ''simultaneous_market'' then
        (if \<not> 0 < legABid \<or> \<not> 0 < legAAsk \<or> \<not> 0 < legBBid \<or> \<not> 0 < legBAsk then None
         else Some ((Div L legBBid legAAsk - 1) * tenThousand,
                    (Div L legBAsk legABid - 1) * tenThousand))
      else case calculateArbitrageSpreads L legABid legAAsk legBBid legBAsk of
             None \<Rightarrow> None
           | Some (quoteAsk, quoteBid) \<Rightarrow>
               if EqualFold (TrimSpace (ac_MakerLeg combination)) ''a'' then Some (quoteBid, quoteAsk)
               else Some (quoteAsk, quoteBid))"

definition arbitrageTriggered :: "decimal \<Rightarrow> decimal \<Rightarrow> decimal \<Rightarrow> decimal \<Rightarrow> string" where
  "arbitrageTriggered askSpread bidSpread askThreshold bidThreshold =
     (if askSpread \<ge> askThreshold then ''ask''
      else if bidSpread \<le> bidThreshold then ''bid''
      else [])"

definition selectArbitragePositionDirection ::
  "decimal \<Rightarrow> decimal \<Rightarrow> decimal \<Rightarrow> decimal \<Rightarrow> decimal \<Rightarrow> decimal \<Rightarrow> string" where
  "selectArbitragePositionDirection openSpread closeSpread openThreshold closeThreshold position target =
     (if position < target \<and> openSpread \<ge> openThreshold then ''ask''
      else if closeSpread \<le> closeThreshold then ''bid''
      else [])"

definition arbitragePositionOverTarget :: "decimal \<Rightarrow> decimal \<Rightarrow> bool" where
  "arbitragePositionOverTarget notional target \<longleftrightarrow> 0 < target \<and> \<bar>notional\<bar> \<ge> target"

section \<open>Position plans\<close>

record arbitragePositionPlan =
  plan_Direction :: string
  plan_Effect :: string
  plan_ReduceOnly :: bool
  plan_RequestedNotional :: decimal

definition planArbitragePosition ::
  "decimal \<Rightarrow> decimal \<Rightarrow> decimal \<Rightarrow> string \<Rightarrow> arbitragePositionPlan option" where
  "planArbitragePosition venueNotional target order direction =
     (if \<not> 0 < target \<or> \<not> 0 < order then None
      else let d = ToLower (TrimSpace direction) in
        if d = ''ask'' then
          (let sz = min order (target - venueNotional) in
           if \<not> 0 < sz then None
           else Some \<lparr>plan_Direction = ''ask'', plan_Effect = ''open'', plan_ReduceOnly = False,
                      plan_RequestedNotional = sz\<rparr>)
        else if d = ''bid'' then
          (if \<not> 0 < venueNotional then None
           else let sz = min order venueNotional in
             if \<not> 0 < sz then None
             else Some \<lparr>plan_Direction = ''bid'', plan_Effect = ''close'', plan_ReduceOnly = True,
                        plan_RequestedNotional = sz\<rparr>)
        else None)"

definition baselineCaptured :: "ArbitrageCombination \<Rightarrow> bool" where
  "baselineCaptured combination \<longleftrightarrow>
     \<not> IsZero (ac_VenueBaselineCapturedAt combination) \<and>
     ac_VenueBaselineCapturedAt combination \<noteq> epoch_time"

definition baselineA :: "decimal_lib \<Rightarrow> ArbitrageCombination \<Rightarrow> decimal" where
  "baselineA L combination =
     (if baselineCaptured combination
      then parseDecimal L (ac_LegAVenueBaselineBasePosition combination) else 0)"

definition baselineB :: "decimal_lib \<Rightarrow> ArbitrageCombination \<Rightarrow> decimal" where
  "baselineB L combination =
     (if baselineCaptured combination
      then parseDecimal L (ac_LegBVenueBaselineBasePosition combination) else 0)"

definition arbitrageCloseableBase :: "decimal_lib \<Rightarrow> ArbitrageCombination \<Rightarrow> decimal" where
  "arbitrageCloseableBase L combination =
     (let legAAvailable = baselineA L combination + parseDecimal L (ac_LegABasePosition combination);
          legBAvailable = - (baselineB L combination + parseDecimal L (ac_LegBBasePosition combination))
      in if 0 < legAAvailable \<and> 0 < legBAvailable then min legAAvailable legBAvailable
         else if legAAvailable < 0 \<and> legBAvailable < 0 then min \<bar>legAAvailable\<bar> \<bar>legBAvailable\<bar>
         else 0)"

definition ownedPairedQuantity :: "decimal \<Rightarrow> decimal \<Rightarrow> decimal" where
  "ownedPairedQuantity ownedA ownedB =
     (if ownedA = 0 \<or> ownedB = 0 \<or> Sign ownedA = Sign ownedB then 0
      else min \<bar>ownedA\<bar> \<bar>ownedB\<bar>)"

definition arbitragePairedCloseDirection :: "decimal \<Rightarrow> decimal \<Rightarrow> string option" where
  "arbitragePairedCloseDirection legA legB =
     (if 0 < legA \<and> legB < 0 then Some ''bid''
      else if legA < 0 \<and> 0 < legB then Some ''ask''
      else None)"

definition arbitrageOwnedCloseableBase :: "decimal_lib \<Rightarrow> ArbitrageCombination \<Rightarrow> decimal" where
  "arbitrageOwnedCloseableBase L combination =
     ownedPairedQuantity (parseDecimal L (ac_LegABasePosition combination))
       (parseDecimal L (ac_LegBBasePosition combination))"

definition arbitrageOwnedCloseDirection :: "decimal_lib \<Rightarrow> ArbitrageCombination \<Rightarrow> string option" where
  "arbitrageOwnedCloseDirection L combination =
     arbitragePairedCloseDirection (parseDecimal L (ac_LegABasePosition combination))
       (parseDecimal L (ac_LegBBasePosition combination))"

definition arbitrageVenueReduceDirection :: "decimal_lib \<Rightarrow> ArbitrageCombination \<Rightarrow> string option" where
  "arbitrageVenueReduceDirection L combination =
     arbitragePairedCloseDirection
       (baselineA L combination + parseDecimal L (ac_LegABasePosition combination))
       (baselineB L combination + parseDecimal L (ac_LegBBasePosition combination))"

definition arbitrageFlattening :: "ArbitrageCombination \<Rightarrow> bool" where
  "arbitrageFlattening combination \<longleftrightarrow>
     EqualFold (TrimSpace (ac_Status combination)) ''closing'' \<or>
     (EqualFold (TrimSpace (ac_Status combination)) ''running'' \<and>
      EqualFold (TrimSpace (ac_RunMode combination)) ''one_shot'' \<and>
      EqualFold (TrimSpace (ac_OneShotPhase combination)) ''exiting'')"

definition allowBelowMinNotionalCombo ::
  "ArbitrageCombination \<Rightarrow> ArbitrageExecution \<Rightarrow> Instrument \<Rightarrow> bool" where
  "allowBelowMinNotionalCombo combination execution instrument \<longleftrightarrow>
     allowBelowMinNotional execution instrument \<and> arbitrageFlattening combination"

definition instrumentOrderStep :: "decimal_lib \<Rightarrow> Instrument \<Rightarrow> string \<Rightarrow> decimal" where
  "instrumentOrderStep L instrument orderType =
     (if EqualFold (TrimSpace orderType) ''market''
      then ruleDecimal L (inst_MarketQuantityStep instrument) (inst_MarketQuantityStepStatus instrument)
      else parsePositiveDecimal L (inst_QuantityStep instrument))"

definition arbitrageOrderTypes :: "ArbitrageCombination \<Rightarrow> string \<times> string" where
  "arbitrageOrderTypes combination =
     (if ac_ExecutionMode combination = ''simultaneous_market''
      then (if leg_ContractType (ac_LegA combination) = ''spot'' then ''limit'' else ''market'',
            if leg_ContractType (ac_LegB combination) = ''spot'' then ''limit'' else ''market'')
      else (''limit'', ''limit''))"

definition arbitrageLegSides :: "string \<Rightarrow> (string \<times> string) option" where
  "arbitrageLegSides direction =
     (let d = ToLower (TrimSpace direction) in
      if d = ''ask'' then Some (''buy'', ''sell'')
      else if d = ''bid'' then Some (''sell'', ''buy'')
      else None)"

section \<open>Notionals\<close>

definition pairedAskNotional :: "decimal \<Rightarrow> decimal \<Rightarrow> decimal" where
  "pairedAskNotional legA legB =
     (if 0 < legA \<and> 0 < legB then min legA legB
      else if legA < 0 \<and> legB < 0 then - min \<bar>legA\<bar> \<bar>legB\<bar>
      else 0)"

definition arbitragePositionNotionals ::
  "decimal_lib \<Rightarrow> ArbitrageCombination \<Rightarrow> decimal \<Rightarrow> decimal \<Rightarrow> decimal \<times> decimal \<times> bool" where
  "arbitragePositionNotionals L combination legAMid legBMid =
     (if \<not> 0 < legAMid \<or> \<not> 0 < legBMid then (0, 0, False)
      else let comboA = parseDecimal L (ac_LegABasePosition combination);
               comboB = parseDecimal L (ac_LegBBasePosition combination)
           in (pairedAskNotional ((baselineA L combination + comboA) * legAMid)
                 (- (baselineB L combination + comboB) * legBMid),
               pairedAskNotional (comboA * legAMid) (- comboB * legBMid),
               baselineCaptured combination))"

definition capSpotReduceQuantity ::
  "decimal_lib \<Rightarrow> decimal \<Rightarrow> decimal \<Rightarrow> string \<Rightarrow> decimal \<Rightarrow> decimal" where
  "capSpotReduceQuantity L quantity comboBase side step =
     (let s = ToLower (TrimSpace side);
          available = (if s = ''sell'' then (if 0 < comboBase then comboBase else 0)
                       else if s = ''buy'' then (if comboBase < 0 then \<bar>comboBase\<bar> else 0)
                       else 0)
      in if \<not> 0 < available then 0 else floorToStep L (min quantity available) step)"

definition signedPositionDelta :: "string \<Rightarrow> decimal \<Rightarrow> decimal \<Rightarrow> decimal \<Rightarrow> decimal" where
  "signedPositionDelta direction fillA fillB mark =
     (let completed = min fillA fillB * mark in
      if \<not> 0 < completed then 0
      else if EqualFold (TrimSpace direction) ''bid'' then - completed
      else completed)"

definition executionNotional :: "decimal_lib \<Rightarrow> ArbitrageExecution \<Rightarrow> decimal" where
  "executionNotional L execution = parsePositiveDecimal L (ae_RequestedNotional execution)"

definition executionHasExposure :: "decimal_lib \<Rightarrow> ArbitrageExecution \<Rightarrow> bool" where
  "executionHasExposure L execution =
     (if 0 < parseDecimal L (ae_LegAFilledQuantity execution) \<or>
         0 < parseDecimal L (ae_LegBFilledQuantity execution) then True
      else if ae_Status execution = ''maker_open'' \<or> ae_Status execution = ''maker_canceling''
      then ae_MakerOrderID execution \<noteq> []
      else if ae_Status execution = ''hedging''
      then ae_MakerOrderID execution \<noteq> [] \<or> ae_HedgeOrderID execution \<noteq> []
      else if ae_Status execution = ''reconciling''
      then ae_MakerOrderID execution \<noteq> [] \<or> ae_HedgeOrderID execution \<noteq> []
      else False)"

definition arbitrageBackoff :: "int \<Rightarrow> decimal" where
  "arbitrageBackoff failures =
     (if failures \<le> 0 then 2
      else let seconds = wrap64 (2 * 2 ^ nat (failures - 1)) in
           of_int (if seconds > 60 then 60 else seconds))"

definition baseQuantityForNotional :: "decimal_lib \<Rightarrow> decimal \<Rightarrow> decimal \<Rightarrow> decimal \<Rightarrow> decimal" where
  "baseQuantityForNotional L notional price step =
     (if \<not> 0 < notional \<or> \<not> 0 < price then 0 else floorToStep L (Div L notional price) step)"

definition deltaNotional :: "decimal \<Rightarrow> decimal \<Rightarrow> decimal \<Rightarrow> decimal" where
  "deltaNotional legABaseFilled legBBaseFilled markPrice =
     (if \<not> 0 < markPrice then 0 else \<bar>legABaseFilled - legBBaseFilled\<bar> * markPrice)"

definition opportunityStillValid ::
  "decimal_lib \<Rightarrow> ArbitrageCombination \<Rightarrow> BBO \<Rightarrow> BBO \<Rightarrow> string \<Rightarrow> bool" where
  "opportunityStillValid L combination legA legB direction =
     (if EqualFold (TrimSpace (ac_RunMode combination)) ''one_shot'' then True
      else case executableArbitrageSpreads L combination
                  (parsePositiveDecimal L (bbo_BidPrice legA)) (parsePositiveDecimal L (bbo_AskPrice legA))
                  (parsePositiveDecimal L (bbo_BidPrice legB)) (parsePositiveDecimal L (bbo_AskPrice legB)) of
             None \<Rightarrow> False
           | Some (opening, closing) \<Rightarrow>
               (let d = ToLower (TrimSpace direction) in
                if d = ''ask'' then opening \<ge> parseDecimal L (ac_AskThresholdBps combination)
                else if d = ''bid'' then closing \<le> parseDecimal L (ac_BidThresholdBps combination)
                else False))"

section \<open>Carry: the unhedged remainder of a combination\<close>

definition makerQuantityWithinCarryBudget ::
  "decimal_lib \<Rightarrow> decimal \<Rightarrow> decimal \<Rightarrow> string \<Rightarrow> decimal \<Rightarrow> decimal \<Rightarrow> decimal" where
  "makerQuantityWithinCarryBudget L requested0 carry side roundBaseCap step =
     (let requested = floorToStep L (min requested0 roundBaseCap) step in
      if \<not> 0 < requested \<or> carry = 0 then requested
      else let makerSign = (if EqualFold (TrimSpace side) ''sell'' then - 1 else 1 :: decimal) in
        if Sign carry \<noteq> Sign makerSign then requested
        else let headroom = roundBaseCap - \<bar>carry\<bar> in
          if \<not> 0 < headroom then 0 else floorToStep L (min requested headroom) step)"

definition makerPositionSign :: "string \<Rightarrow> int" where
  "makerPositionSign side = (if EqualFold (TrimSpace side) ''sell'' then - 1 else 1)"

definition carrySameSignAsMaker :: "decimal \<Rightarrow> string \<Rightarrow> bool" where
  "carrySameSignAsMaker carry makerSide \<longleftrightarrow>
     carry \<noteq> 0 \<and> Sign carry = makerPositionSign makerSide"

definition expectedCarryAfterMaker :: "decimal \<Rightarrow> decimal \<Rightarrow> string \<Rightarrow> decimal" where
  "expectedCarryAfterMaker carry makerQty makerSide =
     (if EqualFold (TrimSpace makerSide) ''sell'' then carry - makerQty else carry + makerQty)"

definition carryBeforeExecutionFromFills ::
  "decimal \<Rightarrow> decimal \<Rightarrow> decimal \<Rightarrow> string \<Rightarrow> decimal go_result" where
  "carryBeforeExecutionFromFills refreshedCarry legAFilled legBFilled direction =
     (let d = ToLower (TrimSpace direction) in
      if d = ''ask'' then Inr (refreshedCarry - (legAFilled - legBFilled))
      else if d = ''bid'' then Inr (refreshedCarry - (legBFilled - legAFilled))
      else Inl ErrInvalidArgument)"

definition carryHedgeSide :: "decimal \<Rightarrow> string" where
  "carryHedgeSide carry = (if carry < 0 then ''buy'' else ''sell'')"

text \<open>The result is the rounded quantity, whether it can be traded, and the error, if any.\<close>

definition min_quantity_gate :: "decimal_lib \<Rightarrow> Instrument \<Rightarrow> decimal \<Rightarrow> bool go_result" where
  "min_quantity_gate L instrument quantity =
     (if inst_MinQuantityStatus instrument = ConstraintKnown then
        (let minimum = parsePositiveDecimal L (inst_MinQuantity instrument) in
         if \<not> 0 < minimum then Inl ErrInstrumentUnavailable else Inr (\<not> quantity < minimum))
      else if inst_MinQuantityStatus instrument = ConstraintNotApplicable then Inr True
      else Inl ErrInstrumentUnavailable)"

definition min_notional_gate :: "decimal_lib \<Rightarrow> Instrument \<Rightarrow> decimal \<Rightarrow> decimal \<Rightarrow> bool go_result" where
  "min_notional_gate L instrument quantity price =
     (if inst_MinNotionalStatus instrument = ConstraintKnown then
        (let minimum = parsePositiveDecimal L (inst_MinNotional instrument) in
         if \<not> 0 < minimum \<or> \<not> 0 < price then Inl ErrInstrumentUnavailable
         else Inr (\<not> quantity * price < minimum))
      else if inst_MinNotionalStatus instrument = ConstraintNotApplicable then Inr True
      else Inl ErrInstrumentUnavailable)"

definition executableHedgeQuantity ::
  "decimal_lib \<Rightarrow> decimal \<Rightarrow> decimal \<Rightarrow> Instrument \<Rightarrow> bool \<Rightarrow> decimal \<times> bool \<times> trader_error option" where
  "executableHedgeQuantity L target price instrument skipMinNotional =
     (let quantity = floorToStep L target (parsePositiveDecimal L (inst_QuantityStep instrument)) in
      if \<not> 0 < quantity then (0, False, None)
      else case min_quantity_gate L instrument quantity of
             Inl e \<Rightarrow> (quantity, False, Some e)
           | Inr enough \<Rightarrow>
               if \<not> enough then (quantity, False, None)
               else if skipMinNotional then (quantity, True, None)
               else (case min_notional_gate L instrument quantity price of
                       Inl e \<Rightarrow> (quantity, False, Some e)
                     | Inr worth \<Rightarrow> (quantity, worth, None)))"

definition dustReasonStepRoundsToZero :: string where
  "dustReasonStepRoundsToZero = ''step_rounds_to_zero''"
definition dustReasonBelowMinQuantity :: string where
  "dustReasonBelowMinQuantity = ''below_min_quantity''"
definition dustReasonBelowMinNotional :: string where
  "dustReasonBelowMinNotional = ''below_min_notional''"

lemmas dust_reasons = dustReasonStepRoundsToZero_def dustReasonBelowMinQuantity_def
  dustReasonBelowMinNotional_def

definition hedgeQuantityDustReason :: "decimal_lib \<Rightarrow> decimal \<Rightarrow> decimal \<Rightarrow> Instrument \<Rightarrow> string" where
  "hedgeQuantityDustReason L target price instrument =
     (let quantity = floorToStep L \<bar>target\<bar> (parsePositiveDecimal L (inst_QuantityStep instrument)) in
      if \<not> 0 < quantity then dustReasonStepRoundsToZero
      else case min_quantity_gate L instrument quantity of
             Inl e \<Rightarrow> []
           | Inr enough \<Rightarrow>
               if \<not> enough then dustReasonBelowMinQuantity
               else (case min_notional_gate L instrument quantity price of
                       Inl e \<Rightarrow> []
                     | Inr worth \<Rightarrow> if \<not> worth then dustReasonBelowMinNotional else []))"

definition arbitrageReduceLegAvailable ::
  "decimal_lib \<Rightarrow> ArbitrageCombination \<Rightarrow> string \<Rightarrow> string \<Rightarrow> decimal" where
  "arbitrageReduceLegAvailable L combination legName side =
     (if legName = ''a'' \<or> legName = ''b'' then
        (let position = (if legName = ''a''
               then baselineA L combination + parseDecimal L (ac_LegABasePosition combination)
               else baselineB L combination + parseDecimal L (ac_LegBBasePosition combination))
         in if 0 < position \<and> EqualFold side ''sell'' then position
            else if position < 0 \<and> EqualFold side ''buy'' then \<bar>position\<bar>
            else 0)
      else 0)"

definition carryHedgeExecutableAtBBO ::
  "decimal_lib \<Rightarrow> ArbitrageCombination \<Rightarrow> ArbitrageExecution \<Rightarrow> Instrument \<Rightarrow> BBO \<Rightarrow>
   bool \<times> trader_error option" where
  "carryHedgeExecutableAtBBO L combination execution instrument bbo =
     (let carry = parseDecimal L (ac_CarryBaseQuantity combination) in
      if carry = 0 then (False, None)
      else let side = carryHedgeSide carry;
               price = (if side = ''sell'' then parsePositiveDecimal L (bbo_BidPrice bbo)
                        else parsePositiveDecimal L (bbo_AskPrice bbo))
           in case executableHedgeQuantity L \<bar>carry\<bar> price instrument
                     (allowBelowMinNotionalCombo combination execution instrument) of
                (_, eligible, err) \<Rightarrow> (eligible, err))"

section \<open>Closing what a combination owns\<close>

definition bboPriceForSide :: "BBO \<Rightarrow> string \<Rightarrow> string" where
  "bboPriceForSide bbo side =
     (if EqualFold (TrimSpace side) ''sell'' then bbo_BidPrice bbo else bbo_AskPrice bbo)"

definition bboQuantityForSide :: "BBO \<Rightarrow> string \<Rightarrow> string" where
  "bboQuantityForSide bbo side =
     (if EqualFold (TrimSpace side) ''sell'' then bbo_BidQuantity bbo else bbo_AskQuantity bbo)"

definition BBO_Stale :: "BBO \<Rightarrow> time \<Rightarrow> duration \<Rightarrow> bool" where
  "BBO_Stale b now maxAge \<longleftrightarrow>
     maxAge \<le> 0 \<or> IsZero (bbo_ReceiveTimestamp b) \<or> time_Sub now (bbo_ReceiveTimestamp b) > maxAge"

definition arbitrageMinOpenNotional :: decimal where "arbitrageMinOpenNotional = 20"

record closeFlattenTinyOwnedInput =
  cft_Combination :: ArbitrageCombination
  cft_InstrumentA :: Instrument
  cft_InstrumentB :: Instrument
  cft_BBOA :: BBO
  cft_BBOB :: BBO
  cft_Now :: time
  cft_LatestOrderAt :: time
  cft_RequireOrders :: bool
  cft_SignalBBOStale :: duration

definition closeFlattenQuantityStep :: "decimal_lib \<Rightarrow> Instrument \<Rightarrow> decimal" where
  "closeFlattenQuantityStep L instrument =
     (let step = instrumentOrderStep L instrument ''market'' in
      if \<not> 0 < step then parsePositiveDecimal L (inst_QuantityStep instrument) else step)"

definition positionDifferenceWithinMarketStep :: "decimal_lib \<Rightarrow> decimal \<Rightarrow> decimal \<Rightarrow> bool" where
  "positionDifferenceWithinMarketStep L difference step =
     (if \<not> 0 < step then False else floorToStep L \<bar>difference\<bar> step = 0)"

definition closeFlattenBothPerpetual :: "string \<Rightarrow> string \<Rightarrow> bool" where
  "closeFlattenBothPerpetual contractA contractB \<longleftrightarrow>
     EqualFold (TrimSpace contractA) ''perpetual'' \<and> EqualFold (TrimSpace contractB) ''perpetual''"

definition closeFlattenSnapshotFresh :: "time \<Rightarrow> time \<Rightarrow> bool" where
  "closeFlattenSnapshotFresh snapshot now =
     (if IsZero snapshot \<or> snapshot = epoch_time then False
      else let age = time_Sub now snapshot in age \<ge> 0 \<and> age \<le> 2 * Minute)"

definition circuitOpenBaselineComplete :: "ArbitrageCombination \<Rightarrow> bool" where
  "circuitOpenBaselineComplete combination \<longleftrightarrow>
     \<not> IsZero (ac_VenueBaselineCapturedAt combination) \<and>
     ac_VenueBaselineCapturedAt combination \<noteq> epoch_time"

definition closeFlattenSide :: "decimal \<Rightarrow> string" where
  "closeFlattenSide base = (if base < 0 then ''buy'' else ''sell'')"

definition closeFlattenQuantity :: "decimal_lib \<Rightarrow> Instrument \<Rightarrow> decimal \<Rightarrow> decimal" where
  "closeFlattenQuantity L instrument base = floorToStep L \<bar>base\<bar> (closeFlattenQuantityStep L instrument)"

definition closeFlattenTinyOwnedContext ::
  "decimal_lib \<Rightarrow> time \<Rightarrow> closeFlattenTinyOwnedInput \<Rightarrow> bool" where
  "closeFlattenTinyOwnedContext L clock inp =
     (let now = (if IsZero (cft_Now inp) then clock else cft_Now inp);
          combination = cft_Combination inp
      in EqualFold (TrimSpace (ac_Status combination)) ''closing'' \<and>
         \<not> ac_PositionUncertain combination \<and>
         closeFlattenBothPerpetual (leg_ContractType (ac_LegA combination))
           (leg_ContractType (ac_LegB combination)) \<and>
         circuitOpenBaselineComplete combination \<and>
         positionDifferenceWithinMarketStep L (parseDecimal L (ac_LegAPositionDifference combination))
           (closeFlattenQuantityStep L (cft_InstrumentA inp)) \<and>
         positionDifferenceWithinMarketStep L (parseDecimal L (ac_LegBPositionDifference combination))
           (closeFlattenQuantityStep L (cft_InstrumentB inp)) \<and>
         closeFlattenSnapshotFresh (ac_LastPositionReconciledAt combination) now)"

definition closeFlattenOwnedExecutablePrice :: "decimal_lib \<Rightarrow> decimal \<Rightarrow> BBO \<Rightarrow> decimal" where
  "closeFlattenOwnedExecutablePrice L owned bbo =
     (if owned = 0 then 0 else parsePositiveDecimal L (bboPriceForSide bbo (closeFlattenSide owned)))"

definition closeFlattenOwnedLegValues ::
  "decimal_lib \<Rightarrow> ArbitrageCombination \<Rightarrow> string \<Rightarrow> decimal \<times> decimal \<times> decimal" where
  "closeFlattenOwnedLegValues L combination legName =
     (if EqualFold (TrimSpace legName) ''b''
      then (parseDecimal L (ac_LegBBasePosition combination),
            parseDecimal L (ac_LegBVenueBasePosition combination),
            parseDecimal L (ac_LegBVenueBaselineBasePosition combination))
      else (parseDecimal L (ac_LegABasePosition combination),
            parseDecimal L (ac_LegAVenueBasePosition combination),
            parseDecimal L (ac_LegAVenueBaselineBasePosition combination)))"

definition closeFlattenOwnedVenueReducible ::
  "decimal_lib \<Rightarrow> ArbitrageCombination \<Rightarrow> string \<Rightarrow> bool" where
  "closeFlattenOwnedVenueReducible L combination legName =
     (case closeFlattenOwnedLegValues L combination legName of
        (owned, venue, baseline) \<Rightarrow>
          if owned = 0 then True
          else let delta = venue - baseline in
            if Sign delta \<noteq> Sign owned then False else \<bar>delta\<bar> \<ge> \<bar>owned\<bar>)"

definition closeFlattenOwnedPlaceBase ::
  "decimal_lib \<Rightarrow> ArbitrageCombination \<Rightarrow> Instrument \<Rightarrow> string \<Rightarrow> decimal" where
  "closeFlattenOwnedPlaceBase L combination instrument legName =
     (case closeFlattenOwnedLegValues L combination legName of
        (owned, venue, baseline) \<Rightarrow>
          if owned = 0 then 0
          else let unsigned = min \<bar>owned\<bar> \<bar>venue - baseline\<bar>;
                   stepped = closeFlattenQuantity L instrument unsigned
               in if \<not> 0 < stepped then 0
                  else if owned < 0 then - stepped
                  else stepped)"

definition closeFlattenOwnedBBOUnusable ::
  "decimal_lib \<Rightarrow> decimal \<Rightarrow> BBO \<Rightarrow> time \<Rightarrow> duration \<Rightarrow> bool" where
  "closeFlattenOwnedBBOUnusable L owned bbo now stale =
     (if owned = 0 then False
      else if BBO_Stale bbo now stale then True
      else \<not> 0 < closeFlattenOwnedExecutablePrice L owned bbo)"

text \<open>\<open>clock\<close> is the reading of this function, \<open>clock'\<close> the one of the context check it calls.\<close>

definition closeFlattenTinyOwnedWaitingSnapshot ::
  "decimal_lib \<Rightarrow> time \<Rightarrow> time \<Rightarrow> closeFlattenTinyOwnedInput \<Rightarrow> bool" where
  "closeFlattenTinyOwnedWaitingSnapshot L clock clock' inp =
     (let now = (if IsZero (cft_Now inp) then clock else cft_Now inp) in
      if \<not> closeFlattenTinyOwnedContext L clock' inp then False
      else if cft_RequireOrders inp \<and> \<not> IsZero (cft_LatestOrderAt inp) \<and>
              ac_LastPositionReconciledAt (cft_Combination inp) < cft_LatestOrderAt inp then True
      else let legA = parseDecimal L (ac_LegABasePosition (cft_Combination inp));
               legB = parseDecimal L (ac_LegBBasePosition (cft_Combination inp))
           in closeFlattenOwnedBBOUnusable L legA (cft_BBOA inp) now (cft_SignalBBOStale inp) \<or>
              closeFlattenOwnedBBOUnusable L legB (cft_BBOB inp) now (cft_SignalBBOStale inp))"

definition closeFlattenTinyOwnedPositions ::
  "decimal_lib \<Rightarrow> time \<Rightarrow> time \<Rightarrow> time \<Rightarrow> closeFlattenTinyOwnedInput \<Rightarrow> bool" where
  "closeFlattenTinyOwnedPositions L clock clock' clock'' inp =
     (if \<not> closeFlattenTinyOwnedContext L clock inp then False
      else if closeFlattenTinyOwnedWaitingSnapshot L clock' clock'' inp then False
      else let legA = parseDecimal L (ac_LegABasePosition (cft_Combination inp));
               legB = parseDecimal L (ac_LegBBasePosition (cft_Combination inp))
           in if legA = 0 \<and> legB = 0 then False
              else if \<not> closeFlattenOwnedVenueReducible L (cft_Combination inp) ''a'' \<or>
                      \<not> closeFlattenOwnedVenueReducible L (cft_Combination inp) ''b'' then False
              else (legA \<noteq> 0 \<longrightarrow>
                      \<bar>legA\<bar> * closeFlattenOwnedExecutablePrice L legA (cft_BBOA inp)
                        < arbitrageMinOpenNotional) \<and>
                   (legB \<noteq> 0 \<longrightarrow>
                      \<bar>legB\<bar> * closeFlattenOwnedExecutablePrice L legB (cft_BBOB inp)
                        < arbitrageMinOpenNotional))"

definition latestOrderUpdatedAt :: "Order list \<Rightarrow> time" where
  "latestOrderUpdatedAt orders =
     fold (\<lambda>order latest. if ord_UpdatedAt order > latest then ord_UpdatedAt order else latest)
       orders zero_time"

section \<open>Reopening the circuit\<close>

definition circuitOpenNotionalWithinTarget :: "decimal \<Rightarrow> decimal \<Rightarrow> bool" where
  "circuitOpenNotionalWithinTarget comboNotional target =
     (if \<not> 0 < target then False else \<bar>comboNotional\<bar> \<le> target)"

definition circuitOpenCarryDust ::
  "decimal_lib \<Rightarrow> decimal \<Rightarrow> Instrument \<Rightarrow> Instrument \<Rightarrow> decimal \<Rightarrow> decimal \<Rightarrow> bool" where
  "circuitOpenCarryDust L carry instrumentA instrumentB markA markB =
     (if carry = 0 then True
      else case (executableHedgeQuantity L \<bar>carry\<bar> markA instrumentA False,
                 executableHedgeQuantity L \<bar>carry\<bar> markB instrumentB False) of
        ((_, eligibleA, errA), (_, eligibleB, errB)) \<Rightarrow>
          if errA \<noteq> None \<or> errB \<noteq> None then False else \<not> eligibleA \<and> \<not> eligibleB)"

definition circuitOpenLegsNotSameDirection :: "decimal \<Rightarrow> decimal \<Rightarrow> bool" where
  "circuitOpenLegsNotSameDirection localA localB =
     (if localA = 0 \<or> localB = 0 then True else Sign localA \<noteq> Sign localB)"

definition circuitOpenOrderMatchesVenue :: "decimal_lib \<Rightarrow> Order \<Rightarrow> VenueResult \<Rightarrow> bool" where
  "circuitOpenOrderMatchesVenue L order result =
     (if \<not> terminalStatus (ord_Status order) \<or> \<not> terminalStatus (vr_Status result) then False
      else if \<not> EqualFold (TrimSpace (ord_Status order)) (TrimSpace (vr_Status result)) then False
      else parseDecimal L (ord_FilledQuantity order) = parseDecimal L (vr_FilledQuantity result))"

definition signedFilledBase :: "decimal_lib \<Rightarrow> Order \<Rightarrow> decimal" where
  "signedFilledBase L order =
     (let filled = parseDecimal L (ord_FilledQuantity order) in
      if \<not> 0 < filled then 0
      else if EqualFold (TrimSpace (ord_Side order)) ''sell'' then - filled
      else filled)"

section \<open>Position plans keep the position between zero and the target\<close>

text \<open>One round of the scheduler: a plan for the current venue notional, of which the venue fills
  any part.\<close>

inductive position_step :: "decimal \<Rightarrow> decimal \<Rightarrow> decimal \<Rightarrow> decimal \<Rightarrow> bool" for target order where
  fill: "planArbitragePosition v target order direction = Some p \<Longrightarrow> 0 \<le> filled \<Longrightarrow>
     filled \<le> plan_RequestedNotional p \<Longrightarrow>
     position_step target order v (if plan_ReduceOnly p then v - filled else v + filled)"

inductive_cases position_stepE: "position_step target order v w"

lemma planArbitragePosition_bounds:
  assumes "planArbitragePosition v target order direction = Some p"
  shows "0 < plan_RequestedNotional p" "plan_RequestedNotional p \<le> order"
    "plan_ReduceOnly p \<Longrightarrow> plan_RequestedNotional p \<le> v"
    "\<not> plan_ReduceOnly p \<Longrightarrow> v + plan_RequestedNotional p \<le> target"
  using assms by (auto simp: planArbitragePosition_def Let_def split: if_splits)

lemma position_step_range:
  assumes "position_step target order v w" "0 \<le> v" "v \<le> target"
  shows "0 \<le> w \<and> w \<le> target"
proof -
  obtain direction p filled where plan: "planArbitragePosition v target order direction = Some p"
    and f: "0 \<le> filled" "filled \<le> plan_RequestedNotional p"
    and w: "w = (if plan_ReduceOnly p then v - filled else v + filled)"
    using assms(1) by (rule position_stepE)
  show ?thesis
    using planArbitragePosition_bounds [OF plan] f w assms(2,3) by (cases "plan_ReduceOnly p") auto
qed

text \<open>The open direction with every plan filled completely.\<close>

definition fill_open :: "decimal \<Rightarrow> decimal \<Rightarrow> decimal \<Rightarrow> decimal" where
  "fill_open target order v =
     (case planArbitragePosition v target order ''ask'' of
        None \<Rightarrow> v | Some p \<Rightarrow> v + plan_RequestedNotional p)"

lemma ask_bid_lower [simp]:
  "ToLower (TrimSpace ''ask'') = ''ask''" "ToLower (TrimSpace ''bid'') = ''bid''"
  by code_simp+

lemma fill_open_eq:
  "0 < target \<Longrightarrow> 0 < order \<Longrightarrow> fill_open target order v = max v (min target (v + order))"
  by (auto simp: fill_open_def planArbitragePosition_def Let_def)

lemma fill_open_iterate:
  assumes "0 < target" "0 < order"
  shows "(fill_open target order ^^ n) v = max v (min target (v + of_nat n * order))"
proof (induction n)
  case (Suc n)
  have "0 \<le> of_nat n * order" using assms(2) by simp
  moreover have "(fill_open target order ^^ Suc n) v =
    max ((fill_open target order ^^ n) v) (min target ((fill_open target order ^^ n) v + order))"
    using assms by (simp add: fill_open_eq)
  moreover have "of_nat (Suc n) * order = of_nat n * order + order" by (simp add: distrib_right)
  ultimately show ?case unfolding Suc.IH using assms by linarith
qed (simp add: min_def max_def)

section \<open>Reducing both legs never reverses one\<close>

lemma closeable_pos_iff:
  "0 < arbitrageCloseableBase L c \<longleftrightarrow> arbitrageVenueReduceDirection L c \<noteq> None"
  by (auto simp: arbitrageCloseableBase_def arbitrageVenueReduceDirection_def
      arbitragePairedCloseDirection_def Let_def)

lemma closeable_nonneg: "0 \<le> arbitrageCloseableBase L c"
  by (auto simp: arbitrageCloseableBase_def Let_def)

lemma owned_pos_iff:
  "0 < arbitrageOwnedCloseableBase L c \<longleftrightarrow> arbitrageOwnedCloseDirection L c \<noteq> None"
  by (auto simp: arbitrageOwnedCloseableBase_def arbitrageOwnedCloseDirection_def
      ownedPairedQuantity_def arbitragePairedCloseDirection_def Sign_eq_iff)

lemma ownedPairedQuantity_bounds:
  "0 \<le> ownedPairedQuantity a b" "ownedPairedQuantity a b \<le> \<bar>a\<bar>" "ownedPairedQuantity a b \<le> \<bar>b\<bar>"
  by (auto simp: ownedPairedQuantity_def)

lemma closeable_available:
  assumes "arbitrageVenueReduceDirection L c = Some direction"
    and "arbitrageLegSides direction = Some (sideA, sideB)"
  shows "arbitrageCloseableBase L c =
           min (arbitrageReduceLegAvailable L c ''a'' sideA) (arbitrageReduceLegAvailable L c ''b'' sideB)"
proof -
  have fold: "EqualFold ''sell'' ''buy'' = False" "EqualFold ''buy'' ''sell'' = False"
    by code_simp+
  show ?thesis
    using assms
    by (auto simp: arbitrageVenueReduceDirection_def arbitragePairedCloseDirection_def fold
        arbitrageLegSides_def arbitrageCloseableBase_def arbitrageReduceLegAvailable_def Let_def
        split: if_splits)
qed

section \<open>Back-off\<close>

lemma wrap64_double_power: "wrap64 (2 * 2 ^ nat (n - 1)) = wrap64 (2 ^ nat n)" if "0 < n"
  using that by (simp add: nat_diff_distrib' flip: power_Suc)

lemma of_int_min_60: "(of_int (if 60 < k then 60 else k) :: decimal) = min 60 (of_int k)"
  by (auto simp: min_def)

lemma wrap64_power:
  "n \<le> 62 \<Longrightarrow> wrap64 (2 ^ n) = 2 ^ n" "wrap64 (2 ^ 63) = - (2 ^ 63)" "64 \<le> n \<Longrightarrow> wrap64 (2 ^ n) = 0"
proof -
  show "wrap64 (2 ^ n) = 2 ^ n" if "n \<le> 62"
    using power_increasing [OF that, of "2 :: int"]
    by (intro wrap64_id) (simp add: in_int64_def order_trans [of _ 0])
  show "wrap64 (2 ^ 63) = - (2 ^ 63)" by code_simp
  show "wrap64 (2 ^ n) = 0" if "64 \<le> n"
  proof -
    have "(2 :: int) ^ n = 2 ^ (n - 64) * 2 ^ 64" by (metis that le_add_diff_inverse2 power_add)
    then show ?thesis by (simp add: wrap64_def)
  qed
qed

section \<open>Hedge quantities and dust\<close>

lemma min_quantity_gate_iff:
  "min_quantity_gate L i q = Inr True \<longleftrightarrow>
     bound_rule L (inst_MinQuantity i) (inst_MinQuantityStatus i) (\<lambda>m. m \<le> q)"
  by (auto simp: min_quantity_gate_def bound_rule_def constraint_defs Let_def)

lemma min_notional_gate_iff:
  "min_notional_gate L i q price = Inr True \<longleftrightarrow>
     bound_rule L (inst_MinNotional i) (inst_MinNotionalStatus i) (\<lambda>m. 0 < price \<and> m \<le> q * price)"
  by (auto simp: min_notional_gate_def bound_rule_def constraint_defs Let_def)

lemma executableHedgeQuantity_eligible:
  "executableHedgeQuantity L target price i skip = (q, True, err) \<longleftrightarrow>
     err = None \<and> q = floorToStep L target (parsePositiveDecimal L (inst_QuantityStep i)) \<and> 0 < q \<and>
     min_quantity_gate L i q = Inr True \<and> (skip \<or> min_notional_gate L i q price = Inr True)"
  by (auto simp: executableHedgeQuantity_def Let_def split: sum.splits if_splits)

lemma dust_reason_iff:
  "hedgeQuantityDustReason L target price i \<noteq> [] \<longleftrightarrow>
     (\<exists>q. executableHedgeQuantity L \<bar>target\<bar> price i False = (q, False, None))"
  by (auto simp: hedgeQuantityDustReason_def executableHedgeQuantity_def dust_reasons Let_def
      split: sum.splits if_splits)

lemma carry_dust_iff:
  "circuitOpenCarryDust L carry instrumentA instrumentB markA markB \<longleftrightarrow>
     carry = 0 \<or> hedgeQuantityDustReason L carry markA instrumentA \<noteq> [] \<and>
                 hedgeQuantityDustReason L carry markB instrumentB \<noteq> []"
  by (cases "executableHedgeQuantity L \<bar>carry\<bar> markA instrumentA False";
      cases "executableHedgeQuantity L \<bar>carry\<bar> markB instrumentB False")
    (auto simp: circuitOpenCarryDust_def dust_reason_iff)

context decimal_library
begin

lemma hedge_quantity_accepted:
  assumes hedge: "executableHedgeQuantity L target price i False = (q, True, err)"
    and target: "is_decimal target"
    and price: "is_decimal price" "0 < price" "on_grid (parsePositiveDecimal L (inst_PriceTick i)) price"
    and tick: "0 < parsePositiveDecimal L (inst_PriceTick i)"
    and step: "0 < parsePositiveDecimal L (inst_QuantityStep i)"
    and maximum: "bound_rule L (inst_MaxQuantity i) (inst_MaxQuantityStatus i) (\<lambda>m. q \<le> m)"
  shows "prepareOrder L i ''limit'' (StringOf L q) (StringOf L price) r =
           Inr (StringOf L q, StringOf L price)"
proof -
  let ?step = "parsePositiveDecimal L (inst_QuantityStep i)"
  have q: "q = floorToStep L target ?step" "0 < q"
    and minq: "min_quantity_gate L i q = Inr True" and minn: "min_notional_gate L i q price = Inr True"
    using hedge unfolding executableHedgeQuantity_eligible by blast+
  have dq: "is_decimal q" unfolding q(1) by (intro is_decimal_floorToStep target is_decimal_parse)
  have t: "ToLower (TrimSpace ''limit'') = ''limit''" by code_simp
  obtain limits where limits: "order_limits_for L i ''limit'' = Inr limits"
    by (simp add: order_limits_for_def)
  have qty: "quantity_allowed L limits q"
    using limits minq maximum step floorToStep_on_grid [OF step, of L target]
    by (auto simp: quantity_allowed_def order_limits_for_def min_quantity_gate_iff q(1))
  have "notional_allowed L limits q (StringOf L price)"
    using limits minn price(1,2) parsePositiveDecimal_print [of price]
    by (auto simp: notional_allowed_def order_limits_for_def min_notional_gate_iff)
  then show ?thesis
    unfolding prepareOrder_def prepareOrderMode_iff t limit_price_iff
    using limits qty q(2) price tick parse_print [OF dq] parse_print [OF price(1)] by auto
qed

lemma maker_quantity_step:
  assumes "0 < step" "0 \<le> cap"
  shows "floorToStep L (min requested cap) step \<le> cap + step * div_unit / 2"
  using floorToStep_upper [OF assms(1), of "min requested cap"] by linarith

lemma carry_within_budget:
  assumes "0 < step" "0 \<le> cap" "0 \<le> requested"
  shows "\<bar>expectedCarryAfterMaker carry
            (makerQuantityWithinCarryBudget L requested carry side cap step) side\<bar>
         \<le> max \<bar>carry\<bar> (cap + step * div_unit / 2)"
proof -
  let ?slack = "step * div_unit / 2" and ?r = "floorToStep L (min requested cap) step"
  let ?q = "makerQuantityWithinCarryBudget L requested carry side cap step"
  let ?sell = "EqualFold (TrimSpace side) ''sell''"
  have r: "0 \<le> ?r" "?r \<le> cap + ?slack"
    using assms floorToStep_nonneg [of "min requested cap" step] maker_quantity_step by auto
  have slack: "0 \<le> ?slack" using assms(1) div_unit_pos by simp
  show ?thesis
  proof (cases "0 < ?r \<and> carry \<noteq> 0 \<and> (carry < 0 \<longleftrightarrow> ?sell)")
    case False
    then have "?q = ?r" "?r = 0 \<or> carry = 0 \<or> (carry < 0 \<longleftrightarrow> \<not> ?sell)"
      using r by (auto simp: makerQuantityWithinCarryBudget_def Let_def Sign_def)
    then show ?thesis using r slack by (auto simp: expectedCarryAfterMaker_def)
  next
    case True
    then have q: "?q = (if 0 < cap - \<bar>carry\<bar> then floorToStep L (min ?r (cap - \<bar>carry\<bar>)) step else 0)"
      by (auto simp: makerQuantityWithinCarryBudget_def Let_def Sign_def)
    have "0 \<le> ?q \<and> (?q = 0 \<or> ?q \<le> cap - \<bar>carry\<bar> + ?slack)"
      using q r floorToStep_nonneg [of "min ?r (cap - \<bar>carry\<bar>)" step]
        maker_quantity_step [OF assms(1), of "cap - \<bar>carry\<bar>" ?r] by auto
    then show ?thesis using True slack by (auto simp: expectedCarryAfterMaker_def)
  qed
qed

lemma place_base_bounds:
  assumes "closeFlattenOwnedLegValues L combination legName = (owned, venue, baseline)"
    and "0 < closeFlattenQuantityStep L instrument"
    and "on_grid (closeFlattenQuantityStep L instrument * div_unit) owned"
    and "on_grid (closeFlattenQuantityStep L instrument * div_unit) (venue - baseline)"
  shows "\<bar>closeFlattenOwnedPlaceBase L combination instrument legName\<bar> \<le> min \<bar>owned\<bar> \<bar>venue - baseline\<bar>"
    "closeFlattenOwnedPlaceBase L combination instrument legName = 0 \<or>
     Sign (closeFlattenOwnedPlaceBase L combination instrument legName) = Sign owned"
proof -
  let ?s = "closeFlattenQuantityStep L instrument" and ?u = "min \<bar>owned\<bar> \<bar>venue - baseline\<bar>"
  have "on_grid (?s * div_unit) \<bar>?u\<bar>"
    using assms(3,4) on_grid_minus [OF assms(3)] on_grid_minus [OF assms(4)]
    by (auto simp: abs_if min_def)
  then have "closeFlattenQuantity L instrument ?u \<le> \<bar>?u\<bar>"
    unfolding closeFlattenQuantity_def by (rule floorToStep_exact(1) [OF assms(2)])
  then show "\<bar>closeFlattenOwnedPlaceBase L combination instrument legName\<bar> \<le> ?u"
    by (auto simp: closeFlattenOwnedPlaceBase_def assms(1) Let_def)
  show "closeFlattenOwnedPlaceBase L combination instrument legName = 0 \<or>
     Sign (closeFlattenOwnedPlaceBase L combination instrument legName) = Sign owned"
    by (auto simp: closeFlattenOwnedPlaceBase_def assms(1) Let_def Sign_def)
qed

lemma simultaneous_spreads_bracket:
  assumes mode: "EqualFold (TrimSpace (ac_ExecutionMode c)) ''simultaneous_market''"
    and ex: "executableArbitrageSpreads L c aBid aAsk bBid bAsk = Some (opening, closing)"
    and book: "aBid \<le> aAsk" "bBid \<le> bAsk"
  shows "\<exists>quoteAsk quoteBid. calculateArbitrageSpreads L aBid aAsk bBid bAsk = Some (quoteAsk, quoteBid) \<and>
           opening \<le> min quoteAsk quoteBid \<and> max quoteAsk quoteBid \<le> closing"
proof -
  have pos: "0 < aBid" "0 < aAsk" "0 < bBid" "0 < bAsk"
    and eq: "opening = (Div L bBid aAsk - 1) * tenThousand" "closing = (Div L bAsk aBid - 1) * tenThousand"
    using ex by (auto simp: executableArbitrageSpreads_def mode split: if_splits)
  have "Div L bBid aAsk \<le> Div L bAsk aAsk" "Div L bBid aAsk \<le> Div L bBid aBid"
    "Div L bAsk aAsk \<le> Div L bAsk aBid" "Div L bBid aBid \<le> Div L bAsk aBid"
    using pos book by (auto intro!: Div_mono frac_le)
  then show ?thesis
    using pos by (simp add: calculateArbitrageSpreads_def eq tenThousand_def)
qed

end

section \<open>Properties\<close>

text \<open>C21: however many rounds of plans the venue fills, in whole or in part and in whichever
  direction each was planned, a position that starts between zero and the target stays there.\<close>

theorem position_between_zero_and_target:
  assumes "(position_step target order)\<^sup>*\<^sup>* v w" "0 \<le> v" "v \<le> target"
  shows "0 \<le> w \<and> w \<le> target"
  using assms by (induction rule: rtranclp_induct) (auto dest: position_step_range)

lemma sample_position_run: "(position_step 100 30)\<^sup>*\<^sup>* 90 85"
proof -
  have "position_step 100 30 90 100"
    using position_step.fill [of 90 100 30 "''ask''" _ 10]
    by (simp add: planArbitragePosition_def)
  moreover have "position_step 100 30 100 85"
    using position_step.fill [of 100 100 30 "''bid''" _ 15]
    by (simp add: planArbitragePosition_def)
  ultimately show ?thesis by (rule rtranclp.rtrancl_into_rtrancl [OF r_into_rtranclp])
qed

theorem position_between_zero_and_target_witness:
  "(position_step 100 30)\<^sup>*\<^sup>* 90 85 \<and> (0::decimal) \<le> 85 \<and> (85::decimal) \<le> 100"
  using position_between_zero_and_target [OF sample_position_run] sample_position_run by simp

text \<open>C36: if every plan in the open direction is filled completely, \<open>n\<close> rounds raise the position by
  \<open>n\<close> orders but never beyond the target; so the target is reached, exactly, after finitely many
  rounds.\<close>

theorem open_rounds_reach_target:
  assumes "0 < target" "0 < order" "v \<le> target"
  shows "(fill_open target order ^^ n) v = min target (v + of_nat n * order)"
proof -
  have "0 \<le> of_nat n * order" using assms(2) by simp
  then show ?thesis using fill_open_iterate [OF assms(1,2), of n v] assms(3) by simp
qed

theorem open_rounds_reach_target_witness: "(fill_open 100 30 ^^ 4) 0 = 100"
  using open_rounds_reach_target [of 100 30 0 4] by simp

text \<open>on books that are not crossed, the spread at which \<^verbatim>\<open>simultaneous_market\<close> opens is at most
  both quoted spreads, and the one at which it closes at least both: crossing the book on both legs
  never looks better than quoting.\<close>

theorem simultaneous_spreads_conservative:
  assumes "decimal_library L"
    and "EqualFold (TrimSpace (ac_ExecutionMode c)) ''simultaneous_market''"
    and "executableArbitrageSpreads L c aBid aAsk bBid bAsk = Some (opening, closing)"
    and "aBid \<le> aAsk" "bBid \<le> bAsk"
  shows "\<exists>quoteAsk quoteBid. calculateArbitrageSpreads L aBid aAsk bBid bAsk = Some (quoteAsk, quoteBid) \<and>
           opening \<le> min quoteAsk quoteBid \<and> max quoteAsk quoteBid \<le> closing"
  using decimal_library.simultaneous_spreads_bracket [OF assms] .

theorem simultaneous_spreads_conservative_witness:
  "\<exists>quoteAsk quoteBid. calculateArbitrageSpreads std_lib 80 100 101 102 = Some (quoteAsk, quoteBid) \<and>
     100 \<le> min quoteAsk quoteBid \<and> max quoteAsk quoteBid \<le> 2750"
proof -
  let ?c = "zero_ArbitrageCombination\<lparr>ac_ExecutionMode := '' Simultaneous_Market''\<rparr>"
  have "executableArbitrageSpreads std_lib ?c 80 100 101 102 = Some (100, 2750)" by code_simp
  moreover have "EqualFold (TrimSpace (ac_ExecutionMode ?c)) ''simultaneous_market''" by code_simp
  ultimately show ?thesis
    using simultaneous_spreads_conservative [OF std.decimal_library_axioms] by fastforce
qed

text \<open>C37: a base quantity can be closed exactly when the two legs hold opposite positions; it is
  then the smaller of what the two legs can give up on the sides of the closing direction, so that
  closing it reverses neither leg.\<close>

theorem closeable_base_never_reverses:
  "(0 < arbitrageCloseableBase L c \<longleftrightarrow> arbitrageVenueReduceDirection L c \<noteq> None) \<and>
   (case arbitrageVenueReduceDirection L c of
      None \<Rightarrow> arbitrageCloseableBase L c = 0
    | Some direction \<Rightarrow>
        (case arbitrageLegSides direction of
           None \<Rightarrow> False
         | Some (sideA, sideB) \<Rightarrow>
             arbitrageCloseableBase L c =
               min (arbitrageReduceLegAvailable L c ''a'' sideA)
                   (arbitrageReduceLegAvailable L c ''b'' sideB)))"
proof -
  have dir: "arbitrageLegSides direction \<noteq> None"
    if "arbitrageVenueReduceDirection L c = Some direction" for direction
    using that by (auto simp: arbitrageVenueReduceDirection_def arbitragePairedCloseDirection_def
        arbitrageLegSides_def split: if_splits)
  show ?thesis
    using closeable_pos_iff [of L c] closeable_nonneg [of L c] closeable_available [of L c] dir
    by (auto split: option.splits)
qed

text \<open>C40: the back-off doubles from two seconds up to its limit of a minute for 62 failures in a row;
  with 63 failures the shift overflows to a negative delay, and from 64 on the delay is zero.\<close>

theorem arbitrageBackoff_value:
  "arbitrageBackoff failures =
     (if failures \<le> 0 then 2
      else if failures \<le> 62 then min 60 (2 ^ nat failures)
      else if failures = 63 then - (2 ^ 63)
      else 0)"
proof (cases "0 < failures")
  case True
  then have eq: "arbitrageBackoff failures =
      (let seconds = wrap64 (2 ^ nat failures) in of_int (if seconds > 60 then 60 else seconds))"
    unfolding arbitrageBackoff_def by (simp add: wrap64_double_power)
  consider "failures \<le> 62" | "failures = 63" | "64 \<le> failures" by linarith
  then show ?thesis
  proof cases
    case 1
    then have "wrap64 (2 ^ nat failures) = 2 ^ nat failures" by (intro wrap64_power) simp
    then show ?thesis
      using True 1 of_int_min_60 [of "2 ^ nat failures"] unfolding eq by (simp add: Let_def)
  next
    case 2
    then show ?thesis using wrap64_power(2) unfolding eq by (simp add: Let_def)
  next
    case 3
    then show ?thesis using wrap64_power(3) [of "nat failures"] unfolding eq by (simp add: Let_def)
  qed
qed (simp add: arbitrageBackoff_def)



text \<open>the circuit treats a carry as dust exactly when it is zero or both instruments give a
  reason why the carry cannot be hedged on them; a rule that is missing or malformed on either
  instrument is not such a reason.\<close>

theorem carry_dust_has_reason:
  "circuitOpenCarryDust L carry instrumentA instrumentB markA markB \<longleftrightarrow>
     carry = 0 \<or>
     hedgeQuantityDustReason L carry markA instrumentA \<noteq> [] \<and>
     hedgeQuantityDustReason L carry markB instrumentB \<noteq> []"
  by (rule carry_dust_iff)

text \<open>C27: a maker order sized by \<^verbatim>\<open>makerQuantityWithinCarryBudget\<close> leaves a carry that is no larger
  than the carry before it or than the cap of a round, up to the rounding of one division.\<close>

theorem maker_order_keeps_carry_budget:
  assumes "decimal_library L" "0 < step" "0 \<le> cap" "0 \<le> requested"
  shows "\<bar>expectedCarryAfterMaker carry
            (makerQuantityWithinCarryBudget L requested carry side cap step) side\<bar>
         \<le> max \<bar>carry\<bar> (cap + step * div_unit / 2)"
  using decimal_library.carry_within_budget [OF assms] .

theorem maker_order_keeps_carry_budget_witness:
  "makerQuantityWithinCarryBudget std_lib 10 (- 2) ''Sell'' 5 (1 / 2) = 3 \<and>
   \<bar>expectedCarryAfterMaker (- 2) (makerQuantityWithinCarryBudget std_lib 10 (- 2) ''Sell'' 5 (1 / 2)) ''Sell''\<bar>
     \<le> max \<bar>- 2\<bar> (5 + 1 / 2 * div_unit / 2)"
proof
  show "makerQuantityWithinCarryBudget std_lib 10 (- 2) ''Sell'' 5 (1 / 2) = 3" by code_simp
qed (rule maker_order_keeps_carry_budget [OF std.decimal_library_axioms]; simp)

text \<open>C25: the quantity placed to flatten a leg has the sign of what the combination owns and is at
  most both what it owns and what the venue holds beyond the baseline, when these are multiples of
  a 16-digit fraction of the step: the order reduces the leg and never reverses it.\<close>

theorem flatten_never_reverses:
  assumes "decimal_library L"
    and "closeFlattenOwnedLegValues L combination legName = (owned, venue, baseline)"
    and "0 < closeFlattenQuantityStep L instrument"
    and "on_grid (closeFlattenQuantityStep L instrument * div_unit) owned"
    and "on_grid (closeFlattenQuantityStep L instrument * div_unit) (venue - baseline)"
  shows "\<bar>closeFlattenOwnedPlaceBase L combination instrument legName\<bar>
           \<le> min \<bar>owned\<bar> \<bar>venue - baseline\<bar> \<and>
         (closeFlattenOwnedPlaceBase L combination instrument legName = 0 \<or>
          Sign (closeFlattenOwnedPlaceBase L combination instrument legName) = Sign owned)"
  using decimal_library.place_base_bounds [OF assms] by blast

definition sample_closing :: ArbitrageCombination where
  "sample_closing = zero_ArbitrageCombination\<lparr>
     ac_Status := ''closing'', ac_LegABasePosition := ''0.0125'', ac_LegAVenueBasePosition := ''0.0115'',
     ac_LegBBasePosition := ''-0.0125'', ac_LegBVenueBasePosition := ''-0.0125''\<rparr>"

theorem flatten_never_reverses_witness:
  "closeFlattenOwnedPlaceBase std_lib sample_closing sample_instrument ''a'' = 11 / 1000 \<and>
   \<bar>closeFlattenOwnedPlaceBase std_lib sample_closing sample_instrument ''a''\<bar> \<le> 115 / 10000"
proof -
  have n: "parseDecimal std_lib ''0.0125'' = 125 / 10000" "parseDecimal std_lib ''0.0115'' = 115 / 10000"
    "parseDecimal std_lib [] = 0" "EqualFold (TrimSpace ''a'') ''b'' = False"
    by code_simp+
  have v: "closeFlattenOwnedLegValues std_lib sample_closing ''a'' = (125 / 10000, 115 / 10000, 0)"
    by (simp add: closeFlattenOwnedLegValues_def sample_closing_def zero_ArbitrageCombination_def n)
  have s: "closeFlattenQuantityStep std_lib sample_instrument = 1 / 1000"
    and q: "closeFlattenQuantity std_lib sample_instrument (115 / 10000) = 11 / 1000"
    by code_simp+
  have p: "closeFlattenOwnedPlaceBase std_lib sample_closing sample_instrument ''a'' = 11 / 1000"
    using q by (simp add: closeFlattenOwnedPlaceBase_def v min_def)
  have g: "on_grid (closeFlattenQuantityStep std_lib sample_instrument * div_unit) (125 / 10000)"
    "on_grid (closeFlattenQuantityStep std_lib sample_instrument * div_unit) (115 / 10000 - 0)"
    unfolding on_grid_def s div_unit_def
    by (rule exI [of _ "125 * 10 ^ 15"], simp) (rule exI [of _ "115 * 10 ^ 15"], simp)
  have "0 < closeFlattenQuantityStep std_lib sample_instrument" by (simp add: s)
  from flatten_never_reverses [OF std.decimal_library_axioms v this g] p show ?thesis by simp
qed

end
