(* ===== verification/Cost_Replay.thy ===== *)
theory Cost_Replay
  imports Arbitrage_Math "HOL-Library.List_Lexorder" "HOL-Library.Char_ord"
    "HOL-Library.Product_Lexorder" "HOL-Library.Multiset"
begin

text \<open>
  The profit and exposure of a combination, replayed from its fills:
  \<^verbatim>\<open>trader/arbitrage_position_metrics.go\<close>. A leg keeps its position, the average price of the open
  position and the profit realised so far; a fill is attributed to the combination only as far as it
  does not offset what the account held before. The lemmas show that the accounting conserves
  cash up to the rounding of the averages, and that the combination never owns more than the venue
  position gives it.
\<close>

section \<open>Average cost accounting\<close>

record arbitrageMetricFill =
  mf_orderID :: string
  mf_leg :: string
  mf_side :: string
  mf_quantity :: decimal
  mf_price :: decimal
  mf_at :: "time"

record arbitrageLegCost =
  lc_position :: decimal
  lc_average :: decimal
  lc_realized :: decimal

definition zero_LegCost :: arbitrageLegCost where
  "zero_LegCost = \<lparr>lc_position = 0, lc_average = 0, lc_realized = 0\<rparr>"

definition signed_quantity :: "arbitrageMetricFill \<Rightarrow> decimal" where
  "signed_quantity fill = (if mf_side fill = ''sell'' then - mf_quantity fill else mf_quantity fill)"

definition applyArbitrageFill ::
  "decimal_lib \<Rightarrow> arbitrageLegCost \<Rightarrow> arbitrageMetricFill \<Rightarrow> arbitrageLegCost" where
  "applyArbitrageFill L state fill =
     (let signed = signed_quantity fill in
      if lc_position state = 0
      then state\<lparr>lc_position := signed, lc_average := mf_price fill\<rparr>
      else if Sign (lc_position state) = Sign signed
      then let quantity = \<bar>lc_position state\<bar> + \<bar>signed\<bar> in
           state\<lparr>lc_average := Div L (lc_average state * \<bar>lc_position state\<bar> + mf_price fill * \<bar>signed\<bar>) quantity,
                 lc_position := lc_position state + signed\<rparr>
      else let closed = min \<bar>lc_position state\<bar> \<bar>signed\<bar>;
               settled = state\<lparr>lc_realized := lc_realized state +
                 (mf_price fill - lc_average state) * closed * of_int (Sign (lc_position state))\<rparr>;
               next = lc_position state + signed
           in if next = 0 then settled\<lparr>lc_position := 0, lc_average := 0\<rparr>
              else if Sign next \<noteq> Sign (lc_position state)
              then settled\<lparr>lc_average := mf_price fill, lc_position := next\<rparr>
              else settled\<lparr>lc_position := next\<rparr>)"

text \<open>The leg and the venue position after a fill of which only a part belongs to the combination.\<close>

definition attributed_quantity :: "decimal \<Rightarrow> decimal \<Rightarrow> decimal \<Rightarrow> decimal" where
  "attributed_quantity askQuantity venueAskPosition owned =
     (if 0 < askQuantity
      then askQuantity - min askQuantity (max (- venueAskPosition) 0)
      else if askQuantity < 0 then (if 0 < owned then min \<bar>askQuantity\<bar> owned else 0)
      else 0)"

definition applyAttributedArbitrageFill ::
  "decimal_lib \<Rightarrow> arbitrageLegCost \<Rightarrow> decimal \<Rightarrow> arbitrageMetricFill \<Rightarrow> decimal \<Rightarrow>
   arbitrageLegCost \<times> decimal" where
  "applyAttributedArbitrageFill L state venuePosition fill askSign =
     (let signed = signed_quantity fill;
          attributed = attributed_quantity (signed * askSign) (venuePosition * askSign)
                         (lc_position state * askSign)
      in (if 0 < attributed then applyArbitrageFill L state (fill\<lparr>mf_quantity := attributed\<rparr>) else state,
          venuePosition + signed))"

record replay_state =
  rs_legA :: arbitrageLegCost
  rs_venueA :: decimal
  rs_legB :: arbitrageLegCost
  rs_venueB :: decimal

definition replay_start :: "decimal \<Rightarrow> decimal \<Rightarrow> replay_state" where
  "replay_start venueA0 venueB0 =
     \<lparr>rs_legA = zero_LegCost, rs_venueA = venueA0, rs_legB = zero_LegCost, rs_venueB = venueB0\<rparr>"

definition replay_leg_a :: "decimal_lib \<Rightarrow> arbitrageMetricFill \<Rightarrow> replay_state \<Rightarrow> replay_state" where
  "replay_leg_a L fill r =
     (case applyAttributedArbitrageFill L (rs_legA r) (rs_venueA r) fill 1 of
        (leg, venue) \<Rightarrow> r\<lparr>rs_legA := leg, rs_venueA := venue\<rparr>)"

definition replay_leg_b :: "decimal_lib \<Rightarrow> arbitrageMetricFill \<Rightarrow> replay_state \<Rightarrow> replay_state" where
  "replay_leg_b L fill r =
     (case applyAttributedArbitrageFill L (rs_legB r) (rs_venueB r) fill (- 1) of
        (leg, venue) \<Rightarrow> r\<lparr>rs_legB := leg, rs_venueB := venue\<rparr>)"

fun replay_costs_loop ::
  "decimal_lib \<Rightarrow> arbitrageMetricFill list \<Rightarrow> time \<Rightarrow> replay_state \<Rightarrow> replay_state" where
  "replay_costs_loop L [] until r = r"
| "replay_costs_loop L (fill # fills) until r =
     (if \<not> IsZero until \<and> mf_at fill > until then r
      else replay_costs_loop L fills until
             (if mf_leg fill = ''a'' then replay_leg_a L fill r
              else if mf_leg fill = ''b'' then replay_leg_b L fill r
              else r))"

definition replayArbitrageCosts ::
  "decimal_lib \<Rightarrow> arbitrageMetricFill list \<Rightarrow> time \<Rightarrow> decimal \<Rightarrow> decimal \<Rightarrow>
   arbitrageLegCost \<times> arbitrageLegCost" where
  "replayArbitrageCosts L fills until venueA0 venueB0 =
     (let r = replay_costs_loop L fills until (replay_start venueA0 venueB0) in
      (rs_legA r, rs_legB r))"

section \<open>Exposure\<close>

text \<open>\<open>secs\<close> is \<^verbatim>\<open>decimal.NewFromFloat(d.Seconds())\<close>, the number of seconds of a duration as the
  decimal library reads it from a float.\<close>

record exposure_state =
  es_replay :: replay_state
  es_cursor :: "time"
  es_notional :: decimal
  es_holding :: decimal

definition settle_exposure ::
  "decimal_lib \<Rightarrow> (duration \<Rightarrow> decimal) \<Rightarrow> time \<Rightarrow> exposure_state \<Rightarrow> exposure_state" where
  "settle_exposure L secs now e =
     (if now < es_cursor e then e
      else let elapsed = secs (time_Sub now (es_cursor e));
               legA = rs_legA (es_replay e); legB = rs_legB (es_replay e);
               paired = min \<bar>lc_position legA\<bar> \<bar>lc_position legB\<bar>;
               mark = Div L (lc_average legA + lc_average legB) 2
           in if 0 < paired \<and> 0 < mark
              then e\<lparr>es_notional := es_notional e + paired * mark * elapsed,
                     es_holding := es_holding e + elapsed, es_cursor := now\<rparr>
              else e\<lparr>es_cursor := now\<rparr>)"

definition replay_either_leg :: "decimal_lib \<Rightarrow> arbitrageMetricFill \<Rightarrow> exposure_state \<Rightarrow> exposure_state" where
  "replay_either_leg L fill e =
     e\<lparr>es_replay := (if mf_leg fill = ''a'' then replay_leg_a L fill (es_replay e)
                     else replay_leg_b L fill (es_replay e))\<rparr>"

fun exposure_loop ::
  "decimal_lib \<Rightarrow> (duration \<Rightarrow> decimal) \<Rightarrow> arbitrageMetricFill list \<Rightarrow> time \<Rightarrow> time \<Rightarrow> exposure_state \<Rightarrow>
   exposure_state" where
  "exposure_loop L secs [] start finish e = e"
| "exposure_loop L secs (fill # fills) start finish e =
     (if mf_at fill < start then exposure_loop L secs fills start finish (replay_either_leg L fill e)
      else if mf_at fill > finish then e
      else exposure_loop L secs fills start finish
             (replay_either_leg L fill (settle_exposure L secs (mf_at fill) e)))"

definition replayArbitrageExposure ::
  "decimal_lib \<Rightarrow> (duration \<Rightarrow> decimal) \<Rightarrow> arbitrageMetricFill list \<Rightarrow> time \<Rightarrow> time \<Rightarrow> decimal \<Rightarrow> decimal \<Rightarrow>
   decimal \<times> decimal" where
  "replayArbitrageExposure L secs fills start finish venueA0 venueB0 =
     (if finish < start then (0, 0)
      else let e = settle_exposure L secs finish
                 (exposure_loop L secs fills start finish
                    \<lparr>es_replay = replay_start venueA0 venueB0, es_cursor = start,
                     es_notional = 0, es_holding = 0\<rparr>)
           in (es_notional e, es_holding e))"

section \<open>Loading the fills\<close>

record arbitrageReplay =
  ar_fills :: "arbitrageMetricFill list"
  ar_grossTurnover :: decimal
  ar_coverageComplete :: bool
  ar_orderRowCount :: int
  ar_fillRowCount :: int

text \<open>A row of the query: order id, leg, side, quantity, average price and time.\<close>

type_synonym replay_row = "string \<times> string \<times> string \<times> string \<times> string \<times> time"

definition load_replay_row ::
  "decimal_lib \<Rightarrow> bool \<Rightarrow> replay_row \<Rightarrow> arbitrageReplay \<Rightarrow> arbitrageReplay go_result" where
  "load_replay_row L strictAverageCoverage row replay =
     (case row of (rowID, leg, side, quantityRaw, priceRaw, rowTime) \<Rightarrow>
        (case (NewFromString L quantityRaw, NewFromString L priceRaw) of
           (Some quantity, Some price) \<Rightarrow>
             if \<not> 0 < quantity then Inl (ErrText ''invalid arbitrage order aggregate'')
             else if \<not> 0 < price then
               (if strictAverageCoverage then Inr (replay\<lparr>ar_coverageComplete := False\<rparr>)
                else Inl (ErrText ''invalid arbitrage order aggregate''))
             else Inr (replay\<lparr>
               ar_fills := ar_fills replay @ [\<lparr>mf_orderID = rowID, mf_leg = leg, mf_side = side,
                 mf_quantity = quantity, mf_price = price, mf_at = rowTime\<rparr>],
               ar_orderRowCount := ar_orderRowCount replay + 1,
               ar_fillRowCount := ar_fillRowCount replay + 1,
               ar_grossTurnover := ar_grossTurnover replay + quantity * price\<rparr>)
         | _ \<Rightarrow> Inl (ErrText ''invalid arbitrage order aggregate'')))"

fun load_replay_rows ::
  "decimal_lib \<Rightarrow> bool \<Rightarrow> replay_row list \<Rightarrow> arbitrageReplay \<Rightarrow> arbitrageReplay go_result" where
  "load_replay_rows L strict [] replay = Inr replay"
| "load_replay_rows L strict (row # rows) replay =
     (case load_replay_row L strict row replay of
        Inl e \<Rightarrow> Inl e | Inr replay' \<Rightarrow> load_replay_rows L strict rows replay')"

definition fill_order :: "arbitrageMetricFill \<Rightarrow> time \<times> string" where
  "fill_order fill = (mf_at fill, mf_orderID fill)"

definition loadArbitrageReplay ::
  "decimal_lib \<Rightarrow> bool \<Rightarrow> replay_row list \<Rightarrow> arbitrageReplay go_result" where
  "loadArbitrageReplay L strict rows =
     (case load_replay_rows L strict rows
             \<lparr>ar_fills = [], ar_grossTurnover = 0, ar_coverageComplete = True,
              ar_orderRowCount = 0, ar_fillRowCount = 0\<rparr> of
        Inl e \<Rightarrow> Inl e
      | Inr replay \<Rightarrow> Inr (replay\<lparr>ar_fills := sort_key fill_order (ar_fills replay)\<rparr>))"

section \<open>Fees, close value and annualised return\<close>

definition annualSeconds :: decimal where "annualSeconds = 365 * 24 * 60 * 60"

text \<open>\<open>hourSecs\<close> is \<^verbatim>\<open>decimal.NewFromFloat(hours*3600)\<close>.\<close>

definition calculateCombinedAnnualized ::
  "decimal_lib \<Rightarrow> (decimal \<Rightarrow> decimal) \<Rightarrow> decimal \<Rightarrow> decimal \<Rightarrow> decimal \<Rightarrow> decimal \<Rightarrow> decimal option" where
  "calculateCombinedAnnualized L hourSecs profit exposure holding thresholdHours =
     (if \<not> 0 < holding \<or> \<not> 0 < exposure then None
      else let effectiveSeconds = max holding (hourSecs thresholdHours);
               denominator = Div L exposure holding * effectiveSeconds
           in if \<not> 0 < denominator then None
              else Some (Div L (profit * annualSeconds) denominator))"

definition tradingFeeCostRate :: "string \<Rightarrow> decimal \<Rightarrow> decimal" where
  "tradingFeeCostRate exchange storedRate =
     (if EqualFold (TrimSpace exchange) ''okx'' then - storedRate else storedRate)"

record accountFeeSnapshot =
  afs_exchange :: string
  afs_spotMaker :: "string option"
  afs_spotTaker :: "string option"
  afs_contractMaker :: "string option"
  afs_contractTaker :: "string option"

definition accountFeeRate :: "decimal_lib \<Rightarrow> accountFeeSnapshot \<Rightarrow> string \<Rightarrow> string \<Rightarrow> decimal option" where
  "accountFeeRate L snapshot role contractType =
     (let maker = EqualFold (TrimSpace role) ''maker'';
          spot = EqualFold (TrimSpace contractType) ''spot'';
          raw = (if spot \<and> maker then afs_spotMaker snapshot
                 else if spot \<and> \<not> maker then afs_spotTaker snapshot
                 else if \<not> spot \<and> maker then afs_contractMaker snapshot
                 else afs_contractTaker snapshot)
      in case raw of
           None \<Rightarrow> None
         | Some r \<Rightarrow> if TrimSpace r = [] then None else NewFromString L (TrimSpace r))"

record terminalFilledOrder =
  tfo_accountID :: int
  tfo_exchange :: string
  tfo_contractType :: string
  tfo_role :: string
  tfo_quantity :: decimal
  tfo_price :: decimal

fun estimate_fees_loop ::
  "decimal_lib \<Rightarrow> terminalFilledOrder list \<Rightarrow> (int \<rightharpoonup> accountFeeSnapshot) \<Rightarrow> decimal \<Rightarrow> decimal option" where
  "estimate_fees_loop L [] accounts acc = Some acc"
| "estimate_fees_loop L (order # orders) accounts acc =
     (case accounts (tfo_accountID order) of
        None \<Rightarrow> None
      | Some snapshot \<Rightarrow>
          (case accountFeeRate L snapshot (tfo_role order) (tfo_contractType order) of
             None \<Rightarrow> None
           | Some stored \<Rightarrow>
               let notional = \<bar>tfo_quantity order * tfo_price order\<bar> in
               estimate_fees_loop L orders accounts
                 (acc + notional * tradingFeeCostRate (tfo_exchange order) stored)))"

definition estimateTradingFees ::
  "decimal_lib \<Rightarrow> terminalFilledOrder list \<Rightarrow> (int \<rightharpoonup> accountFeeSnapshot) \<Rightarrow> decimal option" where
  "estimateTradingFees L orders accounts = estimate_fees_loop L orders accounts 0"

definition closeFeeRole :: "string \<Rightarrow> string \<Rightarrow> string \<Rightarrow> string" where
  "closeFeeRole executionMode makerLeg thisLeg =
     (if EqualFold (TrimSpace executionMode) ''simultaneous_market'' then ''taker''
      else if EqualFold (TrimSpace thisLeg) (TrimSpace makerLeg) then ''maker''
      else ''taker'')"

definition closeFeeCostRate ::
  "decimal_lib \<Rightarrow> ArbitrageLeg \<Rightarrow> string \<Rightarrow> string \<Rightarrow> string \<Rightarrow> (int \<rightharpoonup> accountFeeSnapshot) \<Rightarrow>
   decimal option" where
  "closeFeeCostRate L leg executionMode makerLeg thisLeg accounts =
     (case accounts (leg_TradingAccountID leg) of
        None \<Rightarrow> None
      | Some snapshot \<Rightarrow>
          (case accountFeeRate L snapshot (closeFeeRole executionMode makerLeg thisLeg)
                  (leg_ContractType leg) of
             None \<Rightarrow> None
           | Some stored \<Rightarrow> Some (tradingFeeCostRate (leg_Exchange leg) stored)))"

definition executableClosePrice :: "decimal \<Rightarrow> decimal \<Rightarrow> decimal \<Rightarrow> decimal option" where
  "executableClosePrice qty bid ask =
     (if qty = 0 then Some 0
      else if 0 < qty then (if \<not> 0 < bid then None else Some bid)
      else if \<not> 0 < ask then None else Some ask)"

record arbitrageMetricsQuotes =
  mq_MidA :: string
  mq_MidB :: string
  mq_BidA :: string
  mq_AskA :: string
  mq_BidB :: string
  mq_AskB :: string
  mq_ReceivedA :: "time"
  mq_ReceivedB :: "time"

text \<open>One leg of the inventory: its profit if closed now, and the fee of doing so.\<close>

definition close_leg ::
  "decimal_lib \<Rightarrow> arbitrageLegCost \<Rightarrow> decimal \<Rightarrow> decimal \<Rightarrow> string \<Rightarrow> ArbitrageLeg \<Rightarrow>
   (int \<rightharpoonup> accountFeeSnapshot) \<Rightarrow> ArbitrageCombination \<Rightarrow> decimal \<times> decimal \<Rightarrow> (decimal \<times> decimal) option" where
  "close_leg L cost bid ask thisLeg leg accounts combo acc =
     (case acc of (pnl, fee) \<Rightarrow>
        if lc_position cost = 0 then Some (pnl, fee)
        else if \<not> 0 < lc_average cost then None
        else (case executableClosePrice (lc_position cost) bid ask of
                None \<Rightarrow> None
              | Some px \<Rightarrow>
                  if \<not> 0 < px then None
                  else (case closeFeeCostRate L leg (ac_ExecutionMode combo) (ac_MakerLeg combo)
                               thisLeg accounts of
                          None \<Rightarrow> None
                        | Some rate \<Rightarrow> Some (pnl + lc_position cost * (px - lc_average cost),
                                            fee + \<bar>lc_position cost\<bar> * px * rate))))"

definition executableInventoryClosePnL ::
  "decimal_lib \<Rightarrow> arbitrageLegCost \<Rightarrow> arbitrageLegCost \<Rightarrow> arbitrageMetricsQuotes \<Rightarrow>
   (int \<rightharpoonup> accountFeeSnapshot) \<Rightarrow> ArbitrageCombination \<Rightarrow> (decimal \<times> decimal) option" where
  "executableInventoryClosePnL L legA legB quotes accounts combo =
     (case (NewFromString L (mq_BidA quotes), NewFromString L (mq_AskA quotes),
            NewFromString L (mq_BidB quotes), NewFromString L (mq_AskB quotes)) of
        (Some bidA, Some askA, Some bidB, Some askB) \<Rightarrow>
          Option.bind (close_leg L legA bidA askA ''a'' (ac_LegA combo) accounts combo (0, 0))
            (close_leg L legB bidB askB ''b'' (ac_LegB combo) accounts combo)
      | _ \<Rightarrow> None)"

section \<open>Funding\<close>

text \<open>A settled funding event: leg, time and rate text; one that cannot be read is an error.\<close>

fun funding_loop ::
  "decimal_lib \<Rightarrow> arbitrageMetricFill list \<Rightarrow> (string \<times> time \<times> string) list \<Rightarrow> decimal \<Rightarrow> decimal \<Rightarrow>
   decimal \<Rightarrow> decimal go_result" where
  "funding_loop L fills [] venueA0 venueB0 acc = Inr acc"
| "funding_loop L fills ((leg, eventAt, rateRaw) # events) venueA0 venueB0 acc =
     (case NewFromString L rateRaw of
        None \<Rightarrow> Inl (ErrText ''invalid funding rate'')
      | Some rate \<Rightarrow>
          (case replayArbitrageCosts L fills eventAt venueA0 venueB0 of
             (legA, legB) \<Rightarrow>
               let state = (if leg = ''b'' then legB else legA) in
               funding_loop L fills events venueA0 venueB0
                 (if lc_position state \<noteq> 0 \<and> 0 < lc_average state
                  then acc + - (lc_position state * lc_average state * rate) else acc)))"

definition loadArbitrageFundingPnL ::
  "decimal_lib \<Rightarrow> arbitrageReplay \<Rightarrow> (string \<times> time \<times> string) list \<Rightarrow> decimal \<Rightarrow> decimal \<Rightarrow> decimal go_result" where
  "loadArbitrageFundingPnL L replay events venueA0 venueB0 =
     funding_loop L (ar_fills replay) events venueA0 venueB0 0"

section \<open>Write plan\<close>

record arbitragePositionMetricsWritePlan =
  wp_fillOK :: bool
  wp_writeAnnualized :: bool
  wp_quality :: string
  wp_fundingHistoryComplete :: bool

definition planArbitragePositionMetricsWrite ::
  "arbitrageReplay \<Rightarrow> bool \<Rightarrow> bool \<Rightarrow> arbitragePositionMetricsWritePlan" where
  "planArbitragePositionMetricsWrite replay feesComplete fundingComplete =
     (let fillOK = ar_coverageComplete replay;
          writeAnnualized = (feesComplete \<and> fundingComplete \<and> fillOK)
      in \<lparr>wp_fillOK = fillOK, wp_writeAnnualized = writeAnnualized,
          wp_quality = (if writeAnnualized
                        then (if ar_coverageComplete replay then ''complete'' else ''estimated'')
                        else ''partial''),
          wp_fundingHistoryComplete = fundingComplete\<rparr>)"

datatype MetricsApplyReason = MetricsApplied | MetricsActiveWork | MetricsVersionConflict
  | MetricsNotReady | MetricsInactive | MetricsAlreadyCurrent

definition metricsApplyMissReason ::
  "string \<Rightarrow> string \<Rightarrow> string \<Rightarrow> time option \<Rightarrow> time \<Rightarrow> bool \<Rightarrow> bool \<Rightarrow> MetricsApplyReason" where
  "metricsApplyMissReason status runMode oneShotPhase calculatedAt now hasActiveExecution hasActiveFilledOrder =
     (if \<not> EqualFold status ''running'' then MetricsInactive
      else if EqualFold runMode ''one_shot'' \<and>
              oneShotPhase \<noteq> ''building_target'' \<and> oneShotPhase \<noteq> ''waiting_exit'' then MetricsInactive
      else if hasActiveExecution \<or> hasActiveFilledOrder then MetricsActiveWork
      else (case calculatedAt of
              Some t \<Rightarrow> if \<not> t < now then MetricsAlreadyCurrent else MetricsNotReady
            | None \<Rightarrow> MetricsNotReady))"

definition combinationHasZeroFillsAndFlat ::
  "decimal_lib \<Rightarrow> ArbitrageCombination \<Rightarrow> arbitrageReplay \<Rightarrow> bool" where
  "combinationHasZeroFillsAndFlat L combo replay \<longleftrightarrow>
     ar_fills replay = [] \<and> ar_orderRowCount replay = 0 \<and>
     parseDecimal L (ac_LegABasePosition combo) = 0 \<and> parseDecimal L (ac_LegBBasePosition combo) = 0"

text \<open>What the final metrics require of the locked combination; \<open>liveWork\<close> is the answer of the query
  for open executions and orders.\<close>

definition final_metrics_gate ::
  "decimal_lib \<Rightarrow> ArbitrageCombination \<Rightarrow> int \<Rightarrow> bool \<Rightarrow> unit go_result" where
  "final_metrics_gate L combo expectedVersion liveWork =
     (if ac_Version combo \<noteq> expectedVersion then Inl ErrArbitrageConflict
      else if ac_PositionUncertain combo \<or> ac_RuntimeState combo = ''manual_intervention''
      then Inl ErrArbitrageConflict
      else let flat = (parseDecimal L (ac_LegABasePosition combo) = 0 \<and>
                       parseDecimal L (ac_LegBBasePosition combo) = 0 \<and>
                       parseDecimal L (ac_CarryBaseQuantity combo) = 0);
               taskOpen = (ac_FinalMetricsStatus combo = ''pending'' \<or>
                           ac_FinalMetricsStatus combo = ''partial'');
               closed = (EqualFold (ac_Status combo) ''closed'' \<and> flat \<and> taskOpen);
               exited = (EqualFold (ac_Status combo) ''running'' \<and> EqualFold (ac_RunMode combo) ''one_shot'' \<and>
                         ac_OneShotPhase combo = ''exited'' \<and> flat \<and> taskOpen)
           in if \<not> closed \<and> \<not> exited then Inl ErrArbitrageConflict
              else if liveWork then Inl ErrFinalMetricsNotReady
              else Inr ())"

definition lastReplayFillAt :: "arbitrageReplay \<Rightarrow> time" where
  "lastReplayFillAt replay =
     fold (\<lambda>fill last. if IsZero last \<or> mf_at fill > last then mf_at fill else last)
       (ar_fills replay) zero_time"

section \<open>The accounting conserves cash\<close>

text \<open>What a leg has received: the realised profit less the cost of the open position. Every fill
  changes it by the cash the fill pays.\<close>

definition cash_value :: "arbitrageLegCost \<Rightarrow> decimal" where
  "cash_value s = lc_realized s - lc_position s * lc_average s"

definition fill_cash :: "arbitrageMetricFill \<Rightarrow> decimal" where
  "fill_cash fill = - (signed_quantity fill * mf_price fill)"

lemma apply_position [simp]:
  "lc_position (applyArbitrageFill L s f) = lc_position s + signed_quantity f"
  by (auto simp: applyArbitrageFill_def Let_def)

lemma fold_apply_position:
  "lc_position (fold (\<lambda>f s. applyArbitrageFill L s f) fills s) =
     lc_position s + sum_list (map signed_quantity fills)"
  by (induction fills arbitrary: s) auto

lemma Sign_mult_abs: "of_int (Sign x) * \<bar>x\<bar> = x"
  by (simp add: Sign_def)

lemma rearrange_average: "t \<noteq> 0 \<Longrightarrow> - (c * t * d) + c * v = c * t * (v / t - d)" for t :: decimal
  by (simp add: right_diff_distrib)

lemma close_cash:
  assumes "lc_position s \<noteq> 0" "Sign (lc_position s) \<noteq> Sign (signed_quantity f)"
  shows "cash_value (applyArbitrageFill L s f) = cash_value s + fill_cash f"
proof -
  let ?p = "lc_position s" and ?q = "signed_quantity f"
  consider "?q = - ?p" | "?p < 0" "0 \<le> ?q" "?p + ?q \<noteq> 0" | "0 < ?p" "?q \<le> 0" "?p + ?q \<noteq> 0"
    using assms by (fastforce simp: Sign_def split: if_splits)
  then show ?thesis
    by cases (use assms in \<open>auto simp: applyArbitrageFill_def cash_value_def fill_cash_def Sign_def
        Let_def min_def algebra_simps split: if_splits\<close>)
qed

context decimal_library
begin

lemma apply_cash:
  "\<bar>cash_value (applyArbitrageFill L s f) - (cash_value s + fill_cash f)\<bar>
     \<le> \<bar>lc_position s + signed_quantity f\<bar> * div_unit / 2"
proof -
  let ?p = "lc_position s" and ?q = "signed_quantity f" and ?a = "lc_average s" and ?x = "mf_price f"
  consider (start) "?p = 0" | (add) "?p \<noteq> 0" "Sign ?p = Sign ?q" | (close) "?p \<noteq> 0" "Sign ?p \<noteq> Sign ?q"
    by blast
  then show ?thesis
  proof cases
    case start
    then show ?thesis
      using div_unit_pos by (simp add: applyArbitrageFill_def cash_value_def fill_cash_def)
  next
    case add
    let ?t = "\<bar>?p\<bar> + \<bar>?q\<bar>" and ?v = "?a * \<bar>?p\<bar> + ?x * \<bar>?q\<bar>"
    have t: "0 < ?t" using add(1) by (simp add: add_pos_nonneg)
    have sum: "?p + ?q = of_int (Sign ?p) * ?t" "?p * ?a + ?q * ?x = of_int (Sign ?p) * ?v"
      using Sign_mult_abs [of ?p] Sign_mult_abs [of ?q] add(2) by (simp_all add: algebra_simps)
    have "cash_value (applyArbitrageFill L s f) - (cash_value s + fill_cash f) =
        - ((?p + ?q) * Div L ?v ?t) + (?p * ?a + ?q * ?x)"
      using add by (simp add: applyArbitrageFill_def cash_value_def fill_cash_def Let_def)
    also have "\<dots> = of_int (Sign ?p) * ?t * (?v / ?t - Div L ?v ?t)"
      unfolding sum by (rule rearrange_average) (use t in simp)
    finally have "\<bar>cash_value (applyArbitrageFill L s f) - (cash_value s + fill_cash f)\<bar> =
        \<bar>?p + ?q\<bar> * \<bar>Div L ?v ?t - ?v / ?t\<bar>"
      using sum(1) by (simp add: abs_mult abs_minus_commute)
    also have "\<dots> \<le> \<bar>?p + ?q\<bar> * (div_unit / 2)"
      using Div_close [of ?t ?v] t by (intro mult_left_mono) auto
    finally show ?thesis by simp
  next
    case close
    then show ?thesis using close_cash [of s f L] div_unit_pos by simp
  qed
qed

text \<open>Over a list of fills the error is that of the positions held in between.\<close>

lemma fold_apply_cash:
  assumes "\<bar>lc_position s\<bar> + sum_list (map (\<lambda>f. \<bar>signed_quantity f\<bar>) fills) \<le> bound"
  shows "\<bar>cash_value (fold (\<lambda>f s. applyArbitrageFill L s f) fills s) -
            (cash_value s + sum_list (map fill_cash fills))\<bar>
         \<le> of_nat (length fills) * (bound * div_unit / 2)"
  using assms
proof (induction fills arbitrary: s)
  case (Cons f fills)
  let ?s = "applyArbitrageFill L s f"
  have bound: "\<bar>lc_position ?s\<bar> + sum_list (map (\<lambda>f. \<bar>signed_quantity f\<bar>) fills) \<le> bound"
    using Cons.prems by (simp add: abs_triangle_ineq order_trans [OF add_right_mono])
  have nonneg: "0 \<le> sum_list (map (\<lambda>f. \<bar>signed_quantity f\<bar>) fills)"
    by (intro sum_list_nonneg) auto
  have "\<bar>lc_position s + signed_quantity f\<bar> * div_unit / 2 \<le> bound * div_unit / 2"
    using bound nonneg div_unit_pos by (simp add: divide_right_mono mult_right_mono)
  then have "\<bar>cash_value ?s - (cash_value s + fill_cash f)\<bar> \<le> bound * div_unit / 2"
    using apply_cash [of s f] by linarith
  moreover have "of_nat (length (f # fills)) * (bound * div_unit / 2) =
      of_nat (length fills) * (bound * div_unit / 2) + bound * div_unit / 2"
    by (simp add: distrib_right)
  moreover have "fold (\<lambda>f s. applyArbitrageFill L s f) (f # fills) s =
      fold (\<lambda>f s. applyArbitrageFill L s f) fills ?s"
    and "sum_list (map fill_cash (f # fills)) = fill_cash f + sum_list (map fill_cash fills)"
    by simp_all
  ultimately show ?case
    using Cons.IH [OF bound] by (simp only:)
qed simp

end

section \<open>Attribution never claims more than the venue position\<close>

definition owned_within_venue :: "decimal \<Rightarrow> arbitrageLegCost \<Rightarrow> decimal \<Rightarrow> bool" where
  "owned_within_venue askSign leg venue \<longleftrightarrow>
     0 \<le> lc_position leg * askSign \<and> lc_position leg * askSign \<le> max 0 (venue * askSign)"

lemma attributed_quantity_0 [simp]: "attributed_quantity 0 v owned = 0"
  by (simp add: attributed_quantity_def)

lemma attributed_position:
  assumes "applyAttributedArbitrageFill L leg venue fill askSign = (leg', venue')"
    and "askSign = 1 \<or> askSign = - 1" and "0 \<le> mf_quantity fill"
  shows "venue' = venue + signed_quantity fill"
    "lc_position leg' * askSign = lc_position leg * askSign +
       (if signed_quantity fill * askSign < 0 then - 1 else 1) *
       max 0 (attributed_quantity (signed_quantity fill * askSign) (venue * askSign) (lc_position leg * askSign))"
  using assms
  by (auto simp: applyAttributedArbitrageFill_def Let_def signed_quantity_def split: if_splits)

lemma attributed_bounds:
  fixes q :: decimal
  assumes "0 \<le> owned" "owned \<le> max 0 v"
  defines "after \<equiv> owned + (if q < 0 then - 1 else 1) * max 0 (attributed_quantity q v owned)"
  shows "0 \<le> after \<and> after \<le> max 0 (v + q)"
proof (cases "0 < q")
  case True
  then have "after = owned + (q - min q (max (- v) 0))"
    by (simp add: after_def attributed_quantity_def)
  with True assms show ?thesis by linarith
next
  case False
  then have "after = owned - min \<bar>q\<bar> owned"
    using assms(1) by (auto simp: after_def attributed_quantity_def)
  with False assms show ?thesis by linarith
qed

lemma attribution_step:
  assumes "applyAttributedArbitrageFill L leg venue fill askSign = (leg', venue')"
    and "askSign = 1 \<or> askSign = - 1" and "0 \<le> mf_quantity fill"
    and "owned_within_venue askSign leg venue"
  shows "owned_within_venue askSign leg' venue'"
proof -
  let ?q = "signed_quantity fill * askSign" and ?v = "venue * askSign" and ?o = "lc_position leg * askSign"
  have v: "venue' * askSign = ?v + ?q" using attributed_position(1) [OF assms(1-3)] by (simp add: distrib_right)
  note o = attributed_position(2) [OF assms(1-3)]
  have inv: "0 \<le> ?o" "?o \<le> max 0 ?v" using assms(4) by (auto simp: owned_within_venue_def)
  show ?thesis
    unfolding owned_within_venue_def v o using attributed_bounds [OF inv, of ?q] by simp
qed

lemma replay_loop_attribution:
  assumes "\<forall>fill \<in> set fills. 0 \<le> mf_quantity fill"
    and "owned_within_venue 1 (rs_legA r) (rs_venueA r)" "owned_within_venue (- 1) (rs_legB r) (rs_venueB r)"
  shows "owned_within_venue 1 (rs_legA (replay_costs_loop L fills until r))
           (rs_venueA (replay_costs_loop L fills until r)) \<and>
         owned_within_venue (- 1) (rs_legB (replay_costs_loop L fills until r))
           (rs_venueB (replay_costs_loop L fills until r))"
  using assms
proof (induction fills arbitrary: r)
  case (Cons fill fills)
  have q: "0 \<le> mf_quantity fill" using Cons.prems(1) by simp
  have a: "owned_within_venue 1 (rs_legA (replay_leg_a L fill r)) (rs_venueA (replay_leg_a L fill r))"
    using attribution_step [OF _ _ q Cons.prems(2)] by (auto simp: replay_leg_a_def split: prod.splits)
  have b: "owned_within_venue (- 1) (rs_legB (replay_leg_b L fill r)) (rs_venueB (replay_leg_b L fill r))"
    using attribution_step [OF _ _ q Cons.prems(3)] by (auto simp: replay_leg_b_def split: prod.splits)
  have "rs_legB (replay_leg_a L fill r) = rs_legB r" "rs_venueB (replay_leg_a L fill r) = rs_venueB r"
    "rs_legA (replay_leg_b L fill r) = rs_legA r" "rs_venueA (replay_leg_b L fill r) = rs_venueA r"
    by (simp_all add: replay_leg_a_def replay_leg_b_def split: prod.splits)
  with a b Cons.prems Cons.IH show ?case by simp
qed simp

text \<open>The fills a replay until some time processes, and the venue position they lead to.\<close>

definition fills_until :: "time \<Rightarrow> arbitrageMetricFill list \<Rightarrow> arbitrageMetricFill list" where
  "fills_until until fills = takeWhile (\<lambda>fill. IsZero until \<or> mf_at fill \<le> until) fills"

definition venue_after :: "decimal \<Rightarrow> string \<Rightarrow> arbitrageMetricFill list \<Rightarrow> decimal" where
  "venue_after venue leg fills =
     venue + sum_list (map signed_quantity (filter (\<lambda>fill. mf_leg fill = leg) fills))"

lemma replay_leg_venue [simp]:
  "rs_venueA (replay_leg_a L fill r) = rs_venueA r + signed_quantity fill"
  "rs_venueB (replay_leg_b L fill r) = rs_venueB r + signed_quantity fill"
  "rs_venueB (replay_leg_a L fill r) = rs_venueB r" "rs_venueA (replay_leg_b L fill r) = rs_venueA r"
  by (simp_all add: replay_leg_a_def replay_leg_b_def applyAttributedArbitrageFill_def Let_def)

lemma replay_loop_venue:
  "rs_venueA (replay_costs_loop L fills until r) = venue_after (rs_venueA r) ''a'' (fills_until until fills)"
  "rs_venueB (replay_costs_loop L fills until r) = venue_after (rs_venueB r) ''b'' (fills_until until fills)"
  by (induction fills arbitrary: r) (auto simp: venue_after_def fills_until_def)

lemma replay_costs_attribution:
  assumes "\<forall>fill \<in> set fills. 0 \<le> mf_quantity fill"
    and "replayArbitrageCosts L fills until venueA0 venueB0 = (legA, legB)"
  shows "0 \<le> lc_position legA" "lc_position legA \<le> max 0 (venue_after venueA0 ''a'' (fills_until until fills))"
    "lc_position legB \<le> 0" "- lc_position legB \<le> max 0 (- venue_after venueB0 ''b'' (fills_until until fills))"
proof -
  let ?r = "replay_costs_loop L fills until (replay_start venueA0 venueB0)"
  have start: "owned_within_venue 1 (rs_legA (replay_start venueA0 venueB0)) (rs_venueA (replay_start venueA0 venueB0))"
    "owned_within_venue (- 1) (rs_legB (replay_start venueA0 venueB0)) (rs_venueB (replay_start venueA0 venueB0))"
    by (simp_all add: owned_within_venue_def replay_start_def zero_LegCost_def)
  have "owned_within_venue 1 legA (venue_after venueA0 ''a'' (fills_until until fills))"
    "owned_within_venue (- 1) legB (venue_after venueB0 ''b'' (fills_until until fills))"
    using replay_loop_attribution [OF assms(1) start, of L until] assms(2)
    by (simp_all add: replayArbitrageCosts_def replay_loop_venue Let_def replay_start_def)
  then show "0 \<le> lc_position legA" "lc_position legA \<le> max 0 (venue_after venueA0 ''a'' (fills_until until fills))"
    "lc_position legB \<le> 0" "- lc_position legB \<le> max 0 (- venue_after venueB0 ''b'' (fills_until until fills))"
    by (simp_all add: owned_within_venue_def)
qed

section \<open>Loading\<close>

definition fill_value :: "arbitrageMetricFill \<Rightarrow> decimal" where
  "fill_value fill = mf_quantity fill * mf_price fill"

definition replay_ok :: "arbitrageReplay \<Rightarrow> bool" where
  "replay_ok replay \<longleftrightarrow>
     (\<forall>fill \<in> set (ar_fills replay). 0 < mf_quantity fill \<and> 0 < mf_price fill) \<and>
     ar_grossTurnover replay = sum_list (map fill_value (ar_fills replay)) \<and>
     ar_orderRowCount replay = int (length (ar_fills replay)) \<and>
     ar_fillRowCount replay = int (length (ar_fills replay))"

lemma load_replay_row_ok:
  "load_replay_row L strict row replay = Inr replay' \<Longrightarrow> replay_ok replay \<Longrightarrow> replay_ok replay'"
  by (cases row) (auto simp: load_replay_row_def replay_ok_def fill_value_def split: option.splits if_splits)

lemma load_replay_rows_ok:
  "load_replay_rows L strict rows replay = Inr replay' \<Longrightarrow> replay_ok replay \<Longrightarrow> replay_ok replay'"
  by (induction L strict rows replay rule: load_replay_rows.induct)
    (auto split: sum.splits dest: load_replay_row_ok)

lemma sum_list_sort_key:
  fixes g :: "'a \<Rightarrow> decimal"
  shows "sum_list (map g (sort_key f xs)) = sum_list (map g xs)"
  by (metis mset_map mset_sort sum_mset_sum_list)

lemma loadArbitrageReplay_ok:
  assumes "loadArbitrageReplay L strict rows = Inr replay"
  shows "replay_ok replay" "sorted (map fill_order (ar_fills replay))"
proof -
  let ?empty = "\<lparr>ar_fills = [], ar_grossTurnover = 0, ar_coverageComplete = True,
     ar_orderRowCount = 0, ar_fillRowCount = 0\<rparr>"
  obtain r where r: "load_replay_rows L strict rows ?empty = Inr r"
    and replay: "replay = r\<lparr>ar_fills := sort_key fill_order (ar_fills r)\<rparr>"
    using assms by (auto simp: loadArbitrageReplay_def split: sum.splits)
  have "replay_ok r" using load_replay_rows_ok [OF r] by (simp add: replay_ok_def)
  then show "replay_ok replay" by (simp add: replay replay_ok_def sum_list_sort_key)
  show "sorted (map fill_order (ar_fills replay))" by (simp add: replay)
qed

section \<open>Properties\<close>

text \<open>C19: the average cost accounting conserves cash. After any fills the realised profit less the
  cost of the open position is what the fills paid, up to half a unit of the 16-digit division for
  each fill and each unit of quantity traded; in particular the realised profit of a position that
  is flat again is the cash that its fills paid.\<close>

theorem fills_conserve_cash:
  assumes "decimal_library L"
  shows "\<bar>cash_value (fold (\<lambda>f s. applyArbitrageFill L s f) fills zero_LegCost) -
            sum_list (map fill_cash fills)\<bar>
         \<le> of_nat (length fills) * (sum_list (map (\<lambda>f. \<bar>signed_quantity f\<bar>) fills) * div_unit / 2)"
  using decimal_library.fold_apply_cash [OF assms, of zero_LegCost fills]
  by (simp add: zero_LegCost_def cash_value_def)

definition sample_fill :: "string \<Rightarrow> decimal \<Rightarrow> decimal \<Rightarrow> arbitrageMetricFill" where
  "sample_fill side quantity price =
     \<lparr>mf_orderID = ''1'', mf_leg = ''a'', mf_side = side, mf_quantity = quantity, mf_price = price, mf_at = 1\<rparr>"

theorem fills_conserve_cash_witness:
  "\<bar>cash_value (fold (\<lambda>f s. applyArbitrageFill std_lib s f)
       [sample_fill ''buy'' 1 100, sample_fill ''buy'' 2 130, sample_fill ''sell'' 4 125] zero_LegCost) - 140\<bar>
     \<le> 3 * (7 * div_unit / 2) \<and>
   lc_realized (fold (\<lambda>f s. applyArbitrageFill std_lib s f)
       [sample_fill ''buy'' 1 100, sample_fill ''buy'' 2 130, sample_fill ''sell'' 4 125] zero_LegCost) = 15"
proof
  show "\<bar>cash_value (fold (\<lambda>f s. applyArbitrageFill std_lib s f)
       [sample_fill ''buy'' 1 100, sample_fill ''buy'' 2 130, sample_fill ''sell'' 4 125] zero_LegCost) - 140\<bar>
     \<le> 3 * (7 * div_unit / 2)"
    using fills_conserve_cash [OF std.decimal_library_axioms,
        of "[sample_fill ''buy'' 1 100, sample_fill ''buy'' 2 130, sample_fill ''sell'' 4 125]"]
    by (simp add: sample_fill_def signed_quantity_def fill_cash_def)
qed code_simp

text \<open>C11: the fills loaded for a combination are sorted by time and order id, have positive quantity
  and price and add up to the gross turnover. Replaying them up to any time from any position of
  the account leaves the combination long on leg A and short on leg B, or flat, and never with more
  than the account holds on that leg.\<close>

theorem replay_owns_within_venue:
  assumes "loadArbitrageReplay L strict rows = Inr replay"
    and "replayArbitrageCosts L (ar_fills replay) until venueA0 venueB0 = (legA, legB)"
  shows "sorted (map fill_order (ar_fills replay)) \<and>
     ar_grossTurnover replay = sum_list (map fill_value (ar_fills replay)) \<and>
     0 \<le> lc_position legA \<and>
     lc_position legA \<le> max 0 (venue_after venueA0 ''a'' (fills_until until (ar_fills replay))) \<and>
     lc_position legB \<le> 0 \<and>
     - lc_position legB \<le> max 0 (- venue_after venueB0 ''b'' (fills_until until (ar_fills replay)))"
proof -
  have "\<forall>fill \<in> set (ar_fills replay). 0 \<le> mf_quantity fill"
    using loadArbitrageReplay_ok(1) [OF assms(1)] by (auto simp: replay_ok_def)
  from replay_costs_attribution [OF this assms(2)] loadArbitrageReplay_ok [OF assms(1)]
  show ?thesis by (simp add: replay_ok_def)
qed

definition sample_rows :: "replay_row list" where
  "sample_rows = [(''2'', ''a'', ''sell'', ''1'', ''120'', 20), (''1'', ''a'', ''buy'', ''5'', ''100'', 10)]"

definition sample_replay :: arbitrageReplay where
  "sample_replay = \<lparr>ar_fills =
     [\<lparr>mf_orderID = ''1'', mf_leg = ''a'', mf_side = ''buy'', mf_quantity = 5, mf_price = 100, mf_at = 10\<rparr>,
      \<lparr>mf_orderID = ''2'', mf_leg = ''a'', mf_side = ''sell'', mf_quantity = 1, mf_price = 120, mf_at = 20\<rparr>],
     ar_grossTurnover = 620, ar_coverageComplete = True, ar_orderRowCount = 2, ar_fillRowCount = 2\<rparr>"

theorem replay_owns_within_venue_witness:
  "loadArbitrageReplay std_lib True sample_rows = Inr sample_replay \<and>
   lc_position (fst (replayArbitrageCosts std_lib (ar_fills sample_replay) zero_time (- 3) 0)) = 1 \<and>
   lc_position (fst (replayArbitrageCosts std_lib (ar_fills sample_replay) zero_time (- 3) 0))
     \<le> max 0 (venue_after (- 3) ''a'' (fills_until zero_time (ar_fills sample_replay)))"
proof -
  have load: "loadArbitrageReplay std_lib True sample_rows = Inr sample_replay" by code_simp
  have "lc_position (fst (replayArbitrageCosts std_lib (ar_fills sample_replay) zero_time (- 3) 0)) = 1"
    by code_simp
  with replay_owns_within_venue [OF load, of zero_time "- 3" 0] load show ?thesis
    by (cases "replayArbitrageCosts std_lib (ar_fills sample_replay) zero_time (- 3) 0") auto
qed

end
