(* ===== verification/One_Shot.thy ===== *)
theory One_Shot
  imports Cost_Replay
begin

text \<open>
  One-shot combinations: when the annualised return of closing justifies an exit
  (\<^verbatim>\<open>trader/arbitrage_one_shot_exit.go\<close>) and when what is left over counts as dust
  (\<^verbatim>\<open>trader/arbitrage_one_shot_dust.go\<close>). The parameters \<open>secs\<close> and \<open>hourSecs\<close> are those of
  \<^verbatim>\<open>Cost_Replay\<close>; \<open>clock\<close> is the reading of the clock that replaces a zero time.
\<close>

section \<open>Exit basis\<close>

definition oneShotExitSampleInterval :: duration where "oneShotExitSampleInterval = Second"
definition oneShotExitWindowSize :: nat where "oneShotExitWindowSize = 30"
definition oneShotExitMinHits :: nat where "oneShotExitMinHits = 18"
definition oneShotExitBBOStale :: duration where "oneShotExitBBOStale = 2 * Second"
definition oneShotExitBasisMaxAge :: duration where "oneShotExitBasisMaxAge = 15 * Minute"

record oneShotExitBasis =
  eb_CombinationID :: string
  eb_Version :: int
  eb_ExitAnnualizedRate :: decimal
  eb_OwnedA :: decimal
  eb_OwnedB :: decimal
  eb_AvgA :: decimal
  eb_AvgB :: decimal
  eb_ComboA :: decimal
  eb_ComboB :: decimal
  eb_BaselineA :: decimal
  eb_BaselineB :: decimal
  eb_BaselineCapturedAt :: "time"
  eb_VenueA :: decimal
  eb_VenueB :: decimal
  eb_DifferenceA :: decimal
  eb_DifferenceB :: decimal
  eb_Realized :: decimal
  eb_Funding :: decimal
  eb_IncurredFee :: decimal
  eb_Exposure :: decimal
  eb_Holding :: decimal
  eb_ExposureUpdatedAt :: "time"
  eb_ThresholdHours :: decimal
  eb_CloseFeeRateA :: decimal
  eb_CloseFeeRateB :: decimal
  eb_ExecutionMode :: string
  eb_MakerLeg :: string
  eb_LegA :: ArbitrageLeg
  eb_LegB :: ArbitrageLeg
  eb_CalculatedAt :: "time"

record oneShotAnnualizedExitGuard =
  eg_CombinationID :: string
  eg_BasisVersion :: int
  eg_CalculatedAt :: "time"
  eg_ExitAnnualizedRate :: decimal
  eg_ComboA :: decimal
  eg_ComboB :: decimal
  eg_AvgA :: decimal
  eg_AvgB :: decimal
  eg_BaselineA :: decimal
  eg_BaselineB :: decimal
  eg_BaselineCapturedAt :: "time"
  eg_VenueA :: decimal
  eg_VenueB :: decimal
  eg_DifferenceA :: decimal
  eg_DifferenceB :: decimal

definition annualizedExitClock :: "time \<Rightarrow> time" where
  "annualizedExitClock t = (if IsZero t \<or> t = epoch_time then epoch_time else t)"

definition annualizedExitGuard :: "oneShotExitBasis \<Rightarrow> oneShotAnnualizedExitGuard" where
  "annualizedExitGuard basis =
     \<lparr>eg_CombinationID = eb_CombinationID basis, eg_BasisVersion = eb_Version basis,
      eg_CalculatedAt = annualizedExitClock (eb_CalculatedAt basis),
      eg_ExitAnnualizedRate = eb_ExitAnnualizedRate basis,
      eg_ComboA = eb_ComboA basis, eg_ComboB = eb_ComboB basis,
      eg_AvgA = eb_AvgA basis, eg_AvgB = eb_AvgB basis,
      eg_BaselineA = eb_BaselineA basis, eg_BaselineB = eb_BaselineB basis,
      eg_BaselineCapturedAt = annualizedExitClock (eb_BaselineCapturedAt basis),
      eg_VenueA = eb_VenueA basis, eg_VenueB = eb_VenueB basis,
      eg_DifferenceA = eb_DifferenceA basis, eg_DifferenceB = eb_DifferenceB basis\<rparr>"

record oneShotExitState =
  xs_basis :: oneShotExitBasis
  xs_hits :: "bool list"
  xs_lastSample :: "time"
  xs_stale :: bool

record oneShotExitQuote =
  eq_BidA :: decimal
  eq_AskA :: decimal
  eq_BidB :: decimal
  eq_AskB :: decimal
  eq_ReceivedA :: "time"
  eq_ReceivedB :: "time"

record oneShotExitSampleResult =
  sr_hit :: bool
  sr_fault :: bool

definition sample_fault :: oneShotExitSampleResult where
  "sample_fault = \<lparr>sr_hit = False, sr_fault = True\<rparr>"

definition oneShotPeriodicMetricsEligible :: "ArbitrageCombination \<Rightarrow> bool" where
  "oneShotPeriodicMetricsEligible item =
     (if \<not> EqualFold (TrimSpace (ac_Status item)) ''running'' then False
      else if \<not> EqualFold (TrimSpace (ac_RunMode item)) ''one_shot'' then True
      else ac_OneShotPhase item = ''building_target'' \<or> ac_OneShotPhase item = ''waiting_exit'')"

definition oneShotAnnualizedWaitingExit :: "ArbitrageCombination \<Rightarrow> bool" where
  "oneShotAnnualizedWaitingExit item \<longleftrightarrow>
     EqualFold (TrimSpace (ac_Status item)) ''running'' \<and>
     EqualFold (TrimSpace (ac_RunMode item)) ''one_shot'' \<and>
     (ac_OneShotPhase item = ''building_target'' \<or> ac_OneShotPhase item = ''waiting_exit'') \<and>
     TrimSpace (ac_ExitAnnualizedRate item) \<noteq> [] \<and>
     \<not> ac_PositionUncertain item \<and>
     \<not> EqualFold (TrimSpace (ac_RuntimeState item)) ''manual_intervention''"

definition quoteStale :: "time \<Rightarrow> time \<Rightarrow> bool" where
  "quoteStale received now \<longleftrightarrow> IsZero received \<or> time_Sub now received > oneShotExitBBOStale"

definition arbitrageMetricsQuotes_fresh :: "decimal_lib \<Rightarrow> arbitrageMetricsQuotes \<Rightarrow> time \<Rightarrow> bool" where
  "arbitrageMetricsQuotes_fresh L q now =
     (if quoteStale (mq_ReceivedA q) now \<or> quoteStale (mq_ReceivedB q) now then False
      else case (NewFromString L (mq_BidA q), NewFromString L (mq_AskA q),
                 NewFromString L (mq_BidB q), NewFromString L (mq_AskB q)) of
             (Some bidA, Some askA, Some bidB, Some askB) \<Rightarrow>
               0 < bidA \<and> 0 < askA \<and> 0 < bidB \<and> 0 < askB
           | _ \<Rightarrow> False)"

definition metricsQuotesFromMids :: "string \<Rightarrow> string \<Rightarrow> time \<Rightarrow> arbitrageMetricsQuotes" where
  "metricsQuotesFromMids midA midB now =
     \<lparr>mq_MidA = midA, mq_MidB = midB, mq_BidA = midA, mq_AskA = midA, mq_BidB = midB, mq_AskB = midB,
      mq_ReceivedA = now, mq_ReceivedB = now\<rparr>"

text \<open>Quantities to close on each leg (signed as the position), what is owned and what the venue can
  give up, or None with the last two when the three views of the position disagree.\<close>

definition basis_combination :: "decimal_lib \<Rightarrow> oneShotExitBasis \<Rightarrow> ArbitrageCombination" where
  "basis_combination L basis = zero_ArbitrageCombination\<lparr>
     ac_LegABasePosition := StringOf L (eb_ComboA basis),
     ac_LegBBasePosition := StringOf L (eb_ComboB basis),
     ac_LegAVenueBaselineBasePosition := StringOf L (eb_BaselineA basis),
     ac_LegBVenueBaselineBasePosition := StringOf L (eb_BaselineB basis),
     ac_VenueBaselineCapturedAt := eb_BaselineCapturedAt basis\<rparr>"

definition oneShotExitQuantities ::
  "decimal_lib \<Rightarrow> oneShotExitBasis \<Rightarrow> (decimal \<times> decimal) option \<times> decimal \<times> decimal" where
  "oneShotExitQuantities L basis =
     (let combo = basis_combination L basis;
          venueQ = arbitrageCloseableBase L combo;
          ownedQ = ownedPairedQuantity (eb_OwnedA basis) (eb_OwnedB basis);
          comboOwnedQ = ownedPairedQuantity (eb_ComboA basis) (eb_ComboB basis)
      in case (arbitragePairedCloseDirection (eb_OwnedA basis) (eb_OwnedB basis),
               arbitragePairedCloseDirection (eb_ComboA basis) (eb_ComboB basis),
               arbitrageVenueReduceDirection L combo) of
           (Some costDirection, Some comboDirection, Some venueDirection) \<Rightarrow>
             if \<not> 0 < ownedQ \<or> \<not> 0 < comboOwnedQ \<or> \<not> 0 < venueQ \<or>
                costDirection \<noteq> comboDirection \<or> comboDirection \<noteq> venueDirection
             then (None, ownedQ, venueQ)
             else let q = min (min ownedQ comboOwnedQ) venueQ in
               if comboDirection = ''bid'' then (Some (q, - q), ownedQ, venueQ)
               else if comboDirection = ''ask'' then (Some (- q, q), ownedQ, venueQ)
               else (None, ownedQ, venueQ)
         | _ \<Rightarrow> (None, ownedQ, venueQ))"

section \<open>Sampling\<close>

definition appendExitHit :: "bool list \<Rightarrow> bool \<Rightarrow> bool list" where
  "appendExitHit hits hit =
     (let hits' = hits @ [hit] in
      if length hits' > oneShotExitWindowSize then drop (length hits' - oneShotExitWindowSize) hits'
      else hits')"

definition oneShotExitWindowReady :: "bool list \<Rightarrow> bool" where
  "oneShotExitWindowReady hits =
     (if length hits < oneShotExitWindowSize then False
      else length (filter id hits) \<ge> oneShotExitMinHits \<and> last hits)"

definition exit_profit ::
  "oneShotExitBasis \<Rightarrow> decimal \<Rightarrow> decimal \<Rightarrow> decimal \<Rightarrow> decimal \<Rightarrow> decimal" where
  "exit_profit basis qtyA qtyB pxA pxB =
     (let closePnl = qtyA * (pxA - eb_AvgA basis) + qtyB * (pxB - eb_AvgB basis);
          closeFee = \<bar>qtyA\<bar> * pxA * eb_CloseFeeRateA basis + \<bar>qtyB\<bar> * pxB * eb_CloseFeeRateB basis
      in eb_Realized basis + eb_Funding basis - eb_IncurredFee basis + closePnl - closeFee)"

text \<open>The exposure and holding time at which a sample is taken; they do not depend on the quote.\<close>

definition sample_clock :: "time \<Rightarrow> time \<Rightarrow> time" where
  "sample_clock clock now0 = (if IsZero now0 then clock else now0)"

definition sample_exposure ::
  "decimal_lib \<Rightarrow> (duration \<Rightarrow> decimal) \<Rightarrow> oneShotExitBasis \<Rightarrow> decimal \<Rightarrow> time \<Rightarrow> decimal \<times> decimal" where
  "sample_exposure L secs basis qtyA now =
     (let elapsed = (if \<not> IsZero (eb_ExposureUpdatedAt basis) \<and> now > eb_ExposureUpdatedAt basis
                     then secs (time_Sub now (eb_ExposureUpdatedAt basis)) else 0)
      in (eb_Exposure basis + Div L (\<bar>qtyA\<bar> * (eb_AvgA basis + eb_AvgB basis)) 2 * elapsed,
          eb_Holding basis + elapsed))"

definition evaluateOneShotExitSample ::
  "decimal_lib \<Rightarrow> (duration \<Rightarrow> decimal) \<Rightarrow> (decimal \<Rightarrow> decimal) \<Rightarrow> time \<Rightarrow> oneShotExitBasis \<Rightarrow>
   oneShotExitQuote \<Rightarrow> time \<Rightarrow> oneShotExitSampleResult" where
  "evaluateOneShotExitSample L secs hourSecs clock basis quote now0 =
     (let now = sample_clock clock now0 in
      if quoteStale (eq_ReceivedA quote) now \<or> quoteStale (eq_ReceivedB quote) now then sample_fault
      else (case oneShotExitQuantities L basis of
              (None, _, _) \<Rightarrow> sample_fault
            | (Some (qtyA, qtyB), _, _) \<Rightarrow>
      if \<not> 0 < eb_AvgA basis \<or> \<not> 0 < eb_AvgB basis then sample_fault
      else (case (executableClosePrice qtyA (eq_BidA quote) (eq_AskA quote),
                  executableClosePrice qtyB (eq_BidB quote) (eq_AskB quote)) of
              (Some pxA, Some pxB) \<Rightarrow>
                if \<not> 0 < pxA \<or> \<not> 0 < pxB then sample_fault
                else (case calculateCombinedAnnualized L hourSecs (exit_profit basis qtyA qtyB pxA pxB)
                             (fst (sample_exposure L secs basis qtyA now))
                             (snd (sample_exposure L secs basis qtyA now)) (eb_ThresholdHours basis) of
                        None \<Rightarrow> sample_fault
                      | Some annualized \<Rightarrow>
                          \<lparr>sr_hit = (annualized \<ge> eb_ExitAnnualizedRate basis \<and> 0 < eb_ExitAnnualizedRate basis),
                           sr_fault = False\<rparr>)
            | _ \<Rightarrow> sample_fault)))"

definition oneShotExitQuoteFromBBO ::
  "decimal_lib \<Rightarrow> BBO \<Rightarrow> BBO \<Rightarrow> time \<Rightarrow> oneShotExitQuote option" where
  "oneShotExitQuoteFromBBO L bboA bboB now =
     (case (NewFromString L (bbo_BidPrice bboA), NewFromString L (bbo_AskPrice bboA),
            NewFromString L (bbo_BidPrice bboB), NewFromString L (bbo_AskPrice bboB)) of
        (Some bidA, Some askA, Some bidB, Some askB) \<Rightarrow>
          if \<not> 0 < bidA \<or> \<not> 0 < askA \<or> \<not> 0 < bidB \<or> \<not> 0 < askB then None
          else if quoteStale (bbo_ReceiveTimestamp bboA) now \<or> quoteStale (bbo_ReceiveTimestamp bboB) now
          then None
          else Some \<lparr>eq_BidA = bidA, eq_AskA = askA, eq_BidB = bidB, eq_AskB = askB,
                     eq_ReceivedA = bbo_ReceiveTimestamp bboA, eq_ReceivedB = bbo_ReceiveTimestamp bboB\<rparr>
      | _ \<Rightarrow> None)"

definition buildOneShotExitBasis ::
  "decimal_lib \<Rightarrow> ArbitrageCombination \<Rightarrow> arbitrageLegCost \<Rightarrow> arbitrageLegCost \<Rightarrow>
   decimal \<Rightarrow> decimal \<Rightarrow> decimal \<Rightarrow> decimal \<Rightarrow> decimal \<Rightarrow> decimal \<Rightarrow> (int \<rightharpoonup> accountFeeSnapshot) \<Rightarrow> time \<Rightarrow>
   oneShotExitBasis option" where
  "buildOneShotExitBasis L updated ownedA ownedB realized funding incurredFee exposure holding
     thresholdHours accounts now =
     (if \<not> oneShotAnnualizedWaitingExit updated then None
      else let exitRate = parseDecimal L (ac_ExitAnnualizedRate updated) in
        if \<not> 0 < exitRate \<or> \<not> 0 < lc_average ownedA \<or> \<not> 0 < lc_average ownedB then None
        else (case (closeFeeCostRate L (ac_LegA updated) (ac_ExecutionMode updated) (ac_MakerLeg updated)
                      ''a'' accounts,
                    closeFeeCostRate L (ac_LegB updated) (ac_ExecutionMode updated) (ac_MakerLeg updated)
                      ''b'' accounts) of
                (Some rateA, Some rateB) \<Rightarrow> Some
                  \<lparr>eb_CombinationID = ac_ID updated, eb_Version = ac_Version updated,
                   eb_ExitAnnualizedRate = exitRate,
                   eb_OwnedA = lc_position ownedA, eb_OwnedB = lc_position ownedB,
                   eb_AvgA = lc_average ownedA, eb_AvgB = lc_average ownedB,
                   eb_ComboA = parseDecimal L (ac_LegABasePosition updated),
                   eb_ComboB = parseDecimal L (ac_LegBBasePosition updated),
                   eb_BaselineA = parseDecimal L (ac_LegAVenueBaselineBasePosition updated),
                   eb_BaselineB = parseDecimal L (ac_LegBVenueBaselineBasePosition updated),
                   eb_BaselineCapturedAt = ac_VenueBaselineCapturedAt updated,
                   eb_VenueA = parseDecimal L (ac_LegAVenueBasePosition updated),
                   eb_VenueB = parseDecimal L (ac_LegBVenueBasePosition updated),
                   eb_DifferenceA = parseDecimal L (ac_LegAPositionDifference updated),
                   eb_DifferenceB = parseDecimal L (ac_LegBPositionDifference updated),
                   eb_Realized = realized, eb_Funding = funding, eb_IncurredFee = incurredFee,
                   eb_Exposure = exposure, eb_Holding = holding, eb_ExposureUpdatedAt = now,
                   eb_ThresholdHours = thresholdHours,
                   eb_CloseFeeRateA = rateA, eb_CloseFeeRateB = rateB,
                   eb_ExecutionMode = ac_ExecutionMode updated, eb_MakerLeg = ac_MakerLeg updated,
                   eb_LegA = ac_LegA updated, eb_LegB = ac_LegB updated,
                   eb_CalculatedAt = ac_MetricsCalculatedAt updated\<rparr>
              | _ \<Rightarrow> None))"

section \<open>Dust\<close>

datatype oneShotDustVerdict = oneShotDustAccepted | oneShotDustRetry | oneShotDustUnsafe

record oneShotDustInput =
  du_Combination :: ArbitrageCombination
  du_Remaining :: decimal
  du_Phase :: string
  du_InstrumentA :: Instrument
  du_InstrumentB :: Instrument
  du_InstrumentErr :: "trader_error option"
  du_PriceA :: decimal
  du_PriceB :: decimal
  du_LiveOrder :: bool
  du_Unreconciled :: bool
  du_LiveExecution :: bool
  du_GateErr :: "trader_error option"
  du_ExecutionRunning :: bool

definition evaluateBuildingOneShotDust ::
  "decimal_lib \<Rightarrow> oneShotDustInput \<Rightarrow> decimal \<Rightarrow> decimal \<Rightarrow> decimal \<Rightarrow> oneShotDustVerdict" where
  "evaluateBuildingOneShotDust L inp legA legB carry =
     (if du_Remaining inp \<ge> arbitrageMinOpenNotional then oneShotDustRetry
      else if legA = 0 \<or> legB = 0 \<or> Sign legA = Sign legB then oneShotDustUnsafe
      else if carry = 0 then oneShotDustAccepted
      else if \<not> 0 < du_PriceA inp \<or> \<not> 0 < du_PriceB inp then oneShotDustRetry
      else let residual = \<bar>carry\<bar>;
               residualNotional = max (residual * du_PriceA inp) (residual * du_PriceB inp)
           in if residualNotional \<ge> arbitrageMinOpenNotional then oneShotDustUnsafe
      else (case (executableHedgeQuantity L residual (du_PriceA inp) (du_InstrumentA inp) False,
                  executableHedgeQuantity L residual (du_PriceB inp) (du_InstrumentB inp) False) of
              ((_, eligibleA, errA), (_, eligibleB, errB)) \<Rightarrow>
                if errA \<noteq> None \<or> errB \<noteq> None then oneShotDustRetry
                else if eligibleA \<or> eligibleB then oneShotDustUnsafe
                else if hedgeQuantityDustReason L residual (du_PriceA inp) (du_InstrumentA inp) = [] \<and>
                        hedgeQuantityDustReason L residual (du_PriceB inp) (du_InstrumentB inp) = []
                then oneShotDustRetry
                else oneShotDustAccepted))"

definition evaluateExitingOneShotDust ::
  "decimal_lib \<Rightarrow> oneShotDustInput \<Rightarrow> decimal \<Rightarrow> decimal \<Rightarrow> decimal \<Rightarrow> oneShotDustVerdict" where
  "evaluateExitingOneShotDust L inp legA legB carry =
     (let aNZ = (legA \<noteq> 0); bNZ = (legB \<noteq> 0) in
      if aNZ = bNZ \<or> carry = 0 then oneShotDustUnsafe
      else let residual = (if bNZ then \<bar>legB\<bar> else \<bar>legA\<bar>);
               price = (if bNZ then du_PriceB inp else du_PriceA inp);
               instrument = (if bNZ then du_InstrumentB inp else du_InstrumentA inp)
           in if \<not> 0 < price then oneShotDustRetry
              else if residual * price \<ge> arbitrageMinOpenNotional then oneShotDustUnsafe
              else if 0 < closeFlattenQuantity L instrument residual then oneShotDustRetry
              else oneShotDustAccepted)"

definition evaluateOneShotDust :: "decimal_lib \<Rightarrow> oneShotDustInput \<Rightarrow> oneShotDustVerdict" where
  "evaluateOneShotDust L inp =
     (let combo = du_Combination inp; phase = TrimSpace (ac_OneShotPhase combo) in
      if \<not> EqualFold (TrimSpace (ac_RunMode combo)) ''one_shot'' \<or>
         \<not> EqualFold (TrimSpace (ac_Status combo)) ''running'' then oneShotDustRetry
      else if phase \<noteq> du_Phase inp then oneShotDustRetry
      else if ac_RuntimeState combo = ''manual_intervention'' then oneShotDustRetry
      else if ac_PositionUncertain combo \<or> ac_CircuitOpen combo \<or> du_ExecutionRunning inp
      then oneShotDustRetry
      else if du_GateErr inp \<noteq> None then oneShotDustRetry
      else if du_LiveOrder inp \<or> du_LiveExecution inp \<or> du_Unreconciled inp then oneShotDustRetry
      else if IsZero (ac_LastPositionReconciledAt combo) \<or> ac_LastPositionReconciledAt combo = epoch_time
      then oneShotDustRetry
      else if \<not> closeFlattenBothPerpetual (leg_ContractType (ac_LegA combo)) (leg_ContractType (ac_LegB combo))
      then (if phase = ''exiting'' then oneShotDustUnsafe else oneShotDustRetry)
      else if du_InstrumentErr inp \<noteq> None then oneShotDustRetry
      else let legA = parseDecimal L (ac_LegABasePosition combo);
               legB = parseDecimal L (ac_LegBBasePosition combo);
               carry = parseDecimal L (ac_CarryBaseQuantity combo)
           in if carry \<noteq> legA + legB then oneShotDustUnsafe
              else if phase = ''building_target'' then evaluateBuildingOneShotDust L inp legA legB carry
              else if phase = ''exiting'' then evaluateExitingOneShotDust L inp legA legB carry
              else oneShotDustRetry)"

definition oneShotLeftoverResidual ::
  "decimal_lib \<Rightarrow> ArbitrageCombination \<Rightarrow> BBO \<Rightarrow> BBO \<Rightarrow> (decimal \<times> decimal) option" where
  "oneShotLeftoverResidual L combo bboA bboB =
     (let legA = parseDecimal L (ac_LegABasePosition combo);
          legB = parseDecimal L (ac_LegBBasePosition combo);
          aNZ = (legA \<noteq> 0); bNZ = (legB \<noteq> 0)
      in if aNZ = bNZ then None
         else if aNZ then Some (\<bar>legA\<bar>, \<bar>legA\<bar> * closeFlattenOwnedExecutablePrice L legA bboA)
         else Some (\<bar>legB\<bar>, \<bar>legB\<bar> * closeFlattenOwnedExecutablePrice L legB bboB))"

definition oneShotRunningExiting :: "ArbitrageCombination \<Rightarrow> bool" where
  "oneShotRunningExiting combo \<longleftrightarrow>
     EqualFold (TrimSpace (ac_Status combo)) ''running'' \<and>
     EqualFold (TrimSpace (ac_RunMode combo)) ''one_shot'' \<and>
     EqualFold (TrimSpace (ac_OneShotPhase combo)) ''exiting''"

definition carryClosePrices :: "decimal_lib \<Rightarrow> decimal \<Rightarrow> BBO \<Rightarrow> BBO \<Rightarrow> decimal \<times> decimal" where
  "carryClosePrices L carry bboA bboB =
     (let side = carryHedgeSide carry in
      (parsePositiveDecimal L (bboPriceForSide bboA side), parsePositiveDecimal L (bboPriceForSide bboB side)))"

section \<open>The sliding window\<close>

text \<open>The window after a history of samples is the last thirty of them.\<close>

definition last_samples :: "nat \<Rightarrow> 'a list \<Rightarrow> 'a list" where
  "last_samples n xs = drop (length xs - n) xs"

lemma appendExitHit_last: "appendExitHit hits hit = last_samples oneShotExitWindowSize (hits @ [hit])"
  by (auto simp: appendExitHit_def last_samples_def Let_def)

lemma last_samples_append: "last_samples n (last_samples n xs @ [x]) = last_samples n (xs @ [x])"
  by (cases "n \<le> length xs") (auto simp: last_samples_def Suc_diff_le)

lemma window_of_history:
  "fold (\<lambda>hit hits. appendExitHit hits hit) history [] = last_samples oneShotExitWindowSize history"
proof (induction history rule: rev_induct)
  case (snoc x xs)
  then show ?case by (simp add: appendExitHit_last last_samples_append)
qed (simp add: last_samples_def)

lemma window_ready_history:
  "oneShotExitWindowReady (last_samples oneShotExitWindowSize history) \<longleftrightarrow>
     oneShotExitWindowSize \<le> length history \<and>
     oneShotExitMinHits \<le> length (filter id (last_samples oneShotExitWindowSize history)) \<and> last history"
  by (auto simp: oneShotExitWindowReady_def last_samples_def oneShotExitWindowSize_def)

section \<open>Exit quantities\<close>

context decimal_library
begin

lemma basis_combination_view:
  assumes "is_decimal (eb_ComboA basis)" "is_decimal (eb_ComboB basis)"
    "is_decimal (eb_BaselineA basis)" "is_decimal (eb_BaselineB basis)"
  shows "arbitrageOwnedCloseableBase L (basis_combination L basis) =
      ownedPairedQuantity (eb_ComboA basis) (eb_ComboB basis)"
    "arbitrageOwnedCloseDirection L (basis_combination L basis) =
      arbitragePairedCloseDirection (eb_ComboA basis) (eb_ComboB basis)"
  using assms
  by (simp_all add: basis_combination_def arbitrageOwnedCloseableBase_def arbitrageOwnedCloseDirection_def
      parseDecimal_print)

end

lemma exit_quantities_Some:
  assumes "oneShotExitQuantities L basis = (Some (qtyA, qtyB), ownedQ, venueQ)"
  obtains q where "0 < q" "q \<le> ownedPairedQuantity (eb_OwnedA basis) (eb_OwnedB basis)"
    "q \<le> ownedPairedQuantity (eb_ComboA basis) (eb_ComboB basis)"
    "q \<le> arbitrageCloseableBase L (basis_combination L basis)"
    "qtyA = q \<and> qtyB = - q \<and> 0 < eb_ComboA basis \<and> eb_ComboB basis < 0 \<or>
     qtyA = - q \<and> qtyB = q \<and> eb_ComboA basis < 0 \<and> 0 < eb_ComboB basis"
proof -
  let ?c = "basis_combination L basis"
  let ?q = "min (min (ownedPairedQuantity (eb_OwnedA basis) (eb_OwnedB basis))
    (ownedPairedQuantity (eb_ComboA basis) (eb_ComboB basis))) (arbitrageCloseableBase L ?c)"
  obtain cost where cost: "arbitragePairedCloseDirection (eb_OwnedA basis) (eb_OwnedB basis) = Some cost"
    using assms by (auto simp: oneShotExitQuantities_def Let_def split: option.split_asm)
  obtain combo where combo: "arbitragePairedCloseDirection (eb_ComboA basis) (eb_ComboB basis) = Some combo"
    using assms cost by (auto simp: oneShotExitQuantities_def Let_def split: option.split_asm)
  obtain venue where venue: "arbitrageVenueReduceDirection L ?c = Some venue"
    using assms cost combo by (auto simp: oneShotExitQuantities_def Let_def split: option.split_asm)
  have "0 < ?q \<and> (combo = ''bid'' \<and> qtyA = ?q \<and> qtyB = - ?q \<or> combo = ''ask'' \<and> qtyA = - ?q \<and> qtyB = ?q)"
    using assms by (auto simp: oneShotExitQuantities_def cost combo venue Let_def split: if_split_asm)
  moreover have "combo = ''bid'' \<longrightarrow> 0 < eb_ComboA basis \<and> eb_ComboB basis < 0"
    "combo = ''ask'' \<longrightarrow> eb_ComboA basis < 0 \<and> 0 < eb_ComboB basis"
    using combo by (auto simp: arbitragePairedCloseDirection_def split: if_split_asm)
  ultimately show thesis by (intro that [of ?q]) auto
qed

lemma exit_quantities_bounds:
  assumes "oneShotExitQuantities L basis = (Some (qtyA, qtyB), ownedQ, venueQ)"
  shows "qtyB = - qtyA" "qtyA \<noteq> 0" "Sign qtyA = Sign (eb_ComboA basis)" "Sign qtyB = Sign (eb_ComboB basis)"
    "\<bar>qtyA\<bar> \<le> min \<bar>eb_ComboA basis\<bar> \<bar>eb_OwnedA basis\<bar>" "\<bar>qtyB\<bar> \<le> min \<bar>eb_ComboB basis\<bar> \<bar>eb_OwnedB basis\<bar>"
    "\<bar>qtyA\<bar> \<le> arbitrageCloseableBase L (basis_combination L basis)"
proof -
  obtain q where q: "0 < q" "q \<le> ownedPairedQuantity (eb_OwnedA basis) (eb_OwnedB basis)"
    "q \<le> ownedPairedQuantity (eb_ComboA basis) (eb_ComboB basis)"
    "q \<le> arbitrageCloseableBase L (basis_combination L basis)"
    "qtyA = q \<and> qtyB = - q \<and> 0 < eb_ComboA basis \<and> eb_ComboB basis < 0 \<or>
     qtyA = - q \<and> qtyB = q \<and> eb_ComboA basis < 0 \<and> 0 < eb_ComboB basis"
    using assms by (rule exit_quantities_Some)
  note b = ownedPairedQuantity_bounds(2,3) [of "eb_ComboA basis" "eb_ComboB basis"]
    ownedPairedQuantity_bounds(2,3) [of "eb_OwnedA basis" "eb_OwnedB basis"]
  show "qtyB = - qtyA" "qtyA \<noteq> 0" "Sign qtyA = Sign (eb_ComboA basis)" "Sign qtyB = Sign (eb_ComboB basis)"
    using q by (auto simp: Sign_def)
  have "\<bar>qtyA\<bar> = q" "\<bar>qtyB\<bar> = q" using q(1,5) by auto
  then show "\<bar>qtyA\<bar> \<le> min \<bar>eb_ComboA basis\<bar> \<bar>eb_OwnedA basis\<bar>"
    "\<bar>qtyB\<bar> \<le> min \<bar>eb_ComboB basis\<bar> \<bar>eb_OwnedB basis\<bar>"
    "\<bar>qtyA\<bar> \<le> arbitrageCloseableBase L (basis_combination L basis)"
    using q(2-4) b by simp_all
qed

section \<open>A better quote keeps the hit\<close>

context decimal_library
begin

lemma annualized_mono:
  assumes "calculateCombinedAnnualized L hourSecs profit exposure holding hours = Some r" "profit \<le> profit'"
  obtains r' where "calculateCombinedAnnualized L hourSecs profit' exposure holding hours = Some r'" "r \<le> r'"
proof -
  let ?d = "Div L exposure holding * max holding (hourSecs hours)"
  have *: "0 < holding" "0 < exposure" "0 < ?d" "r = Div L (profit * annualSeconds) ?d"
    using assms(1) by (auto simp: calculateCombinedAnnualized_def Let_def split: if_splits)
  have "Div L (profit * annualSeconds) ?d \<le> Div L (profit' * annualSeconds) ?d"
    using *(3) assms(2) by (intro Div_mono divide_right_mono mult_right_mono) (auto simp: annualSeconds_def)
  with * show thesis
    by (intro that [of "Div L (profit' * annualSeconds) ?d"])
      (simp_all add: calculateCombinedAnnualized_def Let_def)
qed

end

lemma leg_profit_mono:
  fixes q :: decimal
  assumes "\<bar>rate\<bar> \<le> 1" "0 < q \<Longrightarrow> px \<le> px'" "q < 0 \<Longrightarrow> px' \<le> px" "q \<noteq> 0"
  shows "q * (px - avg) - \<bar>q\<bar> * px * rate \<le> q * (px' - avg) - \<bar>q\<bar> * px' * rate"
proof (cases "0 < q")
  case True
  then have "q * (1 - rate) * px \<le> q * (1 - rate) * px'"
    using assms(1,2) by (intro mult_left_mono) auto
  with True show ?thesis by (simp add: algebra_simps)
next
  case False
  then have "- q * (1 + rate) * px' \<le> - q * (1 + rate) * px"
    using assms(1,3,4) by (intro mult_left_mono) (auto intro: mult_nonpos_nonneg)
  with False show ?thesis by (simp add: algebra_simps)
qed

lemma exit_profit_mono:
  assumes "\<bar>eb_CloseFeeRateA basis\<bar> \<le> 1" "\<bar>eb_CloseFeeRateB basis\<bar> \<le> 1"
    and "0 < qA \<Longrightarrow> pA \<le> pA'" "qA < 0 \<Longrightarrow> pA' \<le> pA" "qA \<noteq> 0"
    and "0 < qB \<Longrightarrow> pB \<le> pB'" "qB < 0 \<Longrightarrow> pB' \<le> pB" "qB \<noteq> 0"
  shows "exit_profit basis qA qB pA pB \<le> exit_profit basis qA qB pA' pB'"
  using leg_profit_mono [OF assms(1,3,4,5), of "eb_AvgA basis"]
    leg_profit_mono [OF assms(2,6,7,8), of "eb_AvgB basis"]
  unfolding exit_profit_def Let_def by linarith

text \<open>A quote is no worse for closing when it bids at least as much and asks no more.\<close>

definition quote_no_worse :: "oneShotExitQuote \<Rightarrow> oneShotExitQuote \<Rightarrow> bool" where
  "quote_no_worse q q' \<longleftrightarrow>
     eq_BidA q \<le> eq_BidA q' \<and> eq_BidB q \<le> eq_BidB q' \<and> eq_AskA q' \<le> eq_AskA q \<and> eq_AskB q' \<le> eq_AskB q \<and>
     0 < eq_AskA q' \<and> 0 < eq_AskB q' \<and>
     eq_ReceivedA q' = eq_ReceivedA q \<and> eq_ReceivedB q' = eq_ReceivedB q"

lemma close_price_no_worse:
  assumes "executableClosePrice qty bid ask = Some px" "0 < px" "bid \<le> bid'" "ask' \<le> ask" "0 < ask'" "qty \<noteq> 0"
  obtains px' where "executableClosePrice qty bid' ask' = Some px'" "0 < px'"
    "0 < qty \<Longrightarrow> px \<le> px'" "qty < 0 \<Longrightarrow> px' \<le> px"
  using assms that by (auto simp: executableClosePrice_def split: if_splits)

lemma exit_hit_iff:
  "sr_hit (evaluateOneShotExitSample L secs hourSecs clock basis quote now) \<longleftrightarrow>
     \<not> quoteStale (eq_ReceivedA quote) (sample_clock clock now) \<and>
     \<not> quoteStale (eq_ReceivedB quote) (sample_clock clock now) \<and>
     0 < eb_AvgA basis \<and> 0 < eb_AvgB basis \<and> 0 < eb_ExitAnnualizedRate basis \<and>
     (\<exists>qA qB pA pB r. fst (oneShotExitQuantities L basis) = Some (qA, qB) \<and>
        executableClosePrice qA (eq_BidA quote) (eq_AskA quote) = Some pA \<and> 0 < pA \<and>
        executableClosePrice qB (eq_BidB quote) (eq_AskB quote) = Some pB \<and> 0 < pB \<and>
        calculateCombinedAnnualized L hourSecs (exit_profit basis qA qB pA pB)
          (fst (sample_exposure L secs basis qA (sample_clock clock now)))
          (snd (sample_exposure L secs basis qA (sample_clock clock now))) (eb_ThresholdHours basis) = Some r \<and>
        eb_ExitAnnualizedRate basis \<le> r)"
proof -
  obtain qs oq vq where qs: "oneShotExitQuantities L basis = (qs, oq, vq)" by (metis prod_cases3)
  show ?thesis
  proof (cases qs)
    case None
    then show ?thesis
      by (simp add: evaluateOneShotExitSample_def qs sample_fault_def Let_def)
  next
    case (Some q)
    obtain qA qB where q: "q = (qA, qB)" by (cases q)
    show ?thesis
      by (auto simp: evaluateOneShotExitSample_def qs Some q sample_fault_def Let_def split: option.split)
  qed
qed

lemma exit_hit_mono:
  assumes "decimal_library L"
    and hit: "sr_hit (evaluateOneShotExitSample L secs hourSecs clock basis quote now)"
    and better: "quote_no_worse quote quote'"
    and rates: "\<bar>eb_CloseFeeRateA basis\<bar> \<le> 1" "\<bar>eb_CloseFeeRateB basis\<bar> \<le> 1"
  shows "sr_hit (evaluateOneShotExitSample L secs hourSecs clock basis quote' now)"
proof -
  obtain qA qB pA pB r where q: "fst (oneShotExitQuantities L basis) = Some (qA, qB)"
    and pA: "executableClosePrice qA (eq_BidA quote) (eq_AskA quote) = Some pA" "0 < pA"
    and pB: "executableClosePrice qB (eq_BidB quote) (eq_AskB quote) = Some pB" "0 < pB"
    and r: "calculateCombinedAnnualized L hourSecs (exit_profit basis qA qB pA pB)
          (fst (sample_exposure L secs basis qA (sample_clock clock now)))
          (snd (sample_exposure L secs basis qA (sample_clock clock now))) (eb_ThresholdHours basis) = Some r"
      "eb_ExitAnnualizedRate basis \<le> r"
    using hit unfolding exit_hit_iff by blast
  have nz: "qA \<noteq> 0" "qB \<noteq> 0"
    using exit_quantities_bounds(1,2) [of L basis qA qB] q
    by (cases "oneShotExitQuantities L basis"; auto)+
  obtain pA' where A: "executableClosePrice qA (eq_BidA quote') (eq_AskA quote') = Some pA'" "0 < pA'"
    "0 < qA \<Longrightarrow> pA \<le> pA'" "qA < 0 \<Longrightarrow> pA' \<le> pA"
    using close_price_no_worse [OF pA _ _ _ nz(1)] better unfolding quote_no_worse_def by metis
  obtain pB' where B: "executableClosePrice qB (eq_BidB quote') (eq_AskB quote') = Some pB'" "0 < pB'"
    "0 < qB \<Longrightarrow> pB \<le> pB'" "qB < 0 \<Longrightarrow> pB' \<le> pB"
    using close_price_no_worse [OF pB _ _ _ nz(2)] better unfolding quote_no_worse_def by metis
  have "exit_profit basis qA qB pA pB \<le> exit_profit basis qA qB pA' pB'"
    using exit_profit_mono [OF rates] A B nz by blast
  then obtain r' where "calculateCombinedAnnualized L hourSecs (exit_profit basis qA qB pA' pB')
          (fst (sample_exposure L secs basis qA (sample_clock clock now)))
          (snd (sample_exposure L secs basis qA (sample_clock clock now))) (eb_ThresholdHours basis) = Some r'"
    "r \<le> r'"
    using decimal_library.annualized_mono [OF assms(1) r(1)] by blast
  moreover have "\<not> quoteStale (eq_ReceivedA quote') (sample_clock clock now)"
    "\<not> quoteStale (eq_ReceivedB quote') (sample_clock clock now)"
    "0 < eb_AvgA basis" "0 < eb_AvgB basis" "0 < eb_ExitAnnualizedRate basis"
    using hit better unfolding exit_hit_iff quote_no_worse_def by simp_all
  moreover have "eb_ExitAnnualizedRate basis \<le> r'" using r(2) \<open>r \<le> r'\<close> by linarith
  ultimately show ?thesis
    unfolding exit_hit_iff using q A(1,2) B(1,2) by blast
qed

section \<open>Dust verdicts\<close>

lemma building_dust_accepted:
  "evaluateBuildingOneShotDust L inp legA legB carry = oneShotDustAccepted \<longleftrightarrow>
     du_Remaining inp < arbitrageMinOpenNotional \<and> legA \<noteq> 0 \<and> legB \<noteq> 0 \<and> Sign legA \<noteq> Sign legB \<and>
     (carry = 0 \<or>
      0 < du_PriceA inp \<and> 0 < du_PriceB inp \<and>
      \<bar>carry\<bar> * max (du_PriceA inp) (du_PriceB inp) < arbitrageMinOpenNotional \<and>
      hedgeQuantityDustReason L carry (du_PriceA inp) (du_InstrumentA inp) \<noteq> [] \<and>
      hedgeQuantityDustReason L carry (du_PriceB inp) (du_InstrumentB inp) \<noteq> [])"
proof -
  obtain qA eA errA where A: "executableHedgeQuantity L \<bar>carry\<bar> (du_PriceA inp) (du_InstrumentA inp) False = (qA, eA, errA)"
    by (metis prod_cases3)
  obtain qB eB errB where B: "executableHedgeQuantity L \<bar>carry\<bar> (du_PriceB inp) (du_InstrumentB inp) False = (qB, eB, errB)"
    by (metis prod_cases3)
  have reason: "hedgeQuantityDustReason L \<bar>carry\<bar> p i = hedgeQuantityDustReason L carry p i" for p i
    by (simp add: hedgeQuantityDustReason_def)
  have "max (\<bar>carry\<bar> * du_PriceA inp) (\<bar>carry\<bar> * du_PriceB inp) = \<bar>carry\<bar> * max (du_PriceA inp) (du_PriceB inp)"
    by (simp add: max_mult_distrib_left)
  moreover have "hedgeQuantityDustReason L carry (du_PriceA inp) (du_InstrumentA inp) \<noteq> [] \<longleftrightarrow> \<not> eA \<and> errA = None"
    "hedgeQuantityDustReason L carry (du_PriceB inp) (du_InstrumentB inp) \<noteq> [] \<longleftrightarrow> \<not> eB \<and> errB = None"
    using dust_reason_iff [of L carry "du_PriceA inp" "du_InstrumentA inp"]
      dust_reason_iff [of L carry "du_PriceB inp" "du_InstrumentB inp"] A B by simp_all
  ultimately show ?thesis
    by (auto simp: evaluateBuildingOneShotDust_def A B reason Let_def)
qed

lemma exiting_dust_accepted:
  assumes "carry = legA + legB"
  shows "evaluateExitingOneShotDust L inp legA legB carry = oneShotDustAccepted \<longleftrightarrow>
     (\<exists>price instrument. (legB = 0 \<and> price = du_PriceA inp \<and> instrument = du_InstrumentA inp \<or>
                          legA = 0 \<and> price = du_PriceB inp \<and> instrument = du_InstrumentB inp) \<and>
        carry \<noteq> 0 \<and> 0 < price \<and> \<bar>carry\<bar> * price < arbitrageMinOpenNotional \<and>
        \<not> 0 < closeFlattenQuantity L instrument carry)"
  using assms by (auto simp: evaluateExitingOneShotDust_def closeFlattenQuantity_def Let_def)

lemma dust_accepted_gate:
  assumes "evaluateOneShotDust L inp = oneShotDustAccepted"
  defines "combo \<equiv> du_Combination inp"
  defines "legA \<equiv> parseDecimal L (ac_LegABasePosition combo)"
    and "legB \<equiv> parseDecimal L (ac_LegBBasePosition combo)"
    and "carry \<equiv> parseDecimal L (ac_CarryBaseQuantity combo)"
  shows "\<not> du_LiveOrder inp" "\<not> du_LiveExecution inp" "\<not> du_Unreconciled inp" "carry = legA + legB"
    "TrimSpace (ac_OneShotPhase combo) = ''building_target'' \<and>
       evaluateBuildingOneShotDust L inp legA legB carry = oneShotDustAccepted \<or>
     TrimSpace (ac_OneShotPhase combo) = ''exiting'' \<and>
       evaluateExitingOneShotDust L inp legA legB carry = oneShotDustAccepted"
  using assms by (simp_all add: evaluateOneShotDust_def Let_def split: if_split_asm)

section \<open>Properties\<close>

text \<open>C33: the exit window is the last thirty samples of the history, and it triggers exactly when
  there are at least thirty, at least eighteen of the last thirty are hits, and the newest is one.\<close>

theorem exit_window_is_last_thirty:
  "fold (\<lambda>hit hits. appendExitHit hits hit) history [] = last_samples 30 history \<and>
   (oneShotExitWindowReady (fold (\<lambda>hit hits. appendExitHit hits hit) history []) \<longleftrightarrow>
      30 \<le> length history \<and> 18 \<le> length (filter id (last_samples 30 history)) \<and> last history)"
  using window_of_history [of history] window_ready_history [of history]
  by (simp add: oneShotExitWindowSize_def oneShotExitMinHits_def)

text \<open>C26: the quantities of an exit close both legs by the same amount, in the sign of what the
  combination holds on each leg, and by no more than what it holds, what it owns by cost, and what
  the venue can give up: an exit never reverses a leg.\<close>

theorem exit_quantities_reduce_both_legs:
  assumes "oneShotExitQuantities L basis = (Some (qtyA, qtyB), ownedQ, venueQ)"
  shows "qtyB = - qtyA \<and> qtyA \<noteq> 0 \<and> Sign qtyA = Sign (eb_ComboA basis) \<and> Sign qtyB = Sign (eb_ComboB basis) \<and>
     \<bar>qtyA\<bar> \<le> min \<bar>eb_ComboA basis\<bar> \<bar>eb_OwnedA basis\<bar> \<and> \<bar>qtyB\<bar> \<le> min \<bar>eb_ComboB basis\<bar> \<bar>eb_OwnedB basis\<bar> \<and>
     \<bar>qtyA\<bar> \<le> arbitrageCloseableBase L (basis_combination L basis)"
  using exit_quantities_bounds [OF assms] by simp

definition sample_basis :: oneShotExitBasis where
  "sample_basis =
     \<lparr>eb_CombinationID = ''c1'', eb_Version = 1, eb_ExitAnnualizedRate = 1 / 10,
      eb_OwnedA = 3, eb_OwnedB = - 2, eb_AvgA = 100, eb_AvgB = 110, eb_ComboA = 2, eb_ComboB = - 2,
      eb_BaselineA = 0, eb_BaselineB = 1, eb_BaselineCapturedAt = 5, eb_VenueA = 2, eb_VenueB = - 1,
      eb_DifferenceA = 0, eb_DifferenceB = 0, eb_Realized = 0, eb_Funding = 1, eb_IncurredFee = 1 / 2,
      eb_Exposure = 1000, eb_Holding = 10, eb_ExposureUpdatedAt = 1000000000, eb_ThresholdHours = 8,
      eb_CloseFeeRateA = 1 / 1000, eb_CloseFeeRateB = 1 / 1000, eb_ExecutionMode = [], eb_MakerLeg = [],
      eb_LegA = zero_ArbitrageLeg, eb_LegB = zero_ArbitrageLeg, eb_CalculatedAt = 1000000000\<rparr>"

theorem exit_quantities_reduce_both_legs_witness:
  "oneShotExitQuantities std_lib sample_basis = (Some (1, - 1), 2, 1) \<and>
   \<bar>1 :: decimal\<bar> \<le> min \<bar>eb_ComboA sample_basis\<bar> \<bar>eb_OwnedA sample_basis\<bar>"
proof -
  have "oneShotExitQuantities std_lib sample_basis = (Some (1, - 1), 2, 1)" by code_simp
  with exit_quantities_reduce_both_legs [OF this] show ?thesis by blast
qed

text \<open>a sample that is a hit stays one at any quote of the same age that bids no less and asks no
  more, as long as no fee exceeds the whole notional: the exit decision is monotone in the quotes.\<close>

theorem better_quote_keeps_hit:
  assumes "decimal_library L"
    and "sr_hit (evaluateOneShotExitSample L secs hourSecs clock basis quote now)"
    and "quote_no_worse quote quote'"
    and "\<bar>eb_CloseFeeRateA basis\<bar> \<le> 1" "\<bar>eb_CloseFeeRateB basis\<bar> \<le> 1"
  shows "sr_hit (evaluateOneShotExitSample L secs hourSecs clock basis quote' now)"
  using exit_hit_mono [OF assms] .

definition sample_quote :: oneShotExitQuote where
  "sample_quote = \<lparr>eq_BidA = 101, eq_AskA = 102, eq_BidB = 103, eq_AskB = 104,
     eq_ReceivedA = 1900000000, eq_ReceivedB = 1900000000\<rparr>"

theorem better_quote_keeps_hit_witness:
  "sr_hit (evaluateOneShotExitSample std_lib (\<lambda>d. of_int d / 1000000000) (\<lambda>h. h * 3600) 0 sample_basis
     (sample_quote\<lparr>eq_AskB := 103\<rparr>) 2000000000)"
proof -
  have "sr_hit (evaluateOneShotExitSample std_lib (\<lambda>d. of_int d / 1000000000) (\<lambda>h. h * 3600) 0 sample_basis
      sample_quote 2000000000)"
    by code_simp
  moreover have "quote_no_worse sample_quote (sample_quote\<lparr>eq_AskB := 103\<rparr>)"
    "\<bar>eb_CloseFeeRateA sample_basis\<bar> \<le> 1" "\<bar>eb_CloseFeeRateB sample_basis\<bar> \<le> 1"
    by code_simp+
  ultimately show ?thesis
    using better_quote_keeps_hit [OF std.decimal_library_axioms] by blast
qed

text \<open>C22: a residual is accepted as dust only when nothing is live and the carry is the sum of the two
  legs. While building, the legs are opposite and the carry is zero, or it is worth less than the
  minimum notional and neither leg can trade it; while exiting, one leg is flat and what is left of
  the other is worth less than the minimum notional and rounds to no quantity.\<close>

theorem accepted_dust_cannot_be_traded:
  assumes "evaluateOneShotDust L inp = oneShotDustAccepted"
  defines "combo \<equiv> du_Combination inp"
  defines "legA \<equiv> parseDecimal L (ac_LegABasePosition combo)"
    and "legB \<equiv> parseDecimal L (ac_LegBBasePosition combo)"
    and "carry \<equiv> parseDecimal L (ac_CarryBaseQuantity combo)"
  shows "\<not> du_LiveOrder inp \<and> \<not> du_LiveExecution inp \<and> carry = legA + legB \<and>
    (Sign legA \<noteq> Sign legB \<and>
       (carry = 0 \<or>
        \<bar>carry\<bar> * max (du_PriceA inp) (du_PriceB inp) < arbitrageMinOpenNotional \<and>
        hedgeQuantityDustReason L carry (du_PriceA inp) (du_InstrumentA inp) \<noteq> [] \<and>
        hedgeQuantityDustReason L carry (du_PriceB inp) (du_InstrumentB inp) \<noteq> []) \<or>
     (\<exists>price instrument. (legB = 0 \<and> price = du_PriceA inp \<and> instrument = du_InstrumentA inp \<or>
                          legA = 0 \<and> price = du_PriceB inp \<and> instrument = du_InstrumentB inp) \<and>
        carry \<noteq> 0 \<and> \<bar>carry\<bar> * price < arbitrageMinOpenNotional \<and>
        \<not> 0 < closeFlattenQuantity L instrument carry))"
  using dust_accepted_gate [OF assms(1)] building_dust_accepted exiting_dust_accepted
  unfolding combo_def legA_def legB_def carry_def by metis

definition sample_dust :: oneShotDustInput where
  "sample_dust =
     \<lparr>du_Combination = zero_ArbitrageCombination\<lparr>ac_RunMode := ''one_shot'', ac_Status := ''running'',
        ac_OneShotPhase := ''exiting'', ac_LastPositionReconciledAt := 7,
        ac_LegA := zero_ArbitrageLeg\<lparr>leg_ContractType := ''perpetual''\<rparr>,
        ac_LegB := zero_ArbitrageLeg\<lparr>leg_ContractType := ''perpetual''\<rparr>,
        ac_LegABasePosition := ''0.0002'', ac_LegBBasePosition := ''0'', ac_CarryBaseQuantity := ''0.0002''\<rparr>,
      du_Remaining = 0, du_Phase = ''exiting'', du_InstrumentA = sample_instrument,
      du_InstrumentB = sample_instrument, du_InstrumentErr = None, du_PriceA = 50000, du_PriceB = 50000,
      du_LiveOrder = False, du_Unreconciled = False, du_LiveExecution = False, du_GateErr = None,
      du_ExecutionRunning = False\<rparr>"

theorem accepted_dust_cannot_be_traded_witness:
  "evaluateOneShotDust std_lib sample_dust = oneShotDustAccepted \<and>
   parseDecimal std_lib (ac_CarryBaseQuantity (du_Combination sample_dust)) =
     parseDecimal std_lib (ac_LegABasePosition (du_Combination sample_dust)) +
     parseDecimal std_lib (ac_LegBBasePosition (du_Combination sample_dust))"
proof -
  have "evaluateOneShotDust std_lib sample_dust = oneShotDustAccepted" by code_simp
  with accepted_dust_cannot_be_traded [OF this] show ?thesis by blast
qed

end
