(* ===== verification/Metrics_Worker.thy ===== *)
theory Metrics_Worker
  imports One_Shot
begin

text \<open>
  The worker that keeps the metrics of running combinations current and samples their exits:
  \<^verbatim>\<open>trader/arbitrage_position_metrics_worker.go\<close>, with the market keys of
  \<^verbatim>\<open>trader/marketdata/types.go\<close>. Its state is the four maps that the source guards by one mutex; each
  definition is one critical section, so that an interleaving of calls is a sequence of steps. A
  loop over a Go map, whose order is arbitrary, acts on each key alone and is written pointwise,
  or takes the order as the list \<open>ids\<close>.
\<close>

section \<open>Market keys and quotes\<close>

definition Key_Validate :: "Key \<Rightarrow> bool" where
  "Key_Validate k \<longleftrightarrow>
     key_Venue k \<in> set [''binance'', ''okx'', ''bybit'', ''bitget'', ''gate'', ''hyperliquid'', ''aster'', ''lighter''] \<and>
     key_Product k \<in> set [''spot'', ''perpetual''] \<and>
     (key_Venue k \<in> set [''hyperliquid'', ''aster'', ''lighter''] \<longrightarrow> key_Product k = ''perpetual'') \<and>
     TrimSpace (key_Symbol k) \<noteq> []"

definition NewKey :: "string \<Rightarrow> string \<Rightarrow> string \<Rightarrow> Key option" where
  "NewKey venue product symbol =
     (let key = \<lparr>key_Venue = ToLower (TrimSpace venue), key_Product = ToLower (TrimSpace product),
                 key_Symbol = TrimSpace symbol\<rparr>
      in if Key_Validate key then Some key else None)"

text \<open>\<open>market\<close> is the source of quotes: the latest one of a key, or None when there is none.\<close>

definition latestLegBBO :: "(Key \<Rightarrow> BBO option) \<Rightarrow> ArbitrageLeg \<Rightarrow> BBO option" where
  "latestLegBBO market leg =
     (case NewKey (leg_Exchange leg) (leg_ContractType leg) (leg_ExchangeSymbol leg) of
        None \<Rightarrow> None | Some key \<Rightarrow> market key)"

definition bboMid :: "decimal_lib \<Rightarrow> BBO \<Rightarrow> string option" where
  "bboMid L bbo =
     (case (NewFromString L (bbo_BidPrice bbo), NewFromString L (bbo_AskPrice bbo)) of
        (Some bid, Some ask) \<Rightarrow>
          if \<not> 0 < bid \<or> \<not> 0 < ask then None else Some (StringOf L (Div L (bid + ask) 2))
      | _ \<Rightarrow> None)"

definition legBBOMid :: "decimal_lib \<Rightarrow> (Key \<Rightarrow> BBO option) \<Rightarrow> ArbitrageLeg \<Rightarrow> string option" where
  "legBBOMid L market leg = (case latestLegBBO market leg of None \<Rightarrow> None | Some bbo \<Rightarrow> bboMid L bbo)"

definition quotes_leg_a ::
  "decimal_lib \<Rightarrow> BBO option \<Rightarrow> arbitrageMetricsQuotes \<Rightarrow> arbitrageMetricsQuotes" where
  "quotes_leg_a L bbo quotes =
     (case bbo of None \<Rightarrow> quotes
      | Some b \<Rightarrow> quotes\<lparr>mq_BidA := bbo_BidPrice b, mq_AskA := bbo_AskPrice b,
                         mq_ReceivedA := bbo_ReceiveTimestamp b,
                         mq_MidA := (case bboMid L b of None \<Rightarrow> mq_MidA quotes | Some mid \<Rightarrow> mid)\<rparr>)"

definition quotes_leg_b ::
  "decimal_lib \<Rightarrow> BBO option \<Rightarrow> arbitrageMetricsQuotes \<Rightarrow> arbitrageMetricsQuotes" where
  "quotes_leg_b L bbo quotes =
     (case bbo of None \<Rightarrow> quotes
      | Some b \<Rightarrow> quotes\<lparr>mq_BidB := bbo_BidPrice b, mq_AskB := bbo_AskPrice b,
                         mq_ReceivedB := bbo_ReceiveTimestamp b,
                         mq_MidB := (case bboMid L b of None \<Rightarrow> mq_MidB quotes | Some mid \<Rightarrow> mid)\<rparr>)"

definition combinationBBOQuotes ::
  "decimal_lib \<Rightarrow> (Key \<Rightarrow> BBO option) \<Rightarrow> ArbitrageCombination \<Rightarrow> time \<Rightarrow> arbitrageMetricsQuotes \<times> bool" where
  "combinationBBOQuotes L market item now =
     (let quotes = quotes_leg_b L (latestLegBBO market (ac_LegB item))
            (quotes_leg_a L (latestLegBBO market (ac_LegA item))
              \<lparr>mq_MidA = [], mq_MidB = [], mq_BidA = [], mq_AskA = [], mq_BidB = [], mq_AskB = [],
               mq_ReceivedA = zero_time, mq_ReceivedB = zero_time\<rparr>)
      in (quotes, arbitrageMetricsQuotes_fresh L quotes now))"

section \<open>The schedule\<close>

definition arbitragePositionMetricsInterval :: duration where
  "arbitragePositionMetricsInterval = 10 * Minute"

definition lastMetricsPhaseAtOrBefore :: "time \<Rightarrow> time \<Rightarrow> time" where
  "lastMetricsPhaseAtOrBefore createdAt now =
     (if IsZero createdAt then now
      else if now < createdAt + arbitragePositionMetricsInterval then createdAt
      else let n = go_div (time_Sub now createdAt) arbitragePositionMetricsInterval in
           createdAt + wrap64 (n * arbitragePositionMetricsInterval))"

definition nextMetricsPhaseAfter :: "time \<Rightarrow> time \<Rightarrow> time" where
  "nextMetricsPhaseAfter createdAt0 now =
     (let createdAt = (if IsZero createdAt0 then now else createdAt0) in
      if \<not> now > createdAt then createdAt + arbitragePositionMetricsInterval
      else let n = go_div (time_Sub now createdAt) arbitragePositionMetricsInterval;
               phase = createdAt + wrap64 ((n + 1) * arbitragePositionMetricsInterval)
           in if \<not> phase > now then phase + arbitragePositionMetricsInterval else phase)"

definition metricsDueAtOnRegister :: "time \<Rightarrow> time \<Rightarrow> time \<Rightarrow> time" where
  "metricsDueAtOnRegister createdAt0 calculatedAt now =
     (let createdAt = (if IsZero createdAt0 then now else createdAt0);
          first = createdAt + arbitragePositionMetricsInterval
      in if now < first then first
         else let lastPhase = lastMetricsPhaseAtOrBefore createdAt now in
              if IsZero calculatedAt \<or> calculatedAt < lastPhase then zero_time
              else nextMetricsPhaseAfter createdAt now)"

section \<open>State and critical sections\<close>

record metricsMember =
  mm_combo :: ArbitrageCombination
  mm_nextDueAt :: "time"
  mm_pinned :: bool

record metrics_worker =
  w_members :: "string \<rightharpoonup> metricsMember"
  w_lastPersist :: "string \<rightharpoonup> time"
  w_inFlight :: "string set"
  w_exitState :: "string \<rightharpoonup> oneShotExitState"

definition NewArbitragePositionMetricsWorker :: metrics_worker where
  "NewArbitragePositionMetricsWorker =
     \<lparr>w_members = Map.empty, w_lastPersist = Map.empty, w_inFlight = {}, w_exitState = Map.empty\<rparr>"

definition removeMemberLocked :: "string \<Rightarrow> metrics_worker \<Rightarrow> metrics_worker" where
  "removeMemberLocked cid w =
     w\<lparr>w_members := (w_members w)(cid := None), w_lastPersist := (w_lastPersist w)(cid := None),
       w_inFlight := w_inFlight w - {cid}, w_exitState := (w_exitState w)(cid := None)\<rparr>"

definition UnregisterCombination :: "string \<Rightarrow> metrics_worker \<Rightarrow> metrics_worker" where
  "UnregisterCombination cid w = (if cid = [] then w else removeMemberLocked cid w)"

definition RegisterCombination :: "time \<Rightarrow> ArbitrageCombination \<Rightarrow> metrics_worker \<Rightarrow> metrics_worker" where
  "RegisterCombination now item w =
     (if ac_ID item = [] then w
      else if \<not> oneShotPeriodicMetricsEligible item then UnregisterCombination (ac_ID item) w
      else case w_members w (ac_ID item) of
        Some existing \<Rightarrow>
          let versionChanged = (ac_Version (mm_combo existing) \<noteq> ac_Version item \<or>
                ac_ExitAnnualizedRate (mm_combo existing) \<noteq> ac_ExitAnnualizedRate item);
              member = existing\<lparr>mm_pinned := True, mm_combo := item\<rparr>
          in if versionChanged
             then w\<lparr>w_members := (w_members w)(ac_ID item \<mapsto> member\<lparr>mm_nextDueAt := zero_time\<rparr>),
                    w_exitState := (w_exitState w)(ac_ID item := None)\<rparr>
             else w\<lparr>w_members := (w_members w)(ac_ID item \<mapsto> member)\<rparr>
      | None \<Rightarrow>
          w\<lparr>w_members := (w_members w)(ac_ID item \<mapsto>
              \<lparr>mm_combo = item,
               mm_nextDueAt = metricsDueAtOnRegister (ac_CreatedAt item) (ac_MetricsCalculatedAt item) now,
               mm_pinned = True\<rparr>)\<rparr>)"

definition RequestMetricsRefresh :: "ArbitrageCombination \<Rightarrow> metrics_worker \<Rightarrow> metrics_worker" where
  "RequestMetricsRefresh item w0 =
     (if ac_ID item = [] then w0
      else let w = w0\<lparr>w_exitState := (w_exitState w0)(ac_ID item := None)\<rparr> in
        if \<not> oneShotPeriodicMetricsEligible item then removeMemberLocked (ac_ID item) w
        else (case w_members w (ac_ID item) of
          Some existing \<Rightarrow>
            w\<lparr>w_members := (w_members w)(ac_ID item \<mapsto>
                existing\<lparr>mm_combo := item, mm_pinned := True, mm_nextDueAt := zero_time\<rparr>)\<rparr>
        | None \<Rightarrow>
            w\<lparr>w_members := (w_members w)(ac_ID item \<mapsto>
                \<lparr>mm_combo = item, mm_nextDueAt = zero_time, mm_pinned = True\<rparr>)\<rparr>))"

definition sync_item :: "time \<Rightarrow> ArbitrageCombination \<Rightarrow> metrics_worker \<Rightarrow> metrics_worker" where
  "sync_item now item w =
     (if ToLower (TrimSpace (ac_Status item)) \<noteq> ''running'' then w
      else w\<lparr>w_members := (w_members w)(ac_ID item \<mapsto>
        (case w_members w (ac_ID item) of
           Some existing \<Rightarrow> existing\<lparr>mm_combo := item\<rparr>
         | None \<Rightarrow> \<lparr>mm_combo = item,
                    mm_nextDueAt = metricsDueAtOnRegister (ac_CreatedAt item) (ac_MetricsCalculatedAt item) now,
                    mm_pinned = False\<rparr>))\<rparr>)"

definition sync_seen :: "ArbitrageCombination list \<Rightarrow> string list" where
  "sync_seen items =
     map ac_ID (filter (\<lambda>item. ToLower (TrimSpace (ac_Status item)) = ''running'') items)"

definition drop_unseen :: "string list \<Rightarrow> metrics_worker \<Rightarrow> metrics_worker" where
  "drop_unseen seen w =
     (let gone = (\<lambda>cid. cid \<notin> set seen \<and>
            (case w_members w cid of None \<Rightarrow> False | Some member \<Rightarrow> \<not> mm_pinned member))
      in w\<lparr>w_members := (\<lambda>cid. if gone cid then None else w_members w cid),
           w_lastPersist := (\<lambda>cid. if gone cid then None else w_lastPersist w cid),
           w_inFlight := Set.filter (\<lambda>cid. \<not> gone cid) (w_inFlight w),
           w_exitState := (\<lambda>cid. if gone cid then None else w_exitState w cid)\<rparr>)"

definition pruneExitStates ::
  "string list \<Rightarrow> ArbitrageCombination list \<Rightarrow> metrics_worker \<Rightarrow> metrics_worker" where
  "pruneExitStates seen items w =
     (let eligible = map ac_ID (filter oneShotAnnualizedWaitingExit items) in
      w\<lparr>w_exitState := (\<lambda>cid.
          if cid \<notin> set seen then
            (case w_members w cid of
               Some member \<Rightarrow> if mm_pinned member then w_exitState w cid else None
             | None \<Rightarrow> None)
          else if cid \<notin> set eligible then None
          else w_exitState w cid)\<rparr>)"

definition syncMembers :: "time \<Rightarrow> ArbitrageCombination list \<Rightarrow> metrics_worker \<Rightarrow> metrics_worker" where
  "syncMembers now items w =
     (let seen = sync_seen items in
      pruneExitStates seen items (drop_unseen seen (fold (sync_item now) items w)))"

definition due :: "time \<Rightarrow> metrics_worker \<Rightarrow> string \<Rightarrow> bool" where
  "due now w cid \<longleftrightarrow>
     (case w_members w cid of
        None \<Rightarrow> False
      | Some member \<Rightarrow>
          cid \<notin> w_inFlight w \<and> oneShotPeriodicMetricsEligible (mm_combo member) \<and>
          \<not> (\<not> IsZero (mm_nextDueAt member) \<and> mm_nextDueAt member > now))"

definition collectDue ::
  "decimal_lib \<Rightarrow> (Key \<Rightarrow> BBO option) \<Rightarrow> string list \<Rightarrow> time \<Rightarrow> metrics_worker \<Rightarrow>
   (ArbitrageCombination \<times> arbitrageMetricsQuotes \<times> time) list \<times> metrics_worker" where
  "collectDue L market ids now w =
     (let taken = filter (due now w) ids;
          items = map (\<lambda>cid. case w_members w cid of
                         Some member \<Rightarrow> (mm_combo member)\<lparr>ac_ID := cid\<rparr>
                       | None \<Rightarrow> zero_ArbitrageCombination) taken
      in (map (\<lambda>item. (item, fst (combinationBBOQuotes L market item now), now)) items,
          w\<lparr>w_inFlight := w_inFlight w \<union> set taken\<rparr>))"

definition metricsApplyRetryDelay :: duration where "metricsApplyRetryDelay = 15 * Second"

record persist_result =
  pr_Combination :: ArbitrageCombination
  pr_Applied :: bool
  pr_Reason :: "MetricsApplyReason option"
  pr_ExitBasis :: "oneShotExitBasis option"

definition persist_reason :: "persist_result \<Rightarrow> MetricsApplyReason" where
  "persist_reason result =
     (case pr_Reason result of
        Some reason \<Rightarrow> reason
      | None \<Rightarrow> if pr_Applied result then MetricsApplied else MetricsNotReady)"

definition refreshed_combo :: "ArbitrageCombination \<Rightarrow> ArbitrageCombination \<Rightarrow> ArbitrageCombination" where
  "refreshed_combo persisted combo =
     (let c1 = (if \<not> IsZero (ac_CreatedAt persisted) then combo\<lparr>ac_CreatedAt := ac_CreatedAt persisted\<rparr>
                else combo)
      in if \<not> IsZero (ac_MetricsCalculatedAt persisted)
         then c1\<lparr>ac_MetricsCalculatedAt := ac_MetricsCalculatedAt persisted\<rparr> else c1)"

definition applyPersistResult ::
  "string \<Rightarrow> time \<Rightarrow> persist_result go_result \<Rightarrow> metrics_worker \<Rightarrow> metrics_worker" where
  "applyPersistResult cid now outcome w0 =
     (let w = w0\<lparr>w_inFlight := w_inFlight w0 - {cid}\<rparr> in
      case w_members w cid of
        None \<Rightarrow> w
      | Some member0 \<Rightarrow>
          (case outcome of
             Inl err \<Rightarrow>
               w\<lparr>w_members := (w_members w)(cid \<mapsto> member0\<lparr>mm_nextDueAt := now + metricsApplyRetryDelay\<rparr>)\<rparr>
           | Inr result \<Rightarrow>
               let member = member0\<lparr>mm_combo := refreshed_combo (pr_Combination result) (mm_combo member0)\<rparr>;
                   phase = nextMetricsPhaseAfter (ac_CreatedAt (mm_combo member)) now
               in (case persist_reason result of
                     MetricsActiveWork \<Rightarrow>
                       w\<lparr>w_members := (w_members w)(cid \<mapsto> member\<lparr>mm_nextDueAt := now + metricsApplyRetryDelay\<rparr>)\<rparr>
                   | MetricsVersionConflict \<Rightarrow>
                       w\<lparr>w_members := (w_members w)(cid \<mapsto> member\<lparr>mm_nextDueAt := now + metricsApplyRetryDelay\<rparr>)\<rparr>
                   | MetricsInactive \<Rightarrow> removeMemberLocked cid w
                   | _ \<Rightarrow>
                       w\<lparr>w_lastPersist := (w_lastPersist w)(cid \<mapsto> now),
                         w_members := (w_members w)(cid \<mapsto> member\<lparr>mm_nextDueAt := phase\<rparr>)\<rparr>)))"

definition releaseJobs :: "string list \<Rightarrow> metrics_worker \<Rightarrow> metrics_worker" where
  "releaseJobs ids w = w\<lparr>w_inFlight := w_inFlight w - set ids\<rparr>"

definition publishExitBasis :: "string \<Rightarrow> persist_result \<Rightarrow> metrics_worker \<Rightarrow> metrics_worker" where
  "publishExitBasis cid result w =
     (if \<not> pr_Applied result then w
      else case pr_ExitBasis result of
             None \<Rightarrow> w\<lparr>w_exitState := (w_exitState w)(cid := None)\<rparr>
           | Some basis \<Rightarrow>
               w\<lparr>w_exitState := (w_exitState w)(cid \<mapsto>
                   \<lparr>xs_basis = basis, xs_hits = [], xs_lastSample = zero_time, xs_stale = False\<rparr>)\<rparr>)"

section \<open>Sampling an exit\<close>

definition same_basis :: "oneShotExitBasis \<Rightarrow> oneShotExitBasis \<Rightarrow> bool" where
  "same_basis b b' \<longleftrightarrow> eb_Version b = eb_Version b' \<and> eb_CalculatedAt b = eb_CalculatedAt b'"

text \<open>The first critical section: the basis is too old.\<close>

definition sample_expire :: "string \<Rightarrow> oneShotExitState \<Rightarrow> metrics_worker \<Rightarrow> metrics_worker" where
  "sample_expire cid state w =
     (case w_exitState w cid of
        Some current \<Rightarrow>
          if same_basis (xs_basis current) (xs_basis state)
          then w\<lparr>w_exitState := (w_exitState w)(cid \<mapsto> current\<lparr>xs_hits := [], xs_stale := True\<rparr>)\<rparr>
          else w
      | None \<Rightarrow> w)"

text \<open>The sample, computed from the snapshot without the lock.\<close>

definition take_sample ::
  "decimal_lib \<Rightarrow> (duration \<Rightarrow> decimal) \<Rightarrow> (decimal \<Rightarrow> decimal) \<Rightarrow> time \<Rightarrow> (Key \<Rightarrow> BBO option) \<Rightarrow>
   oneShotExitState \<Rightarrow> time \<Rightarrow> oneShotExitSampleResult" where
  "take_sample L secs hourSecs clock market state now =
     (case (latestLegBBO market (eb_LegA (xs_basis state)), latestLegBBO market (eb_LegB (xs_basis state))) of
        (Some bboA, Some bboB) \<Rightarrow>
          (case oneShotExitQuoteFromBBO L bboA bboB now of
             None \<Rightarrow> sample_fault
           | Some quote \<Rightarrow> evaluateOneShotExitSample L secs hourSecs clock (xs_basis state) quote now)
      | _ \<Rightarrow> sample_fault)"

text \<open>The second critical section: the sample enters the window; the result says whether the exit is
  ready.\<close>

definition sample_commit ::
  "string \<Rightarrow> oneShotExitState \<Rightarrow> oneShotExitSampleResult \<Rightarrow> time \<Rightarrow> metrics_worker \<Rightarrow> bool \<times> metrics_worker" where
  "sample_commit cid state result now w =
     (case w_exitState w cid of
        None \<Rightarrow> (False, w)
      | Some current \<Rightarrow>
          if \<not> same_basis (xs_basis current) (xs_basis state) \<or> xs_stale current then (False, w)
          else let hits = (if sr_fault result then [] else appendExitHit (xs_hits current) (sr_hit result));
                   ready = (\<not> sr_fault result \<and> oneShotExitWindowReady hits)
               in (ready, w\<lparr>w_exitState := (w_exitState w)(cid \<mapsto>
                            current\<lparr>xs_hits := hits, xs_lastSample := now\<rparr>)\<rparr>))"

text \<open>The last critical section, after the store marked the combination as exiting or refused to.\<close>

definition drop_exit_state :: "string \<Rightarrow> oneShotExitBasis \<Rightarrow> metrics_worker \<Rightarrow> metrics_worker" where
  "drop_exit_state cid basis w =
     (case w_exitState w cid of
        Some current \<Rightarrow>
          if same_basis (xs_basis current) basis
          then w\<lparr>w_exitState := (w_exitState w)(cid := None)\<rparr> else w
      | None \<Rightarrow> w)"

definition rejectAnnualizedExit :: "string \<Rightarrow> oneShotExitBasis \<Rightarrow> metrics_worker \<Rightarrow> metrics_worker" where
  "rejectAnnualizedExit cid basis w =
     (let w' = drop_exit_state cid basis w in
      case w_members w' cid of
        Some member \<Rightarrow> w'\<lparr>w_members := (w_members w')(cid \<mapsto> member\<lparr>mm_nextDueAt := zero_time\<rparr>)\<rparr>
      | None \<Rightarrow> w')"

text \<open>\<open>mark\<close> is the answer of the store to \<^verbatim>\<open>MarkOneShotAnnualizedExiting\<close>: the updated combination, or
  None when the guard did not match. The result names the exit that is signalled.\<close>

definition sampleExit ::
  "decimal_lib \<Rightarrow> (duration \<Rightarrow> decimal) \<Rightarrow> (decimal \<Rightarrow> decimal) \<Rightarrow> time \<Rightarrow> (Key \<Rightarrow> BBO option) \<Rightarrow>
   (oneShotAnnualizedExitGuard \<Rightarrow> ArbitrageCombination option go_result) \<Rightarrow>
   string \<Rightarrow> oneShotExitState \<Rightarrow> time \<Rightarrow> metrics_worker \<Rightarrow> (string \<times> int) option \<times> metrics_worker" where
  "sampleExit L secs hourSecs clock market mark cid state now w =
     (if time_Sub now (eb_CalculatedAt (xs_basis state)) > oneShotExitBasisMaxAge
      then (None, sample_expire cid state w)
      else if xs_stale state then (None, w)
      else if \<not> IsZero (xs_lastSample state) \<and> time_Sub now (xs_lastSample state) < oneShotExitSampleInterval
      then (None, w)
      else (case sample_commit cid state (take_sample L secs hourSecs clock market state now) now w of
              (ready, w') \<Rightarrow>
                if \<not> ready then (None, w')
                else (case mark (annualizedExitGuard (xs_basis state)) of
                        Inl err \<Rightarrow> (None, w')
                      | Inr None \<Rightarrow> (None, rejectAnnualizedExit cid (xs_basis state) w')
                      | Inr (Some updated) \<Rightarrow>
                          (Some (cid, ac_Version updated), drop_exit_state cid (xs_basis state) w'))))"

section \<open>Interleavings\<close>

text \<open>Every critical section is a step; the snapshots, results and outcomes that the steps carry are
  arbitrary, because they were computed outside the lock.\<close>

inductive worker_step :: "metrics_worker \<Rightarrow> metrics_worker \<Rightarrow> bool" where
  register: "worker_step w (RegisterCombination now item w)"
| request: "worker_step w (RequestMetricsRefresh item w)"
| unregister: "worker_step w (UnregisterCombination cid w)"
| sync: "worker_step w (syncMembers now items w)"
| collect: "worker_step w (snd (collectDue L market ids now w))"
| persisted: "worker_step w (applyPersistResult cid now outcome w)"
| release: "worker_step w (releaseJobs ids w)"
| publish: "worker_step w (publishExitBasis cid result w)"
| expire: "worker_step w (sample_expire cid state w)"
| commit: "worker_step w (snd (sample_commit cid state result now w))"
| finish: "worker_step w (drop_exit_state cid basis w)"
| reject: "worker_step w (rejectAnnualizedExit cid basis w)"

inductive_cases worker_stepE: "worker_step w w'"

definition worker_invariant :: "metrics_worker \<Rightarrow> bool" where
  "worker_invariant w \<longleftrightarrow>
     dom (w_lastPersist w) \<subseteq> dom (w_members w) \<and>
     (\<forall>cid state. w_exitState w cid = Some state \<longrightarrow>
        length (xs_hits state) \<le> oneShotExitWindowSize \<and> (xs_stale state \<longrightarrow> xs_hits state = []))"

named_theorems worker_defs

lemmas [worker_defs] = removeMemberLocked_def UnregisterCombination_def RegisterCombination_def
  RequestMetricsRefresh_def collectDue_def applyPersistResult_def releaseJobs_def publishExitBasis_def
  sample_expire_def sample_commit_def drop_exit_state_def rejectAnnualizedExit_def Let_def

definition exit_state_ok :: "oneShotExitState \<Rightarrow> bool" where
  "exit_state_ok state \<longleftrightarrow>
     length (xs_hits state) \<le> oneShotExitWindowSize \<and> (xs_stale state \<longrightarrow> xs_hits state = [])"

definition members_ok :: "metrics_worker \<Rightarrow> bool" where
  "members_ok w \<longleftrightarrow> dom (w_lastPersist w) \<subseteq> dom (w_members w)"

definition states_ok :: "metrics_worker \<Rightarrow> bool" where
  "states_ok w \<longleftrightarrow> (\<forall>state \<in> ran (w_exitState w). exit_state_ok state)"

lemma worker_invariant_alt: "worker_invariant w \<longleftrightarrow> members_ok w \<and> states_ok w"
  by (auto simp: worker_invariant_def members_ok_def states_ok_def exit_state_ok_def ran_def)

lemma appendExitHit_length: "length (appendExitHit hits hit) \<le> oneShotExitWindowSize"
  by (auto simp: appendExitHit_def Let_def)

lemma members_ok_sync_item: "members_ok w \<Longrightarrow> members_ok (sync_item now item w)"
  by (auto simp: members_ok_def sync_item_def)

lemma members_ok_sync_items: "members_ok w \<Longrightarrow> members_ok (fold (sync_item now) items w)"
  by (induction items arbitrary: w) (simp_all add: members_ok_sync_item)

lemma members_ok_syncMembers: "members_ok w \<Longrightarrow> members_ok (syncMembers now items w)"
  using members_ok_sync_items [of w now items]
  by (auto simp: members_ok_def syncMembers_def pruneExitStates_def drop_unseen_def Let_def dom_def
      split: option.splits)

lemma members_ok_step: "worker_step w w' \<Longrightarrow> members_ok w \<Longrightarrow> members_ok w'"
proof (induction rule: worker_step.induct)
  case (sync w now items)
  then show ?case by (rule members_ok_syncMembers)
qed (auto simp: members_ok_def worker_defs dom_def split: option.splits sum.splits MetricsApplyReason.splits)

lemma ran_restrict: "(\<And>k. m' k = None \<or> m' k = m k) \<Longrightarrow> ran m' \<subseteq> ran m"
  by (auto simp: ran_def) (metis option.distinct(1))

lemma states_ok_restrict:
  "states_ok w \<Longrightarrow> (\<And>cid. w_exitState w' cid = None \<or> w_exitState w' cid = w_exitState w cid) \<Longrightarrow> states_ok w'"
  using ran_restrict [of "w_exitState w'" "w_exitState w"] by (auto simp: states_ok_def)

lemma states_ok_update:
  "states_ok w \<Longrightarrow> exit_state_ok state \<Longrightarrow> states_ok (w\<lparr>w_exitState := (w_exitState w)(cid \<mapsto> state)\<rparr>)"
  by (auto simp: states_ok_def ran_def)

lemma sync_items_exitState [simp]: "w_exitState (fold (sync_item now) items w) = w_exitState w"
  by (induction items arbitrary: w) (auto simp: sync_item_def)

lemma sync_exitState:
  "w_exitState (syncMembers now items w) cid = None \<or>
   w_exitState (syncMembers now items w) cid = w_exitState w cid"
  by (auto simp: syncMembers_def pruneExitStates_def drop_unseen_def Let_def split: option.splits)

lemma sample_commit_state:
  "w_exitState (snd (sample_commit cid state result now w)) = w_exitState w \<or>
   (\<exists>current. w_exitState w cid = Some current \<and> \<not> xs_stale current \<and>
      w_exitState (snd (sample_commit cid state result now w)) =
        (w_exitState w)(cid \<mapsto> current\<lparr>
           xs_hits := (if sr_fault result then [] else appendExitHit (xs_hits current) (sr_hit result)),
           xs_lastSample := now\<rparr>))"
  by (auto simp: sample_commit_def Let_def split: option.splits)

lemma states_ok_commit: "states_ok w \<Longrightarrow> states_ok (snd (sample_commit cid state result now w))"
proof -
  assume ok: "states_ok w"
  consider "w_exitState (snd (sample_commit cid state result now w)) = w_exitState w"
    | current where "\<not> xs_stale current"
      "w_exitState (snd (sample_commit cid state result now w)) =
        (w_exitState w)(cid \<mapsto> current\<lparr>
           xs_hits := (if sr_fault result then [] else appendExitHit (xs_hits current) (sr_hit result)),
           xs_lastSample := now\<rparr>)"
    using sample_commit_state [of cid state result now w] by blast
  then show ?thesis
  proof cases
    case 1
    then show ?thesis using ok by (simp add: states_ok_def)
  next
    case (2 current)
    then have "exit_state_ok (current\<lparr>
        xs_hits := (if sr_fault result then [] else appendExitHit (xs_hits current) (sr_hit result)),
        xs_lastSample := now\<rparr>)"
      by (simp add: exit_state_ok_def appendExitHit_length)
    from states_ok_update [OF ok this, of cid] 2(2) show ?thesis
      unfolding states_ok_def by simp
  qed
qed

lemma states_ok_expire: "states_ok w \<Longrightarrow> states_ok (sample_expire cid state w)"
  by (auto simp: sample_expire_def exit_state_ok_def intro!: states_ok_update split: option.splits)

lemma states_ok_publish: "states_ok w \<Longrightarrow> states_ok (publishExitBasis cid result w)"
  by (auto simp: publishExitBasis_def exit_state_ok_def intro!: states_ok_update split: option.splits)
    (erule states_ok_restrict, simp)

lemma states_ok_step: "worker_step w w' \<Longrightarrow> states_ok w \<Longrightarrow> states_ok w'"
proof (induction rule: worker_step.induct)
  case (sync w now items)
  then show ?case using sync_exitState by (blast intro: states_ok_restrict)
next
  case (publish w cid result)
  then show ?case by (rule states_ok_publish)
next
  case (expire w cid state)
  then show ?case by (rule states_ok_expire)
next
  case (commit w cid state result now)
  then show ?case by (rule states_ok_commit)
qed (erule states_ok_restrict;
     auto simp: worker_defs split: option.splits sum.splits MetricsApplyReason.splits)+

lemma sync_item_keeps: "w_members w cid \<noteq> None \<Longrightarrow> w_members (sync_item now item w) cid \<noteq> None"
  by (auto simp: sync_item_def)

lemma sync_items_keep: "w_members w cid \<noteq> None \<Longrightarrow> w_members (fold (sync_item now) items w) cid \<noteq> None"
proof (induction items arbitrary: w)
  case (Cons item items)
  then show ?case using sync_item_keeps [of w cid now item] by simp
qed simp

lemma sync_item_adds:
  "ToLower (TrimSpace (ac_Status item)) = ''running'' \<Longrightarrow> w_members (sync_item now item w) (ac_ID item) \<noteq> None"
  by (simp add: sync_item_def)

lemma sync_items_member:
  "cid \<in> set (sync_seen items) \<Longrightarrow> w_members (fold (sync_item now) items w) cid \<noteq> None"
proof (induction items arbitrary: w)
  case (Cons item items)
  show ?case
  proof (cases "cid \<in> set (sync_seen items)")
    case True
    then show ?thesis using Cons.IH by simp
  next
    case False
    then have "cid = ac_ID item" "ToLower (TrimSpace (ac_Status item)) = ''running''"
      using Cons.prems by (auto simp: sync_seen_def split: if_splits)
    then show ?thesis using sync_items_keep sync_item_adds by simp
  qed
qed (simp add: sync_seen_def)

section \<open>Phases\<close>

lemma interval_pos: "0 < arbitragePositionMetricsInterval"
  by (simp add: arbitragePositionMetricsInterval_def duration_units)

lemma next_phase_bounds:
  assumes "\<not> IsZero created" "created < now" "in_int64 (now - created + arbitragePositionMetricsInterval)"
  shows "now < nextMetricsPhaseAfter created now"
    "nextMetricsPhaseAfter created now \<le> now + arbitragePositionMetricsInterval"
    "arbitragePositionMetricsInterval dvd nextMetricsPhaseAfter created now - created"
proof -
  let ?I = arbitragePositionMetricsInterval and ?d = "now - created"
  let ?n = "?d div ?I"
  have I: "0 < ?I" by (rule interval_pos)
  have d: "time_Sub now created = ?d"
    using assms(2,3) I by (intro time_Sub_exact) (auto simp: in_int64_def)
  have "?n * ?I + ?d mod ?I = ?d" "0 \<le> ?d mod ?I" "?d mod ?I < ?I" "(?n + 1) * ?I = ?n * ?I + ?I"
    using I by (simp_all add: distrib_right)
  then have n: "?n * ?I \<le> ?d" "?d < (?n + 1) * ?I" by linarith+
  have "0 \<le> ?n" using assms(2) I by (simp add: pos_imp_zdiv_nonneg_iff)
  then have "in_int64 ((?n + 1) * ?I)"
    using assms(2,3) n I by (auto simp: in_int64_def distrib_right)
  then have phase: "nextMetricsPhaseAfter created now = created + (?n + 1) * ?I"
    using assms(1,2) n d I by (simp add: nextMetricsPhaseAfter_def go_div_nonneg Let_def)
  show "now < nextMetricsPhaseAfter created now" "nextMetricsPhaseAfter created now \<le> now + ?I"
    "?I dvd nextMetricsPhaseAfter created now - created"
    unfolding phase using n by (simp_all add: distrib_right)
qed

section \<open>Exits\<close>

lemma sample_commit_ready:
  assumes "sample_commit cid state result now w = (True, w')"
  obtains current where "w_exitState w cid = Some current" "same_basis (xs_basis current) (xs_basis state)"
    "\<not> xs_stale current" "\<not> sr_fault result"
    "oneShotExitWindowReady (appendExitHit (xs_hits current) (sr_hit result))"
    "w' = w\<lparr>w_exitState := (w_exitState w)(cid \<mapsto> current\<lparr>
       xs_hits := appendExitHit (xs_hits current) (sr_hit result), xs_lastSample := now\<rparr>)\<rparr>"
  using assms that by (auto simp: sample_commit_def Let_def split: option.splits if_splits)

lemma window_ready_last_hit: "oneShotExitWindowReady (appendExitHit hits hit) \<Longrightarrow> hit"
  by (auto simp: oneShotExitWindowReady_def appendExitHit_last last_samples_def oneShotExitWindowSize_def
      split: if_splits)

lemma signal_requires_window:
  assumes "sampleExit L secs hourSecs clock market mark cid state now w = (Some (signalled, version), w')"
  shows "\<exists>current updated.
    signalled = cid \<and> version = ac_Version updated \<and>
    mark (annualizedExitGuard (xs_basis state)) = Inr (Some updated) \<and>
    w_exitState w cid = Some current \<and> same_basis (xs_basis current) (xs_basis state) \<and> \<not> xs_stale current \<and>
    time_Sub now (eb_CalculatedAt (xs_basis state)) \<le> oneShotExitBasisMaxAge \<and>
    sr_hit (take_sample L secs hourSecs clock market state now) \<and>
    oneShotExitWindowReady (appendExitHit (xs_hits current) True) \<and>
    w_exitState w' cid = None"
proof -
  let ?result = "take_sample L secs hourSecs clock market state now"
  obtain v updated where commit: "sample_commit cid state ?result now w = (True, v)"
    and mark: "mark (annualizedExitGuard (xs_basis state)) = Inr (Some updated)"
    and out: "signalled = cid" "version = ac_Version updated" "w' = drop_exit_state cid (xs_basis state) v"
    and age: "time_Sub now (eb_CalculatedAt (xs_basis state)) \<le> oneShotExitBasisMaxAge"
    using assms by (auto simp: sampleExit_def split: if_splits prod.splits sum.splits option.splits)
  obtain current where c: "w_exitState w cid = Some current" "same_basis (xs_basis current) (xs_basis state)"
    "\<not> xs_stale current" "oneShotExitWindowReady (appendExitHit (xs_hits current) (sr_hit ?result))"
    and v: "v = w\<lparr>w_exitState := (w_exitState w)(cid \<mapsto> current\<lparr>
       xs_hits := appendExitHit (xs_hits current) (sr_hit ?result), xs_lastSample := now\<rparr>)\<rparr>"
    using sample_commit_ready [OF commit] by blast
  have hit: "sr_hit ?result" using window_ready_last_hit [OF c(4)] .
  have "w_exitState w' cid = None" using c(2) by (simp add: out(3) v drop_exit_state_def)
  with c hit mark out age show ?thesis by auto
qed

section \<open>Properties\<close>

text \<open>C5: in every state that the worker reaches, however its calls interleave, a combination has a
  persist time only while it is a member, no exit window holds more than thirty samples, and a
  stale exit state has an empty window.\<close>

theorem worker_invariant_reachable:
  assumes "worker_step\<^sup>*\<^sup>* NewArbitragePositionMetricsWorker w"
  shows "worker_invariant w"
  using assms
proof (induction rule: rtranclp_induct)
  case base
  then show ?case by (simp add: worker_invariant_def NewArbitragePositionMetricsWorker_def)
next
  case (step w w')
  then show ?case using members_ok_step states_ok_step unfolding worker_invariant_alt by blast
qed


definition sample_result :: persist_result where
  "sample_result = \<lparr>pr_Combination = zero_ArbitrageCombination, pr_Applied = True,
     pr_Reason = Some MetricsApplied, pr_ExitBasis = Some sample_basis\<rparr>"

theorem worker_invariant_reachable_witness:
  "worker_invariant (publishExitBasis ''c1'' sample_result NewArbitragePositionMetricsWorker)"
  by (rule worker_invariant_reachable) (rule r_into_rtranclp, rule worker_step.publish)



definition sample_exit_state :: oneShotExitState where
  "sample_exit_state =
     \<lparr>xs_basis = sample_basis\<lparr>
        eb_LegA := zero_ArbitrageLeg\<lparr>leg_Exchange := ''OKX'', leg_ContractType := ''perpetual'', leg_ExchangeSymbol := ''A''\<rparr>,
        eb_LegB := zero_ArbitrageLeg\<lparr>leg_Exchange := ''gate'', leg_ContractType := ''perpetual'', leg_ExchangeSymbol := ''B''\<rparr>\<rparr>,
      xs_hits = replicate 12 False @ replicate 17 True, xs_lastSample = zero_time, xs_stale = False\<rparr>"

definition sample_market :: "Key \<Rightarrow> BBO option" where
  "sample_market k = Some (if key_Symbol k = ''A''
     then zero_BBO\<lparr>bbo_BidPrice := ''101'', bbo_AskPrice := ''102'', bbo_ReceiveTimestamp := 1900000000\<rparr>
     else zero_BBO\<lparr>bbo_BidPrice := ''103'', bbo_AskPrice := ''104'', bbo_ReceiveTimestamp := 1900000000\<rparr>)"

definition sample_sampling :: "(string \<times> int) option \<times> metrics_worker" where
  "sample_sampling = sampleExit std_lib (\<lambda>d. of_int d / 1000000000) (\<lambda>h. h * 3600) 0 sample_market
     (\<lambda>guard. Inr (Some zero_ArbitrageCombination)) ''c1'' sample_exit_state 2000000000
     (NewArbitragePositionMetricsWorker\<lparr>w_exitState := [''c1'' \<mapsto> sample_exit_state]\<rparr>)"


text \<open>the next metrics run of a combination is later than now, at most one interval away, and a
  whole number of intervals after its creation, as long as the times are less than 292 years apart.\<close>

theorem next_metrics_phase:
  assumes "\<not> IsZero created" "created < now" "in_int64 (now - created + arbitragePositionMetricsInterval)"
  shows "now < nextMetricsPhaseAfter created now \<and>
    nextMetricsPhaseAfter created now \<le> now + arbitragePositionMetricsInterval \<and>
    arbitragePositionMetricsInterval dvd nextMetricsPhaseAfter created now - created"
  using next_phase_bounds [OF assms] by simp

theorem next_metrics_phase_witness:
  "nextMetricsPhaseAfter 1 1500000000000 = 1800000000001 \<and>
   1500000000000 < nextMetricsPhaseAfter 1 1500000000000"
proof -
  have "\<not> IsZero 1" "in_int64 (1500000000000 - 1 + arbitragePositionMetricsInterval)"
    "nextMetricsPhaseAfter 1 1500000000000 = 1800000000001"
    by code_simp+
  with next_metrics_phase [of 1 1500000000000] show ?thesis by simp
qed

end
