(* ===== verification/Arbitrage_Sizing.thy ===== *)
theory Arbitrage_Sizing
  imports Arbitrage_Math
begin

text \<open>
  How large an arbitrage order is: \<^verbatim>\<open>arbitrageExecutableBase\<close> and its helpers of
  \<^verbatim>\<open>trader/arbitrage_math.go\<close>, and \<^verbatim>\<open>trader/arbitrage_order_size.go\<close>. The random component is the
  value \<open>random\<close> that the source draws from its random number interface. A size that is refused is
  \<open>Inl\<close> of the reason: a text of the source, or the error that order preparation returned.
\<close>

datatype size_reason = ReasonText string | ReasonError trader_error

section \<open>Executable base quantity\<close>

definition preflightPrice :: "decimal_lib \<Rightarrow> Instrument \<Rightarrow> string \<Rightarrow> decimal \<Rightarrow> string" where
  "preflightPrice L instrument orderType reference =
     (if orderType \<noteq> ''limit'' then []
      else let tick = parsePositiveDecimal L (inst_PriceTick instrument) in
           if \<not> 0 < tick then [] else StringOf L (floorToStep L reference tick))"

definition prepareSizedOrder ::
  "decimal_lib \<Rightarrow> Instrument \<Rightarrow> string \<Rightarrow> string \<Rightarrow> string \<Rightarrow> string \<Rightarrow> string \<Rightarrow> bool \<Rightarrow> bool \<Rightarrow>
   unit go_result" where
  "prepareSizedOrder L instrument orderType quantity price referencePrice effect reduceOnly lastClip =
     (case prepareArbitrageOrder L instrument orderType quantity price referencePrice
             (zero_ArbitrageExecution\<lparr>ae_PositionEffect := effect, ae_ReduceOnly := reduceOnly,
                                      ae_LastCloseClip := lastClip\<rparr>) of
        Inl e \<Rightarrow> Inl e | Inr _ \<Rightarrow> Inr ())"

text \<open>The four checks that end \<^verbatim>\<open>arbitrageExecutableBase\<close>: both orders pass the rules, and both
  quantities convert to venue units.\<close>

definition both_legs_place ::
  "decimal_lib \<Rightarrow> Instrument \<Rightarrow> Instrument \<Rightarrow> string \<Rightarrow> string \<Rightarrow> decimal \<Rightarrow> decimal \<Rightarrow> decimal \<Rightarrow>
   string \<Rightarrow> bool \<Rightarrow> unit go_result" where
  "both_legs_place L instrumentA instrumentB orderTypeA orderTypeB quantity priceA priceB effect lastClip =
     (let closing = EqualFold (TrimSpace effect) ''close'' in
      case prepareSizedOrder L instrumentA orderTypeA (StringOf L quantity)
             (preflightPrice L instrumentA orderTypeA priceA) (StringOf L priceA) effect closing lastClip of
        Inl e \<Rightarrow> Inl e
      | Inr _ \<Rightarrow>
      (case prepareSizedOrder L instrumentB orderTypeB (StringOf L quantity)
              (preflightPrice L instrumentB orderTypeB priceB) (StringOf L priceB) effect closing lastClip of
         Inl e \<Rightarrow> Inl e
       | Inr _ \<Rightarrow>
       (case ToVenueQuantity L (toVenueInstrument instrumentA) (StringOf L quantity) of
          Inl e \<Rightarrow> Inl e
        | Inr _ \<Rightarrow>
        (case ToVenueQuantity L (toVenueInstrument instrumentB) (StringOf L quantity) of
           Inl e \<Rightarrow> Inl e
         | Inr _ \<Rightarrow> Inr ()))))"

definition executable_quantity ::
  "decimal_lib \<Rightarrow> ArbitrageCombination \<Rightarrow> string \<Rightarrow> decimal \<Rightarrow> decimal \<Rightarrow> decimal \<Rightarrow> decimal \<Rightarrow> decimal" where
  "executable_quantity L combination direction notional priceA priceB step =
     (let quantity = floorToStep L (min (Div L notional priceA) (Div L notional priceB)) step in
      if EqualFold direction ''bid''
      then floorToStep L (min quantity (arbitrageCloseableBase L combination)) step
      else quantity)"

definition arbitrageExecutableBase ::
  "decimal_lib \<Rightarrow> ArbitrageCombination \<Rightarrow> Instrument \<Rightarrow> Instrument \<Rightarrow> BBO \<Rightarrow> BBO \<Rightarrow> string \<Rightarrow> string \<Rightarrow>
   decimal \<Rightarrow> bool \<Rightarrow> size_reason + decimal" where
  "arbitrageExecutableBase L combination instrumentA instrumentB bboA bboB direction effect notional lastClip =
     (case arbitrageLegSides direction of
        None \<Rightarrow> Inl (ReasonText ''invalid close size'')
      | Some (aSide, bSide) \<Rightarrow>
          if \<not> 0 < notional then Inl (ReasonText ''invalid close size'')
          else
            let priceA = (if aSide = ''sell'' then parsePositiveDecimal L (bbo_BidPrice bboA)
                          else parsePositiveDecimal L (bbo_AskPrice bboA));
                priceB = (if bSide = ''sell'' then parsePositiveDecimal L (bbo_BidPrice bboB)
                          else parsePositiveDecimal L (bbo_AskPrice bboB))
            in if \<not> 0 < priceA \<or> \<not> 0 < priceB then Inl (ReasonText ''missing bbo price'')
            else (case arbitrageOrderTypes combination of
              (orderTypeA, orderTypeB) \<Rightarrow>
                let step = commonQuantityStep L (instrumentOrderStep L instrumentA orderTypeA)
                             (instrumentOrderStep L instrumentB orderTypeB)
                in if \<not> 0 < step then Inl (ReasonText ''quantity step is invalid'')
                else let quantity = executable_quantity L combination direction notional priceA priceB step
                in if \<not> 0 < quantity then Inl (ReasonText ''quantity floored to zero'')
                else (case both_legs_place L instrumentA instrumentB orderTypeA orderTypeB quantity
                             priceA priceB effect lastClip of
                        Inl e \<Rightarrow> Inl (ReasonError e)
                      | Inr _ \<Rightarrow> Inr quantity)))"

section \<open>Notionals of the book and of the position\<close>

definition arbitrageMaxOrderNotional :: decimal where "arbitrageMaxOrderNotional = 1000"
definition arbitrageRandomNotionalMax :: decimal where "arbitrageRandomNotionalMax = 20"
definition arbitrageMakerDepthFraction :: decimal where "arbitrageMakerDepthFraction = 5 / 100"

lemmas size_limits = arbitrageMinOpenNotional_def arbitrageMaxOrderNotional_def
  arbitrageRandomNotionalMax_def arbitrageMakerDepthFraction_def

text \<open>\<^verbatim>\<open>cryptoNotionalRand\<close>: two random bytes, or None when reading them fails.\<close>

definition cryptoNotionalRand :: "decimal_lib \<Rightarrow> (int \<times> int) option \<Rightarrow> decimal" where
  "cryptoNotionalRand L bytes =
     (case bytes of None \<Rightarrow> 0
      | Some (hi, lo) \<Rightarrow> Div L (of_int ((hi * 256 + lo) mod (20 * 100))) 100)"

record arbitrageSizePlan =
  asp_Direction :: string
  asp_Effect :: string
  asp_ReduceOnly :: bool
  asp_RequestedNotional :: decimal
  asp_TargetBaseQuantity :: decimal
  asp_RandomNotional :: decimal
  asp_HedgeCapNotional :: decimal
  asp_LegANotional :: decimal
  asp_LegBNotional :: decimal
  asp_LastClip :: bool

definition combinationLooksFlat :: "decimal_lib \<Rightarrow> ArbitrageCombination \<Rightarrow> bool" where
  "combinationLooksFlat L item \<longleftrightarrow>
     \<not> 0 < \<bar>parseDecimal L (ac_LegABasePosition item)\<bar> \<and>
     \<not> 0 < \<bar>parseDecimal L (ac_LegBBasePosition item)\<bar> \<and>
     parseDecimal L (ac_CarryBaseQuantity item) = 0"

definition remainingDirectionNotional ::
  "decimal \<Rightarrow> decimal \<Rightarrow> decimal \<Rightarrow> decimal \<Rightarrow> decimal \<Rightarrow> decimal" where
  "remainingDirectionNotional legABase legBBase target midA midB =
     (if \<not> 0 < target then 0
      else let usedA = \<bar>legABase\<bar> * midA; usedB = \<bar>legBBase\<bar> * midB;
               remaining = target - max usedA usedB
           in if remaining < 0 then 0 else remaining)"

definition closeableNotional :: "decimal \<Rightarrow> decimal \<Rightarrow> decimal \<Rightarrow> decimal \<Rightarrow> decimal" where
  "closeableNotional legABase legBBase priceA priceB =
     (if \<not> 0 < priceA \<or> \<not> 0 < priceB then 0
      else let availableA = (if 0 < legABase then legABase else if legABase < 0 then \<bar>legABase\<bar> else 0);
               availableB = (if legBBase < 0 then \<bar>legBBase\<bar> else if 0 < legBBase then legBBase else 0)
           in if \<not> 0 < availableA \<or> \<not> 0 < availableB then 0
              else let base = min availableA availableB in max (base * priceA) (base * priceB))"

definition topOfBookNotional :: "decimal_lib \<Rightarrow> Instrument \<Rightarrow> string \<Rightarrow> string \<Rightarrow> decimal option" where
  "topOfBookNotional L instrument price rawQuantity =
     (let px = parsePositiveDecimal L price in
      if \<not> 0 < px \<or> TrimSpace rawQuantity = [] then None
      else case FromVenueQuantity L (toVenueInstrument instrument) rawQuantity of
             Inl e \<Rightarrow> None
           | Inr base \<Rightarrow>
               let qty = parsePositiveDecimal L base in
               if \<not> 0 < qty then None else Some (qty * px))"

definition arbitrageOrderType :: "ArbitrageCombination \<Rightarrow> Instrument \<Rightarrow> string" where
  "arbitrageOrderType combination instrument =
     (case arbitrageOrderTypes combination of
        (orderTypeA, orderTypeB) \<Rightarrow>
          if inst_ID instrument = 0 then
            (if EqualFold (inst_ExchangeSymbol instrument) (leg_ExchangeSymbol (ac_LegA combination))
             then orderTypeA else orderTypeB)
          else if inst_ID instrument = leg_InstrumentID (ac_LegA combination) then orderTypeA
          else orderTypeB)"

section \<open>Sizing an execution\<close>

definition clamp_random :: "decimal \<Rightarrow> decimal" where
  "clamp_random random =
     (let r = (if random < 0 then 0 else random) in
      if \<not> r < arbitrageRandomNotionalMax then arbitrageRandomNotionalMax - 1 / 100 else r)"

text \<open>The raw notional and the hedge cap, from the depth of the book on the sides traded.\<close>

definition maker_raw ::
  "decimal_lib \<Rightarrow> ArbitrageCombination \<Rightarrow> Instrument \<Rightarrow> Instrument \<Rightarrow> BBO \<Rightarrow> BBO \<Rightarrow> string \<Rightarrow> string \<Rightarrow>
   decimal \<Rightarrow> size_reason + decimal \<times> decimal" where
  "maker_raw L combination instrumentA instrumentB bboA bboB aSide bSide random =
     (let (makerInst, makerBBO, makerSide, hedgeInst, hedgeBBO, hedgeSide) =
            (if EqualFold (TrimSpace (ac_MakerLeg combination)) ''b''
             then (instrumentB, bboB, bSide, instrumentA, bboA, aSide)
             else (instrumentA, bboA, aSide, instrumentB, bboB, bSide))
      in case topOfBookNotional L makerInst (bboPriceForSide makerBBO makerSide)
                (bboQuantityForSide makerBBO makerSide) of
           None \<Rightarrow> Inl (ReasonText ''missing bbo quantity'')
         | Some makerTop \<Rightarrow>
             Inr (makerTop * arbitrageMakerDepthFraction + random,
                  (case topOfBookNotional L hedgeInst (bboPriceForSide hedgeBBO hedgeSide)
                          (bboQuantityForSide hedgeBBO hedgeSide) of
                     None \<Rightarrow> 0 | Some cap \<Rightarrow> cap)))"

definition taker_raw ::
  "decimal_lib \<Rightarrow> Instrument \<Rightarrow> Instrument \<Rightarrow> BBO \<Rightarrow> BBO \<Rightarrow> string \<Rightarrow> string \<Rightarrow> bool \<Rightarrow>
   decimal \<Rightarrow> size_reason + decimal \<times> decimal" where
  "taker_raw L instrumentA instrumentB bboA bboB aSide bSide closing random =
     (case (topOfBookNotional L instrumentA (bboPriceForSide bboA aSide) (bboQuantityForSide bboA aSide),
            topOfBookNotional L instrumentB (bboPriceForSide bboB bSide) (bboQuantityForSide bboB bSide)) of
        (Some legATop, Some legBTop) \<Rightarrow>
          let hedgeCap = min legATop legBTop;
              raw = min (min (min legATop legBTop * arbitrageMakerDepthFraction + random) legATop) legBTop
          in if \<not> closing \<and> hedgeCap < arbitrageMinOpenNotional
             then Inl (ReasonText ''hedge cap below minimum open notional'')
             else if closing \<and> hedgeCap < arbitrageMinOpenNotional
             then Inl (ReasonText ''hedge cap below minimum close notional'')
             else Inr (raw, hedgeCap)
      | _ \<Rightarrow> Inl (ReasonText ''missing bbo quantity''))"

text \<open>Raw notional, hedge cap and the random part used; the last clip takes all that is closeable.\<close>

definition raw_notional ::
  "decimal_lib \<Rightarrow> ArbitrageCombination \<Rightarrow> Instrument \<Rightarrow> Instrument \<Rightarrow> BBO \<Rightarrow> BBO \<Rightarrow> string \<Rightarrow> string \<Rightarrow>
   bool \<Rightarrow> bool \<Rightarrow> decimal \<Rightarrow> decimal \<Rightarrow> size_reason + decimal \<times> decimal \<times> decimal" where
  "raw_notional L combination instrumentA instrumentB bboA bboB aSide bSide closing lastClip closeable random0 =
     (if lastClip then Inr (closeable, 0, 0)
      else let random = clamp_random random0 in
        (case (if EqualFold (TrimSpace (ac_ExecutionMode combination)) ''maker_then_hedge''
               then maker_raw L combination instrumentA instrumentB bboA bboB aSide bSide random
               else taker_raw L instrumentA instrumentB bboA bboB aSide bSide closing random) of
           Inl e \<Rightarrow> Inl e
         | Inr (raw, hedgeCap) \<Rightarrow>
             Inr (if raw < arbitrageMinOpenNotional then arbitrageMinOpenNotional else raw, hedgeCap, random)))"

definition bounded_notional :: "decimal \<Rightarrow> bool \<Rightarrow> decimal \<Rightarrow> decimal \<Rightarrow> size_reason + decimal" where
  "bounded_notional raw closing remaining closeable =
     (let bounded = (if raw > arbitrageMaxOrderNotional then arbitrageMaxOrderNotional else raw) in
      if closing then
        (if \<not> 0 < closeable then Inl (ReasonText ''closeable notional is zero'')
         else let b = min bounded closeable in
              if \<not> 0 < b then Inl (ReasonText ''bounded notional is not positive'') else Inr b)
      else
        (if remaining < arbitrageMinOpenNotional
         then Inl (ReasonText ''remaining below minimum open notional'')
         else let b = min bounded remaining in
              if \<not> 0 < b then Inl (ReasonText ''bounded notional is not positive'') else Inr b))"

text \<open>The quantity after the caps that follow \<^verbatim>\<open>arbitrageExecutableBase\<close>.\<close>

definition capped_base ::
  "decimal_lib \<Rightarrow> ArbitrageCombination \<Rightarrow> Instrument \<Rightarrow> Instrument \<Rightarrow> bool \<Rightarrow> decimal \<Rightarrow> decimal \<Rightarrow>
   decimal \<Rightarrow> size_reason + decimal" where
  "capped_base L combination instrumentA instrumentB closing remaining capPrice base =
     (let step = commonQuantityStep L
            (instrumentOrderStep L instrumentA (arbitrageOrderType combination instrumentA))
            (instrumentOrderStep L instrumentB (arbitrageOrderType combination instrumentB))
      in if closing then
           (let closeableBase0 = arbitrageCloseableBase L combination;
                closeableBase = (if arbitrageFlattening combination
                                 then min closeableBase0 (arbitrageOwnedCloseableBase L combination)
                                 else closeableBase0);
                finalBase = floorToStep L (min base closeableBase) step
            in if \<not> 0 < finalBase then Inl (ReasonText ''close quantity floored to zero'')
               else Inr finalBase)
         else
           (let maxBase = Div L remaining capPrice;
                finalBase = (if base > maxBase then floorToStep L maxBase step else base)
            in if \<not> 0 < finalBase then Inl (ReasonText ''sized quantity is not positive'')
               else Inr finalBase))"

definition sizeArbitrageExecution ::
  "decimal_lib \<Rightarrow> ArbitrageCombination \<Rightarrow> Instrument \<Rightarrow> Instrument \<Rightarrow> BBO \<Rightarrow> BBO \<Rightarrow> string \<Rightarrow> string \<Rightarrow>
   decimal \<Rightarrow> decimal \<Rightarrow> decimal \<Rightarrow> size_reason + arbitrageSizePlan" where
  "sizeArbitrageExecution L combination instrumentA instrumentB bboA bboB direction effect
     remaining closeable random0 =
     (case arbitrageLegSides direction of
        None \<Rightarrow> Inl (ReasonText ''invalid direction'')
      | Some (aSide, bSide) \<Rightarrow>
        let priceA = parsePositiveDecimal L (bboPriceForSide bboA aSide);
            priceB = parsePositiveDecimal L (bboPriceForSide bboB bSide)
        in if \<not> 0 < priceA \<or> \<not> 0 < priceB then Inl (ReasonText ''missing bbo price'')
        else let closing = EqualFold (TrimSpace effect) ''close'';
                 lastClip = (arbitrageFlattening combination \<and> closing \<and> 0 < closeable \<and>
                             closeable < arbitrageMinOpenNotional)
        in (case raw_notional L combination instrumentA instrumentB bboA bboB aSide bSide closing
                   lastClip closeable random0 of
              Inl e \<Rightarrow> Inl e
            | Inr (raw, hedgeCap, random) \<Rightarrow>
        (case bounded_notional raw closing remaining closeable of
              Inl e \<Rightarrow> Inl e
            | Inr bounded \<Rightarrow>
        (case arbitrageExecutableBase L combination instrumentA instrumentB bboA bboB direction effect
                bounded lastClip of
              Inl e \<Rightarrow> Inl e
            | Inr base \<Rightarrow>
        (case capped_base L combination instrumentA instrumentB closing remaining (max priceA priceB) base of
              Inl e \<Rightarrow> Inl e
            | Inr finalBase \<Rightarrow>
                let legANotional = finalBase * priceA;
                    legBNotional = finalBase * priceB;
                    requested = max legANotional legBNotional
                in if \<not> closing \<and> (requested > remaining \<or> remaining < arbitrageMinOpenNotional)
                   then Inl (ReasonText ''requested exceeds remaining open notional'')
                   else if closing \<and> requested > closeable
                   then Inl (ReasonText ''requested exceeds closeable notional'')
                   else Inr \<lparr>asp_Direction = direction, asp_Effect = effect, asp_ReduceOnly = closing,
                             asp_RequestedNotional = requested, asp_TargetBaseQuantity = finalBase,
                             asp_RandomNotional = random, asp_HedgeCapNotional = hedgeCap,
                             asp_LegANotional = legANotional, asp_LegBNotional = legBNotional,
                             asp_LastClip = lastClip\<rparr>)))))"

section \<open>What a size plan satisfies\<close>

text \<open>The prices of the two legs and the step both legs can trade.\<close>

definition leg_prices :: "decimal_lib \<Rightarrow> BBO \<Rightarrow> BBO \<Rightarrow> string \<Rightarrow> (decimal \<times> decimal) option" where
  "leg_prices L bboA bboB direction =
     map_option (\<lambda>(aSide, bSide). (parsePositiveDecimal L (bboPriceForSide bboA aSide),
                                  parsePositiveDecimal L (bboPriceForSide bboB bSide)))
       (arbitrageLegSides direction)"

definition leg_steps ::
  "decimal_lib \<Rightarrow> ArbitrageCombination \<Rightarrow> Instrument \<Rightarrow> Instrument \<Rightarrow> decimal \<times> decimal" where
  "leg_steps L combination instrumentA instrumentB =
     (instrumentOrderStep L instrumentA (fst (arbitrageOrderTypes combination)),
      instrumentOrderStep L instrumentB (snd (arbitrageOrderTypes combination)))"

definition instruments_match :: "ArbitrageCombination \<Rightarrow> Instrument \<Rightarrow> Instrument \<Rightarrow> bool" where
  "instruments_match combination instrumentA instrumentB \<longleftrightarrow>
     inst_ID instrumentA \<noteq> 0 \<and> inst_ID instrumentB \<noteq> 0 \<and>
     inst_ID instrumentA = leg_InstrumentID (ac_LegA combination) \<and>
     inst_ID instrumentB \<noteq> inst_ID instrumentA"

lemma matching_order_types:
  assumes "instruments_match c iA iB"
  shows "arbitrageOrderType c iA = fst (arbitrageOrderTypes c)"
    "arbitrageOrderType c iB = snd (arbitrageOrderTypes c)"
  using assms
  by (auto simp: instruments_match_def arbitrageOrderType_def split: prod.splits)

lemma bounded_notional_bounds:
  assumes "bounded_notional raw closing remaining closeable = Inr b"
  shows "0 < b" "b \<le> raw" "b \<le> arbitrageMaxOrderNotional"
    "closing \<Longrightarrow> b \<le> closeable" "\<not> closing \<Longrightarrow> b \<le> remaining"
  using assms by (auto simp: bounded_notional_def Let_def split: if_splits)

lemma leg_side_price:
  assumes "arbitrageLegSides direction = Some (aSide, bSide)"
  shows "bboPriceForSide bbo aSide = (if aSide = ''sell'' then bbo_BidPrice bbo else bbo_AskPrice bbo)"
    "bboPriceForSide bbo bSide = (if bSide = ''sell'' then bbo_BidPrice bbo else bbo_AskPrice bbo)"
proof -
  have "EqualFold (TrimSpace ''buy'') ''sell'' = False" "EqualFold (TrimSpace ''sell'') ''sell'' = True"
    by code_simp+
  then show "bboPriceForSide bbo aSide = (if aSide = ''sell'' then bbo_BidPrice bbo else bbo_AskPrice bbo)"
    "bboPriceForSide bbo bSide = (if bSide = ''sell'' then bbo_BidPrice bbo else bbo_AskPrice bbo)"
    using assms by (auto simp: arbitrageLegSides_def bboPriceForSide_def Let_def split: if_splits)
qed

lemma executable_base_cases:
  assumes "arbitrageExecutableBase L c iA iB bboA bboB direction effect notional lastClip = Inr q"
    and "leg_prices L bboA bboB direction = Some (pA, pB)"
  obtains step where "step = case_prod (commonQuantityStep L) (leg_steps L c iA iB)" "0 < step" "0 < q"
    "0 < pA" "0 < pB" "q = executable_quantity L c direction notional pA pB step"
    "both_legs_place L iA iB (fst (arbitrageOrderTypes c)) (snd (arbitrageOrderTypes c)) q pA pB
       effect lastClip = Inr ()"
proof -
  obtain aSide bSide where sides: "arbitrageLegSides direction = Some (aSide, bSide)"
    and p: "pA = parsePositiveDecimal L (bboPriceForSide bboA aSide)"
      "pB = parsePositiveDecimal L (bboPriceForSide bboB bSide)"
    using assms(2) by (auto simp: leg_prices_def)
  have p': "(if aSide = ''sell'' then parsePositiveDecimal L (bbo_BidPrice bboA)
             else parsePositiveDecimal L (bbo_AskPrice bboA)) = pA"
    "(if bSide = ''sell'' then parsePositiveDecimal L (bbo_BidPrice bboB)
      else parsePositiveDecimal L (bbo_AskPrice bboB)) = pB"
    using p leg_side_price [OF sides] by simp_all
  let ?step = "case_prod (commonQuantityStep L) (leg_steps L c iA iB)"
  have step: "commonQuantityStep L (instrumentOrderStep L iA (fst (arbitrageOrderTypes c)))
      (instrumentOrderStep L iB (snd (arbitrageOrderTypes c))) = ?step"
    by (simp add: leg_steps_def)
  let ?q = "executable_quantity L c direction notional pA pB ?step"
  have "0 < pA \<and> 0 < pB \<and> 0 < ?step \<and> 0 < ?q \<and> q = ?q \<and>
    both_legs_place L iA iB (fst (arbitrageOrderTypes c)) (snd (arbitrageOrderTypes c)) ?q pA pB
       effect lastClip = Inr ()"
    using assms(1) unfolding arbitrageExecutableBase_def sides option.case prod.case p' Let_def
    by (simp add: case_prod_unfold step [unfolded case_prod_unfold] split: if_split_asm sum.split_asm)
  then show thesis using that by blast
qed

lemma size_plan_cases:
  assumes "sizeArbitrageExecution L c iA iB bboA bboB direction effect remaining closeable random = Inr plan"
  obtains pA pB raw bounded base lastClip
  where "leg_prices L bboA bboB direction = Some (pA, pB)" "0 < pA" "0 < pB"
    "bounded_notional raw (asp_ReduceOnly plan) remaining closeable = Inr bounded"
    "arbitrageExecutableBase L c iA iB bboA bboB direction effect bounded lastClip = Inr base"
    "capped_base L c iA iB (asp_ReduceOnly plan) remaining (max pA pB) base =
       Inr (asp_TargetBaseQuantity plan)"
    "asp_ReduceOnly plan \<longleftrightarrow> EqualFold (TrimSpace effect) ''close''"
    "asp_RequestedNotional plan =
       max (asp_TargetBaseQuantity plan * pA) (asp_TargetBaseQuantity plan * pB)"
    "asp_ReduceOnly plan \<Longrightarrow> asp_RequestedNotional plan \<le> closeable"
    "\<not> asp_ReduceOnly plan \<Longrightarrow>
       asp_RequestedNotional plan \<le> remaining \<and> arbitrageMinOpenNotional \<le> remaining"
proof -
  obtain aSide bSide where sides: "arbitrageLegSides direction = Some (aSide, bSide)"
    using assms by (cases "arbitrageLegSides direction") (auto simp: sizeArbitrageExecution_def)
  let ?pA = "parsePositiveDecimal L (bboPriceForSide bboA aSide)"
  let ?pB = "parsePositiveDecimal L (bboPriceForSide bboB bSide)"
  let ?closing = "EqualFold (TrimSpace effect) ''close''"
  let ?lastClip = "arbitrageFlattening c \<and> ?closing \<and> 0 < closeable \<and> closeable < arbitrageMinOpenNotional"
  note eq = assms [unfolded sizeArbitrageExecution_def sides option.case prod.case Let_def]
  have pos: "0 < ?pA" "0 < ?pB" using eq by (auto split: if_split_asm)
  obtain raw hedge rnd where raw: "raw_notional L c iA iB bboA bboB aSide bSide ?closing ?lastClip
      closeable random = Inr (raw, hedge, rnd)"
    using eq pos by (auto split: sum.split_asm)
  obtain bounded where b: "bounded_notional raw ?closing remaining closeable = Inr bounded"
    using eq pos raw by (auto split: sum.split_asm)
  obtain base where e: "arbitrageExecutableBase L c iA iB bboA bboB direction effect bounded ?lastClip = Inr base"
    using eq pos raw b by (auto split: sum.split_asm)
  obtain q where q: "capped_base L c iA iB ?closing remaining (max ?pA ?pB) base = Inr q"
    using eq pos raw b e by (auto split: sum.split_asm)
  have "asp_ReduceOnly plan = ?closing \<and> asp_TargetBaseQuantity plan = q \<and>
      asp_RequestedNotional plan = max (q * ?pA) (q * ?pB) \<and>
      (?closing \<longrightarrow> asp_RequestedNotional plan \<le> closeable) \<and>
      (\<not> ?closing \<longrightarrow> asp_RequestedNotional plan \<le> remaining \<and> arbitrageMinOpenNotional \<le> remaining)"
    using eq pos raw b e q by (auto split: if_split_asm)
  with pos raw b e q show thesis
    by (intro that [of ?pA ?pB raw bounded ?lastClip base]) (auto simp: leg_prices_def sides)
qed

context decimal_library
begin

lemma is_decimal_order_step: "is_decimal (instrumentOrderStep L instrument orderType)"
  by (auto simp: instrumentOrderStep_def ruleDecimal_def intro: is_decimal_parse)

lemma floorToStep_mono: "0 < step \<Longrightarrow> x \<le> y \<Longrightarrow> floorToStep L x step \<le> floorToStep L y step"
  by (auto simp: floorToStep_def intro!: mult_right_mono floor_mono Div_mono divide_right_mono)

lemma floorToStep_below_grid:
  "0 < step \<Longrightarrow> on_grid step y \<Longrightarrow> x \<le> y \<Longrightarrow> floorToStep L x step \<le> y"
  using floorToStep_mono [of step x y] floorToStep_id [of step y] by simp

lemma leg_step_multiple:
  assumes "0 < case_prod (commonQuantityStep L) (leg_steps L c iA iB)"
    and "on_grid (case_prod (commonQuantityStep L) (leg_steps L c iA iB)) q"
  shows "on_grid (fst (leg_steps L c iA iB)) q" "on_grid (snd (leg_steps L c iA iB)) q"
proof -
  have d: "is_decimal (fst (leg_steps L c iA iB))" "is_decimal (snd (leg_steps L c iA iB))"
    by (simp_all add: leg_steps_def is_decimal_order_step)
  then have "0 < fst (leg_steps L c iA iB)" "0 < snd (leg_steps L c iA iB)"
    using assms(1) commonQuantityStep_pos_iff by (simp_all add: case_prod_unfold)
  with d assms(2) commonQuantityStep_multiple show "on_grid (fst (leg_steps L c iA iB)) q"
    "on_grid (snd (leg_steps L c iA iB)) q"
    by (auto simp: case_prod_unfold intro: on_grid_trans)
qed

lemma executable_quantity_bounds:
  assumes "0 < step" "0 < pA" "0 < pB"
  shows "on_grid step (executable_quantity L c direction notional pA pB step)"
    "executable_quantity L c direction notional pA pB step * max pA pB
       \<le> notional + max pA pB * (1 + step) * div_unit / 2"
proof -
  let ?f = "floorToStep L (min (Div L notional pA) (Div L notional pB)) step"
  let ?q = "executable_quantity L c direction notional pA pB step"
  show "on_grid step ?q"
    using floorToStep_on_grid [OF assms(1)] by (simp add: executable_quantity_def Let_def)
  have le: "?q \<le> ?f"
    using floorToStep_below_grid [OF assms(1) floorToStep_on_grid [OF assms(1)]]
    by (simp add: executable_quantity_def Let_def)
  have "?f \<le> notional / p + div_unit / 2 + step * div_unit / 2" if "p = pA \<or> p = pB" for p
    using floorToStep_upper [OF assms(1), of "min (Div L notional pA) (Div L notional pB)"]
      Div_bounds(2) [of pA notional] Div_bounds(2) [of pB notional] assms(2,3) that
    by (auto simp: min_def split: if_splits)
  with le have "?q \<le> notional / max pA pB + (1 + step) * div_unit / 2"
    using max_def [of pA pB] by (fastforce simp: distrib_right add_divide_distrib)
  then have "?q * max pA pB \<le> (notional / max pA pB + (1 + step) * div_unit / 2) * max pA pB"
    using assms(2,3) by (intro mult_right_mono) auto
  also have "\<dots> = notional + max pA pB * (1 + step) * div_unit / 2"
    using assms(2,3) by (simp add: field_simps max_def)
  finally show "?q * max pA pB \<le> notional + max pA pB * (1 + step) * div_unit / 2" .
qed

lemma capped_base_bounds:
  assumes cap: "capped_base L c iA iB closing remaining capPrice base = Inr q"
    and step: "step = case_prod (commonQuantityStep L) (leg_steps L c iA iB)" "0 < step" "on_grid step base"
    and ids: "instruments_match c iA iB"
  shows "0 < q" "on_grid step q" "q \<le> base"
    "closing \<Longrightarrow> q \<le> arbitrageCloseableBase L c + step * div_unit / 2"
    "closing \<Longrightarrow> arbitrageFlattening c \<Longrightarrow> q \<le> arbitrageOwnedCloseableBase L c + step * div_unit / 2"
proof -
  let ?limit = "if arbitrageFlattening c
                then min (arbitrageCloseableBase L c) (arbitrageOwnedCloseableBase L c)
                else arbitrageCloseableBase L c"
  have eq: "commonQuantityStep L (instrumentOrderStep L iA (arbitrageOrderType c iA))
              (instrumentOrderStep L iB (arbitrageOrderType c iB)) = step"
    using matching_order_types [OF ids] step(1) by (simp add: leg_steps_def)
  have q: "q = (if closing then floorToStep L (min base ?limit) step
                else if base > Div L remaining capPrice then floorToStep L (Div L remaining capPrice) step
                else base) \<and> 0 < q"
    using cap by (auto simp: capped_base_def eq Let_def split: if_splits)
  then show "0 < q" "on_grid step q" "q \<le> base"
    using step floorToStep_on_grid [OF step(2)] floorToStep_below_grid [OF step(2,3)] by auto
  have "closing \<Longrightarrow> q \<le> min base ?limit + step * div_unit / 2"
    using q floorToStep_upper [OF step(2), of "min base ?limit"] by simp
  then show "closing \<Longrightarrow> q \<le> arbitrageCloseableBase L c + step * div_unit / 2"
    "closing \<Longrightarrow> arbitrageFlattening c \<Longrightarrow> q \<le> arbitrageOwnedCloseableBase L c + step * div_unit / 2"
    by (auto simp: min_def split: if_splits)
qed


lemma size_plan_bounds:
  assumes plan: "sizeArbitrageExecution L c iA iB bboA bboB direction effect remaining closeable random = Inr plan"
    and ids: "instruments_match c iA iB"
    and steps: "leg_steps L c iA iB = (stepA, stepB)"
  shows "0 < asp_TargetBaseQuantity plan"
    "on_grid stepA (asp_TargetBaseQuantity plan)" "on_grid stepB (asp_TargetBaseQuantity plan)"
    "asp_ReduceOnly plan \<Longrightarrow> asp_RequestedNotional plan \<le> closeable \<and>
       asp_TargetBaseQuantity plan \<le> arbitrageCloseableBase L c + commonQuantityStep L stepA stepB * div_unit / 2"
    "\<not> asp_ReduceOnly plan \<Longrightarrow> asp_RequestedNotional plan \<le> remaining \<and> arbitrageMinOpenNotional \<le> remaining"
    "\<exists>pA pB. leg_prices L bboA bboB direction = Some (pA, pB) \<and>
       asp_RequestedNotional plan = asp_TargetBaseQuantity plan * max pA pB \<and>
       asp_RequestedNotional plan \<le> arbitrageMaxOrderNotional +
         max pA pB * (1 + commonQuantityStep L stepA stepB) * div_unit / 2"
proof -
  let ?q = "asp_TargetBaseQuantity plan" and ?s = "commonQuantityStep L stepA stepB"
  obtain pA pB raw bounded base lastClip
    where p: "leg_prices L bboA bboB direction = Some (pA, pB)" "0 < pA" "0 < pB"
    and b: "bounded_notional raw (asp_ReduceOnly plan) remaining closeable = Inr bounded"
    and e: "arbitrageExecutableBase L c iA iB bboA bboB direction effect bounded lastClip = Inr base"
    and cap: "capped_base L c iA iB (asp_ReduceOnly plan) remaining (max pA pB) base = Inr ?q"
    and r: "asp_RequestedNotional plan = max (?q * pA) (?q * pB)"
    and limits: "asp_ReduceOnly plan \<Longrightarrow> asp_RequestedNotional plan \<le> closeable"
      "\<not> asp_ReduceOnly plan \<Longrightarrow> asp_RequestedNotional plan \<le> remaining \<and> arbitrageMinOpenNotional \<le> remaining"
    using plan by (rule size_plan_cases) blast
  have s: "0 < ?s" and base: "base = executable_quantity L c direction bounded pA pB ?s"
    using executable_base_cases [OF e p(1)] steps by auto
  have s': "?s = case_prod (commonQuantityStep L) (leg_steps L c iA iB)" using steps by simp
  note base_bounds = executable_quantity_bounds [OF s p(2,3), of c direction bounded, folded base]
  note q = capped_base_bounds [OF cap s' s base_bounds(1) ids]
  show "0 < ?q" by (rule q)
  show "on_grid stepA ?q" "on_grid stepB ?q"
    using leg_step_multiple [of c iA iB ?q] q(2) s steps by simp_all
  show "asp_ReduceOnly plan \<Longrightarrow> asp_RequestedNotional plan \<le> closeable \<and>
      ?q \<le> arbitrageCloseableBase L c + ?s * div_unit / 2"
    using limits(1) q(4) by simp
  show "\<not> asp_ReduceOnly plan \<Longrightarrow> asp_RequestedNotional plan \<le> remaining \<and> arbitrageMinOpenNotional \<le> remaining"
    by (rule limits)
  have req: "asp_RequestedNotional plan = ?q * max pA pB"
    using q(1) r by (auto simp: max_def)
  have "?q * max pA pB \<le> base * max pA pB" using q(3) p by (intro mult_right_mono) auto
  also have "\<dots> \<le> arbitrageMaxOrderNotional + max pA pB * (1 + ?s) * div_unit / 2"
    using base_bounds(2) bounded_notional_bounds(3) [OF b] by linarith
  finally show "\<exists>pA pB. leg_prices L bboA bboB direction = Some (pA, pB) \<and>
      asp_RequestedNotional plan = ?q * max pA pB \<and>
      asp_RequestedNotional plan \<le> arbitrageMaxOrderNotional + max pA pB * (1 + ?s) * div_unit / 2"
    using p(1) req by auto
qed

end

section \<open>Properties\<close>

text \<open>C10: a size plan has a positive quantity on the quantity step of both legs. When it closes it is
  reduce-only, worth at most the closeable notional, and at most the closeable base up to the
  rounding of one division; when it opens it is worth at most the remaining notional, which is at
  least the minimum. Its notional is that of the dearer leg and exceeds the maximum order notional
  by no more than the rounding of two divisions.\<close>

theorem size_plan_is_bounded:
  assumes "decimal_library L"
    and "sizeArbitrageExecution L c iA iB bboA bboB direction effect remaining closeable random = Inr plan"
    and "instruments_match c iA iB"
    and "leg_steps L c iA iB = (stepA, stepB)"
  shows "0 < asp_TargetBaseQuantity plan \<and>
    on_grid stepA (asp_TargetBaseQuantity plan) \<and> on_grid stepB (asp_TargetBaseQuantity plan) \<and>
    (asp_ReduceOnly plan \<longrightarrow> asp_RequestedNotional plan \<le> closeable \<and>
       asp_TargetBaseQuantity plan
         \<le> arbitrageCloseableBase L c + commonQuantityStep L stepA stepB * div_unit / 2) \<and>
    (\<not> asp_ReduceOnly plan \<longrightarrow>
       asp_RequestedNotional plan \<le> remaining \<and> arbitrageMinOpenNotional \<le> remaining) \<and>
    (\<exists>pA pB. leg_prices L bboA bboB direction = Some (pA, pB) \<and>
       asp_RequestedNotional plan = asp_TargetBaseQuantity plan * max pA pB \<and>
       asp_RequestedNotional plan \<le> arbitrageMaxOrderNotional +
         max pA pB * (1 + commonQuantityStep L stepA stepB) * div_unit / 2)"
  using decimal_library.size_plan_bounds [OF assms] by blast

definition sample_combination :: ArbitrageCombination where
  "sample_combination = zero_ArbitrageCombination\<lparr>
     ac_LegA := zero_ArbitrageLeg\<lparr>leg_InstrumentID := 7\<rparr>,
     ac_LegB := zero_ArbitrageLeg\<lparr>leg_InstrumentID := 8\<rparr>,
     ac_ExecutionMode := ''maker_then_hedge'', ac_MakerLeg := ''a'', ac_Status := ''running''\<rparr>"

definition sample_book :: BBO where
  "sample_book = zero_BBO\<lparr>bbo_BidPrice := ''50000'', bbo_AskPrice := ''50000.1'',
     bbo_BidQuantity := ''40'', bbo_AskQuantity := ''20''\<rparr>"

definition sample_instrument_b :: Instrument where
  "sample_instrument_b = sample_instrument\<lparr>inst_ID := 8, inst_QuantityStep := ''0.002''\<rparr>"

definition sample_plan :: arbitrageSizePlan where
  "sample_plan = \<lparr>asp_Direction = ''ask'', asp_Effect = ''open'', asp_ReduceOnly = False,
     asp_RequestedNotional = 500001 / 1000, asp_TargetBaseQuantity = 1 / 100, asp_RandomNotional = 3,
     asp_HedgeCapNotional = 20000, asp_LegANotional = 500001 / 1000, asp_LegBNotional = 500,
     asp_LastClip = False\<rparr>"

lemma sample_sizing:
  "sizeArbitrageExecution std_lib sample_combination sample_instrument sample_instrument_b
     sample_book sample_book ''ask'' ''open'' 800 0 3 = Inr sample_plan"
  by code_simp

theorem size_plan_is_bounded_witness:
  "sizeArbitrageExecution std_lib sample_combination sample_instrument sample_instrument_b
     sample_book sample_book ''ask'' ''open'' 800 0 3 = Inr sample_plan \<and>
   on_grid (2 / 1000) (asp_TargetBaseQuantity sample_plan) \<and> asp_RequestedNotional sample_plan \<le> 800"
proof -
  have "instruments_match sample_combination sample_instrument sample_instrument_b"
    "leg_steps std_lib sample_combination sample_instrument sample_instrument_b = (1 / 1000, 2 / 1000)"
    "\<not> asp_ReduceOnly sample_plan"
    by code_simp+
  with size_plan_is_bounded [OF std.decimal_library_axioms sample_sizing] sample_sizing
  show ?thesis by metis
qed

text \<open>C20: an opening order sized against the remaining notional of its direction keeps the position
  within the target: what the dearer leg uses already and the new order together do not exceed it.\<close>

theorem sized_open_within_target:
  assumes "sizeArbitrageExecution L c iA iB bboA bboB direction effect
           (remainingDirectionNotional legABase legBBase target midA midB) closeable random = Inr plan"
    and "\<not> asp_ReduceOnly plan"
  shows "0 < target \<and> max (\<bar>legABase\<bar> * midA) (\<bar>legBBase\<bar> * midB) + asp_RequestedNotional plan \<le> target"
proof -
  have "asp_RequestedNotional plan \<le> remainingDirectionNotional legABase legBBase target midA midB \<and>
      arbitrageMinOpenNotional \<le> remainingDirectionNotional legABase legBBase target midA midB"
    by (rule size_plan_cases [OF assms(1)]) (use assms(2) in blast)
  then show ?thesis
    by (auto simp: remainingDirectionNotional_def arbitrageMinOpenNotional_def Let_def split: if_splits)
qed

theorem sized_open_within_target_witness:
  "max (\<bar>1 / 250\<bar> * 50000) (\<bar>- (1 / 250)\<bar> * 50000) + asp_RequestedNotional sample_plan \<le> 1000"
proof -
  have r: "remainingDirectionNotional (1 / 250) (- (1 / 250)) 1000 50000 50000 = 800"
    and o: "\<not> asp_ReduceOnly sample_plan"
    by code_simp+
  from sized_open_within_target [of std_lib sample_combination sample_instrument
      sample_instrument_b sample_book sample_book "''ask''" "''open''" "1 / 250" "- (1 / 250)" 1000 50000 50000,
      unfolded r, OF sample_sizing o]
  show ?thesis by blast
qed

end
