(* ===== verification/Last_Close.thy ===== *)
theory Last_Close
  imports Arbitrage_Math "HOL-Library.Multiset"
begin

text \<open>
  The last clip of a closing combination: how the fills of its orders are allocated to the maker and
  the hedge leg (\<^verbatim>\<open>trader/arbitrage_last_close_residual.go\<close>), the fills a clip must match
  (\<^verbatim>\<open>trader/validate.go\<close>), and the liquidation distance exit
  (\<^verbatim>\<open>trader/arbitrage_liquidation_distance_exit.go\<close>).
\<close>

section \<open>Eligibility\<close>

text \<open>The text of \<^verbatim>\<open>ErrArbitrageUnsafeHedge\<close>.\<close>

definition unsafe_hedge_text :: string where
  "unsafe_hedge_text = ''arbitrage hedge would reverse position''"

definition lastCloseResidualAuditUnlockEligible ::
  "string \<Rightarrow> string \<Rightarrow> string \<Rightarrow> bool \<Rightarrow> bool \<Rightarrow> bool \<Rightarrow> bool \<Rightarrow> bool" where
  "lastCloseResidualAuditUnlockEligible status runtimeState currentError currentUncertain circuitOpen
     lastCloseResidualRecoveredLatest zeroDifferences \<longleftrightarrow>
     EqualFold (TrimSpace status) ''closing'' \<and> currentUncertain \<and>
     EqualFold (TrimSpace runtimeState) ''position_uncertain'' \<and>
     currentError = unsafe_hedge_text \<and> \<not> circuitOpen \<and> zeroDifferences \<and> lastCloseResidualRecoveredLatest"

definition lastCloseClipClosingEligible :: "ArbitrageCombination \<Rightarrow> ArbitrageExecution \<Rightarrow> bool" where
  "lastCloseClipClosingEligible combination execution \<longleftrightarrow>
     EqualFold (TrimSpace (ac_Status combination)) ''closing'' \<and>
     ae_LastCloseClip execution \<and> ae_ReduceOnly execution \<and>
     EqualFold (TrimSpace (ae_PositionEffect execution)) ''close''"

definition lastCloseClipLockedResumeEligible :: "ArbitrageCombination \<Rightarrow> ArbitrageExecution \<Rightarrow> bool" where
  "lastCloseClipLockedResumeEligible combination execution =
     (if \<not> lastCloseClipClosingEligible combination execution \<or> \<not> ac_PositionUncertain combination \<or>
         ac_CircuitOpen combination then False
      else if \<not> EqualFold (TrimSpace (ac_RuntimeState combination)) ''position_uncertain'' then False
      else if ac_ErrorMessage combination \<noteq> unsafe_hedge_text then False
      else ToLower (TrimSpace (ae_Status execution)) \<in> set [''hedging'', ''reconciling''])"

definition oneShotFinalFlattenIdempotencyRole :: string where
  "oneShotFinalFlattenIdempotencyRole = ''final-flatten''"

definition hasOneShotFinalFlattenIdempotency :: "Order list \<Rightarrow> string \<Rightarrow> bool" where
  "hasOneShotFinalFlattenIdempotency orders executionID =
     list_ex (\<lambda>order. TrimSpace (ord_ArbitrageExecutionID order) = TrimSpace executionID \<and>
        Contains (ord_IdempotencyKey order) ('':'' @ oneShotFinalFlattenIdempotencyRole @ '':'')) orders"

definition lastCloseClipMustMatchFillsOrders ::
  "ArbitrageCombination \<Rightarrow> ArbitrageExecution \<Rightarrow> Order list \<Rightarrow> bool" where
  "lastCloseClipMustMatchFillsOrders combination execution orders =
     (if hasOneShotFinalFlattenIdempotency orders (ae_ID execution) then False
      else arbitrageFlattening combination \<and> ae_LastCloseClip execution \<and>
           EqualFold (TrimSpace (ae_PositionEffect execution)) ''close'' \<and> ae_ReduceOnly execution)"

definition lastCloseClipMustMatchFills :: "ArbitrageCombination \<Rightarrow> ArbitrageExecution \<Rightarrow> bool" where
  "lastCloseClipMustMatchFills combination execution =
     lastCloseClipMustMatchFillsOrders combination execution []"

section \<open>Allocating fills\<close>

definition lastCloseClipMakerHedgeLegs :: "ArbitrageCombination \<Rightarrow> string \<times> string" where
  "lastCloseClipMakerHedgeLegs combination =
     (if EqualFold (TrimSpace (ac_MakerLeg combination)) ''b'' then (''b'', ''a'') else (''a'', ''b''))"

definition lastCloseClipHedgeSide :: "ArbitrageCombination \<Rightarrow> ArbitrageExecution \<Rightarrow> string option" where
  "lastCloseClipHedgeSide combination execution =
     (case arbitrageLegSides (ae_Direction execution) of
        None \<Rightarrow> None
      | Some (legASide, legBSide) \<Rightarrow>
          if snd (lastCloseClipMakerHedgeLegs combination) = ''a'' then Some legASide else Some legBSide)"

record lastCloseClipAllocatedFills =
  af_MakerFill :: decimal
  af_NormalHedgeFill :: decimal
  af_ResidualFill :: decimal
  af_AllocatedResidual :: decimal
  af_EffectiveHedgeFill :: decimal
  af_FillA :: decimal
  af_FillB :: decimal
  af_Found :: bool

definition no_fills :: lastCloseClipAllocatedFills where
  "no_fills = \<lparr>af_MakerFill = 0, af_NormalHedgeFill = 0, af_ResidualFill = 0, af_AllocatedResidual = 0,
     af_EffectiveHedgeFill = 0, af_FillA = 0, af_FillB = 0, af_Found = False\<rparr>"

definition allocate_order ::
  "decimal_lib \<Rightarrow> ArbitrageCombination \<Rightarrow> ArbitrageExecution \<Rightarrow> Order \<Rightarrow>
   lastCloseClipAllocatedFills \<Rightarrow> lastCloseClipAllocatedFills" where
  "allocate_order L combination execution order out0 =
     (if TrimSpace (ord_ArbitrageExecutionID order) \<noteq> TrimSpace (ae_ID execution) then out0
      else let out = out0\<lparr>af_Found := True\<rparr>;
               filled = parseDecimal L (ord_FilledQuantity order)
           in if \<not> 0 < filled then out
              else let (makerLeg, hedgeLeg) = lastCloseClipMakerHedgeLegs combination;
                       role = ToLower (TrimSpace (ord_ArbitrageRole order));
                       leg = ToLower (TrimSpace (ord_ArbitrageLeg order));
                       side = ToLower (TrimSpace (ord_Side order));
                       hedging = (leg = hedgeLeg \<and> Some side = lastCloseClipHedgeSide combination execution)
                   in if role = ''maker'' \<and> leg = makerLeg
                      then out\<lparr>af_MakerFill := af_MakerFill out + filled\<rparr>
                      else if role = ''hedge'' \<and> hedging
                      then out\<lparr>af_NormalHedgeFill := af_NormalHedgeFill out + filled\<rparr>
                      else if role = ''residual'' \<and> hedging
                      then out\<lparr>af_ResidualFill := af_ResidualFill out + filled\<rparr>
                      else out)"

definition allocate_residual ::
  "ArbitrageCombination \<Rightarrow> lastCloseClipAllocatedFills \<Rightarrow> lastCloseClipAllocatedFills" where
  "allocate_residual combination out =
     (let gap0 = af_MakerFill out - af_NormalHedgeFill out;
          gap = (if gap0 < 0 then 0 else gap0);
          allocated = min (af_ResidualFill out) gap;
          effective = af_NormalHedgeFill out + allocated
      in if fst (lastCloseClipMakerHedgeLegs combination) = ''b''
         then out\<lparr>af_AllocatedResidual := allocated, af_EffectiveHedgeFill := effective,
                  af_FillA := effective, af_FillB := af_MakerFill out\<rparr>
         else out\<lparr>af_AllocatedResidual := allocated, af_EffectiveHedgeFill := effective,
                  af_FillA := af_MakerFill out, af_FillB := effective\<rparr>)"

definition allocateLastCloseClipResidualFills ::
  "decimal_lib \<Rightarrow> Order list \<Rightarrow> ArbitrageCombination \<Rightarrow> ArbitrageExecution \<Rightarrow> lastCloseClipAllocatedFills" where
  "allocateLastCloseClipResidualFills L orders combination execution =
     allocate_residual combination (fold (allocate_order L combination execution) orders no_fills)"

definition allocated_matched :: "lastCloseClipAllocatedFills \<Rightarrow> bool" where
  "allocated_matched a \<longleftrightarrow> 0 < af_MakerFill a \<and> af_MakerFill a = af_EffectiveHedgeFill a"

definition allocated_residualShort :: "lastCloseClipAllocatedFills \<Rightarrow> bool" where
  "allocated_residualShort a \<longleftrightarrow> 0 < af_ResidualFill a \<and> af_EffectiveHedgeFill a < af_MakerFill a"

definition aggregate_market_order ::
  "decimal_lib \<Rightarrow> string \<Rightarrow> Order \<Rightarrow> decimal \<times> decimal \<times> bool \<Rightarrow> decimal \<times> decimal \<times> bool" where
  "aggregate_market_order L executionID order acc =
     (case acc of (fillA, fillB, found) \<Rightarrow>
        if TrimSpace (ord_ArbitrageExecutionID order) \<noteq> executionID then acc
        else if \<not> EqualFold (TrimSpace (ord_ArbitrageRole order)) ''market'' then acc
        else if \<not> terminalStatus (ord_Status order) then acc
        else let filled = parseDecimal L (ord_FilledQuantity order);
                 leg = ToLower (TrimSpace (ord_ArbitrageLeg order))
             in if \<not> 0 < filled then (fillA, fillB, True)
                else if leg = ''a'' then (fillA + filled, fillB, True)
                else if leg = ''b'' then (fillA, fillB + filled, True)
                else (fillA, fillB, True))"

definition aggregateSimultaneousMarketLastCloseFills ::
  "decimal_lib \<Rightarrow> string \<Rightarrow> Order list \<Rightarrow> decimal \<times> decimal \<times> bool" where
  "aggregateSimultaneousMarketLastCloseFills L executionID orders =
     fold (aggregate_market_order L (TrimSpace executionID)) orders (0, 0, False)"

section \<open>Marks\<close>

definition lastCloseTriggerLegMid :: "decimal_lib \<Rightarrow> string \<Rightarrow> string \<Rightarrow> decimal" where
  "lastCloseTriggerLegMid L bid ask =
     (let bidPrice = parsePositiveDecimal L bid; askPrice = parsePositiveDecimal L ask in
      if 0 < bidPrice \<and> 0 < askPrice then Div L (bidPrice + askPrice) 2
      else if 0 < bidPrice then bidPrice else askPrice)"

definition lastCloseTriggerMark :: "decimal_lib \<Rightarrow> ArbitrageExecution \<Rightarrow> decimal" where
  "lastCloseTriggerMark L execution =
     (let midA = lastCloseTriggerLegMid L (ae_TriggerLegABid execution) (ae_TriggerLegAAsk execution);
          midB = lastCloseTriggerLegMid L (ae_TriggerLegBBid execution) (ae_TriggerLegBAsk execution)
      in if 0 < midA \<and> 0 < midB then Div L (midA + midB) 2 else if 0 < midA then midA else midB)"

text \<open>Quantity and notional per leg: \<open>(qtyA, notionalA, qtyB, notionalB)\<close>.\<close>

definition mark_order ::
  "decimal_lib \<Rightarrow> ArbitrageExecution \<Rightarrow> Order \<Rightarrow> decimal \<times> decimal \<times> decimal \<times> decimal \<Rightarrow>
   decimal \<times> decimal \<times> decimal \<times> decimal" where
  "mark_order L execution order acc =
     (case acc of (qtyA, notionalA, qtyB, notionalB) \<Rightarrow>
        if TrimSpace (ord_ArbitrageExecutionID order) \<noteq> TrimSpace (ae_ID execution) then acc
        else let filled = parseDecimal L (ord_FilledQuantity order);
                 price = parsePositiveDecimal L (ord_AveragePrice order);
                 leg = ToLower (TrimSpace (ord_ArbitrageLeg order))
             in if \<not> 0 < filled \<or> \<not> 0 < price then acc
                else if leg = ''a'' then (qtyA + filled, notionalA + filled * price, qtyB, notionalB)
                else if leg = ''b'' then (qtyA, notionalA, qtyB + filled, notionalB + filled * price)
                else acc)"

definition lastCloseRecoveryMark :: "decimal_lib \<Rightarrow> Order list \<Rightarrow> ArbitrageExecution \<Rightarrow> decimal" where
  "lastCloseRecoveryMark L orders execution =
     (case fold (mark_order L execution) orders (0, 0, 0, 0) of
        (qtyA, notionalA, qtyB, notionalB) \<Rightarrow>
          let vwapA = (if 0 < qtyA then Div L notionalA qtyA else 0);
              vwapB = (if 0 < qtyB then Div L notionalB qtyB else 0)
          in if 0 < vwapA \<and> 0 < vwapB then Div L (vwapA + vwapB) 2
             else if 0 < vwapA then vwapA
             else if 0 < vwapB then vwapB
             else lastCloseTriggerMark L execution)"

section \<open>Orders of an execution\<close>

definition lastCloseClipExecutionOrders :: "Order list \<Rightarrow> string \<Rightarrow> Order list" where
  "lastCloseClipExecutionOrders orders executionID =
     (let eid = TrimSpace executionID in
      if eid = [] then [] else filter (\<lambda>order. TrimSpace (ord_ArbitrageExecutionID order) = eid) orders)"

definition lastCloseClipOrdersBlocked :: "Order list \<Rightarrow> bool" where
  "lastCloseClipOrdersBlocked orders =
     list_ex (\<lambda>order. \<not> terminalStatus (ord_Status order) \<or> ord_ReconcileFailures order > 0) orders"

definition lastCloseClipOrdersAllReduceOnly :: "Order list \<Rightarrow> bool" where
  "lastCloseClipOrdersAllReduceOnly orders = (orders \<noteq> [] \<and> list_all ord_ReduceOnly orders)"

section \<open>Liquidation distance\<close>

definition liquidationDistanceHit :: "decimal_lib \<Rightarrow> string \<Rightarrow> decimal \<Rightarrow> bool" where
  "liquidationDistanceHit L raw threshold =
     (let trimmed = TrimSpace raw in
      if trimmed = [] then False
      else case NewFromString L trimmed of None \<Rightarrow> False | Some distance \<Rightarrow> distance \<le> threshold)"

text \<open>The legs that trigger an early exit, or None.\<close>

definition liquidation_trigger :: "decimal_lib \<Rightarrow> ArbitrageCombination \<Rightarrow> (string \<times> decimal) option" where
  "liquidation_trigger L item =
     (let thresholdRaw = TrimSpace (ac_EarlyExitLiquidationDistancePct item) in
      if thresholdRaw = [] \<or> \<not> EqualFold (TrimSpace (ac_RunMode item)) ''one_shot'' \<or>
         (ac_OneShotPhase item \<noteq> ''building_target'' \<and> ac_OneShotPhase item \<noteq> ''waiting_exit'') \<or>
         ac_PositionUncertain item \<or>
         EqualFold (TrimSpace (ac_RuntimeState item)) ''manual_intervention'' then None
      else case NewFromString L thresholdRaw of
        None \<Rightarrow> None
      | Some threshold \<Rightarrow>
          if \<not> 0 < threshold then None
          else let legAHit = liquidationDistanceHit L (ac_LegALiquidationDistancePct item) threshold;
                   legBHit = liquidationDistanceHit L (ac_LegBLiquidationDistancePct item) threshold
               in if \<not> legAHit \<and> \<not> legBHit then None
                  else Some (if legAHit \<and> legBHit then ''both'' else if legBHit then ''b'' else ''a'', threshold))"

text \<open>\<open>mark\<close> is the answer of the store: the updated combination and whether the change was applied, or
  an error. The result is the exit that is signalled.\<close>

definition maybeTriggerLiquidationDistanceExit ::
  "decimal_lib \<Rightarrow> (string \<Rightarrow> int \<Rightarrow> string \<Rightarrow> (ArbitrageCombination \<times> bool) go_result) \<Rightarrow>
   ArbitrageCombination \<Rightarrow> (string \<times> int \<times> string) option" where
  "maybeTriggerLiquidationDistanceExit L mark item =
     (case liquidation_trigger L item of
        None \<Rightarrow> None
      | Some _ \<Rightarrow>
          (case mark (ac_ID item) (ac_Version item) ''liquidation_distance_threshold'' of
             Inl e \<Rightarrow> None
           | Inr (marked, applied) \<Rightarrow>
               if \<not> applied then None
               else Some (ac_ID item, ac_Version marked, ''liquidation_distance_threshold'')))"

section \<open>What the allocation guarantees\<close>

text \<open>What one order contributes: whether it belongs to the execution, and its fill as maker, hedge and
  residual.\<close>

definition order_fill ::
  "decimal_lib \<Rightarrow> ArbitrageCombination \<Rightarrow> ArbitrageExecution \<Rightarrow> Order \<Rightarrow> bool \<times> decimal \<times> decimal \<times> decimal" where
  "order_fill L combination execution order =
     (let out = allocate_order L combination execution order no_fills in
      (af_Found out, af_MakerFill out, af_NormalHedgeFill out, af_ResidualFill out))"

definition add_fill ::
  "bool \<times> decimal \<times> decimal \<times> decimal \<Rightarrow> lastCloseClipAllocatedFills \<Rightarrow> lastCloseClipAllocatedFills" where
  "add_fill fill out = (case fill of (found, m, h, r) \<Rightarrow>
     out\<lparr>af_Found := af_Found out \<or> found, af_MakerFill := af_MakerFill out + m,
         af_NormalHedgeFill := af_NormalHedgeFill out + h, af_ResidualFill := af_ResidualFill out + r\<rparr>)"

lemma allocate_order_eq: "allocate_order L c e x out = add_fill (order_fill L c e x) out"
  by (cases "lastCloseClipMakerHedgeLegs c")
    (simp add: allocate_order_def order_fill_def add_fill_def no_fills_def Let_def)

lemma order_fill_nonneg:
  "order_fill L c e x = (found, m, h, r) \<Longrightarrow> 0 \<le> m \<and> 0 \<le> h \<and> 0 \<le> r"
  by (cases "lastCloseClipMakerHedgeLegs c")
    (auto simp: allocate_order_def order_fill_def no_fills_def Let_def split: if_splits)

lemma allocate_order_commute:
  "allocate_order L c e x \<circ> allocate_order L c e y = allocate_order L c e y \<circ> allocate_order L c e x"
  by (cases "order_fill L c e x"; cases "order_fill L c e y")
    (auto simp: fun_eq_iff allocate_order_eq add_fill_def ac_simps)

lemma allocation_order_irrelevant:
  "mset orders = mset orders' \<Longrightarrow>
   allocateLastCloseClipResidualFills L orders c e = allocateLastCloseClipResidualFills L orders' c e"
  unfolding allocateLastCloseClipResidualFills_def
  by (metis (no_types, lifting) allocate_order_commute fold_multiset_equiv)

lemma allocate_fold_nonneg:
  assumes "0 \<le> af_MakerFill out" "0 \<le> af_NormalHedgeFill out" "0 \<le> af_ResidualFill out"
  shows "0 \<le> af_MakerFill (fold (allocate_order L c e) orders out) \<and>
         0 \<le> af_NormalHedgeFill (fold (allocate_order L c e) orders out) \<and>
         0 \<le> af_ResidualFill (fold (allocate_order L c e) orders out)"
  using assms
proof (induction orders arbitrary: out)
  case (Cons x orders)
  obtain found m h r where f: "order_fill L c e x = (found, m, h, r)" by (metis prod_cases4)
  show ?case
    using Cons order_fill_nonneg [OF f] by (simp add: allocate_order_eq f add_fill_def)
qed simp

lemma allocated_fields [simp]:
  "af_MakerFill (allocate_residual c out) = af_MakerFill out"
  "af_NormalHedgeFill (allocate_residual c out) = af_NormalHedgeFill out"
  "af_ResidualFill (allocate_residual c out) = af_ResidualFill out"
  "af_AllocatedResidual (allocate_residual c out) =
     min (af_ResidualFill out) (max 0 (af_MakerFill out - af_NormalHedgeFill out))"
  "af_EffectiveHedgeFill (allocate_residual c out) =
     af_NormalHedgeFill out + af_AllocatedResidual (allocate_residual c out)"
  by (auto simp: allocate_residual_def Let_def max_def)

section \<open>Properties\<close>

text \<open>C24: the allocation of fills does not depend on the order in which the orders are listed, it never
  allocates more residual than was filled or than the hedge still lacks, and the two legs match
  exactly when the hedge and residual fills can make up the maker fill without exceeding it.\<close>

theorem residual_allocation:
  assumes "a = allocateLastCloseClipResidualFills L orders combination execution"
  shows "(mset orders = mset orders' \<longrightarrow>
            allocateLastCloseClipResidualFills L orders' combination execution = a) \<and>
     0 \<le> af_AllocatedResidual a \<and> af_AllocatedResidual a \<le> af_ResidualFill a \<and>
     af_EffectiveHedgeFill a \<le> max (af_MakerFill a) (af_NormalHedgeFill a) \<and>
     (allocated_matched a \<longleftrightarrow>
        0 < af_MakerFill a \<and> af_NormalHedgeFill a \<le> af_MakerFill a \<and>
        af_MakerFill a \<le> af_NormalHedgeFill a + af_ResidualFill a)"
proof -
  let ?out = "fold (allocate_order L combination execution) orders no_fills"
  have a: "a = allocate_residual combination ?out"
    using assms by (simp add: allocateLastCloseClipResidualFills_def)
  have nonneg: "0 \<le> af_MakerFill ?out" "0 \<le> af_NormalHedgeFill ?out" "0 \<le> af_ResidualFill ?out"
    using allocate_fold_nonneg [of no_fills L combination execution orders] by (simp_all add: no_fills_def)
  have "mset orders = mset orders' \<longrightarrow> allocateLastCloseClipResidualFills L orders' combination execution = a"
    using allocation_order_irrelevant [of orders orders'] assms by simp
  then show ?thesis
    using nonneg by (auto simp: a allocated_matched_def min_def max_def)
qed

definition sample_close_order :: "string \<Rightarrow> string \<Rightarrow> string \<Rightarrow> string \<Rightarrow> Order" where
  "sample_close_order role leg side filled = zero_Order\<lparr>ord_ArbitrageExecutionID := ''e1'',
     ord_ArbitrageRole := role, ord_ArbitrageLeg := leg, ord_Side := side, ord_FilledQuantity := filled\<rparr>"

definition sample_allocation :: lastCloseClipAllocatedFills where
  "sample_allocation = allocateLastCloseClipResidualFills std_lib
     [sample_close_order ''maker'' ''a'' ''sell'' ''3'', sample_close_order ''hedge'' ''b'' ''buy'' ''2'',
      sample_close_order ''residual'' ''b'' ''buy'' ''2'']
     zero_ArbitrageCombination (zero_ArbitrageExecution\<lparr>ae_ID := ''e1'', ae_Direction := ''bid''\<rparr>)"

theorem residual_allocation_witness:
  "af_EffectiveHedgeFill sample_allocation = 3 \<and> allocated_matched sample_allocation \<and>
   af_AllocatedResidual sample_allocation \<le> af_ResidualFill sample_allocation"
proof -
  have "af_EffectiveHedgeFill sample_allocation = 3" "allocated_matched sample_allocation" by code_simp+
  with residual_allocation [OF sample_allocation_def] show ?thesis by blast
qed

end
