(* ===== verification/Funding_Window.thy ===== *)
theory Funding_Window
  imports Arbitrage_Math "HOL-Library.Multiset"
begin

text \<open>
  The early exit of one-shot combinations whose funding turned: \<^verbatim>\<open>trader/arbitrage_funding_8h.go\<close> and
  the decision loop of \<^verbatim>\<open>trader/arbitrage_funding_8h_exit.go\<close>. Rows are grouped by combination, the
  settled rates of each leg in the last eight hours are summed if the settlements cover the window
  without a gap, and the annualised difference is compared with the configured floor. A nil
  pointer of a row is None; the key under which a row is remembered is the triple of combination,
  leg and time that the source joins with NUL characters. Settlements at equal times are
  refused by the grouping, so the unstable sort of the source has one result.
\<close>

section \<open>Rows\<close>

definition funding8hWindow :: duration where "funding8hWindow = 8 * Hour"
definition funding8hGapSlack :: duration where "funding8hGapSlack = 5 * Minute"

record funding8hExitRow =
  fr_CombinationID :: string
  fr_Version :: int
  fr_EntryDirection :: string
  fr_Floor :: string
  fr_Leg :: string
  fr_ContractType :: string
  fr_TargetReachedAt :: "time option"
  fr_FundingTime :: "time option"
  fr_FundingRate :: "string option"
  fr_IntervalHours :: "string option"

record funding8hPoint =
  fp_At :: "time"
  fp_Rate :: decimal
  fp_IntervalHours :: decimal

record funding8hCombo =
  fc_ID :: string
  fc_Version :: int
  fc_EntryDirection :: string
  fc_Floor :: string
  fc_TargetReachedAt :: "time option"
  fc_LegAType :: string
  fc_LegBType :: string
  fc_LegA :: "funding8hPoint list"
  fc_LegB :: "funding8hPoint list"
  fc_Invalid :: bool

record funding8hEvalResult =
  fe_OK :: bool
  fe_Trigger :: bool
  fe_Observed :: decimal
  fe_CumA :: decimal
  fe_CumB :: decimal
  fe_LegALatestPostTarget :: "time option"
  fe_LegBLatestPostTarget :: "time option"

definition no_result :: funding8hEvalResult where
  "no_result = \<lparr>fe_OK = False, fe_Trigger = False, fe_Observed = 0, fe_CumA = 0, fe_CumB = 0,
     fe_LegALatestPostTarget = None, fe_LegBLatestPostTarget = None\<rparr>"

definition funding8hWindows :: "time \<Rightarrow> time \<times> time" where
  "funding8hWindows now = (now - funding8hWindow, now)"

record funding_groups =
  fg_combos :: "string \<rightharpoonup> funding8hCombo"
  fg_duplicates :: "string set"
  fg_seen :: "(string \<times> string \<times> time) set"

definition row_combo :: "funding8hExitRow \<Rightarrow> funding8hCombo option \<Rightarrow> funding8hCombo" where
  "row_combo row existing =
     (let combo0 = (case existing of
            Some combo \<Rightarrow> combo
          | None \<Rightarrow> \<lparr>fc_ID = fr_CombinationID row, fc_Version = fr_Version row,
                     fc_EntryDirection = fr_EntryDirection row, fc_Floor = fr_Floor row,
                     fc_TargetReachedAt = fr_TargetReachedAt row, fc_LegAType = [], fc_LegBType = [],
                     fc_LegA = [], fc_LegB = [], fc_Invalid = False\<rparr>);
          combo1 = (if fc_TargetReachedAt combo0 = None \<and> fr_TargetReachedAt row \<noteq> None
                    then combo0\<lparr>fc_TargetReachedAt := fr_TargetReachedAt row\<rparr> else combo0);
          leg = ToLower (TrimSpace (fr_Leg row))
      in if leg = ''a'' then combo1\<lparr>fc_LegAType := fr_ContractType row\<rparr>
         else if leg = ''b'' then combo1\<lparr>fc_LegBType := fr_ContractType row\<rparr>
         else combo1)"

definition add_point :: "funding8hExitRow \<Rightarrow> funding8hPoint \<Rightarrow> funding8hCombo \<Rightarrow> funding8hCombo" where
  "add_point row point combo =
     (let leg = ToLower (TrimSpace (fr_Leg row)) in
      if leg = ''a'' then combo\<lparr>fc_LegA := fc_LegA combo @ [point]\<rparr>
      else if leg = ''b'' then combo\<lparr>fc_LegB := fc_LegB combo @ [point]\<rparr>
      else combo)"

definition group_row :: "decimal_lib \<Rightarrow> funding8hExitRow \<Rightarrow> funding_groups \<Rightarrow> funding_groups" where
  "group_row L row g0 =
     (let cid = fr_CombinationID row;
          combo = row_combo row (fg_combos g0 cid);
          g = g0\<lparr>fg_combos := (fg_combos g0)(cid \<mapsto> combo)\<rparr>
      in case (fr_FundingTime row, fr_FundingRate row, fr_IntervalHours row) of
           (Some fundingTime, Some fundingRate, Some intervalHours) \<Rightarrow>
             let key = (cid, ToLower (fr_Leg row), fundingTime) in
             if key \<in> fg_seen g then g\<lparr>fg_duplicates := insert cid (fg_duplicates g)\<rparr>
             else let g' = g\<lparr>fg_seen := insert key (fg_seen g)\<rparr> in
               (case (NewFromString L (TrimSpace fundingRate), NewFromString L (TrimSpace intervalHours)) of
                  (Some rate, Some interval) \<Rightarrow>
                    g'\<lparr>fg_combos := (fg_combos g')(cid \<mapsto>
                        add_point row \<lparr>fp_At = fundingTime, fp_Rate = rate, fp_IntervalHours = interval\<rparr> combo)\<rparr>
                | _ \<Rightarrow> g'\<lparr>fg_combos := (fg_combos g')(cid \<mapsto> combo\<lparr>fc_Invalid := True\<rparr>)\<rparr>)
         | _ \<Rightarrow> g)"

definition groupFunding8hExitRows ::
  "decimal_lib \<Rightarrow> funding8hExitRow list \<Rightarrow> (string \<rightharpoonup> funding8hCombo) \<times> string set" where
  "groupFunding8hExitRows L rows =
     (let g = fold (group_row L) rows \<lparr>fg_combos = Map.empty, fg_duplicates = {}, fg_seen = {}\<rparr> in
      (fg_combos g, fg_duplicates g))"

section \<open>The window of a leg\<close>

definition intervalHoursDuration :: "decimal \<Rightarrow> duration" where
  "intervalHoursDuration hours =
     (let seconds = hours * 3600;
          intPart = wrap64 (if seconds < 0 then - \<lfloor>- seconds\<rfloor> else \<lfloor>seconds\<rfloor>)
      in wrap64 (intPart * Second))"

definition window_anchor :: "time \<Rightarrow> funding8hPoint list \<Rightarrow> funding8hPoint option" where
  "window_anchor windowStart points =
     fold (\<lambda>point anchor.
        if \<not> fp_At point > windowStart
        then (case anchor of
                None \<Rightarrow> Some point
              | Some a \<Rightarrow> if fp_At point > fp_At a then Some point else anchor)
        else anchor) points None"

definition window_points :: "time \<Rightarrow> time \<Rightarrow> funding8hPoint list \<Rightarrow> funding8hPoint list" where
  "window_points windowStart windowEnd points =
     filter (\<lambda>point. fp_At point > windowStart \<and> \<not> fp_At point > windowEnd) points"

fun no_gap :: "funding8hPoint list \<Rightarrow> bool" where
  "no_gap (p # q # rest) \<longleftrightarrow>
     \<not> fp_At q > fp_At p + intervalHoursDuration (fp_IntervalHours p) + funding8hGapSlack \<and>
     no_gap (q # rest)"
| "no_gap _ \<longleftrightarrow> True"

definition funding8hLegCumulative ::
  "string \<Rightarrow> funding8hPoint list \<Rightarrow> time \<Rightarrow> time \<Rightarrow> decimal option" where
  "funding8hLegCumulative contractType points windowStart windowEnd =
     (if EqualFold (TrimSpace contractType) ''spot'' then Some 0
      else if \<not> EqualFold (TrimSpace contractType) ''perpetual'' then None
      else if list_ex (\<lambda>point. fp_IntervalHours point \<le> 0) points then None
      else case window_anchor windowStart points of
        None \<Rightarrow> None
      | Some anchor \<Rightarrow>
          let window = window_points windowStart windowEnd points in
          if window = [] then None
          else let ordered = sort_key fp_At (anchor # window) in
            if \<not> no_gap ordered then None
            else let lastPoint = last ordered;
                     nextExpectedAt = fp_At lastPoint + intervalHoursDuration (fp_IntervalHours lastPoint)
                 in if \<not> windowEnd < nextExpectedAt then None
                    else Some (sum_list (map fp_Rate window)))"

section \<open>The decision\<close>

definition funding8hLatestAfter :: "funding8hPoint list \<Rightarrow> time \<Rightarrow> time option" where
  "funding8hLatestAfter points target =
     fold (\<lambda>point latest.
        if \<not> fp_At point > target then latest
        else (case latest of
                None \<Rightarrow> Some (fp_At point)
              | Some l \<Rightarrow> if fp_At point > l then Some (fp_At point) else latest)) points None"

definition funding8hPostTargetEligibility ::
  "funding8hCombo \<Rightarrow> (time option \<times> time option) option" where
  "funding8hPostTargetEligibility combo =
     (case fc_TargetReachedAt combo of
        None \<Rightarrow> None
      | Some target \<Rightarrow>
          let aPerp = EqualFold (TrimSpace (fc_LegAType combo)) ''perpetual'';
              bPerp = EqualFold (TrimSpace (fc_LegBType combo)) ''perpetual'';
              latestA = funding8hLatestAfter (fc_LegA combo) target;
              latestB = funding8hLatestAfter (fc_LegB combo) target
          in if \<not> aPerp \<and> \<not> bPerp then None
             else if aPerp \<and> latestA = None then None
             else if bPerp \<and> latestB = None then None
             else Some (if aPerp then latestA else None, if bPerp then latestB else None))"

definition evaluateFunding8hExit ::
  "decimal_lib \<Rightarrow> funding8hCombo \<Rightarrow> time \<Rightarrow> time \<Rightarrow> funding8hEvalResult" where
  "evaluateFunding8hExit L combo windowStart windowEnd =
     (if fc_Invalid combo then no_result
      else case funding8hPostTargetEligibility combo of
        None \<Rightarrow> no_result
      | Some (latestA, latestB) \<Rightarrow>
      (case NewFromString L (TrimSpace (fc_Floor combo)) of
        None \<Rightarrow> no_result
      | Some floorRate \<Rightarrow>
      (case (funding8hLegCumulative (fc_LegAType combo) (fc_LegA combo) windowStart windowEnd,
             funding8hLegCumulative (fc_LegBType combo) (fc_LegB combo) windowStart windowEnd) of
        (Some cumA, Some cumB) \<Rightarrow>
          let d = ToLower (TrimSpace (fc_EntryDirection combo)) in
          if d = ''ask'' \<or> d = ''bid'' then
            (let net = (if d = ''ask'' then cumB - cumA else cumA - cumB);
                 observed = net * 3 * 365
             in \<lparr>fe_OK = True, fe_Trigger = (observed < floorRate), fe_Observed = observed,
                 fe_CumA = cumA, fe_CumB = cumB,
                 fe_LegALatestPostTarget = latestA, fe_LegBLatestPostTarget = latestB\<rparr>)
          else no_result
      | _ \<Rightarrow> no_result)))"

text \<open>The exits that one run signals: the combinations, in the order \<open>ids\<close> of the iteration, that are
  not duplicated and whose evaluation triggers.\<close>

definition funding8h_run ::
  "decimal_lib \<Rightarrow> funding8hExitRow list \<Rightarrow> string list \<Rightarrow> time \<Rightarrow> (string \<times> int) list" where
  "funding8h_run L rows ids now =
     (case groupFunding8hExitRows L rows of
        (combos, duplicates) \<Rightarrow>
          (case funding8hWindows now of
             (windowStart, windowEnd) \<Rightarrow>
               concat (map (\<lambda>cid. case combos cid of
                   None \<Rightarrow> []
                 | Some combo \<Rightarrow>
                     if cid \<in> duplicates then []
                     else let result = evaluateFunding8hExit L combo windowStart windowEnd in
                          if \<not> fe_OK result \<or> \<not> fe_Trigger result then []
                          else [(fc_ID combo, fc_Version combo)]) ids)))"

section \<open>Settlements cover the window\<close>

text \<open>A settlement accounts for the time up to its interval, and some slack, after it.\<close>

definition settles :: "funding8hPoint \<Rightarrow> time \<Rightarrow> bool" where
  "settles p t \<longleftrightarrow>
     fp_At p \<le> t \<and> t \<le> fp_At p + intervalHoursDuration (fp_IntervalHours p) + funding8hGapSlack"

lemma no_gap_settles:
  assumes "no_gap (p # ps)" "fp_At p \<le> t"
    and "t \<le> fp_At (last (p # ps)) + intervalHoursDuration (fp_IntervalHours (last (p # ps)))"
  shows "\<exists>q \<in> set (p # ps). settles q t"
  using assms
proof (induction ps arbitrary: p)
  case Nil
  then show ?case by (simp add: settles_def funding8hGapSlack_def duration_units)
next
  case (Cons q ps)
  show ?case
  proof (cases "fp_At q \<le> t")
    case True
    then show ?thesis using Cons.IH [of q] Cons.prems by auto
  next
    case False
    then have "settles p t" using Cons.prems by (simp add: settles_def)
    then show ?thesis by simp
  qed
qed

lemma window_anchor_Some:
  assumes "window_anchor windowStart points = Some a"
  shows "a \<in> set points" "fp_At a \<le> windowStart"
proof -
  let ?f = "\<lambda>point anchor. if \<not> fp_At point > windowStart
        then (case anchor of None \<Rightarrow> Some point
              | Some a \<Rightarrow> if fp_At point > fp_At a then Some point else anchor) else anchor"
  have "fold ?f points anchor = Some a \<Longrightarrow>
      a \<in> set points \<and> fp_At a \<le> windowStart \<or> anchor = Some a" for anchor
    by (induction points arbitrary: anchor) (fastforce split: option.splits if_splits)+
  then show "a \<in> set points" "fp_At a \<le> windowStart"
    using assms unfolding window_anchor_def by fastforce+
qed

lemma leg_cumulative_covers:
  assumes "funding8hLegCumulative contractType points windowStart windowEnd = Some total_rate"
    and "\<not> EqualFold (TrimSpace contractType) ''spot''"
    and "windowStart \<le> t" "t \<le> windowEnd"
  shows "total_rate = sum_list (map fp_Rate (window_points windowStart windowEnd points))"
    "\<exists>q \<in> set points. settles q t"
proof -
  let ?w = "window_points windowStart windowEnd points"
  obtain a where a: "window_anchor windowStart points = Some a"
    using assms(1,2) by (auto simp: funding8hLegCumulative_def split: option.splits if_splits)
  let ?o = "sort_key fp_At (a # ?w)"
  have o: "no_gap ?o" "windowEnd < fp_At (last ?o) + intervalHoursDuration (fp_IntervalHours (last ?o))"
    and sum: "total_rate = sum_list (map fp_Rate ?w)"
    using assms(1,2) a by (auto simp: funding8hLegCumulative_def Let_def split: if_splits)
  show "total_rate = sum_list (map fp_Rate ?w)" by (rule sum)
  have set_o: "set ?o = insert a (set ?w)" and sorted: "sorted (map fp_At ?o)"
    by (simp_all only: set_sort sorted_sort_key) simp_all
  obtain p ps where p: "?o = p # ps" using set_o by (cases ?o) auto
  have "fp_At p \<le> fp_At a" using set_o sorted unfolding p by auto
  then have "fp_At p \<le> t" using window_anchor_Some(2) [OF a] assms(3) by linarith
  then have "\<exists>q \<in> set ?o. settles q t"
    using no_gap_settles [of p ps t] o assms(4) unfolding p by simp
  moreover have "set ?o \<subseteq> set points"
    using window_anchor_Some(1) [OF a] unfolding set_o by (auto simp: window_points_def)
  ultimately show "\<exists>q \<in> set points. settles q t" by blast
qed

lemma evaluate_ok_cases:
  assumes "fe_OK (evaluateFunding8hExit L combo windowStart windowEnd)"
  obtains floorRate cumA cumB where
    "NewFromString L (TrimSpace (fc_Floor combo)) = Some floorRate"
    "funding8hLegCumulative (fc_LegAType combo) (fc_LegA combo) windowStart windowEnd = Some cumA"
    "funding8hLegCumulative (fc_LegBType combo) (fc_LegB combo) windowStart windowEnd = Some cumB"
    "fe_Observed (evaluateFunding8hExit L combo windowStart windowEnd) =
       (if ToLower (TrimSpace (fc_EntryDirection combo)) = ''ask'' then cumB - cumA else cumA - cumB) * 3 * 365"
    "fe_Trigger (evaluateFunding8hExit L combo windowStart windowEnd) \<longleftrightarrow>
       fe_Observed (evaluateFunding8hExit L combo windowStart windowEnd) < floorRate"
  using assms that
  by (auto simp: evaluateFunding8hExit_def no_result_def Let_def split: option.splits if_splits)

section \<open>Properties\<close>

text \<open>C23: a cumulative funding rate of a perpetual leg is the sum of the rates settled in the window,
  and it is only produced when the settlements cover the window: every instant of it lies within the
  interval and the slack of an earlier settlement.\<close>

theorem cumulative_rate_covers_window:
  assumes "funding8hLegCumulative contractType points windowStart windowEnd = Some total_rate"
    and "\<not> EqualFold (TrimSpace contractType) ''spot''"
    and "windowStart \<le> t" "t \<le> windowEnd"
  shows "total_rate = sum_list (map fp_Rate (window_points windowStart windowEnd points)) \<and>
    (\<exists>q \<in> set points. settles q t)"
  using leg_cumulative_covers [OF assms] by simp

definition sample_points :: "funding8hPoint list" where
  "sample_points = [\<lparr>fp_At = 1, fp_Rate = 1 / 100, fp_IntervalHours = 8\<rparr>,
     \<lparr>fp_At = 28800000000001, fp_Rate = - 3 / 100, fp_IntervalHours = 8\<rparr>]"

theorem cumulative_rate_covers_window_witness:
  "funding8hLegCumulative ''perpetual'' sample_points 10000000000000 38800000000000 = Some (- 3 / 100) \<and>
   (\<exists>q \<in> set sample_points. settles q 20000000000000)"
proof -
  have *: "funding8hLegCumulative ''perpetual'' sample_points 10000000000000 38800000000000 = Some (- 3 / 100)"
    "\<not> EqualFold (TrimSpace ''perpetual'') ''spot''"
    by code_simp+
  from cumulative_rate_covers_window [OF *, of 20000000000000] *(1) show ?thesis by simp
qed

text \<open>C32: a run signals an exit only for a combination of the rows that has no duplicate settlement, with
  both legs covered and the annualised difference of their rates, in the direction of the entry,
  below the configured floor.\<close>

theorem funding_exit_is_justified:
  assumes "(cid, version) \<in> set (funding8h_run L rows ids now)"
  shows "\<exists>key combo floorRate cumA cumB.
    fst (groupFunding8hExitRows L rows) key = Some combo \<and> key \<notin> snd (groupFunding8hExitRows L rows) \<and>
    cid = fc_ID combo \<and> version = fc_Version combo \<and>
    NewFromString L (TrimSpace (fc_Floor combo)) = Some floorRate \<and>
    funding8hLegCumulative (fc_LegAType combo) (fc_LegA combo) (now - funding8hWindow) now = Some cumA \<and>
    funding8hLegCumulative (fc_LegBType combo) (fc_LegB combo) (now - funding8hWindow) now = Some cumB \<and>
    (if ToLower (TrimSpace (fc_EntryDirection combo)) = ''ask'' then cumB - cumA else cumA - cumB) * 3 * 365 < floorRate"
proof -
  obtain combos duplicates where g: "groupFunding8hExitRows L rows = (combos, duplicates)" by (rule prod.exhaust)
  obtain key combo where k: "fst (groupFunding8hExitRows L rows) key = Some combo"
    "key \<notin> snd (groupFunding8hExitRows L rows)" "cid = fc_ID combo" "version = fc_Version combo"
    and e: "fe_OK (evaluateFunding8hExit L combo (now - funding8hWindow) now)"
      "fe_Trigger (evaluateFunding8hExit L combo (now - funding8hWindow) now)"
    using assms
    by (auto simp: funding8h_run_def funding8hWindows_def g Let_def split: option.splits if_splits)
      (metis (no_types))
  from evaluate_ok_cases [OF e(1)] e(2) k show ?thesis by metis
qed

definition funding_row :: funding8hExitRow where
  "funding_row = \<lparr>fr_CombinationID = ''c1'', fr_Version = 4, fr_EntryDirection = ''bid'', fr_Floor = ''-1'',
     fr_Leg = ''a'', fr_ContractType = ''perpetual'', fr_TargetReachedAt = Some 0, fr_FundingTime = Some 1,
     fr_FundingRate = Some ''0.01'', fr_IntervalHours = Some ''8''\<rparr>"

definition funding_rows :: "funding8hExitRow list" where
  "funding_rows = [funding_row,
     funding_row\<lparr>fr_FundingTime := Some 28800000000001, fr_FundingRate := Some ''-0.03''\<rparr>,
     funding_row\<lparr>fr_Leg := ''b'', fr_ContractType := ''spot'', fr_FundingTime := None\<rparr>]"

theorem funding_exit_is_justified_witness:
  "funding8h_run std_lib funding_rows [''c1''] 38800000000000 = [(''c1'', 4)] \<and>
   (\<exists>key combo. fst (groupFunding8hExitRows std_lib funding_rows) key = Some combo \<and> ''c1'' = fc_ID combo)"
proof -
  have run: "funding8h_run std_lib funding_rows [''c1''] 38800000000000 = [(''c1'', 4)]" by code_simp
  then have "(''c1'', 4) \<in> set (funding8h_run std_lib funding_rows [''c1''] 38800000000000)" by simp
  from funding_exit_is_justified [OF this] run show ?thesis by blast
qed

end
