(* ===== verification/Work_Permits.thy ===== *)
theory Work_Permits
  imports Trader_Types "HOL-Library.Multiset"
begin

text \<open>
  The permits that bound how many executions work at once: \<^verbatim>\<open>trader/execution_work_permit.go\<close>. The
  pool has a general and a reserved bank, buffered channels of which only the number of tokens
  matters. A permit belongs to one execution and may be used by several goroutines; its blocking
  \<^verbatim>\<open>Acquire\<close> takes a token without holding its lock, so a token can be in transit while the permit is
  obtained by another call. The client is proved against the contract of a pool (locale
  \<open>permit_pool\<close>), and the pool of the source meets the contract. Sending a token and counting it is one
  step. A call whose context ends returns an error and changes nothing; a nil pool or permit, for which
  every operation returns at once, is left out.
\<close>

section \<open>Pool\<close>

datatype workPermitClass = workPermitNewExecution | workPermitUrgent

datatype permitBank = permitNone | permitGeneral | permitReserved

record workPermitPool =
  wp_general :: nat
  wp_reserved :: nat
  wp_generalCap :: nat
  wp_reservedCap :: nat
  wp_inUse :: int

definition workPermitLimits :: "int \<Rightarrow> int \<times> int" where
  "workPermitLimits workers0 =
     (let workers = (if workers0 \<le> 0 then 16 else workers0) in
      if workers = 1 then (1, 0)
      else let r0 = go_div workers 4;
               r1 = (if r0 < 1 then 1 else r0);
               urgentReserved = (if r1 > workers - 1 then workers - 1 else r1);
               normalLimit0 = workers - urgentReserved;
               normalLimit = (if normalLimit0 < 1 then 1 else normalLimit0)
           in (normalLimit, urgentReserved))"

definition newWorkPermitPool :: "int \<Rightarrow> workPermitPool" where
  "newWorkPermitPool workers =
     (case workPermitLimits workers of
        (normal, reserved) \<Rightarrow>
          \<lparr>wp_general = 0, wp_reserved = 0, wp_generalCap = nat normal, wp_reservedCap = nat reserved,
           wp_inUse = 0\<rparr>)"

definition InUse :: "workPermitPool option \<Rightarrow> int" where
  "InUse p = (case p of None \<Rightarrow> 0 | Some pool \<Rightarrow> wp_inUse pool)"

text \<open>Sending a token into a bank that has room.\<close>

definition send :: "permitBank \<Rightarrow> workPermitPool \<Rightarrow> workPermitPool option" where
  "send bank pool =
     (case bank of
        permitReserved \<Rightarrow>
          if wp_reserved pool < wp_reservedCap pool
          then Some (pool\<lparr>wp_reserved := wp_reserved pool + 1, wp_inUse := wp_inUse pool + 1\<rparr>) else None
      | permitGeneral \<Rightarrow>
          if wp_general pool < wp_generalCap pool
          then Some (pool\<lparr>wp_general := wp_general pool + 1, wp_inUse := wp_inUse pool + 1\<rparr>) else None
      | permitNone \<Rightarrow> None)"

definition tryAcquire :: "workPermitClass \<Rightarrow> workPermitPool \<Rightarrow> (permitBank \<times> workPermitPool) option" where
  "tryAcquire cls pool =
     (if cls = workPermitUrgent then
        (case send permitReserved pool of
           Some pool' \<Rightarrow> Some (permitReserved, pool')
         | None \<Rightarrow> map_option (\<lambda>pool'. (permitGeneral, pool')) (send permitGeneral pool))
      else map_option (\<lambda>pool'. (permitGeneral, pool')) (send permitGeneral pool))"

text \<open>What the blocking \<^verbatim>\<open>acquire\<close> may return: its second \<^verbatim>\<open>select\<close> takes any bank that is ready.\<close>

definition acquire :: "workPermitClass \<Rightarrow> workPermitPool \<Rightarrow> permitBank \<Rightarrow> workPermitPool \<Rightarrow> bool" where
  "acquire cls pool bank pool' \<longleftrightarrow>
     send bank pool = Some pool' \<and> (cls = workPermitUrgent \<or> bank = permitGeneral)"

text \<open>Receiving a token; None stands for blocking on an empty bank.\<close>

definition release_permit :: "permitBank \<Rightarrow> workPermitPool \<Rightarrow> workPermitPool option" where
  "release_permit bank pool =
     (case bank of
        permitReserved \<Rightarrow>
          if 0 < wp_reserved pool
          then Some (pool\<lparr>wp_reserved := wp_reserved pool - 1, wp_inUse := wp_inUse pool - 1\<rparr>) else None
      | permitGeneral \<Rightarrow>
          if 0 < wp_general pool
          then Some (pool\<lparr>wp_general := wp_general pool - 1, wp_inUse := wp_inUse pool - 1\<rparr>) else None
      | permitNone \<Rightarrow> Some pool)"

section \<open>Permits\<close>

record executionWorkPermit =
  ewp_held :: bool
  ewp_bank :: permitBank

definition newExecutionWorkPermit :: executionWorkPermit where
  "newExecutionWorkPermit = \<lparr>ewp_held = False, ewp_bank = permitNone\<rparr>"

text \<open>\<^verbatim>\<open>TryAcquire\<close> on a permit and the pool, for any operation \<open>try_take\<close> of the pool.\<close>

definition TryAcquire ::
  "(workPermitClass \<Rightarrow> 'p \<Rightarrow> (permitBank \<times> 'p) option) \<Rightarrow> workPermitClass \<Rightarrow> executionWorkPermit \<Rightarrow> 'p \<Rightarrow>
   bool \<times> executionWorkPermit \<times> 'p" where
  "TryAcquire try_take cls p pool =
     (if ewp_held p then (True, p, pool)
      else case try_take cls pool of
             None \<Rightarrow> (False, p, pool)
           | Some (bank, pool') \<Rightarrow> (True, p\<lparr>ewp_bank := bank, ewp_held := True\<rparr>, pool'))"

text \<open>The end of \<^verbatim>\<open>Acquire\<close>, with the token already taken; None when the release blocks.\<close>

definition Acquire_store ::
  "(permitBank \<Rightarrow> 'p \<Rightarrow> 'p option) \<Rightarrow> permitBank \<Rightarrow> executionWorkPermit \<Rightarrow> 'p \<Rightarrow>
   (executionWorkPermit \<times> 'p) option" where
  "Acquire_store give bank p pool =
     (if ewp_held p then map_option (\<lambda>pool'. (p, pool')) (give bank pool)
      else Some (p\<lparr>ewp_bank := bank, ewp_held := True\<rparr>, pool))"

definition Yield ::
  "(permitBank \<Rightarrow> 'p \<Rightarrow> 'p option) \<Rightarrow> executionWorkPermit \<Rightarrow> 'p \<Rightarrow> (executionWorkPermit \<times> 'p) option" where
  "Yield give p pool =
     (if \<not> ewp_held p then Some (p, pool)
      else map_option (\<lambda>pool'. (p\<lparr>ewp_bank := permitNone, ewp_held := False\<rparr>, pool')) (give (ewp_bank p) pool))"

section \<open>The system\<close>

text \<open>The pool, the permits, and the tokens that a blocking \<^verbatim>\<open>Acquire\<close> took and has not stored yet, each
  with the index of its permit.\<close>

record 'p permit_system =
  sys_pool :: 'p
  sys_permits :: "executionWorkPermit list"
  sys_transit :: "(nat \<times> permitBank) multiset"

inductive permit_step ::
  "(workPermitClass \<Rightarrow> 'p \<Rightarrow> (permitBank \<times> 'p) option) \<Rightarrow>
   (workPermitClass \<Rightarrow> 'p \<Rightarrow> permitBank \<Rightarrow> 'p \<Rightarrow> bool) \<Rightarrow> (permitBank \<Rightarrow> 'p \<Rightarrow> 'p option) \<Rightarrow>
   'p permit_system \<Rightarrow> 'p permit_system \<Rightarrow> bool"
  for try_take block_take give where
  try_token: "i < length (sys_permits s) \<Longrightarrow>
     TryAcquire try_take cls (sys_permits s ! i) (sys_pool s) = (ok, p, pool) \<Longrightarrow>
     permit_step try_take block_take give s
       (s\<lparr>sys_pool := pool, sys_permits := (sys_permits s)[i := p]\<rparr>)"
| take_token: "i < length (sys_permits s) \<Longrightarrow> block_take cls (sys_pool s) bank pool \<Longrightarrow>
     permit_step try_take block_take give s
       (s\<lparr>sys_pool := pool, sys_transit := add_mset (i, bank) (sys_transit s)\<rparr>)"
| store_token: "(i, bank) \<in># sys_transit s \<Longrightarrow> i < length (sys_permits s) \<Longrightarrow>
     Acquire_store give bank (sys_permits s ! i) (sys_pool s) = Some (p, pool) \<Longrightarrow>
     permit_step try_take block_take give s
       (s\<lparr>sys_pool := pool, sys_permits := (sys_permits s)[i := p],
          sys_transit := sys_transit s - {#(i, bank)#}\<rparr>)"
| yield_token: "i < length (sys_permits s) \<Longrightarrow>
     Yield give (sys_permits s ! i) (sys_pool s) = Some (p, pool) \<Longrightarrow>
     permit_step try_take block_take give s
       (s\<lparr>sys_pool := pool, sys_permits := (sys_permits s)[i := p]\<rparr>)"

definition holds :: "permitBank \<Rightarrow> executionWorkPermit \<Rightarrow> bool" where
  "holds bank p \<longleftrightarrow> ewp_held p \<and> ewp_bank p = bank"

definition held_tokens :: "permitBank \<Rightarrow> executionWorkPermit list \<Rightarrow> nat" where
  "held_tokens bank ps = length (filter (holds bank) ps)"

definition transit_tokens :: "permitBank \<Rightarrow> (nat \<times> permitBank) multiset \<Rightarrow> nat" where
  "transit_tokens bank M = size (filter_mset (\<lambda>x. snd x = bank) M)"

lemma held_tokens_update:
  "i < length ps \<Longrightarrow>
   held_tokens bank (ps[i := p]) + (if holds bank (ps ! i) then 1 else 0) =
   held_tokens bank ps + (if holds bank p then 1 else 0)"
proof (induction ps arbitrary: i)
  case (Cons q ps)
  show ?case
  proof (cases i)
    case (Suc j)
    then show ?thesis using Cons.IH [of j] Cons.prems by (simp add: held_tokens_def)
  qed (simp add: held_tokens_def)
qed simp

lemma transit_tokens_add [simp]:
  "transit_tokens bank (add_mset x M) = transit_tokens bank M + (if snd x = bank then 1 else 0)"
  by (simp add: transit_tokens_def)

lemma transit_tokens_remove:
  "x \<in># M \<Longrightarrow> transit_tokens bank (M - {#x#}) + (if snd x = bank then 1 else 0) = transit_tokens bank M"
  by (metis insert_DiffM transit_tokens_add)

section \<open>The contract of a pool\<close>

text \<open>A pool counts the tokens that are out of each bank; taking a token adds one to a bank that is not
  \<^verbatim>\<open>permitNone\<close>, and giving back a token that is out succeeds and removes it.\<close>

locale permit_pool =
  fixes pool_ok :: "'p \<Rightarrow> bool" and out :: "'p \<Rightarrow> permitBank \<Rightarrow> nat"
    and try_take :: "workPermitClass \<Rightarrow> 'p \<Rightarrow> (permitBank \<times> 'p) option"
    and block_take :: "workPermitClass \<Rightarrow> 'p \<Rightarrow> permitBank \<Rightarrow> 'p \<Rightarrow> bool"
    and give :: "permitBank \<Rightarrow> 'p \<Rightarrow> 'p option"
  assumes try_take: "pool_ok p \<Longrightarrow> try_take cls p = Some (bank, p') \<Longrightarrow>
      pool_ok p' \<and> bank \<noteq> permitNone \<and> out p' = (out p)(bank := out p bank + 1)"
    and block_take: "pool_ok p \<Longrightarrow> block_take cls p bank p' \<Longrightarrow>
      pool_ok p' \<and> bank \<noteq> permitNone \<and> out p' = (out p)(bank := out p bank + 1)"
    and give: "pool_ok p \<Longrightarrow> bank \<noteq> permitNone \<Longrightarrow> 0 < out p bank \<Longrightarrow>
      \<exists>p'. give bank p = Some p' \<and> pool_ok p' \<and> out p' = (out p)(bank := out p bank - 1)"
begin

text \<open>Every token that is out is held by a permit or in transit.\<close>

definition balanced :: "'p permit_system \<Rightarrow> bool" where
  "balanced s \<longleftrightarrow> pool_ok (sys_pool s) \<and>
     (\<forall>p \<in> set (sys_permits s). ewp_held p \<longrightarrow> ewp_bank p \<noteq> permitNone) \<and>
     (\<forall>x \<in># sys_transit s. snd x \<noteq> permitNone) \<and>
     (\<forall>bank. bank \<noteq> permitNone \<longrightarrow>
        out (sys_pool s) bank = held_tokens bank (sys_permits s) + transit_tokens bank (sys_transit s))"

lemma balanced_pool: "balanced s \<Longrightarrow> pool_ok (sys_pool s)"
  by (simp add: balanced_def)

lemma balanced_out:
  "balanced s \<Longrightarrow> bank \<noteq> permitNone \<Longrightarrow>
   out (sys_pool s) bank = held_tokens bank (sys_permits s) + transit_tokens bank (sys_transit s)"
  by (simp add: balanced_def)

text \<open>The form in which the steps restore the invariant.\<close>

lemma balancedI:
  assumes "balanced s" "pool_ok pool" "ewp_held p \<longrightarrow> ewp_bank p \<noteq> permitNone" "\<forall>x \<in># M. snd x \<noteq> permitNone"
    and "\<And>bank. bank \<noteq> permitNone \<Longrightarrow>
      out pool bank = held_tokens bank ((sys_permits s)[i := p]) + transit_tokens bank M"
  shows "balanced (s\<lparr>sys_pool := pool, sys_permits := (sys_permits s)[i := p], sys_transit := M\<rparr>)"
proof -
  have "ewp_held q \<longrightarrow> ewp_bank q \<noteq> permitNone" if "q \<in> set ((sys_permits s)[i := p])" for q
    using assms(1,3) set_update_subset_insert [THEN subsetD, OF that] by (auto simp: balanced_def)
  then show ?thesis using assms(2,4,5) by (auto simp: balanced_def)
qed

lemma transit_banks: "balanced s \<Longrightarrow> \<forall>x \<in># sys_transit s. snd x \<noteq> permitNone"
  by (simp add: balanced_def)

lemma balanced_try:
  assumes "balanced s" "i < length (sys_permits s)"
    and "TryAcquire try_take cls (sys_permits s ! i) (sys_pool s) = (ok, p, pool)"
  shows "balanced (s\<lparr>sys_pool := pool, sys_permits := (sys_permits s)[i := p]\<rparr>)"
proof (cases "ewp_held (sys_permits s ! i) \<or> try_take cls (sys_pool s) = None")
  case True
  then have "p = sys_permits s ! i" "pool = sys_pool s" using assms(3) by (auto simp: TryAcquire_def split: if_splits)
  then show ?thesis using assms(1) by simp
next
  case False
  then obtain bank where t: "try_take cls (sys_pool s) = Some (bank, pool)"
    and p: "p = (sys_permits s ! i)\<lparr>ewp_bank := bank, ewp_held := True\<rparr>"
    using assms(3) by (auto simp: TryAcquire_def)
  have o: "pool_ok pool" "bank \<noteq> permitNone" "out pool = (out (sys_pool s))(bank := out (sys_pool s) bank + 1)"
    using try_take [OF balanced_pool t] assms(1) by auto
  have "out pool b = held_tokens b ((sys_permits s)[i := p]) + transit_tokens b (sys_transit s)"
    if "b \<noteq> permitNone" for b
    using balanced_out [OF assms(1) that] held_tokens_update [OF assms(2), of b p] False
    by (simp add: o(3) p holds_def split: if_splits)
  from balancedI [OF assms(1) o(1) _ transit_banks [OF assms(1)] this] o(2) show ?thesis by (simp add: p)
qed

lemma balanced_take:
  assumes "balanced s" "block_take cls (sys_pool s) bank pool"
  shows "balanced (s\<lparr>sys_pool := pool, sys_transit := add_mset (i, bank) (sys_transit s)\<rparr>)"
proof -
  have "pool_ok pool" "bank \<noteq> permitNone" "out pool = (out (sys_pool s))(bank := out (sys_pool s) bank + 1)"
    using block_take [OF _ assms(2)] assms(1) by (auto simp: balanced_def)
  then show ?thesis using assms(1) by (auto simp: balanced_def)
qed

text \<open>In a balanced system giving back a held token or a token in transit does not block.\<close>

lemma give_held:
  assumes "balanced s" "i < length (sys_permits s)" "ewp_held (sys_permits s ! i)"
  obtains pool where "give (ewp_bank (sys_permits s ! i)) (sys_pool s) = Some pool" "pool_ok pool"
    "out pool = (out (sys_pool s))(ewp_bank (sys_permits s ! i) := out (sys_pool s) (ewp_bank (sys_permits s ! i)) - 1)"
proof -
  let ?b = "ewp_bank (sys_permits s ! i)"
  have b: "?b \<noteq> permitNone" using assms by (auto simp: balanced_def)
  have "holds ?b (sys_permits s ! i)" using assms(3) by (simp add: holds_def)
  then have "0 < held_tokens ?b (sys_permits s)"
    using assms(2) nth_mem by (fastforce simp: held_tokens_def filter_empty_conv)
  then have "0 < out (sys_pool s) ?b" using balanced_out [OF assms(1) b] by simp
  from give [OF balanced_pool [OF assms(1)] b this] show ?thesis using that by blast
qed

lemma give_transit:
  assumes "balanced s" "(i, bank) \<in># sys_transit s"
  obtains pool where "give bank (sys_pool s) = Some pool" "pool_ok pool" "bank \<noteq> permitNone"
    "out pool = (out (sys_pool s))(bank := out (sys_pool s) bank - 1)" "0 < out (sys_pool s) bank"
proof -
  have b: "bank \<noteq> permitNone" using assms by (auto simp: balanced_def)
  have "0 < transit_tokens bank (sys_transit s)" using transit_tokens_remove [OF assms(2), of bank] by simp
  then have pos: "0 < out (sys_pool s) bank" using balanced_out [OF assms(1) b] by simp
  from give [OF balanced_pool [OF assms(1)] b this] show ?thesis using that b pos by blast
qed

lemma balanced_yield:
  assumes "balanced s" "i < length (sys_permits s)"
    and "Yield give (sys_permits s ! i) (sys_pool s) = Some (p, pool)"
  shows "balanced (s\<lparr>sys_pool := pool, sys_permits := (sys_permits s)[i := p]\<rparr>)"
proof (cases "ewp_held (sys_permits s ! i)")
  case False
  then have "p = sys_permits s ! i" "pool = sys_pool s" using assms(3) by (simp_all add: Yield_def)
  then show ?thesis using assms(1) by simp
next
  case True
  obtain pool' where g: "give (ewp_bank (sys_permits s ! i)) (sys_pool s) = Some pool'" "pool_ok pool'"
    "out pool' = (out (sys_pool s))(ewp_bank (sys_permits s ! i) := out (sys_pool s) (ewp_bank (sys_permits s ! i)) - 1)"
    using give_held [OF assms(1,2) True] .
  have p: "pool' = pool" "p = (sys_permits s ! i)\<lparr>ewp_bank := permitNone, ewp_held := False\<rparr>"
    using assms(3) True g(1) by (auto simp: Yield_def)
  have h: "held_tokens bank ((sys_permits s)[i := p]) + (if holds bank (sys_permits s ! i) then 1 else 0) =
      held_tokens bank (sys_permits s)" for bank
    using held_tokens_update [OF assms(2), of bank p] by (simp add: p(2) holds_def)
  have "out pool bank = held_tokens bank ((sys_permits s)[i := p]) + transit_tokens bank (sys_transit s)"
    if "bank \<noteq> permitNone" for bank
    using balanced_out [OF assms(1) that] True h [of bank] g(3) p(1) by (auto simp: holds_def)
  moreover have "ewp_held p \<longrightarrow> ewp_bank p \<noteq> permitNone" by (simp add: p)
  moreover have "pool_ok pool" using g(2) p(1) by simp
  ultimately show ?thesis using balancedI [OF assms(1) _ _ transit_banks [OF assms(1)], of pool p i] by simp
qed

lemma balanced_store:
  assumes "balanced s" "(i, bank) \<in># sys_transit s" "i < length (sys_permits s)"
    and "Acquire_store give bank (sys_permits s ! i) (sys_pool s) = Some (p, pool)"
  shows "balanced (s\<lparr>sys_pool := pool, sys_permits := (sys_permits s)[i := p],
           sys_transit := sys_transit s - {#(i, bank)#}\<rparr>)"
proof -
  obtain pool' where g: "give bank (sys_pool s) = Some pool'" "pool_ok pool'" "bank \<noteq> permitNone"
    "out pool' = (out (sys_pool s))(bank := out (sys_pool s) bank - 1)" "0 < out (sys_pool s) bank"
    using give_transit [OF assms(1,2)] .
  have t: "transit_tokens b (sys_transit s - {#(i, bank)#}) + (if bank = b then 1 else 0) =
      transit_tokens b (sys_transit s)" for b
    using transit_tokens_remove [OF assms(2)] by simp
  have none: "snd x \<noteq> permitNone" if "x \<in># sys_transit s - {#(i, bank)#}" for x
    using assms(1) in_diffD [OF that] by (auto simp: balanced_def)
  note same = balanced_out [OF assms(1)]
  show ?thesis
  proof (cases "ewp_held (sys_permits s ! i)")
    case True
    then have p: "p = sys_permits s ! i" "pool' = pool" using assms(4) g(1) by (auto simp: Acquire_store_def)
    have "out pool b = held_tokens b (sys_permits s) + transit_tokens b (sys_transit s - {#(i, bank)#})"
      if "b \<noteq> permitNone" for b
      using same [OF that] t [of b] g(4,5) p(2) by (auto split: if_splits)
    moreover have "ewp_held p \<longrightarrow> ewp_bank p \<noteq> permitNone" using assms(1,3) by (auto simp: balanced_def p)
    ultimately show ?thesis using balancedI [OF assms(1), of pool p "sys_transit s - {#(i, bank)#}" i] none g(2) p by simp
  next
    case False
    then have p: "p = (sys_permits s ! i)\<lparr>ewp_bank := bank, ewp_held := True\<rparr>" "pool = sys_pool s"
      using assms(4) by (auto simp: Acquire_store_def)
    have "out pool b = held_tokens b ((sys_permits s)[i := p]) + transit_tokens b (sys_transit s - {#(i, bank)#})"
      if "b \<noteq> permitNone" for b
      using same [OF that] t [of b] held_tokens_update [OF assms(3), of b p] False
      by (auto simp: p holds_def split: if_splits)
    then show ?thesis
      using balancedI [OF assms(1), of pool p "sys_transit s - {#(i, bank)#}" i] none g(3) balanced_pool [OF assms(1)]
      by (simp add: p)
  qed
qed

lemma balanced_step: "permit_step try_take block_take give s s' \<Longrightarrow> balanced s \<Longrightarrow> balanced s'"
  by (induction rule: permit_step.induct) (blast intro: balanced_try balanced_take balanced_store balanced_yield)+

lemma balanced_reachable:
  "(permit_step try_take block_take give)\<^sup>*\<^sup>* s s' \<Longrightarrow> balanced s \<Longrightarrow> balanced s'"
  by (induction rule: rtranclp_induct) (auto intro: balanced_step)

lemma balanced_initial:
  "pool_ok pool \<Longrightarrow> \<forall>bank. bank \<noteq> permitNone \<longrightarrow> out pool bank = 0 \<Longrightarrow>
   balanced \<lparr>sys_pool = pool, sys_permits = replicate n newExecutionWorkPermit, sys_transit = {#}\<rparr>"
  by (auto simp: balanced_def held_tokens_def transit_tokens_def newExecutionWorkPermit_def holds_def)

text \<open>Nothing blocks for ever on giving a token back.\<close>

lemma yield_returns:
  "balanced s \<Longrightarrow> i < length (sys_permits s) \<Longrightarrow> \<exists>p pool. Yield give (sys_permits s ! i) (sys_pool s) = Some (p, pool)"
  by (cases "ewp_held (sys_permits s ! i)") (simp_all add: Yield_def, metis give_held)

lemma store_returns:
  "balanced s \<Longrightarrow> (i, bank) \<in># sys_transit s \<Longrightarrow>
   \<exists>p pool. Acquire_store give bank (sys_permits s ! i) (sys_pool s) = Some (p, pool)"
  by (cases "ewp_held (sys_permits s ! i)") (simp_all add: Acquire_store_def, metis give_transit)

end

section \<open>The pool meets the contract\<close>

definition tokens_out :: "workPermitPool \<Rightarrow> permitBank \<Rightarrow> nat" where
  "tokens_out pool bank =
     (case bank of permitNone \<Rightarrow> 0 | permitGeneral \<Rightarrow> wp_general pool | permitReserved \<Rightarrow> wp_reserved pool)"

text \<open>Both banks are within the capacities of the pool and the counter is the number of tokens out.\<close>

definition pool_within :: "nat \<Rightarrow> nat \<Rightarrow> workPermitPool \<Rightarrow> bool" where
  "pool_within normal reserved pool \<longleftrightarrow>
     wp_generalCap pool = normal \<and> wp_reservedCap pool = reserved \<and>
     wp_general pool \<le> normal \<and> wp_reserved pool \<le> reserved \<and>
     wp_inUse pool = int (wp_general pool) + int (wp_reserved pool)"

lemma send_counts:
  assumes "pool_within n r p" "send bank p = Some p'"
  shows "pool_within n r p' \<and> bank \<noteq> permitNone \<and> tokens_out p' = (tokens_out p)(bank := tokens_out p bank + 1)"
  using assms
  by (auto simp: send_def pool_within_def tokens_out_def fun_eq_iff split: permitBank.splits if_splits)

interpretation work_pool: permit_pool "pool_within n r" tokens_out tryAcquire acquire release_permit for n r
proof
  fix p cls bank p'
  show "pool_within n r p \<Longrightarrow> tryAcquire cls p = Some (bank, p') \<Longrightarrow>
      pool_within n r p' \<and> bank \<noteq> permitNone \<and> tokens_out p' = (tokens_out p)(bank := tokens_out p bank + 1)"
    using send_counts [of n r p bank p'] by (auto simp: tryAcquire_def split: if_splits option.splits)
  show "pool_within n r p \<Longrightarrow> acquire cls p bank p' \<Longrightarrow>
      pool_within n r p' \<and> bank \<noteq> permitNone \<and> tokens_out p' = (tokens_out p)(bank := tokens_out p bank + 1)"
    using send_counts [of n r p bank p'] by (simp add: acquire_def)
  show "pool_within n r p \<Longrightarrow> bank \<noteq> permitNone \<Longrightarrow> 0 < tokens_out p bank \<Longrightarrow>
      \<exists>p'. release_permit bank p = Some p' \<and> pool_within n r p' \<and>
           tokens_out p' = (tokens_out p)(bank := tokens_out p bank - 1)"
    by (cases bank) (auto simp: release_permit_def pool_within_def tokens_out_def fun_eq_iff split: permitBank.splits)
qed

abbreviation work_step :: "workPermitPool permit_system \<Rightarrow> workPermitPool permit_system \<Rightarrow> bool" where
  "work_step \<equiv> permit_step tryAcquire acquire release_permit"

definition work_start :: "int \<Rightarrow> nat \<Rightarrow> workPermitPool permit_system" where
  "work_start workers n =
     \<lparr>sys_pool = newWorkPermitPool workers, sys_permits = replicate n newExecutionWorkPermit, sys_transit = {#}\<rparr>"

lemma workPermitLimits_sum:
  assumes "workPermitLimits workers = (normal, reserved)"
  shows "1 \<le> normal \<and> 0 \<le> reserved \<and> normal + reserved = (if workers \<le> 0 then 16 else workers)"
  using assms by (auto simp: workPermitLimits_def go_div_def Let_def split: if_splits)

lemma work_balanced:
  assumes "work_step\<^sup>*\<^sup>* (work_start workers n) s" "workPermitLimits workers = (normal, reserved)"
  shows "work_pool.balanced (nat normal) (nat reserved) s"
proof (rule work_pool.balanced_reachable [OF assms(1)])
  show "work_pool.balanced (nat normal) (nat reserved) (work_start workers n)"
    unfolding work_start_def
    by (rule work_pool.balanced_initial)
       (auto simp: newWorkPermitPool_def assms(2) pool_within_def tokens_out_def split: permitBank.splits)
qed

lemma holders_split:
  assumes "\<forall>p \<in> set ps. ewp_held p \<longrightarrow> ewp_bank p \<noteq> permitNone"
  shows "length (filter ewp_held ps) = held_tokens permitGeneral ps + held_tokens permitReserved ps"
  using assms
proof (induction ps)
  case (Cons p ps)
  then show ?case by (cases "ewp_bank p") (auto simp: held_tokens_def holds_def)
qed (simp add: held_tokens_def)

lemma transit_split:
  assumes "\<forall>x \<in># M. snd x \<noteq> permitNone"
  shows "size M = transit_tokens permitGeneral M + transit_tokens permitReserved M"
  using assms
proof (induction M)
  case (add x M)
  then show ?case by (cases "snd x") auto
qed (simp add: transit_tokens_def)


lemma sample_work_run:
  "work_step\<^sup>*\<^sup>* (work_start 4 2) \<lparr>sys_pool = (newWorkPermitPool 4)\<lparr>wp_general := 1, wp_inUse := 1\<rparr>,
     sys_permits = [\<lparr>ewp_held = True, ewp_bank = permitGeneral\<rparr>, newExecutionWorkPermit], sys_transit = {#}\<rparr>"
proof -
  have "TryAcquire tryAcquire workPermitNewExecution (sys_permits (work_start 4 2) ! 0) (sys_pool (work_start 4 2)) =
     (True, \<lparr>ewp_held = True, ewp_bank = permitGeneral\<rparr>, (newWorkPermitPool 4)\<lparr>wp_general := 1, wp_inUse := 1\<rparr>)"
    by code_simp
  from permit_step.try_token [OF _ this] show ?thesis
    by (auto simp: work_start_def numeral_2_eq_2 intro!: r_into_rtranclp)
qed




end
