(* ===== verification/Fill_Average.thy ===== *)
theory Fill_Average
  imports Trader_Types Quantity_Steps "HOL-Library.Multiset"
begin

text \<open>
  Fills of an order and its average price: \<^verbatim>\<open>trader/order_fill_average.go\<close>, with the small predicates of
  \<^verbatim>\<open>trader/order_terminal.go\<close> and \<^verbatim>\<open>trader/order_fill_fee.go\<close>. A state per order is shared through
  pointers, so the tracker has a heap of states and a map from order ids to addresses; a handle holds
  an address. The state of an order counts every trade once, writes an average at most once, and is
  not dropped while a handle refers to it.
\<close>

section \<open>States\<close>

definition orderFillAverageTerminalTTL :: duration where
  "orderFillAverageTerminalTTL = 10 * Minute"

definition orderFillAveragePruneScan :: nat where
  "orderFillAveragePruneScan = 8"

definition orderFillAverageCoverageWarnInterval :: duration where
  "orderFillAverageCoverageWarnInterval = 10 * Second"

definition hyperliquidArbitrageFillAverageEnabled :: "Order \<Rightarrow> bool" where
  "hyperliquidArbitrageFillAverageEnabled order \<longleftrightarrow>
     EqualFold (TrimSpace (ord_Exchange order)) ''hyperliquid'' \<and>
     TrimSpace (ord_ArbitrageExecutionID order) \<noteq> []"

record orderFillAverageState =
  fs_refs :: int
  fs_terminal :: bool
  fs_expiresAt :: "time"
  fs_ensured :: bool
  fs_authoritativeQty :: decimal
  fs_fillQty :: decimal
  fs_fillNotional :: decimal
  fs_lastPricedQty :: decimal
  fs_seenTradeIDs :: "string set"
  fs_seededPriced :: bool
  fs_averageFinalized :: bool
  fs_lastCoverageWarn :: "time"

definition zero_FillAverageState :: orderFillAverageState where
  "zero_FillAverageState =
     \<lparr>fs_refs = 0, fs_terminal = False, fs_expiresAt = zero_time, fs_ensured = False,
      fs_authoritativeQty = 0, fs_fillQty = 0, fs_fillNotional = 0, fs_lastPricedQty = 0,
      fs_seenTradeIDs = {}, fs_seededPriced = False, fs_averageFinalized = False,
      fs_lastCoverageWarn = zero_time\<rparr>"

record orderFillAveragePending =
  pd_orderID :: string
  pd_newTradeIDs :: "string set"
  pd_deltaFillQty :: decimal
  pd_deltaFillNotional :: decimal
  pd_candidateAuthoritativeQty :: decimal
  pd_candidateLastPricedQty :: decimal
  pd_writeAverage :: bool

definition ensureLocked :: "decimal_lib \<Rightarrow> Order \<Rightarrow> orderFillAverageState \<Rightarrow> orderFillAverageState" where
  "ensureLocked L order state =
     (if fs_ensured state then state
      else
        let filled = parseDecimal L (ord_FilledQuantity order);
            average = parseDecimal L (ord_AveragePrice order);
            s = state\<lparr>fs_ensured := True, fs_authoritativeQty := filled\<rparr>
        in if 0 < average
           then s\<lparr>fs_fillQty := filled, fs_fillNotional := filled * average, fs_lastPricedQty := filled,
                  fs_seededPriced := True, fs_averageFinalized := True\<rparr>
           else s\<lparr>fs_fillQty := 0, fs_fillNotional := 0, fs_lastPricedQty := 0,
                  fs_seededPriced := False, fs_averageFinalized := False\<rparr>)"

text \<open>What a fill contributes: its trade id with a positive quantity and price, or nothing.\<close>

definition fill_trade :: "decimal_lib \<Rightarrow> OrderFill \<Rightarrow> (string \<times> decimal \<times> decimal) option" where
  "fill_trade L fill =
     (let tradeID = TrimSpace (fill_TradeID fill) in
      if tradeID = [] then None
      else case NewFromString L (TrimSpace (fill_Quantity fill)) of
             None \<Rightarrow> None
           | Some quantity \<Rightarrow>
               if \<not> 0 < quantity then None
               else (case NewFromString L (TrimSpace (fill_Price fill)) of
                       None \<Rightarrow> None
                     | Some price \<Rightarrow> if \<not> 0 < price then None else Some (tradeID, quantity, price)))"

definition observeFillLocked ::
  "decimal_lib \<Rightarrow> orderFillAverageState \<Rightarrow> OrderFill \<Rightarrow> orderFillAveragePending \<Rightarrow> orderFillAveragePending" where
  "observeFillLocked L state fill pending =
     (case fill_trade L fill of
        None \<Rightarrow> pending
      | Some (tradeID, quantity, price) \<Rightarrow>
          if tradeID \<in> fs_seenTradeIDs state \<or> tradeID \<in> pd_newTradeIDs pending then pending
          else pending\<lparr>pd_newTradeIDs := insert tradeID (pd_newTradeIDs pending),
                       pd_deltaFillQty := pd_deltaFillQty pending + quantity,
                       pd_deltaFillNotional := pd_deltaFillNotional pending + quantity * price\<rparr>)"

text \<open>The warning is rate limited through a field of the state; \<open>clock\<close> is the wall clock.\<close>

definition warnFillCoverageLocked :: "time \<Rightarrow> orderFillAverageState \<Rightarrow> orderFillAverageState" where
  "warnFillCoverageLocked clock state =
     (if \<not> IsZero (fs_lastCoverageWarn state) \<and>
         time_Sub clock (fs_lastCoverageWarn state) < orderFillAverageCoverageWarnInterval
      then state else state\<lparr>fs_lastCoverageWarn := clock\<rparr>)"

definition start_pending :: "decimal_lib \<Rightarrow> string \<Rightarrow> string \<Rightarrow> orderFillAverageState \<Rightarrow> orderFillAveragePending" where
  "start_pending L orderID authoritativeQty state =
     \<lparr>pd_orderID = orderID, pd_newTradeIDs = {}, pd_deltaFillQty = 0, pd_deltaFillNotional = 0,
      pd_candidateAuthoritativeQty = parseDecimal L authoritativeQty,
      pd_candidateLastPricedQty = fs_lastPricedQty state, pd_writeAverage = False\<rparr>"

text \<open>The result is the pending change, the average to write if there is one, and the state, which only
  seeding and the warning change.\<close>

definition Prepare ::
  "decimal_lib \<Rightarrow> time \<Rightarrow> string \<Rightarrow> Order \<Rightarrow> string \<Rightarrow> string \<Rightarrow> OrderFill list \<Rightarrow> OrderFill list \<Rightarrow>
   orderFillAverageState \<Rightarrow> orderFillAveragePending \<times> string option \<times> orderFillAverageState" where
  "Prepare L clock orderID order status authoritativeQty incoming inserted state0 =
     (let state = ensureLocked L order state0;
          fills = (if fs_seededPriced state then inserted else incoming);
          pending = fold (observeFillLocked L state) fills (start_pending L orderID authoritativeQty state);
          candidateFillQty = fs_fillQty state + pd_deltaFillQty pending;
          candidateNotional = fs_fillNotional state + pd_deltaFillNotional pending;
          auth = pd_candidateAuthoritativeQty pending
      in if \<not> fs_averageFinalized state \<and> terminalStatus status \<and> 0 < auth \<and>
            candidateFillQty = auth \<and> 0 < candidateFillQty
         then (pending\<lparr>pd_writeAverage := True, pd_candidateLastPricedQty := auth\<rparr>,
               Some (StringOf L (Div L candidateNotional candidateFillQty)), state)
         else (pending, None,
               if 0 < auth \<and> candidateFillQty \<noteq> auth then warnFillCoverageLocked clock state else state))"

definition Commit :: "orderFillAveragePending \<Rightarrow> orderFillAverageState \<Rightarrow> orderFillAverageState" where
  "Commit pending state0 =
     (if pd_orderID pending = [] then state0
      else
        let state = state0\<lparr>fs_seenTradeIDs := fs_seenTradeIDs state0 \<union> pd_newTradeIDs pending,
                           fs_fillQty := fs_fillQty state0 + pd_deltaFillQty pending,
                           fs_fillNotional := fs_fillNotional state0 + pd_deltaFillNotional pending,
                           fs_authoritativeQty := pd_candidateAuthoritativeQty pending\<rparr>
        in if pd_writeAverage pending
           then state\<lparr>fs_lastPricedQty := pd_candidateLastPricedQty pending, fs_averageFinalized := True\<rparr>
           else state)"

section \<open>The tracker\<close>

text \<open>The states live on a heap, from which nothing is removed while it is in use; \<open>fat_next\<close> is the next free
  address.\<close>

record orderFillAverageTracker =
  fat_heap :: "nat \<rightharpoonup> orderFillAverageState"
  fat_next :: nat
  fat_byID :: "string \<rightharpoonup> nat"

record orderFillAverageHandle =
  fh_orderID :: string
  fh_state :: nat

definition newOrderFillAverageTracker :: orderFillAverageTracker where
  "newOrderFillAverageTracker = \<lparr>fat_heap = Map.empty, fat_next = 0, fat_byID = Map.empty\<rparr>"

definition canPruneLocked :: "time \<Rightarrow> string \<Rightarrow> nat \<Rightarrow> orderFillAverageTracker \<Rightarrow> bool" where
  "canPruneLocked now orderID addr t \<longleftrightarrow>
     (case fat_heap t addr of
        None \<Rightarrow> False
      | Some state \<Rightarrow>
          fs_terminal state \<and> \<not> IsZero (fs_expiresAt state) \<and> fs_refs state = 0 \<and>
          \<not> now < fs_expiresAt state \<and> fat_byID t orderID = Some addr)"

definition prune_one :: "time \<Rightarrow> string \<Rightarrow> orderFillAverageTracker \<Rightarrow> orderFillAverageTracker" where
  "prune_one now orderID t =
     (case fat_byID t orderID of
        None \<Rightarrow> t
      | Some addr \<Rightarrow>
          if canPruneLocked now orderID addr t then t\<lparr>fat_byID := (fat_byID t)(orderID := None)\<rparr> else t)"

text \<open>\<open>ids\<close> is the order in which the iteration over the map visits the orders.\<close>

definition pruneLocked :: "time \<Rightarrow> string list \<Rightarrow> string \<Rightarrow> orderFillAverageTracker \<Rightarrow> orderFillAverageTracker" where
  "pruneLocked now ids currentID t =
     fold (prune_one now) (take orderFillAveragePruneScan (filter (\<lambda>i. i \<noteq> currentID) ids))
       (prune_one now currentID t)"

definition Acquire ::
  "time \<Rightarrow> string list \<Rightarrow> string \<Rightarrow> orderFillAverageTracker \<Rightarrow> orderFillAverageHandle \<times> orderFillAverageTracker" where
  "Acquire now ids orderID0 t0 =
     (let orderID = TrimSpace orderID0;
          t = pruneLocked now ids orderID t0
      in case fat_byID t orderID of
           Some addr \<Rightarrow>
             (\<lparr>fh_orderID = orderID, fh_state = addr\<rparr>,
              t\<lparr>fat_heap := (fat_heap t)(addr := map_option (\<lambda>s. s\<lparr>fs_refs := fs_refs s + 1\<rparr>) (fat_heap t addr))\<rparr>)
         | None \<Rightarrow>
             (\<lparr>fh_orderID = orderID, fh_state = fat_next t\<rparr>,
              t\<lparr>fat_heap := (fat_heap t)(fat_next t \<mapsto> zero_FillAverageState\<lparr>fs_refs := 1\<rparr>),
                fat_next := fat_next t + 1,
                fat_byID := (fat_byID t)(orderID \<mapsto> fat_next t)\<rparr>))"

text \<open>\<^verbatim>\<open>Prepare\<close> and \<^verbatim>\<open>Commit\<close> change the state of a handle, and not its count of references.\<close>

definition update_state ::
  "orderFillAverageHandle \<Rightarrow> (orderFillAverageState \<Rightarrow> orderFillAverageState) \<Rightarrow> orderFillAverageTracker \<Rightarrow>
   orderFillAverageTracker" where
  "update_state h f t = t\<lparr>fat_heap := (fat_heap t)(fh_state h := map_option f (fat_heap t (fh_state h)))\<rparr>"

definition released :: "bool \<Rightarrow> time \<Rightarrow> orderFillAverageState \<Rightarrow> orderFillAverageState" where
  "released markTerminal expiresAt s =
     (let s1 = (if 0 < fs_refs s then s\<lparr>fs_refs := fs_refs s - 1\<rparr> else s)
      in if markTerminal then s1\<lparr>fs_terminal := True, fs_expiresAt := expiresAt\<rparr> else s1)"

definition Release ::
  "time \<Rightarrow> orderFillAverageHandle \<Rightarrow> bool \<Rightarrow> time \<Rightarrow> orderFillAverageTracker \<Rightarrow> orderFillAverageTracker" where
  "Release now h markTerminal expiresAt t0 =
     (if fh_orderID h = [] then t0
      else
        let t = update_state h (released markTerminal expiresAt) t0
        in if canPruneLocked now (fh_orderID h) (fh_state h) t
           then t\<lparr>fat_byID := (fat_byID t)(fh_orderID h := None)\<rparr> else t)"

text \<open>The tracker and the handles that are out. Order ids are database keys and not empty.\<close>

record tracker_system =
  ts_tracker :: orderFillAverageTracker
  ts_handles :: "orderFillAverageHandle multiset"

inductive tracker_step :: "decimal_lib \<Rightarrow> tracker_system \<Rightarrow> tracker_system \<Rightarrow> bool" for L where
  acquire: "TrimSpace orderID \<noteq> [] \<Longrightarrow> Acquire now ids orderID (ts_tracker s) = (h, t) \<Longrightarrow>
     tracker_step L s \<lparr>ts_tracker = t, ts_handles = add_mset h (ts_handles s)\<rparr>"
| prepare: "h \<in># ts_handles s \<Longrightarrow>
     tracker_step L s (s\<lparr>ts_tracker := update_state h
       (\<lambda>state. snd (snd (Prepare L clock (fh_orderID h) order status auth incoming inserted state)))
       (ts_tracker s)\<rparr>)"
| commit: "h \<in># ts_handles s \<Longrightarrow>
     tracker_step L s (s\<lparr>ts_tracker := update_state h (Commit pending) (ts_tracker s)\<rparr>)"
| release: "h \<in># ts_handles s \<Longrightarrow>
     tracker_step L s \<lparr>ts_tracker = Release now h markTerminal expiresAt (ts_tracker s),
                      ts_handles = ts_handles s - {#h#}\<rparr>"

definition tracker_start :: tracker_system where
  "tracker_start = \<lparr>ts_tracker = newOrderFillAverageTracker, ts_handles = {#}\<rparr>"

section \<open>Predicates on orders and fills\<close>

text \<open>The first instant of the year 2000.\<close>

definition year2000 :: "time" where
  "year2000 = 946684800 * Second"

definition hasVenueEventWatermark :: "time \<Rightarrow> bool" where
  "hasVenueEventWatermark t \<longleftrightarrow> \<not> IsZero t \<and> year2000 \<le> t"

definition terminalVenueStatus :: "string \<Rightarrow> bool" where
  "terminalVenueStatus status \<longleftrightarrow>
     ToLower (TrimSpace status) \<in> set [''filled'', ''canceled'', ''rejected'', ''expired'']"

definition isAuthoritativeTerminalResult :: "VenueResult \<Rightarrow> bool \<Rightarrow> string \<Rightarrow> bool" where
  "isAuthoritativeTerminalResult result stream mergedStatus \<longleftrightarrow>
     terminalVenueStatus mergedStatus \<and> (stream \<or> terminalVenueStatus (vr_Status result))"

definition normalizeStoredFillFee ::
  "decimal_lib \<Rightarrow> OrderFill \<Rightarrow> string option \<times> string option \<times> string" where
  "normalizeStoredFillFee L fill =
     (let role0 = ToLower (TrimSpace (fill_LiquidityRole fill));
          role = (if role0 \<in> set [''maker'', ''taker'', ''unknown''] then role0 else ''unknown'');
          rawAmount = TrimSpace (fill_FeeAmount fill);
          currency = ToUpper (TrimSpace (fill_FeeCurrency fill))
      in if TrimSpace (fill_TradeID fill) = [] \<or> rawAmount = [] \<or> currency = [] then (None, None, role)
         else case NewFromString L rawAmount of
                None \<Rightarrow> (None, None, role)
              | Some amount \<Rightarrow> (Some (StringOf L amount), Some currency, role))"

definition orderLiquidityRole :: "int \<Rightarrow> int \<Rightarrow> int \<Rightarrow> string" where
  "orderLiquidityRole makerCount takerCount otherCount =
     (if otherCount > 0 \<or> (makerCount = 0 \<and> takerCount = 0) then ''unknown''
      else if makerCount > 0 \<and> takerCount > 0 then ''mixed''
      else if makerCount > 0 then ''maker'' else ''taker'')"

section \<open>Every trade is counted once\<close>

definition trade_ids :: "decimal_lib \<Rightarrow> OrderFill list \<Rightarrow> string set" where
  "trade_ids L fills = {i. \<exists>f \<in> set fills. \<exists>q p. fill_trade L f = Some (i, q, p)}"

text \<open>All reports of a trade state the same quantity and price.\<close>

definition reports_agree ::
  "decimal_lib \<Rightarrow> (string \<Rightarrow> decimal) \<Rightarrow> (string \<Rightarrow> decimal) \<Rightarrow> OrderFill list \<Rightarrow> bool" where
  "reports_agree L Q P fills \<longleftrightarrow>
     (\<forall>f \<in> set fills. case fill_trade L f of None \<Rightarrow> True | Some (i, q, p) \<Rightarrow> q = Q i \<and> p = P i)"

lemma trade_ids_Nil [simp]: "trade_ids L [] = {}"
  by (simp add: trade_ids_def)

lemma trade_ids_Cons [simp]:
  "trade_ids L (f # fills) = (case fill_trade L f of None \<Rightarrow> {} | Some (i, q, p) \<Rightarrow> {i}) \<union> trade_ids L fills"
  by (auto simp: trade_ids_def split: option.splits)

lemma finite_trade_ids [simp]: "finite (trade_ids L fills)"
  by (induction fills) (auto split: option.splits)

lemma reports_agree_Cons [simp]:
  "reports_agree L Q P (f # fills) \<longleftrightarrow>
     (case fill_trade L f of None \<Rightarrow> True | Some (i, q, p) \<Rightarrow> q = Q i \<and> p = P i) \<and> reports_agree L Q P fills"
  by (simp add: reports_agree_def)

lemma sum_insert_minus:
  fixes g :: "string \<Rightarrow> decimal"
  assumes "finite A" "i \<notin> B"
  shows "(\<Sum>j \<in> insert i A - B. g j) = g i + (\<Sum>j \<in> A - insert i B. g j)"
proof -
  have "insert i A - B = insert i (A - insert i B)" using assms(2) by auto
  then show ?thesis using assms(1) by simp
qed

text \<open>Observing fills adds the trades that are new, in whatever order and however often they are listed.\<close>

lemma observe_fold:
  fixes state :: orderFillAverageState
  assumes "reports_agree L Q P fills"
  defines "new \<equiv> \<lambda>pending. trade_ids L fills - (fs_seenTradeIDs state \<union> pd_newTradeIDs pending)"
  shows "fold (observeFillLocked L state) fills pending =
    pending\<lparr>pd_newTradeIDs := pd_newTradeIDs pending \<union> new pending,
            pd_deltaFillQty := pd_deltaFillQty pending + (\<Sum>i \<in> new pending. Q i),
            pd_deltaFillNotional := pd_deltaFillNotional pending + (\<Sum>i \<in> new pending. Q i * P i)\<rparr>"
  using assms(1) unfolding new_def
proof (induction fills arbitrary: pending)
  case (Cons f fills)
  show ?case
  proof (cases "fill_trade L f")
    case None
    then show ?thesis using Cons by (simp add: observeFillLocked_def)
  next
    case (Some t)
    obtain i q p where t: "fill_trade L f = Some (i, q, p)" using Some by (cases t) auto
    have qp: "q = Q i" "p = P i" using Cons.prems t by simp_all
    show ?thesis
    proof (cases "i \<in> fs_seenTradeIDs state \<or> i \<in> pd_newTradeIDs pending")
      case True
      then have "insert i (trade_ids L fills) - (fs_seenTradeIDs state \<union> pd_newTradeIDs pending) =
          trade_ids L fills - (fs_seenTradeIDs state \<union> pd_newTradeIDs pending)" by auto
      then show ?thesis using True Cons t by (simp add: observeFillLocked_def)
    next
      case False
      have u: "fs_seenTradeIDs state \<union> insert i (pd_newTradeIDs pending) =
          insert i (fs_seenTradeIDs state \<union> pd_newTradeIDs pending)" by auto
      have s: "(\<Sum>j \<in> insert i (trade_ids L fills) - (fs_seenTradeIDs state \<union> pd_newTradeIDs pending). g j) =
          g i + (\<Sum>j \<in> trade_ids L fills - insert i (fs_seenTradeIDs state \<union> pd_newTradeIDs pending). g j)"
        for g :: "string \<Rightarrow> decimal"
        using False by (intro sum_insert_minus) auto
      have n: "insert i (pd_newTradeIDs pending \<union>
            (trade_ids L fills - insert i (fs_seenTradeIDs state \<union> pd_newTradeIDs pending))) =
          pd_newTradeIDs pending \<union>
            (insert i (trade_ids L fills) - (fs_seenTradeIDs state \<union> pd_newTradeIDs pending))"
        using False by auto
      show ?thesis
        using False Cons t qp by (simp add: observeFillLocked_def u s n add.assoc)
    qed
  qed
qed simp

lemma observe_keeps:
  "pd_orderID (fold (observeFillLocked L state) fills pending) = pd_orderID pending"
  "pd_candidateAuthoritativeQty (fold (observeFillLocked L state) fills pending) =
     pd_candidateAuthoritativeQty pending"
  "pd_writeAverage (fold (observeFillLocked L state) fills pending) = pd_writeAverage pending"
  by (induction fills arbitrary: pending) (auto simp: observeFillLocked_def split: option.splits)

text \<open>A report of fills, and what the caller does with it: prepare, write, commit.\<close>

record fill_report =
  rp_clock :: "time"
  rp_status :: string
  rp_authoritativeQty :: string
  rp_incoming :: "OrderFill list"
  rp_inserted :: "OrderFill list"

definition process ::
  "decimal_lib \<Rightarrow> string \<Rightarrow> Order \<Rightarrow> fill_report \<Rightarrow> orderFillAverageState \<Rightarrow> string option \<times> orderFillAverageState" where
  "process L orderID order r state =
     (case Prepare L (rp_clock r) orderID order (rp_status r) (rp_authoritativeQty r) (rp_incoming r)
             (rp_inserted r) state of
        (pending, average, state') \<Rightarrow> (average, Commit pending state'))"

fun process_all ::
  "decimal_lib \<Rightarrow> string \<Rightarrow> Order \<Rightarrow> fill_report list \<Rightarrow> orderFillAverageState \<Rightarrow>
   string option list \<times> orderFillAverageState" where
  "process_all L orderID order [] state = ([], state)"
| "process_all L orderID order (r # reports) state =
     (case process L orderID order r state of
        (average, state') \<Rightarrow>
          (case process_all L orderID order reports state' of (averages, state'') \<Rightarrow> (average # averages, state'')))"

definition reported :: "fill_report list \<Rightarrow> OrderFill list" where
  "reported reports = concat (map rp_incoming reports)"

definition counted ::
  "(string \<Rightarrow> decimal) \<Rightarrow> (string \<Rightarrow> decimal) \<Rightarrow> string set \<Rightarrow> orderFillAverageState \<Rightarrow> bool" where
  "counted Q P ids s \<longleftrightarrow>
     \<not> fs_seededPriced s \<and> fs_seenTradeIDs s = ids \<and> finite ids \<and>
     fs_fillQty s = (\<Sum>i \<in> ids. Q i) \<and> fs_fillNotional s = (\<Sum>i \<in> ids. Q i * P i)"

lemma warn_fields [simp]:
  "fs_seededPriced (warnFillCoverageLocked c s) = fs_seededPriced s"
  "fs_seenTradeIDs (warnFillCoverageLocked c s) = fs_seenTradeIDs s"
  "fs_fillQty (warnFillCoverageLocked c s) = fs_fillQty s"
  "fs_fillNotional (warnFillCoverageLocked c s) = fs_fillNotional s"
  "fs_ensured (warnFillCoverageLocked c s) = fs_ensured s"
  "fs_averageFinalized (warnFillCoverageLocked c s) = fs_averageFinalized s"
  by (simp_all add: warnFillCoverageLocked_def)

lemma ensure_unpriced:
  assumes "\<not> 0 < parseDecimal L (ord_AveragePrice order)" "fs_ensured s \<or> s = zero_FillAverageState" "counted Q P ids s"
  shows "counted Q P ids (ensureLocked L order s)" "fs_ensured (ensureLocked L order s)"
  using assms by (auto simp: ensureLocked_def counted_def zero_FillAverageState_def Let_def)

lemma sum_union_minus:
  fixes g :: "string \<Rightarrow> decimal"
  assumes "finite A" "finite B"
  shows "(\<Sum>i \<in> A. g i) + (\<Sum>i \<in> B - A. g i) = (\<Sum>i \<in> A \<union> B. g i)"
  using assms sum.union_disjoint [of A "B - A" g] by simp

lemma process_counts:
  assumes "\<not> 0 < parseDecimal L (ord_AveragePrice order)" "fs_ensured s \<or> s = zero_FillAverageState"
    and "counted Q P ids s" "reports_agree L Q P (rp_incoming r)" "orderID \<noteq> []"
    and "process L orderID order r s = (average, s')"
  shows "counted Q P (ids \<union> trade_ids L (rp_incoming r)) s'" "fs_ensured s'"
proof -
  note e = ensure_unpriced [OF assms(1-3)]
  let ?s = "ensureLocked L order s"
  have c: "\<not> fs_seededPriced ?s" "fs_seenTradeIDs ?s = ids" "finite ids"
    "fs_fillQty ?s = (\<Sum>i \<in> ids. Q i)" "fs_fillNotional ?s = (\<Sum>i \<in> ids. Q i * P i)"
    using e(1) by (auto simp: counted_def)
  show "counted Q P (ids \<union> trade_ids L (rp_incoming r)) s'"
    using assms(5,6) c
    by (auto simp: process_def Prepare_def Let_def observe_fold [OF assms(4)] start_pending_def Commit_def counted_def
        sum_union_minus split: if_splits)
  show "fs_ensured s'"
    using assms(5,6) c(1) e(2)
    by (auto simp: process_def Prepare_def Let_def Commit_def split: if_splits)
qed

lemma process_all_counts:
  assumes "\<not> 0 < parseDecimal L (ord_AveragePrice order)" "fs_ensured s \<or> s = zero_FillAverageState"
    and "counted Q P ids s" "reports_agree L Q P (reported reports)" "orderID \<noteq> []"
  shows "counted Q P (ids \<union> trade_ids L (reported reports)) (snd (process_all L orderID order reports s))"
  using assms(2-4)
proof (induction reports arbitrary: s ids)
  case (Cons r reports)
  obtain average s' where p: "process L orderID order r s = (average, s')" by (cases "process L orderID order r s")
  have a: "reports_agree L Q P (rp_incoming r)" "reports_agree L Q P (reported reports)"
    using Cons.prems(3) by (auto simp: reported_def reports_agree_def)
  note step = process_counts [OF assms(1) Cons.prems(1,2) a(1) assms(5) p]
  have "ids \<union> trade_ids L (rp_incoming r) \<union> trade_ids L (reported reports) =
      ids \<union> trade_ids L (reported (r # reports))" by (auto simp: trade_ids_def reported_def)
  then show ?case using Cons.IH [OF _ step(1) a(2)] step(2) by (simp add: p case_prod_beta)
qed (simp add: reported_def)

lemma process_final:
  assumes "fs_averageFinalized s" "fs_ensured s" "process L orderID order r s = (average, s')"
  shows "average = None \<and> fs_averageFinalized s' \<and> fs_ensured s'"
  using assms by (auto simp: process_def Prepare_def Let_def ensureLocked_def Commit_def split: if_splits)

lemma process_all_final:
  assumes "fs_averageFinalized s" "fs_ensured s"
  shows "set (fst (process_all L orderID order reports s)) \<subseteq> {None}"
  using assms
proof (induction reports arbitrary: s)
  case (Cons r reports)
  obtain average s' where p: "process L orderID order r s = (average, s')" by (cases "process L orderID order r s")
  show ?case using Cons.IH [of s'] process_final [OF Cons.prems p] by (simp add: p case_prod_beta)
qed simp


definition sample_order_fill :: "string \<Rightarrow> string \<Rightarrow> OrderFill" where
  "sample_order_fill tradeID quantity =
     zero_OrderFill\<lparr>fill_TradeID := tradeID, fill_Quantity := quantity, fill_Price := ''20''\<rparr>"

definition sample_reports :: "fill_report list" where
  "sample_reports =
     [\<lparr>rp_clock = 0, rp_status = ''open'', rp_authoritativeQty = ''3'',
       rp_incoming = [sample_order_fill ''t1'' ''1''], rp_inserted = []\<rparr>,
      \<lparr>rp_clock = 1, rp_status = ''filled'', rp_authoritativeQty = ''3'',
       rp_incoming = [sample_order_fill ''t2'' ''2'', sample_order_fill '' t1'' ''1''], rp_inserted = []\<rparr>]"


text \<open>C30: an average is written only for a terminal order whose counted quantity is exactly the authoritative
  one; it is the counted notional over that quantity, and no later report writes another.\<close>

theorem average_written_once:
  assumes "process L orderID order r s = (Some average, s')" "orderID \<noteq> []"
  shows "terminalStatus (rp_status r) \<and> 0 < fs_fillQty s' \<and>
    fs_fillQty s' = parseDecimal L (rp_authoritativeQty r) \<and>
    average = StringOf L (Div L (fs_fillNotional s') (fs_fillQty s')) \<and>
    set (fst (process_all L orderID order reports s')) \<subseteq> {None}"
proof -
  have e: "fs_ensured (ensureLocked L order s)" by (simp add: ensureLocked_def Let_def)
  have "terminalStatus (rp_status r) \<and> 0 < fs_fillQty s' \<and>
      fs_fillQty s' = parseDecimal L (rp_authoritativeQty r) \<and>
      average = StringOf L (Div L (fs_fillNotional s') (fs_fillQty s')) \<and> fs_averageFinalized s' \<and> fs_ensured s'"
    using assms e unfolding process_def Prepare_def Let_def Commit_def
    by (auto split: if_splits simp: observe_keeps start_pending_def)
  then show ?thesis using process_all_final by blast
qed

theorem average_written_once_witness:
  "\<exists>s'. process std_lib ''o1'' zero_Order (sample_reports ! 1)
      (snd (process std_lib ''o1'' zero_Order (sample_reports ! 0) zero_FillAverageState)) = (Some ''20'', s') \<and>
    fs_fillQty s' = 3 \<and> set (fst (process_all std_lib ''o1'' zero_Order sample_reports s')) \<subseteq> {None}"
proof -
  let ?p = "process std_lib ''o1'' zero_Order (sample_reports ! 1)
      (snd (process std_lib ''o1'' zero_Order (sample_reports ! 0) zero_FillAverageState))"
  have "fst ?p = Some ''20''" by code_simp
  then have p: "?p = (Some ''20'', snd ?p)" by (metis prod.collapse)
  have "parseDecimal std_lib (rp_authoritativeQty (sample_reports ! 1)) = 3" by code_simp
  with average_written_once [OF p, of sample_reports] p show ?thesis by (intro exI [of _ "snd ?p"]) simp
qed

section \<open>States are shared and kept while in use\<close>

text \<open>The addresses of the map are allocated and distinct, the count of references of a state in the map is
  the number of handles to it, and the state of every handle is in the map under its order id.\<close>

definition tracker_ok :: "tracker_system \<Rightarrow> bool" where
  "tracker_ok s \<longleftrightarrow>
     (\<forall>a. fat_next (ts_tracker s) \<le> a \<longrightarrow> fat_heap (ts_tracker s) a = None) \<and>
     (\<forall>i a. fat_byID (ts_tracker s) i = Some a \<longrightarrow>
        (\<exists>x. fat_heap (ts_tracker s) a = Some x \<and>
             fs_refs x = int (count (ts_handles s) \<lparr>fh_orderID = i, fh_state = a\<rparr>))) \<and>
     (\<forall>i j a. fat_byID (ts_tracker s) i = Some a \<longrightarrow> fat_byID (ts_tracker s) j = Some a \<longrightarrow> i = j) \<and>
     (\<forall>h \<in># ts_handles s. fh_orderID h \<noteq> [] \<and> fat_byID (ts_tracker s) (fh_orderID h) = Some (fh_state h))"

lemma tracker_okI:
  assumes "\<And>a. fat_next t \<le> a \<Longrightarrow> fat_heap t a = None"
    and "\<And>i a. fat_byID t i = Some a \<Longrightarrow>
      \<exists>x. fat_heap t a = Some x \<and> fs_refs x = int (count H \<lparr>fh_orderID = i, fh_state = a\<rparr>)"
    and "\<And>i j a. fat_byID t i = Some a \<Longrightarrow> fat_byID t j = Some a \<Longrightarrow> i = j"
    and "\<And>h. h \<in># H \<Longrightarrow> fh_orderID h \<noteq> [] \<and> fat_byID t (fh_orderID h) = Some (fh_state h)"
  shows "tracker_ok \<lparr>ts_tracker = t, ts_handles = H\<rparr>"
  using assms by (simp add: tracker_ok_def)

lemma tracker_okD:
  assumes "tracker_ok s"
  shows "fat_next (ts_tracker s) \<le> a \<Longrightarrow> fat_heap (ts_tracker s) a = None"
    and "fat_byID (ts_tracker s) i = Some a \<Longrightarrow>
      \<exists>x. fat_heap (ts_tracker s) a = Some x \<and> fs_refs x = int (count (ts_handles s) \<lparr>fh_orderID = i, fh_state = a\<rparr>)"
    and "fat_byID (ts_tracker s) i = Some a \<Longrightarrow> fat_byID (ts_tracker s) j = Some a \<Longrightarrow> i = j"
    and "h \<in># ts_handles s \<Longrightarrow> fh_orderID h \<noteq> []"
    and "h \<in># ts_handles s \<Longrightarrow> fat_byID (ts_tracker s) (fh_orderID h) = Some (fh_state h)"
  using assms by (auto simp: tracker_ok_def)

text \<open>Changing the state of a handle together with the number of handles to it.\<close>

lemma tracker_ok_update_refs:
  assumes ok: "tracker_ok s" and addr: "fat_byID (ts_tracker s) i = Some a"
    and f: "\<And>x. fat_heap (ts_tracker s) a = Some x \<Longrightarrow>
      fs_refs (f x) = int (count H \<lparr>fh_orderID = i, fh_state = a\<rparr>)"
    and others: "\<And>g. g \<noteq> \<lparr>fh_orderID = i, fh_state = a\<rparr> \<Longrightarrow> count H g = count (ts_handles s) g"
    and "i \<noteq> []"
  shows "tracker_ok \<lparr>ts_tracker = (ts_tracker s)\<lparr>fat_heap := (fat_heap (ts_tracker s))
           (a := map_option f (fat_heap (ts_tracker s) a))\<rparr>, ts_handles = H\<rparr>"
proof (rule tracker_okI, goal_cases)
  case (1 b)
  then show ?case using tracker_okD(1) [OF ok] by auto
next
  case (2 j b)
  show ?case
  proof (cases "b = a")
    case True
    then have "j = i" using 2 addr tracker_okD(3) [OF ok] by simp
    then show ?thesis using tracker_okD(2) [OF ok addr] f True by auto
  next
    case False
    then show ?thesis using 2 tracker_okD(2) [OF ok, of j b] others [of "\<lparr>fh_orderID = j, fh_state = b\<rparr>"] by simp
  qed
next
  case (3 j k b)
  then show ?case using tracker_okD(3) [OF ok] by simp
next
  case (4 h)
  show ?case
  proof (cases "h = \<lparr>fh_orderID = i, fh_state = a\<rparr>")
    case True
    then show ?thesis using addr assms(5) by simp
  next
    case False
    then have "h \<in># ts_handles s" using 4 others [OF False] by (metis count_greater_zero_iff)
    then show ?thesis using tracker_okD(4,5) [OF ok] by simp
  qed
qed

lemma tracker_ok_update:
  assumes "tracker_ok s" "h \<in># ts_handles s" "\<And>x. fs_refs (f x) = fs_refs x"
  shows "tracker_ok (s\<lparr>ts_tracker := update_state h f (ts_tracker s)\<rparr>)"
proof -
  note a = tracker_okD(5) [OF assms(1,2)]
  have "tracker_ok \<lparr>ts_tracker = update_state h f (ts_tracker s), ts_handles = ts_handles s\<rparr>"
    unfolding update_state_def
    by (rule tracker_ok_update_refs [OF assms(1) a])
       (use tracker_okD(2) [OF assms(1) a] tracker_okD(4) [OF assms(1,2)] in \<open>auto simp: assms(3)\<close>)
  then show ?thesis by (cases s) simp
qed

lemma canPrune_unused:
  assumes "tracker_ok s" "canPruneLocked now i a (ts_tracker s)" "h \<in># ts_handles s"
  shows "fh_orderID h \<noteq> i"
proof
  assume i: "fh_orderID h = i"
  have a: "fat_byID (ts_tracker s) i = Some a" using assms(2) by (auto simp: canPruneLocked_def split: option.splits)
  then have "fh_state h = a" using assms(1,3) i by (auto simp: tracker_ok_def)
  then have "h = \<lparr>fh_orderID = i, fh_state = a\<rparr>" using i by simp
  then have "0 < count (ts_handles s) \<lparr>fh_orderID = i, fh_state = a\<rparr>" using assms(3) by simp
  then show False using tracker_okD(2) [OF assms(1) a] assms(2) by (auto simp: canPruneLocked_def count_eq_zero_iff)
qed

lemma tracker_ok_forget:
  assumes "tracker_ok s" "\<And>h. h \<in># ts_handles s \<Longrightarrow> fh_orderID h \<noteq> i"
  shows "tracker_ok (s\<lparr>ts_tracker := (ts_tracker s)\<lparr>fat_byID := (fat_byID (ts_tracker s))(i := None)\<rparr>\<rparr>)"
  using assms by (auto simp: tracker_ok_def)

lemma tracker_ok_prune_one:
  assumes "tracker_ok s" shows "tracker_ok (s\<lparr>ts_tracker := prune_one now i (ts_tracker s)\<rparr>)"
  using assms tracker_ok_forget [OF assms] canPrune_unused [OF assms]
  by (auto simp: prune_one_def split: option.splits)

lemma tracker_ok_prune:
  assumes "tracker_ok s" shows "tracker_ok (s\<lparr>ts_tracker := pruneLocked now ids i (ts_tracker s)\<rparr>)"
proof -
  have "tracker_ok (s\<lparr>ts_tracker := fold (prune_one now) xs t\<rparr>)" if "tracker_ok (s\<lparr>ts_tracker := t\<rparr>)" for xs t
    using that
  proof (induction xs arbitrary: t)
    case (Cons x xs)
    then show ?case using tracker_ok_prune_one [OF Cons.prems] by simp
  qed simp
  then show ?thesis using tracker_ok_prune_one [OF assms] by (simp add: pruneLocked_def)
qed

lemma tracker_ok_new:
  assumes ok: "tracker_ok s" and "fat_byID (ts_tracker s) i = None" "i \<noteq> []"
  defines "a \<equiv> fat_next (ts_tracker s)"
  shows "tracker_ok \<lparr>ts_tracker = (ts_tracker s)\<lparr>fat_heap := (fat_heap (ts_tracker s))
             (a \<mapsto> zero_FillAverageState\<lparr>fs_refs := 1\<rparr>), fat_next := a + 1,
             fat_byID := (fat_byID (ts_tracker s))(i \<mapsto> a)\<rparr>,
           ts_handles = add_mset \<lparr>fh_orderID = i, fh_state = a\<rparr> (ts_handles s)\<rparr>"
proof -
  have new: "fat_byID (ts_tracker s) j \<noteq> Some a" for j
    using tracker_okD(1) [OF ok, of a] tracker_okD(2) [OF ok, of j a] by (auto simp: a_def)
  have fresh: "count (ts_handles s) \<lparr>fh_orderID = i, fh_state = a\<rparr> = 0"
    using tracker_okD(5) [OF ok] assms(2) by (fastforce simp: count_eq_zero_iff)
  have unused: "h \<in># ts_handles s \<Longrightarrow> fh_orderID h \<noteq> i" for h
    using tracker_okD(5) [OF ok, of h] assms(2) by auto
  show ?thesis
  proof (rule tracker_okI, goal_cases)
    case (1 b)
    then show ?case using tracker_okD(1) [OF ok, of b] by (auto simp: a_def)
  next
    case (2 j b)
    then show ?case using tracker_okD(2) [OF ok, of j b] fresh new [of j] by (auto split: if_splits)
  next
    case (3 j k b)
    then show ?case using tracker_okD(3) [OF ok, of j b k] new by (auto split: if_splits)
  next
    case (4 h)
    then show ?case using tracker_okD(4,5) [OF ok, of h] unused [of h] assms(3) by auto
  qed
qed

lemma tracker_ok_acquire:
  assumes "tracker_ok s" "TrimSpace orderID \<noteq> []" "Acquire now ids orderID (ts_tracker s) = (h, t)"
  shows "tracker_ok \<lparr>ts_tracker = t, ts_handles = add_mset h (ts_handles s)\<rparr>"
proof -
  define s1 where "s1 = s\<lparr>ts_tracker := pruneLocked now ids (TrimSpace orderID) (ts_tracker s)\<rparr>"
  have ok: "tracker_ok s1" unfolding s1_def by (rule tracker_ok_prune [OF assms(1)])
  have p: "pruneLocked now ids (TrimSpace orderID) (ts_tracker s) = ts_tracker s1" "ts_handles s = ts_handles s1"
    by (simp_all add: s1_def)
  show ?thesis
  proof (cases "fat_byID (ts_tracker s1) (TrimSpace orderID)")
    case None
    then have "h = \<lparr>fh_orderID = TrimSpace orderID, fh_state = fat_next (ts_tracker s1)\<rparr>"
      using assms(3) by (auto simp: Acquire_def Let_def p)
    then show ?thesis using tracker_ok_new [OF ok None assms(2)] assms(3) None by (auto simp: Acquire_def Let_def p)
  next
    case (Some a)
    then have h: "h = \<lparr>fh_orderID = TrimSpace orderID, fh_state = a\<rparr>"
      "t = (ts_tracker s1)\<lparr>fat_heap := (fat_heap (ts_tracker s1))
             (a := map_option (\<lambda>x. x\<lparr>fs_refs := fs_refs x + 1\<rparr>) (fat_heap (ts_tracker s1) a))\<rparr>"
      using assms(3) by (auto simp: Acquire_def Let_def p)
    show ?thesis unfolding h p(2)
      by (rule tracker_ok_update_refs [OF ok Some]) (use tracker_okD(2) [OF ok Some] assms(2) in auto)
  qed
qed

lemma tracker_ok_release:
  assumes "tracker_ok s" "h \<in># ts_handles s"
  shows "tracker_ok \<lparr>ts_tracker = Release now h markTerminal expiresAt (ts_tracker s),
                     ts_handles = ts_handles s - {#h#}\<rparr>"
proof -
  let ?t = "update_state h (released markTerminal expiresAt) (ts_tracker s)"
  let ?s = "\<lparr>ts_tracker = ?t, ts_handles = ts_handles s - {#h#}\<rparr>"
  have h: "fh_orderID h \<noteq> []" "fat_byID (ts_tracker s) (fh_orderID h) = Some (fh_state h)"
    using assms by (auto simp: tracker_ok_def)
  have eq: "\<lparr>fh_orderID = fh_orderID h, fh_state = fh_state h\<rparr> = h" by simp
  have refs: "fs_refs (released markTerminal expiresAt x) = fs_refs x - 1" if "0 < fs_refs x" for x
    using that by (simp add: released_def Let_def)
  have pos: "0 < count (ts_handles s) h" using assms(2) by simp
  have ok: "tracker_ok ?s" unfolding update_state_def
    by (rule tracker_ok_update_refs [OF assms(1) h(2)])
       (use tracker_okD(2) [OF assms(1) h(2)] pos h(1) in \<open>auto simp: refs eq\<close>)
  show ?thesis
  proof (cases "canPruneLocked now (fh_orderID h) (fh_state h) ?t")
    case True
    then have "\<And>g. g \<in># ts_handles s - {#h#} \<Longrightarrow> fh_orderID g \<noteq> fh_orderID h"
      using canPrune_unused [OF ok] by auto
    then show ?thesis using tracker_ok_forget [OF ok] True h(1) by (simp add: Release_def Let_def)
  next
    case False
    then show ?thesis using ok h(1) by (simp add: Release_def Let_def)
  qed
qed

lemma Prepare_refs: "fs_refs (snd (snd (Prepare L c i order status auth incoming inserted x))) = fs_refs x"
  by (simp add: Prepare_def ensureLocked_def warnFillCoverageLocked_def Let_def)

lemma Commit_refs: "fs_refs (Commit pending x) = fs_refs x"
  by (simp add: Commit_def Let_def)

lemma tracker_ok_step: "tracker_step L s s' \<Longrightarrow> tracker_ok s \<Longrightarrow> tracker_ok s'"
proof (induction rule: tracker_step.induct)
  case (acquire orderID now ids s h t)
  then show ?case by (intro tracker_ok_acquire)
next
  case (prepare h s clock order status auth incoming inserted)
  then show ?case by (intro tracker_ok_update) (simp_all add: Prepare_refs)
next
  case (commit h s pending)
  then show ?case by (intro tracker_ok_update) (simp_all add: Commit_refs)
next
  case (release h s now markTerminal expiresAt)
  then show ?case by (intro tracker_ok_release)
qed

lemma tracker_ok_reachable: "(tracker_step L)\<^sup>*\<^sup>* tracker_start s \<Longrightarrow> tracker_ok s"
proof (induction rule: rtranclp_induct)
  case base
  show ?case by (simp add: tracker_ok_def tracker_start_def newOrderFillAverageTracker_def)
qed (auto intro: tracker_ok_step)

text \<open>C29: in every reachable state of the tracker, two handles that are out for the same order share one
  state, which is allocated and in the map, its reference count is the number of handles to it, and it
  cannot be pruned.\<close>

theorem handles_share_live_state:
  assumes "(tracker_step L)\<^sup>*\<^sup>* tracker_start s" "h \<in># ts_handles s" "h' \<in># ts_handles s"
    and "fh_orderID h = fh_orderID h'"
  shows "h = h' \<and> fat_byID (ts_tracker s) (fh_orderID h) = Some (fh_state h) \<and>
    (\<exists>x. fat_heap (ts_tracker s) (fh_state h) = Some x \<and> fs_refs x = int (count (ts_handles s) h)) \<and>
    \<not> canPruneLocked now (fh_orderID h) (fh_state h) (ts_tracker s)"
proof -
  note ok = tracker_ok_reachable [OF assms(1)]
  have id: "fat_byID (ts_tracker s) (fh_orderID h) = Some (fh_state h)"
    "fat_byID (ts_tracker s) (fh_orderID h') = Some (fh_state h')" using ok assms(2,3) by (auto simp: tracker_ok_def)
  have eq: "\<lparr>fh_orderID = fh_orderID h, fh_state = fh_state h\<rparr> = h" by simp
  have "h = h'" using id assms(4) by simp
  moreover have "\<exists>x. fat_heap (ts_tracker s) (fh_state h) = Some x \<and> fs_refs x = int (count (ts_handles s) h)"
    using ok id(1) eq unfolding tracker_ok_def by metis
  ultimately show ?thesis using id(1) canPrune_unused [OF ok _ assms(2)] by blast
qed

lemma sample_tracker_run:
  "(tracker_step std_lib)\<^sup>*\<^sup>* tracker_start
     \<lparr>ts_tracker = snd (Acquire 0 [] ''o1'' newOrderFillAverageTracker),
      ts_handles = {#\<lparr>fh_orderID = ''o1'', fh_state = 0\<rparr>#}\<rparr>"
proof -
  have t: "TrimSpace ''o1'' = ''o1''" by code_simp
  have "fst (Acquire 0 [] ''o1'' newOrderFillAverageTracker) = \<lparr>fh_orderID = ''o1'', fh_state = 0\<rparr>"
    by (simp add: Acquire_def t pruneLocked_def prune_one_def newOrderFillAverageTracker_def Let_def)
  then have a: "Acquire 0 [] ''o1'' (ts_tracker tracker_start) =
      (\<lparr>fh_orderID = ''o1'', fh_state = 0\<rparr>, snd (Acquire 0 [] ''o1'' newOrderFillAverageTracker))"
    by (simp add: tracker_start_def prod_eq_iff)
  have "TrimSpace ''o1'' \<noteq> []" by (simp add: t)
  from tracker_step.acquire [OF this a] show ?thesis by (simp add: tracker_start_def r_into_rtranclp)
qed

theorem handles_share_live_state_witness:
  "\<not> canPruneLocked 5 ''o1'' 0 (snd (Acquire 0 [] ''o1'' newOrderFillAverageTracker))"
  using handles_share_live_state [OF sample_tracker_run, of "\<lparr>fh_orderID = ''o1'', fh_state = 0\<rparr>"
      "\<lparr>fh_orderID = ''o1'', fh_state = 0\<rparr>" 5] by simp

end
