(* ===== verification/Order_Merge.thy ===== *)
theory Order_Merge
  imports Fill_Average
begin

text \<open>
  How reports of a venue change the stored order: \<^verbatim>\<open>mergeOrderUpdate\<close>, \<^verbatim>\<open>mergeOrderStatus\<close> and the transaction
  \<^verbatim>\<open>applyOrderUpdate\<close> of \<^verbatim>\<open>trader/repository.go\<close>. Reports arrive from command acknowledgements, from polling
  and from streams, late, repeated and out of order. The fills table is an association list on its unique key, the
  orders are a map on the order id, and the statement that updates the row is a function on the record.
  A statement that the database refuses rolls the transaction back and is not modelled.
\<close>

section \<open>Merging a report\<close>

definition truncateMessage :: "string \<Rightarrow> string" where
  "truncateMessage s = (let t = TrimSpace s in if length t > 500 then take 500 t else t)"

definition venueReferencePresent :: "VenueReference \<Rightarrow> bool" where
  "venueReferencePresent ref \<longleftrightarrow>
     TrimSpace (ref_ClientOrderID ref) \<noteq> [] \<or> TrimSpace (ref_VenueOrderID ref) \<noteq> [] \<or>
     TrimSpace (ref_Cloid ref) \<noteq> [] \<or> TrimSpace (ref_TxHash ref) \<noteq> [] \<or>
     ref_Nonce ref \<noteq> 0 \<or> ref_AccountIndex ref \<noteq> 0 \<or> ref_APIKeyIndex ref \<noteq> 0 \<or>
     ref_ClientOrderIndex ref \<noteq> 0 \<or> \<not> IsZero (ref_EventAt ref) \<or> TrimSpace (ref_ReconcileStatus ref) \<noteq> []"

definition valid_status :: "string \<Rightarrow> bool" where
  "valid_status s \<longleftrightarrow>
     s \<in> set [''pending'', ''unknown'', ''open'', ''partially_filled'',
              ''filled'', ''canceled'', ''rejected'', ''expired'']"

text \<open>A status without a rank reads as zero from the map.\<close>

definition status_rank :: "string \<Rightarrow> int" where
  "status_rank s =
     (if s = ''pending'' then 1 else if s = ''open'' then 2 else if s = ''partially_filled'' then 3 else 0)"

definition mergeOrderStatus :: "string \<Rightarrow> string \<Rightarrow> decimal \<Rightarrow> decimal \<Rightarrow> string go_result" where
  "mergeOrderStatus current incoming filled quantity =
     (if 0 < quantity \<and> quantity \<le> filled then Inr ''filled''
      else if \<not> valid_status current then Inl (ErrText ''invalid stored order status'')
      else if current = ''filled'' \<or> terminalStatus current then Inr current
      else if incoming = [] then (if 0 < filled then Inr ''partially_filled'' else Inr current)
      else if \<not> valid_status incoming then Inl ErrInvalidArgument
      else if terminalStatus incoming then Inr incoming
      else if status_rank incoming < status_rank current then Inr current
      else if 0 < filled \<and> incoming \<noteq> ''filled'' then Inr ''partially_filled''
      else Inr incoming)"

definition adopt_venue_id :: "VenueResult \<Rightarrow> Order \<Rightarrow> Order" where
  "adopt_venue_id result current =
     (if ord_VenueOrderID current = [] \<and> TrimSpace (vr_VenueOrderID result) \<noteq> []
      then current\<lparr>ord_VenueOrderID := TrimSpace (vr_VenueOrderID result)\<rparr> else current)"

text \<open>An optional amount of a report that must not be negative.\<close>

definition nonnegative_amount :: "decimal_lib \<Rightarrow> string \<Rightarrow> decimal go_result" where
  "nonnegative_amount L s =
     (case NewFromString L (TrimSpace s) of
        None \<Rightarrow> Inl ErrInvalidArgument
      | Some x \<Rightarrow> if x < 0 then Inl ErrInvalidArgument else Inr x)"

text \<open>An acknowledgement of an own command once the venue has reported the order.\<close>

definition merge_local_ack :: "decimal_lib \<Rightarrow> Order \<Rightarrow> VenueResult \<Rightarrow> Order go_result" where
  "merge_local_ack L current result =
     (let merged = adopt_venue_id result current in
      case NewFromString L (ord_FilledQuantity current) of
        None \<Rightarrow> Inl (ErrText ''parse stored filled quantity'')
      | Some oldFilled \<Rightarrow>
          if TrimSpace (vr_FilledQuantity result) = [] then Inr merged
          else (case nonnegative_amount L (vr_FilledQuantity result) of
                  Inl e \<Rightarrow> Inl e
                | Inr candidate \<Rightarrow>
                    if \<not> oldFilled < candidate then Inr merged
                    else if TrimSpace (vr_AveragePrice result) = [] then Inr merged
                    else (case nonnegative_amount L (vr_AveragePrice result) of
                            Inl e \<Rightarrow> Inl e
                          | Inr average \<Rightarrow>
                              Inr (merged\<lparr>ord_FilledQuantity := StringOf L candidate,
                                          ord_AveragePrice := StringOf L average\<rparr>))))"

text \<open>A fill that was stored parses; the source ignores the errors, which leave zero.\<close>

definition fill_amount :: "decimal_lib \<Rightarrow> string \<Rightarrow> decimal" where
  "fill_amount L s = (case NewFromString L s of None \<Rightarrow> 0 | Some x \<Rightarrow> x)"

definition merge_amounts ::
  "decimal_lib \<Rightarrow> VenueResult \<Rightarrow> OrderFill list \<Rightarrow> bool \<Rightarrow> decimal \<Rightarrow> decimal \<Rightarrow> (decimal \<times> decimal) go_result" where
  "merge_amounts L result insertedFills fresh oldFilled oldAverage =
     (if TrimSpace (vr_FilledQuantity result) \<noteq> [] then
        (case nonnegative_amount L (vr_FilledQuantity result) of
           Inl e \<Rightarrow> Inl e
         | Inr candidate \<Rightarrow>
             if (oldFilled < candidate \<or> candidate = oldFilled \<and> fresh) \<and> TrimSpace (vr_AveragePrice result) \<noteq> []
             then (case nonnegative_amount L (vr_AveragePrice result) of
                     Inl e \<Rightarrow> Inl e
                   | Inr average \<Rightarrow> Inr (max oldFilled candidate, average))
             else Inr (max oldFilled candidate, oldAverage))
      else if insertedFills \<noteq> [] then
        let filled = fold (\<lambda>f x. x + fill_amount L (fill_Quantity f)) insertedFills oldFilled;
            notional = fold (\<lambda>f x. x + fill_amount L (fill_Quantity f) * fill_amount L (fill_Price f))
                         insertedFills (oldFilled * oldAverage)
        in Inr (filled, if 0 < filled then Div L notional filled else oldAverage)
      else Inr (oldFilled, oldAverage))"

definition cap_filled :: "decimal \<Rightarrow> decimal \<Rightarrow> decimal" where
  "cap_filled quantity filled = (if 0 < quantity \<and> quantity \<le> filled then quantity else filled)"

definition event_fresh :: "time \<Rightarrow> time \<Rightarrow> bool" where
  "event_fresh lastEventAt eventAt \<longleftrightarrow> IsZero lastEventAt \<or> IsZero eventAt \<or> \<not> eventAt < lastEventAt"

definition merge_report ::
  "decimal_lib \<Rightarrow> Order \<Rightarrow> VenueResult \<Rightarrow> OrderFill list \<Rightarrow> bool \<Rightarrow> Order go_result" where
  "merge_report L current result insertedFills fresh =
     (case NewFromString L (ord_FilledQuantity current) of
        None \<Rightarrow> Inl (ErrText ''parse stored filled quantity'')
      | Some oldFilled \<Rightarrow>
     (case NewFromString L (ord_Quantity current) of
        None \<Rightarrow> Inl (ErrText ''parse stored order quantity'')
      | Some quantity \<Rightarrow>
     (case NewFromString L (ord_AveragePrice current) of
        None \<Rightarrow> Inl (ErrText ''parse stored average price'')
      | Some oldAverage \<Rightarrow>
     (case merge_amounts L result insertedFills fresh oldFilled oldAverage of
        Inl e \<Rightarrow> Inl e
      | Inr (filled0, average) \<Rightarrow>
          let filled = cap_filled quantity filled0 in
          (case mergeOrderStatus (ord_Status current) (if fresh then TrimSpace (vr_Status result) else [])
                  filled quantity of
             Inl e \<Rightarrow> Inl e
           | Inr status \<Rightarrow>
               let merged = (adopt_venue_id result current)\<lparr>ord_FilledQuantity := StringOf L filled,
                              ord_AveragePrice := StringOf L average, ord_Status := status\<rparr>
               in Inr (if fresh
                       then merged\<lparr>ord_ErrorCode := vr_ErrorCode result,
                                   ord_ErrorMessage := truncateMessage (vr_ErrorMessage result)\<rparr>
                       else merged))))))"

definition mergeOrderUpdate ::
  "decimal_lib \<Rightarrow> Order \<Rightarrow> VenueResult \<Rightarrow> time \<Rightarrow> OrderFill list \<Rightarrow> bool \<Rightarrow> Order go_result" where
  "mergeOrderUpdate L current result eventAt insertedFills skipVenueWatermark =
     (if vr_LocalCommandAck result \<and> hasVenueEventWatermark (ord_LastVenueEventAt current)
      then merge_local_ack L current result
      else if skipVenueWatermark then Inr (adopt_venue_id result current)
      else merge_report L current result insertedFills
             (event_fresh (ord_LastVenueEventAt current) eventAt))"

section \<open>The transaction\<close>

text \<open>The stored part of the orders. A fill is stored under its account, venue, venue order and trade id. The
  scheduling columns of an order are its next reconciliation, None for never, and its lease. Columns that
  are NULL are read as the Unix epoch, as the queries of the source do, and reports are later than it. One
  call reads one clock, \<open>now\<close>, also for \<^verbatim>\<open>now()\<close> of the database.\<close>

type_synonym fill_key = "int \<times> string \<times> string \<times> string"

record stored_fill =
  sf_OrderID :: string
  sf_Quantity :: string
  sf_Price :: string
  sf_ExecutedAt :: "time option"
  sf_FeeAmount :: "string option"
  sf_FeeCurrency :: "string option"
  sf_LiquidityRole :: string

type_synonym fill_table = "(fill_key \<times> stored_fill) list"

record order_store =
  os_orders :: "string \<rightharpoonup> Order"
  os_fills :: fill_table
  os_refs :: "string \<rightharpoonup> VenueReference"
  os_next :: "string \<Rightarrow> time option"
  os_lease :: "string \<Rightarrow> time option"
  os_tracker :: orderFillAverageTracker

definition normalized_fill :: "OrderFill \<Rightarrow> OrderFill" where
  "normalized_fill fill =
     fill\<lparr>fill_TradeID := TrimSpace (fill_TradeID fill), fill_Quantity := TrimSpace (fill_Quantity fill),
          fill_Price := (let p = TrimSpace (fill_Price fill) in if p = [] then ''0'' else p)\<rparr>"

text \<open>A fill is rejected, or its price tells whether it is stored.\<close>

definition check_fill :: "decimal_lib \<Rightarrow> Order \<Rightarrow> string \<Rightarrow> OrderFill \<Rightarrow> bool go_result" where
  "check_fill L current venueOrderID fill =
     (if fill_TradeID fill = [] \<or> venueOrderID = [] then Inl ErrInvalidArgument
      else case NewFromString L (fill_Quantity fill) of
             None \<Rightarrow> Inl ErrInvalidArgument
           | Some quantity \<Rightarrow>
               if \<not> 0 < quantity then Inl ErrInvalidArgument
               else (case NewFromString L (fill_Price fill) of
                       None \<Rightarrow> Inl ErrInvalidArgument
                     | Some price \<Rightarrow>
                         if price < 0 then Inl ErrInvalidArgument
                         else Inr (\<not> (EqualFold (ord_Exchange current) ''hyperliquid'' \<and> \<not> 0 < price))))"

definition fill_key_of :: "Order \<Rightarrow> string \<Rightarrow> OrderFill \<Rightarrow> fill_key" where
  "fill_key_of current venueOrderID fill =
     (ord_TradingAccountID current, ord_Exchange current, venueOrderID, fill_TradeID fill)"

definition fill_row :: "decimal_lib \<Rightarrow> Order \<Rightarrow> OrderFill \<Rightarrow> stored_fill" where
  "fill_row L current fill =
     (case normalizeStoredFillFee L fill of (feeAmount, feeCurrency, liquidityRole) \<Rightarrow>
        \<lparr>sf_OrderID = ord_ID current, sf_Quantity = StringOf L (fill_amount L (fill_Quantity fill)),
         sf_Price = StringOf L (fill_amount L (fill_Price fill)),
         sf_ExecutedAt = (if IsZero (fill_ExecutedAt fill) then None else Some (fill_ExecutedAt fill)),
         sf_FeeAmount = feeAmount, sf_FeeCurrency = feeCurrency, sf_LiquidityRole = liquidityRole\<rparr>)"

fun insert_fills ::
  "decimal_lib \<Rightarrow> Order \<Rightarrow> string \<Rightarrow> OrderFill list \<Rightarrow> fill_table \<Rightarrow> (OrderFill list \<times> fill_table) go_result" where
  "insert_fills L current venueOrderID [] stored = Inr ([], stored)"
| "insert_fills L current venueOrderID (fill0 # fills) stored =
     (let fill = normalized_fill fill0; key = fill_key_of current venueOrderID fill in
      case check_fill L current venueOrderID fill of
        Inl e \<Rightarrow> Inl e
      | Inr storable \<Rightarrow>
          if \<not> storable \<or> map_of stored key \<noteq> None then insert_fills L current venueOrderID fills stored
          else (case insert_fills L current venueOrderID fills ((key, fill_row L current fill) # stored) of
                  Inl e \<Rightarrow> Inl e
                | Inr (inserted, stored') \<Rightarrow> Inr (fill # inserted, stored')))"

definition sync_state :: "time \<Rightarrow> int \<Rightarrow> string" where
  "sync_state lastReconciledAt failures =
     (if lastReconciledAt = epoch_time then ''pending'' else if failures > 0 then ''delayed'' else ''synced'')"

text \<open>The row after the UPDATE statement.\<close>

definition updated_row ::
  "time \<Rightarrow> bool \<Rightarrow> time \<Rightarrow> time option \<Rightarrow> bool \<Rightarrow> Order \<Rightarrow> Order \<Rightarrow> Order" where
  "updated_row now stream receivedAt venueEventAt authoritative current merged =
     (let reconciledAt = (if stream then ord_LastReconciledAt current else now);
          failures = (if authoritative then 0 else if stream then ord_ReconcileFailures current else 0)
      in current\<lparr>ord_VenueOrderID := ord_VenueOrderID merged, ord_Status := ord_Status merged,
           ord_FilledQuantity := ord_FilledQuantity merged, ord_AveragePrice := ord_AveragePrice merged,
           ord_ErrorCode := ord_ErrorCode merged, ord_ErrorMessage := ord_ErrorMessage merged,
           ord_LastStreamEventAt :=
             (if stream then max (ord_LastStreamEventAt current) receivedAt else ord_LastStreamEventAt current),
           ord_LastVenueEventAt :=
             (case venueEventAt of None \<Rightarrow> ord_LastVenueEventAt current
              | Some t \<Rightarrow> max (ord_LastVenueEventAt current) t),
           ord_UpdatedAt := now, ord_LastReconciledAt := reconciledAt, ord_ReconcileFailures := failures,
           ord_SyncState := sync_state reconciledAt failures, ord_AbsenceConfirmations := 0\<rparr>)"

definition next_reconcile_after :: "time \<Rightarrow> bool \<Rightarrow> string \<Rightarrow> time option \<Rightarrow> time option" where
  "next_reconcile_after now authoritative status previous =
     (if authoritative then None
      else if status \<in> set [''filled'', ''canceled'', ''rejected'', ''expired''] then previous
      else if status \<in> set [''pending'', ''unknown'', ''partially_filled''] then Some (now + 2 * Second)
      else Some (now + 5 * Second))"

text \<open>The columns of a venue reference: an empty or missing value keeps the stored one, and the indices count
  only with a client order index.\<close>

definition keep_text :: "string \<Rightarrow> string \<Rightarrow> string" where
  "keep_text new old = (if new \<noteq> [] then new else old)"

definition upserted_ref :: "VenueReference \<Rightarrow> time option \<Rightarrow> VenueReference option \<Rightarrow> VenueReference" where
  "upserted_ref ref eventAt stored =
     (let old = (case stored of None \<Rightarrow> zero_VenueReference\<lparr>ref_EventAt := epoch_time\<rparr> | Some r \<Rightarrow> r);
          indexed = (ref_ClientOrderIndex ref \<noteq> 0)
      in \<lparr>ref_ClientOrderID = keep_text (ref_ClientOrderID ref) (ref_ClientOrderID old),
          ref_VenueOrderID = keep_text (ref_VenueOrderID ref) (ref_VenueOrderID old),
          ref_Cloid = keep_text (ref_Cloid ref) (ref_Cloid old),
          ref_TxHash = keep_text (ref_TxHash ref) (ref_TxHash old),
          ref_Nonce = (if indexed then ref_Nonce ref else ref_Nonce old),
          ref_AccountIndex = (if indexed then ref_AccountIndex ref else ref_AccountIndex old),
          ref_APIKeyIndex = (if indexed then ref_APIKeyIndex ref else ref_APIKeyIndex old),
          ref_ClientOrderIndex = (if indexed then ref_ClientOrderIndex ref else ref_ClientOrderIndex old),
          ref_EventAt = (case eventAt of None \<Rightarrow> ref_EventAt old | Some t \<Rightarrow> t),
          ref_ReconcileStatus = keep_text (ref_ReconcileStatus ref) (ref_ReconcileStatus old)\<rparr>)"

definition stored_ref ::
  "Order \<Rightarrow> Order \<Rightarrow> VenueResult \<Rightarrow> time \<Rightarrow> bool \<Rightarrow> VenueReference option \<Rightarrow> VenueReference option" where
  "stored_ref current merged result eventAt skipVenueWatermark stored =
     (let ref0 = vr_Reference result in
      if \<not> venueReferencePresent ref0 then stored
      else
        let ref1 = (if ref_VenueOrderID ref0 = [] then ref0\<lparr>ref_VenueOrderID := ord_VenueOrderID merged\<rparr> else ref0);
            ref2 = (if vr_LocalCommandAck result \<and> \<not> IsZero (ord_LastVenueEventAt current)
                    then ref1\<lparr>ref_ReconcileStatus := []\<rparr> else ref1);
            ref3 = (if IsZero (ref_EventAt ref2) \<and> \<not> vr_LocalCommandAck result \<and> \<not> skipVenueWatermark
                    then ref2\<lparr>ref_EventAt := eventAt\<rparr> else ref2);
            refEventAt = (if \<not> vr_LocalCommandAck result \<and> \<not> skipVenueWatermark \<and> \<not> IsZero (ref_EventAt ref3)
                          then Some (ref_EventAt ref3) else None)
        in Some (upserted_ref ref3 refEventAt stored))"

text \<open>What the tracker does around the update: nothing when the order is not tracked.\<close>

definition tracker_acquire ::
  "time \<Rightarrow> string list \<Rightarrow> Order \<Rightarrow> orderFillAverageTracker \<Rightarrow>
   orderFillAverageHandle option \<times> orderFillAverageTracker" where
  "tracker_acquire now ids current t =
     (if hyperliquidArbitrageFillAverageEnabled current
      then (case Acquire now ids (ord_ID current) t of (h, t') \<Rightarrow> (Some h, t')) else (None, t))"

definition tracker_abort :: "time \<Rightarrow> orderFillAverageHandle option \<Rightarrow> orderFillAverageTracker \<Rightarrow> orderFillAverageTracker" where
  "tracker_abort now handle t = (case handle of None \<Rightarrow> t | Some h \<Rightarrow> Release now h False zero_time t)"

text \<open>The average to write, if any, and the tracker after the commit.\<close>

definition tracker_finish ::
  "decimal_lib \<Rightarrow> time \<Rightarrow> orderFillAverageHandle option \<Rightarrow> Order \<Rightarrow> Order \<Rightarrow> string \<Rightarrow> OrderFill list \<Rightarrow> OrderFill list \<Rightarrow>
   orderFillAverageTracker \<Rightarrow> string option \<times> orderFillAverageTracker" where
  "tracker_finish L now handle current merged authoritative fills inserted t =
     (case handle of
        None \<Rightarrow> (None, t)
      | Some h \<Rightarrow>
          (case fat_heap t (fh_state h) of
             None \<Rightarrow> (None, t)
           | Some state \<Rightarrow>
               (case Prepare L now (fh_orderID h) current (ord_Status merged) authoritative fills inserted state of
                  (pending, average, state') \<Rightarrow>
                    (average,
                     Release now h (terminalStatus (ord_Status merged))
                       (if terminalStatus (ord_Status merged) then now + orderFillAverageTerminalTTL else zero_time)
                       (t\<lparr>fat_heap := (fat_heap t)(fh_state h \<mapsto> Commit pending state')\<rparr>)))))"

text \<open>The result is the updated order with whether its filled quantity changed.\<close>

definition applyOrderUpdate ::
  "decimal_lib \<Rightarrow> time \<Rightarrow> string list \<Rightarrow> string \<Rightarrow> VenueResult \<Rightarrow> time \<Rightarrow> time \<Rightarrow> bool \<Rightarrow> OrderFill list \<Rightarrow> bool \<Rightarrow>
   order_store \<Rightarrow> (Order \<times> bool) go_result \<times> order_store" where
  "applyOrderUpdate L now ids orderID result eventAt receivedAt stream fills skipVenueWatermark store =
     (case os_orders store orderID of
        None \<Rightarrow> (Inl ErrNotFound, store)
      | Some current \<Rightarrow>
     (case tracker_acquire now ids current (os_tracker store) of (handle, t) \<Rightarrow>
        let venueOrderID = (if ord_VenueOrderID current = [] then TrimSpace (vr_VenueOrderID result)
                            else ord_VenueOrderID current) in
     (case insert_fills L current venueOrderID fills (os_fills store) of
        Inl e \<Rightarrow> (Inl e, store\<lparr>os_tracker := tracker_abort now handle t\<rparr>)
      | Inr (inserted, stored) \<Rightarrow>
     (case mergeOrderUpdate L current result eventAt inserted skipVenueWatermark of
        Inl e \<Rightarrow> (Inl e, store\<lparr>os_tracker := tracker_abort now handle t\<rparr>)
      | Inr merged0 \<Rightarrow>
          let authoritative = isAuthoritativeTerminalResult result stream (ord_Status merged0);
              quantity = (if stream \<and> \<not> skipVenueWatermark then ord_FilledQuantity merged0
                          else ord_FilledQuantity current)
          in (case tracker_finish L now handle current merged0 quantity fills inserted t of (average, t') \<Rightarrow>
                let merged = (case average of None \<Rightarrow> merged0 | Some a \<Rightarrow> merged0\<lparr>ord_AveragePrice := a\<rparr>);
                    venueEventAt = (if \<not> vr_LocalCommandAck result \<and> \<not> skipVenueWatermark then Some eventAt else None);
                    updated = updated_row now stream receivedAt venueEventAt authoritative current merged
                in (Inr (updated, parseDecimal L (ord_FilledQuantity current) \<noteq> parseDecimal L (ord_FilledQuantity merged)),
                    store\<lparr>os_orders := (os_orders store)(orderID \<mapsto> updated), os_fills := stored,
                          os_refs := (os_refs store)(orderID :=
                            stored_ref current merged result eventAt skipVenueWatermark (os_refs store orderID)),
                          os_next := (os_next store)(orderID :=
                            next_reconcile_after now authoritative (ord_Status merged) (os_next store orderID)),
                          os_lease := (os_lease store)(orderID :=
                            (if authoritative then None else if stream then os_lease store orderID else None)),
                          os_tracker := t'\<rparr>))))))"

definition UpdateResultWithFillDelta ::
  "decimal_lib \<Rightarrow> time \<Rightarrow> string list \<Rightarrow> string \<Rightarrow> VenueResult \<Rightarrow> order_store \<Rightarrow> (Order \<times> bool) go_result \<times> order_store" where
  "UpdateResultWithFillDelta L now ids orderID result store =
     (let eventAt0 = ref_EventAt (vr_Reference result);
          eventAt = (if IsZero eventAt0 \<and> \<not> vr_LocalCommandAck result then now else eventAt0)
      in applyOrderUpdate L now ids orderID result eventAt zero_time False [] False store)"

record StreamUpdate =
  su_Result :: VenueResult
  su_EventAt :: "time"
  su_ReceivedAt :: "time"
  su_Fills :: "OrderFill list"
  su_SkipVenueWatermark :: bool

definition ApplyStreamUpdate ::
  "decimal_lib \<Rightarrow> time \<Rightarrow> string list \<Rightarrow> string \<Rightarrow> StreamUpdate \<Rightarrow> order_store \<Rightarrow> (Order \<times> bool) go_result \<times> order_store" where
  "ApplyStreamUpdate L now ids orderID update store =
     applyOrderUpdate L now ids orderID (su_Result update)
       (if IsZero (su_EventAt update) then now else su_EventAt update)
       (if IsZero (su_ReceivedAt update) then now else su_ReceivedAt update)
       True (su_Fills update) (su_SkipVenueWatermark update) store"

definition DeferReconcile :: "string \<Rightarrow> time \<Rightarrow> order_store \<Rightarrow> order_store" where
  "DeferReconcile orderID next_at store =
     (if os_orders store orderID = None then store
      else store\<lparr>os_next := (os_next store)(orderID := Some next_at), os_lease := (os_lease store)(orderID := None)\<rparr>)"

section \<open>Orders only move forward\<close>

lemma terminal_valid: "terminalStatus s \<Longrightarrow> valid_status s"
  by (auto simp: terminalStatus_def valid_status_def)

lemma mergeOrderStatus_terminal:
  assumes "mergeOrderStatus current incoming filled quantity = Inr s" "terminalStatus current"
  shows "s = current \<or> s = ''filled'' \<and> quantity \<le> filled"
  using assms by (auto simp: mergeOrderStatus_def split: if_splits)

lemma mergeOrderStatus_stable:
  assumes "mergeOrderStatus current incoming filled quantity = Inr s"
  shows "mergeOrderStatus s incoming filled quantity = Inr s"
proof -
  have v: "valid_status ''partially_filled''" "\<not> terminalStatus ''partially_filled''" by (simp_all add: valid_status_def terminalStatus_def)
  have r: "status_rank incoming < 3" if "incoming \<noteq> ''partially_filled''" for incoming
    using that by (simp add: status_rank_def)
  have p: "status_rank ''partially_filled'' = 3" by (simp add: status_rank_def)
  show ?thesis
    using assms terminal_valid [of incoming] r [of incoming]
    by (cases "incoming = ''partially_filled''") (auto simp: mergeOrderStatus_def v p split: if_splits)
qed

lemma adopt_venue_id_fields [simp]:
  "ord_FilledQuantity (adopt_venue_id r c) = ord_FilledQuantity c"
  "ord_AveragePrice (adopt_venue_id r c) = ord_AveragePrice c"
  "ord_Quantity (adopt_venue_id r c) = ord_Quantity c" "ord_Status (adopt_venue_id r c) = ord_Status c"
  "ord_LastVenueEventAt (adopt_venue_id r c) = ord_LastVenueEventAt c"
  "ord_ErrorCode (adopt_venue_id r c) = ord_ErrorCode c" "ord_ErrorMessage (adopt_venue_id r c) = ord_ErrorMessage c"
  by (simp_all add: adopt_venue_id_def)

text \<open>The cumulative quantity of a report, when it has one, is at most the quantity of the order.\<close>

definition reported_within :: "decimal_lib \<Rightarrow> decimal \<Rightarrow> VenueResult \<Rightarrow> bool" where
  "reported_within L q result \<longleftrightarrow>
     (case NewFromString L (TrimSpace (vr_FilledQuantity result)) of None \<Rightarrow> True | Some c \<Rightarrow> c \<le> q)"

definition fills_positive :: "decimal_lib \<Rightarrow> OrderFill list \<Rightarrow> bool" where
  "fills_positive L fills \<longleftrightarrow> (\<forall>f \<in> set fills. 0 < fill_amount L (fill_Quantity f))"

lemma fold_add_mono:
  fixes g :: "'a \<Rightarrow> decimal"
  assumes "\<forall>f \<in> set fs. 0 < g f" shows "x \<le> fold (\<lambda>f x. x + g f) fs x"
  using assms
proof (induction fs arbitrary: x)
  case (Cons f fs)
  then have "x + g f \<le> fold (\<lambda>f x. x + g f) fs (x + g f)" "0 < g f" by auto
  then show ?case by simp
qed simp

lemma merge_local_ack_cases:
  assumes "merge_local_ack L current result = Inr merged" "NewFromString L (ord_FilledQuantity current) = Some f"
  obtains "merged = adopt_venue_id result current"
  | c a where "NewFromString L (TrimSpace (vr_FilledQuantity result)) = Some c" "f < c"
      "nonnegative_amount L (vr_AveragePrice result) = Inr a"
      "merged = (adopt_venue_id result current)\<lparr>ord_FilledQuantity := StringOf L c, ord_AveragePrice := StringOf L a\<rparr>"
      "nonnegative_amount L (vr_FilledQuantity result) = Inr c"
proof (cases "nonnegative_amount L (vr_FilledQuantity result)")
  case (Inl e)
  then show ?thesis using assms that(1) by (simp add: merge_local_ack_def Let_def split: if_splits)
next
  case (Inr c)
  then have c: "NewFromString L (TrimSpace (vr_FilledQuantity result)) = Some c"
    by (auto simp: nonnegative_amount_def split: option.splits if_splits)
  show ?thesis
  proof (cases "nonnegative_amount L (vr_AveragePrice result)")
    case (Inl e)
    then show ?thesis using assms that(1) Inr by (simp add: merge_local_ack_def Let_def split: if_splits)
  next
    case (Inr a)
    note amounts = \<open>nonnegative_amount L (vr_FilledQuantity result) = Inr c\<close> Inr
    show ?thesis
    proof (cases "TrimSpace (vr_FilledQuantity result) = [] \<or> \<not> f < c \<or> TrimSpace (vr_AveragePrice result) = []")
      case True
      then have "merge_local_ack L current result = Inr (adopt_venue_id result current)"
        by (auto simp: merge_local_ack_def Let_def assms(2) amounts)
      then have "merged = adopt_venue_id result current" using assms(1) by simp
      then show ?thesis by (rule that(1))
    next
      case False
      have "merge_local_ack L current result =
          Inr ((adopt_venue_id result current)\<lparr>ord_FilledQuantity := StringOf L c, ord_AveragePrice := StringOf L a\<rparr>)"
        unfolding merge_local_ack_def Let_def assms(2) option.case amounts sum.case using False by simp
      then have "merged = (adopt_venue_id result current)\<lparr>ord_FilledQuantity := StringOf L c,
          ord_AveragePrice := StringOf L a\<rparr>"
        unfolding assms(1) sum.inject .
      then show ?thesis using False amounts(1) by (intro that(2) [OF c _ Inr]) blast+
    qed
  qed
qed

lemma merge_report_cases:
  assumes "merge_report L current result fills fresh = Inr merged"
  obtains f q av f0 a0 s where
    "NewFromString L (ord_FilledQuantity current) = Some f" "NewFromString L (ord_Quantity current) = Some q"
    "NewFromString L (ord_AveragePrice current) = Some av"
    "merge_amounts L result fills fresh f av = Inr (f0, a0)"
    "mergeOrderStatus (ord_Status current) (if fresh then TrimSpace (vr_Status result) else []) (cap_filled q f0) q = Inr s"
    "merged = (let m = (adopt_venue_id result current)\<lparr>ord_FilledQuantity := StringOf L (cap_filled q f0),
                 ord_AveragePrice := StringOf L a0, ord_Status := s\<rparr>
               in if fresh then m\<lparr>ord_ErrorCode := vr_ErrorCode result,
                                   ord_ErrorMessage := truncateMessage (vr_ErrorMessage result)\<rparr> else m)"
proof -
  obtain f where f: "NewFromString L (ord_FilledQuantity current) = Some f"
    using assms by (cases "NewFromString L (ord_FilledQuantity current)") (simp_all add: merge_report_def)
  obtain q where q: "NewFromString L (ord_Quantity current) = Some q"
    using assms f by (cases "NewFromString L (ord_Quantity current)") (simp_all add: merge_report_def)
  obtain av where av: "NewFromString L (ord_AveragePrice current) = Some av"
    using assms f q by (cases "NewFromString L (ord_AveragePrice current)") (simp_all add: merge_report_def)
  obtain f0 a0 where m: "merge_amounts L result fills fresh f av = Inr (f0, a0)"
    using assms f q av by (cases "merge_amounts L result fills fresh f av") (auto simp: merge_report_def)
  obtain s where st: "mergeOrderStatus (ord_Status current) (if fresh then TrimSpace (vr_Status result) else [])
      (cap_filled q f0) q = Inr s"
    using assms f q av m
    by (cases "mergeOrderStatus (ord_Status current) (if fresh then TrimSpace (vr_Status result) else [])
          (cap_filled q f0) q") (simp_all add: merge_report_def Let_def)
  show ?thesis by (rule that [OF f q av m st]) (use assms in \<open>simp add: merge_report_def f q av m st Let_def\<close>)
qed

lemma mergeOrderUpdate_cases:
  assumes "mergeOrderUpdate L current result eventAt fills skip = Inr merged"
  obtains (ack) "vr_LocalCommandAck result" "hasVenueEventWatermark (ord_LastVenueEventAt current)"
      "merge_local_ack L current result = Inr merged"
  | (skip) "skip" "\<not> (vr_LocalCommandAck result \<and> hasVenueEventWatermark (ord_LastVenueEventAt current))"
      "merged = adopt_venue_id result current"
  | (report) "\<not> skip" "\<not> (vr_LocalCommandAck result \<and> hasVenueEventWatermark (ord_LastVenueEventAt current))"
      "merge_report L current result fills (event_fresh (ord_LastVenueEventAt current) eventAt) = Inr merged"
proof (cases "vr_LocalCommandAck result \<and> hasVenueEventWatermark (ord_LastVenueEventAt current)")
  case True
  then show ?thesis using assms ack by (simp add: mergeOrderUpdate_def)
next
  case no_ack: False
  show ?thesis
  proof (cases skip)
    case True
    then have "merged = adopt_venue_id result current" using assms unfolding mergeOrderUpdate_def if_not_P [OF no_ack] by simp
    then show ?thesis using True no_ack that(2) by blast
  next
    case False
    then show ?thesis using assms no_ack that(3) unfolding mergeOrderUpdate_def if_not_P [OF no_ack] by simp
  qed
qed

context decimal_library
begin

lemma fill_amount_decimal: "is_decimal (fill_amount L s)"
  by (auto simp: fill_amount_def dest: parse_decimal split: option.splits)

lemma fold_add_decimal:
  assumes "\<And>f. is_decimal (g f)" "is_decimal x" shows "is_decimal (fold (\<lambda>f x. x + g f) fs x)"
  using assms(2) by (induction fs arbitrary: x) (auto intro: assms(1))

lemma merge_amounts_grow:
  assumes "merge_amounts L result fills fresh f a = Inr (f', a')" "fills_positive L fills" "is_decimal f"
  shows "f \<le> f' \<and> is_decimal f' \<and>
    (TrimSpace (vr_FilledQuantity result) \<noteq> [] \<longrightarrow>
      (\<exists>c. NewFromString L (TrimSpace (vr_FilledQuantity result)) = Some c \<and> f' = max f c))"
proof (cases "TrimSpace (vr_FilledQuantity result) = []")
  case True
  then show ?thesis
    using assms fold_add_mono [of fills "\<lambda>f. fill_amount L (fill_Quantity f)" f]
      fold_add_decimal [of "\<lambda>f. fill_amount L (fill_Quantity f)" f fills]
    by (auto simp: merge_amounts_def fills_positive_def fill_amount_decimal Let_def split: if_splits)
next
  case False
  then obtain c where c: "NewFromString L (TrimSpace (vr_FilledQuantity result)) = Some c"
    using assms(1) by (auto simp: merge_amounts_def nonnegative_amount_def split: option.splits)
  then have "f' = max f c"
    using assms(1) False by (auto simp: merge_amounts_def nonnegative_amount_def split: if_splits sum.splits)
  then show ?thesis using c assms(3) parse_decimal [OF c] by (auto simp: max_def)
qed

text \<open>One report.\<close>

lemma merge_forward:
  assumes "mergeOrderUpdate L current result eventAt fills skip = Inr merged"
    and "NewFromString L (ord_FilledQuantity current) = Some f" "NewFromString L (ord_Quantity current) = Some q"
    and "0 < q" "f \<le> q" "vr_LocalCommandAck result \<Longrightarrow> reported_within L q result" "fills_positive L fills"
  shows "\<exists>f'. NewFromString L (ord_FilledQuantity merged) = Some f' \<and> f \<le> f' \<and> f' \<le> q \<and>
    ord_Quantity merged = ord_Quantity current \<and>
    (terminalStatus (ord_Status current) \<longrightarrow>
       ord_Status merged = ord_Status current \<or> ord_Status merged = ''filled'' \<and> f' = q)"
proof -
  from assms(1) show ?thesis
  proof (cases rule: mergeOrderUpdate_cases)
    case ack
    from ack(3) assms(2) show ?thesis
    proof (cases rule: merge_local_ack_cases)
      case 1
      then show ?thesis using assms(2,5) by simp
    next
      case (2 c a)
      then show ?thesis using assms(6) [OF ack(1)] parse_decimal [OF 2(1)] by (simp add: parse_print reported_within_def)
    qed
  next
    case skip
    then show ?thesis using assms(2,5) by simp
  next
    case report
    from report(3) obtain f1 q1 av f0 a0 s where r: "NewFromString L (ord_FilledQuantity current) = Some f1"
      "NewFromString L (ord_Quantity current) = Some q1" "merge_amounts L result fills (event_fresh (ord_LastVenueEventAt current) eventAt) f1 av = Inr (f0, a0)"
      and st0: "mergeOrderStatus (ord_Status current)
        (if event_fresh (ord_LastVenueEventAt current) eventAt then TrimSpace (vr_Status result) else [])
          (cap_filled q1 f0) q1 = Inr s"
      and o0: "ord_FilledQuantity merged = StringOf L (cap_filled q1 f0)" "ord_Status merged = s"
        "ord_Quantity merged = ord_Quantity current"
      by (rule merge_report_cases) (auto simp: Let_def)
    have m: "merge_amounts L result fills (event_fresh (ord_LastVenueEventAt current) eventAt) f av = Inr (f0, a0)" and "f1 = f" "q1 = q" using r assms(2,3) by auto
    note st = st0 [unfolded \<open>q1 = q\<close>] and o = o0 [unfolded \<open>q1 = q\<close>]
    have g: "f \<le> f0" "is_decimal f0" using merge_amounts_grow [OF m assms(7) parse_decimal [OF assms(2)]] by auto
    have c: "is_decimal (cap_filled q f0)" "f \<le> cap_filled q f0" "cap_filled q f0 \<le> q"
      using g assms(4,5) parse_decimal [OF assms(3)] by (auto simp: cap_filled_def)
    show ?thesis using o mergeOrderStatus_terminal [OF st] c by (auto simp: parse_print)
  qed
qed

end

lemma check_fill_positive:
  "check_fill L current v fill = Inr b \<Longrightarrow> 0 < fill_amount L (fill_Quantity fill)"
  by (auto simp: check_fill_def fill_amount_def split: if_splits option.splits)

lemma insert_fills_cases:
  assumes "insert_fills L current v (fill0 # fills) stored = Inr (inserted, stored')"
  defines "fill \<equiv> normalized_fill fill0"
  obtains b where "check_fill L current v fill = Inr b" "\<not> b \<or> map_of stored (fill_key_of current v fill) \<noteq> None"
      "insert_fills L current v fills stored = Inr (inserted, stored')"
  | rest where "check_fill L current v fill = Inr True" "map_of stored (fill_key_of current v fill) = None"
      "insert_fills L current v fills ((fill_key_of current v fill, fill_row L current fill) # stored) = Inr (rest, stored')"
      "inserted = fill # rest"
proof (cases "check_fill L current v fill")
  case (Inl e)
  then show ?thesis using assms by (simp add: Let_def)
next
  case (Inr b)
  show ?thesis
  proof (cases "\<not> b \<or> map_of stored (fill_key_of current v fill) \<noteq> None")
    case True
    then show ?thesis using that(1) Inr assms by (simp add: Let_def)
  next
    case False
    then have "b = True" and none: "map_of stored (fill_key_of current v fill) = None" by blast+
    with Inr have b: "check_fill L current v fill = Inr True" "map_of stored (fill_key_of current v fill) = None"
      by simp_all
    then obtain rest where
      "insert_fills L current v fills ((fill_key_of current v fill, fill_row L current fill) # stored) = Inr (rest, stored')"
      "inserted = fill # rest"
      using assms by (auto simp: Let_def split: sum.splits)
    then show ?thesis by (rule that(2) [OF b])
  qed
qed

lemma insert_fills_positive:
  assumes "insert_fills L current v fills stored = Inr (inserted, stored')"
  shows "fills_positive L inserted"
  using assms
proof (induction fills arbitrary: inserted stored)
  case (Cons fill0 fills)
  show ?case
    by (rule insert_fills_cases [OF Cons.prems])
       (use Cons.IH check_fill_positive in \<open>auto simp: fills_positive_def\<close>)
qed (simp add: fills_positive_def)

lemma insert_fills_again:
  assumes "insert_fills L current v fills stored = Inr (inserted, stored')" "fst ` set stored' \<subseteq> fst ` set later"
    and "ord_TradingAccountID current' = ord_TradingAccountID current" "ord_Exchange current' = ord_Exchange current"
  shows "insert_fills L current' v fills later = Inr ([], later) \<and> fst ` set stored \<subseteq> fst ` set stored'"
  using assms(1,2)
proof (induction fills arbitrary: inserted stored)
  case (Cons fill0 fills)
  let ?fill = "normalized_fill fill0"
  have same: "check_fill L current' v ?fill = check_fill L current v ?fill"
    "fill_key_of current' v ?fill = fill_key_of current v ?fill"
    unfolding check_fill_def fill_key_of_def assms(3,4) by (rule refl)+
  from Cons.prems(1) show ?case
  proof (cases rule: insert_fills_cases)
    case (1 b)
    then have "\<not> b \<or> map_of later (fill_key_of current v ?fill) \<noteq> None"
      using Cons.IH [OF 1(3) Cons.prems(2)] Cons.prems(2) 1(2) unfolding map_of_eq_None_iff by blast
    then show ?thesis using Cons.IH [OF 1(3) Cons.prems(2)] 1(1) same by (auto simp: Let_def)
  next
    case (2 rest)
    have d: "fst ` set ((fill_key_of current v ?fill, fill_row L current ?fill) # stored) \<subseteq> fst ` set stored'"
      "insert_fills L current' v fills later = Inr ([], later)"
      using Cons.IH [OF 2(3) Cons.prems(2)] by blast+
    then have "fill_key_of current v ?fill \<in> fst ` set later" "fst ` set stored \<subseteq> fst ` set stored'" using Cons.prems(2) by auto
    then show ?thesis using 2(1) same d(2) by (auto simp: Let_def map_of_eq_None_iff)
  qed
qed simp

definition target_venue_id :: "Order \<Rightarrow> VenueResult \<Rightarrow> string" where
  "target_venue_id current result =
     (if ord_VenueOrderID current = [] then TrimSpace (vr_VenueOrderID result) else ord_VenueOrderID current)"

text \<open>What a successful update consists of.\<close>

lemma applyOrderUpdate_cases:
  assumes "applyOrderUpdate L now ids orderID result eventAt receivedAt stream fills skip store = (Inr (updated, changed), store')"
  obtains current inserted stored merged0 average handle t t' where
    "os_orders store orderID = Some current"
    "tracker_acquire now ids current (os_tracker store) = (handle, t)"
    "insert_fills L current (target_venue_id current result) fills (os_fills store) = Inr (inserted, stored)"
    "mergeOrderUpdate L current result eventAt inserted skip = Inr merged0"
    "tracker_finish L now handle current merged0
       (if stream \<and> \<not> skip then ord_FilledQuantity merged0 else ord_FilledQuantity current) fills inserted t = (average, t')"
    "updated = updated_row now stream receivedAt (if \<not> vr_LocalCommandAck result \<and> \<not> skip then Some eventAt else None)
       (isAuthoritativeTerminalResult result stream (ord_Status merged0)) current
       (case average of None \<Rightarrow> merged0 | Some a \<Rightarrow> merged0\<lparr>ord_AveragePrice := a\<rparr>)"
    "changed \<longleftrightarrow> parseDecimal L (ord_FilledQuantity current) \<noteq> parseDecimal L (ord_FilledQuantity merged0)"
    "os_orders store' = (os_orders store)(orderID \<mapsto> updated)" "os_fills store' = stored"
proof -
  obtain current where c: "os_orders store orderID = Some current"
    using assms by (cases "os_orders store orderID") (simp_all add: applyOrderUpdate_def)
  obtain handle t where h: "tracker_acquire now ids current (os_tracker store) = (handle, t)"
    by (cases "tracker_acquire now ids current (os_tracker store)")
  note a1 = assms [unfolded applyOrderUpdate_def c option.case h prod.case Let_def, folded target_venue_id_def]
  obtain inserted stored where i:
    "insert_fills L current (target_venue_id current result) fills (os_fills store) = Inr (inserted, stored)"
    using a1 by (cases "insert_fills L current (target_venue_id current result) fills (os_fills store)") auto
  note a2 = a1 [unfolded i sum.case prod.case]
  obtain merged0 where m: "mergeOrderUpdate L current result eventAt inserted skip = Inr merged0"
    using a2 by (cases "mergeOrderUpdate L current result eventAt inserted skip") auto
  note a3 = a2 [unfolded m sum.case]
  obtain average t' where f: "tracker_finish L now handle current merged0
      (if stream \<and> \<not> skip then ord_FilledQuantity merged0 else ord_FilledQuantity current) fills inserted t = (average, t')"
    by (cases "tracker_finish L now handle current merged0
      (if stream \<and> \<not> skip then ord_FilledQuantity merged0 else ord_FilledQuantity current) fills inserted t")
  note a4 = a3 [unfolded f prod.case prod.inject sum.inject]
  have u: "updated = updated_row now stream receivedAt (if \<not> vr_LocalCommandAck result \<and> \<not> skip then Some eventAt else None)
       (isAuthoritativeTerminalResult result stream (ord_Status merged0)) current
       (case average of None \<Rightarrow> merged0 | Some a \<Rightarrow> merged0\<lparr>ord_AveragePrice := a\<rparr>)"
    using a4 by (cases average) simp_all
  have ch: "changed \<longleftrightarrow> parseDecimal L (ord_FilledQuantity current) \<noteq> parseDecimal L (ord_FilledQuantity merged0)"
    using a4 by (cases average) simp_all
  have st: "os_orders store' = (os_orders store)(orderID \<mapsto> updated)" "os_fills store' = stored"
    using a4 u by auto
  show ?thesis by (rule that [OF c h i m f u ch st])
qed

lemma applyOrderUpdate_error:
  assumes "applyOrderUpdate L now ids orderID result eventAt receivedAt stream fills skip store = (Inl e, store')"
  shows "os_orders store' = os_orders store" "os_fills store' = os_fills store"
  using assms
  by (auto simp: applyOrderUpdate_def Let_def split: option.splits sum.splits prod.splits)

lemma updated_row_fields [simp]:
  "ord_FilledQuantity (updated_row now stream r v a c m) = ord_FilledQuantity m"
  "ord_Quantity (updated_row now stream r v a c m) = ord_Quantity c"
  "ord_Status (updated_row now stream r v a c m) = ord_Status m"
  by (simp_all add: updated_row_def Let_def)

text \<open>The transactions on one order of quantity \<open>q\<close>, whatever their outcome. The quantity of an acknowledgement of
  an own command is not capped by the code.\<close>

inductive store_step :: "decimal_lib \<Rightarrow> string \<Rightarrow> decimal \<Rightarrow> order_store \<Rightarrow> order_store \<Rightarrow> bool" for L orderID q where
  update: "(vr_LocalCommandAck result \<Longrightarrow> reported_within L q result) \<Longrightarrow>
     applyOrderUpdate L now ids orderID result eventAt receivedAt stream fills skip store = (outcome, store') \<Longrightarrow>
     store_step L orderID q store store'"

definition moved_forward :: "decimal_lib \<Rightarrow> decimal \<Rightarrow> Order \<Rightarrow> Order \<Rightarrow> bool" where
  "moved_forward L q o1 o2 \<longleftrightarrow>
     (\<exists>f f'. NewFromString L (ord_FilledQuantity o1) = Some f \<and> NewFromString L (ord_FilledQuantity o2) = Some f' \<and>
        f \<le> f' \<and> f' \<le> q \<and> ord_Quantity o2 = ord_Quantity o1 \<and>
        (terminalStatus (ord_Status o1) \<longrightarrow>
           ord_Status o2 = ord_Status o1 \<or> ord_Status o2 = ''filled'' \<and> f' = q))"

lemma moved_forward_trans:
  assumes "moved_forward L q o1 o2" "moved_forward L q o2 o3" shows "moved_forward L q o1 o3"
proof -
  have "terminalStatus ''filled''" by (simp add: terminalStatus_def)
  then show ?thesis using assms by (auto simp: moved_forward_def)
qed

lemma store_step_forward:
  assumes "decimal_library L" "store_step L orderID q store store'" "os_orders store orderID = Some o1"
    and "NewFromString L (ord_Quantity o1) = Some q" "0 < q"
    and "NewFromString L (ord_FilledQuantity o1) = Some f" "f \<le> q"
  shows "\<exists>o2. os_orders store' orderID = Some o2 \<and> moved_forward L q o1 o2"
  using assms(2)
proof cases
  case (update result now ids eventAt receivedAt stream fills skip outcome)
  show ?thesis
  proof (cases outcome)
    case (Inl e)
    then have "os_orders store' orderID = Some o1"
      using applyOrderUpdate_error(1) update(2) assms(3) by simp
    then show ?thesis using assms(6,7) by (auto simp: moved_forward_def)
  next
    case (Inr oc)
    obtain updated changed where "oc = (updated, changed)" by (cases oc)
    then have "applyOrderUpdate L now ids orderID result eventAt receivedAt stream fills skip store =
        (Inr (updated, changed), store')" using update(2) Inr by simp
    then show ?thesis
    proof (cases rule: applyOrderUpdate_cases)
      case (1 current inserted stored merged0 average handle t t')
      have "current = o1" using 1(1) assms(3) by simp
      then have "moved_forward L q o1 updated"
        using decimal_library.merge_forward [OF assms(1) 1(4) _ _ assms(5,7) _ insert_fills_positive [OF 1(3)]] update(1)
          assms(4,6) 1(6) by (cases average) (auto simp: moved_forward_def)
      then show ?thesis using 1(8) by simp
    qed
  qed
qed


definition sample_stored_order :: Order where
  "sample_stored_order =
     zero_Order\<lparr>ord_ID := ''o1'', ord_TradingAccountID := 7, ord_Exchange := ''binance'', ord_VenueOrderID := ''v1'',
       ord_Quantity := ''2'', ord_FilledQuantity := ''0.5'', ord_AveragePrice := ''9'', ord_Status := ''open'',
       ord_LastVenueEventAt := epoch_time, ord_LastStreamEventAt := epoch_time, ord_LastReconciledAt := epoch_time\<rparr>"

definition sample_store :: order_store where
  "sample_store =
     \<lparr>os_orders = [''o1'' \<mapsto> sample_stored_order], os_fills = [], os_refs = Map.empty,
      os_next = (\<lambda>_. None), os_lease = (\<lambda>_. None), os_tracker = newOrderFillAverageTracker\<rparr>"

definition sample_cancel_report :: VenueResult where
  "sample_cancel_report =
     zero_VenueResult\<lparr>vr_Status := ''canceled'', vr_FilledQuantity := ''1'', vr_AveragePrice := ''8''\<rparr>"

definition sample_fill_report :: OrderFill where
  "sample_fill_report = zero_OrderFill\<lparr>fill_TradeID := ''t1'', fill_Quantity := ''0.5'', fill_Price := ''7''\<rparr>"

lemma sample_parses:
  "NewFromString std_lib (ord_Quantity sample_stored_order) = Some 2"
  "NewFromString std_lib (ord_FilledQuantity sample_stored_order) = Some (1 / 2)"
  "reported_within std_lib 2 sample_cancel_report"
  by code_simp+


section \<open>A report that is delivered again changes nothing\<close>

context decimal_library
begin

lemma merge_amounts_again:
  assumes "merge_amounts L result fills fresh f av = Inr (f0, a0)" "q \<le> 0 \<or> f \<le> q"
  shows "\<exists>f2. merge_amounts L result [] fresh (cap_filled q f0) a0 = Inr (f2, a0) \<and>
    cap_filled q f2 = cap_filled q f0"
proof (cases "TrimSpace (vr_FilledQuantity result) = []")
  case True
  then show ?thesis by (auto simp: merge_amounts_def cap_filled_def)
next
  case False
  obtain c where c: "nonnegative_amount L (vr_FilledQuantity result) = Inr c"
    using assms(1) False by (cases "nonnegative_amount L (vr_FilledQuantity result)") (simp_all add: merge_amounts_def)
  have cap: "cap_filled q (max (cap_filled q (max f c)) c) = cap_filled q (max f c)"
    by (auto simp: cap_filled_def max_def)
  let ?takes = "\<lambda>old. (old < c \<or> c = old \<and> fresh) \<and> TrimSpace (vr_AveragePrice result) \<noteq> []"
  show ?thesis
  proof (cases "?takes f")
    case True
    obtain a where a: "nonnegative_amount L (vr_AveragePrice result) = Inr a"
      using assms(1) False c True by (cases "nonnegative_amount L (vr_AveragePrice result)") (simp_all add: merge_amounts_def)
    have f0: "f0 = max f c" "a0 = a" using assms(1) False c True a by (simp_all add: merge_amounts_def)
    then show ?thesis using False c a cap by (auto simp: merge_amounts_def)
  next
    case no: False
    have f0: "f0 = max f c" "a0 = av" using assms(1) False c no by (auto simp: merge_amounts_def split: if_splits)
    have "\<not> ?takes (cap_filled q f0)" using no assms(2) by (auto simp: f0 cap_filled_def max_def split: if_splits)
    then have "merge_amounts L result [] fresh (cap_filled q f0) a0 = Inr (max (cap_filled q f0) c, a0)"
      using False c by (auto simp: merge_amounts_def)
    then show ?thesis using cap f0 by simp
  qed
qed

lemma merge_amounts_decimal:
  assumes "merge_amounts L result fills fresh f av = Inr (f0, a0)" "is_decimal av"
  shows "is_decimal a0"
  using assms
  by (auto simp: merge_amounts_def nonnegative_amount_def Let_def is_decimal_Div dest: parse_decimal
      split: if_splits option.splits sum.splits)

text \<open>The fields that a merge changes.\<close>

lemma merge_report_again:
  assumes "merge_report L current result fills fresh = Inr merged" "fills_positive L fills"
    and "NewFromString L (ord_FilledQuantity current) = Some f" "NewFromString L (ord_Quantity current) = Some q"
    and "q \<le> 0 \<or> f \<le> q"
    and same: "ord_VenueOrderID row = ord_VenueOrderID merged" "ord_FilledQuantity row = ord_FilledQuantity merged"
      "ord_AveragePrice row = ord_AveragePrice merged" "ord_Status row = ord_Status merged"
      "ord_ErrorCode row = ord_ErrorCode merged" "ord_ErrorMessage row = ord_ErrorMessage merged"
      "ord_Quantity row = ord_Quantity current"
  shows "merge_report L row result [] fresh = Inr row"
  using assms(1)
proof (cases rule: merge_report_cases)
  case (1 f1 q1 av f0 a0 s)
  have eq: "f1 = f" "q1 = q" using 1(1,2) assms(3,4) by simp_all
  have f0: "is_decimal f0" "is_decimal a0"
    using merge_amounts_grow [OF 1(4) assms(2) parse_decimal [OF 1(1)]] merge_amounts_decimal [OF 1(4) parse_decimal [OF 1(3)]]
    by auto
  have d: "is_decimal (cap_filled q f0)" using f0(1) parse_decimal [OF assms(4)] by (simp add: cap_filled_def)
  have r: "ord_FilledQuantity row = StringOf L (cap_filled q f0)" "ord_AveragePrice row = StringOf L a0" "ord_Status row = s"
    using same(2-4) 1(6) eq by (simp_all add: Let_def)
  have parse: "NewFromString L (ord_FilledQuantity row) = Some (cap_filled q f0)" "NewFromString L (ord_AveragePrice row) = Some a0"
    "NewFromString L (ord_Quantity row) = Some q"
    using r(1,2) d f0(2) same(7) assms(4) by (simp_all add: parse_print)
  have adopt: "adopt_venue_id result row = row"
    using same(1) 1(6) by (auto simp: adopt_venue_id_def Let_def split: if_splits)
  obtain f2 where f2: "merge_amounts L result [] fresh (cap_filled q f0) a0 = Inr (f2, a0)" "cap_filled q f2 = cap_filled q f0"
    using merge_amounts_again [OF 1(4) [unfolded eq] assms(5)] by blast
  have st: "mergeOrderStatus (ord_Status row) (if fresh then TrimSpace (vr_Status result) else []) (cap_filled q f0) q = Inr s"
    using mergeOrderStatus_stable [OF 1(5)] r(3) eq by simp
  have e: "fresh \<Longrightarrow> vr_ErrorCode result = ord_ErrorCode row" "fresh \<Longrightarrow> truncateMessage (vr_ErrorMessage result) = ord_ErrorMessage row"
    using same(5,6) 1(6) by (simp_all add: Let_def)
  show ?thesis
    by (simp add: merge_report_def parse f2 st adopt Let_def e flip: r)
qed

lemma merge_local_ack_again:
  assumes "merge_local_ack L current result = Inr merged"
    and "NewFromString L (ord_FilledQuantity current) = Some f"
    and same: "ord_VenueOrderID row = ord_VenueOrderID merged" "ord_FilledQuantity row = ord_FilledQuantity merged"
  shows "merge_local_ack L row result = Inr row"
  using assms(1,2)
proof (cases rule: merge_local_ack_cases)
  case 1
  have adopt: "adopt_venue_id result row = row"
    using same(1) 1 by (auto simp: adopt_venue_id_def split: if_splits)
  have parse: "NewFromString L (ord_FilledQuantity row) = Some f" using same(2) 1 assms(2) by simp
  have "TrimSpace (vr_FilledQuantity result) = [] \<or> (\<exists>c. nonnegative_amount L (vr_FilledQuantity result) = Inr c \<and>
      (\<not> f < c \<or> TrimSpace (vr_AveragePrice result) = []))"
  proof (rule ccontr)
    assume n: "\<not> ?thesis"
    obtain c where c: "nonnegative_amount L (vr_FilledQuantity result) = Inr c"
      using assms(1,2) n by (cases "nonnegative_amount L (vr_FilledQuantity result)") (simp_all add: merge_local_ack_def Let_def)
    obtain a where a: "nonnegative_amount L (vr_AveragePrice result) = Inr a"
      using assms(1,2) n c by (cases "nonnegative_amount L (vr_AveragePrice result)") (simp_all add: merge_local_ack_def Let_def)
    have "merge_local_ack L current result =
        Inr ((adopt_venue_id result current)\<lparr>ord_FilledQuantity := StringOf L c, ord_AveragePrice := StringOf L a\<rparr>)"
      using n c a by (simp add: merge_local_ack_def Let_def assms(2))
    then have "ord_FilledQuantity merged = StringOf L c" using assms(1) by auto
    then have "ord_FilledQuantity current = StringOf L c" using 1 by simp
    moreover have "is_decimal c" using c by (auto simp: nonnegative_amount_def dest: parse_decimal split: option.splits if_splits)
    ultimately have "f = c" using assms(2) by (simp add: parse_print)
    then show False using n c by simp
  qed
  then show ?thesis by (auto simp: merge_local_ack_def Let_def parse adopt)
next
  case (2 c a)
  have adopt: "adopt_venue_id result row = row"
    using same(1) 2(4) by (auto simp: adopt_venue_id_def split: if_splits)
  have "NewFromString L (ord_FilledQuantity row) = Some c" using same(2) 2(4) parse_decimal [OF 2(1)] by (simp add: parse_print)
  then show ?thesis using 2(5) adopt by (auto simp: merge_local_ack_def Let_def)
qed

lemma merge_again:
  assumes "mergeOrderUpdate L current result eventAt fills skip = Inr merged" "fills_positive L fills"
    and "NewFromString L (ord_FilledQuantity current) = Some f" "NewFromString L (ord_Quantity current) = Some q"
    and "q \<le> 0 \<or> f \<le> q"
    and same: "ord_VenueOrderID row = ord_VenueOrderID merged" "ord_FilledQuantity row = ord_FilledQuantity merged"
      "ord_AveragePrice row = ord_AveragePrice merged" "ord_Status row = ord_Status merged"
      "ord_ErrorCode row = ord_ErrorCode merged" "ord_ErrorMessage row = ord_ErrorMessage merged"
      "ord_Quantity row = ord_Quantity current"
    and last: "ord_LastVenueEventAt row =
      (if \<not> vr_LocalCommandAck result \<and> \<not> skip then max (ord_LastVenueEventAt current) eventAt
       else ord_LastVenueEventAt current)"
  shows "mergeOrderUpdate L row result eventAt [] skip = Inr row"
  using assms(1)
proof (cases rule: mergeOrderUpdate_cases)
  case ack
  then show ?thesis
    using merge_local_ack_again [OF ack(3) assms(3) same(1,2)] last by (simp add: mergeOrderUpdate_def)
next
  case skip
  have "adopt_venue_id result row = row"
    using same(1) skip(3) by (auto simp: adopt_venue_id_def split: if_splits)
  moreover have "\<not> (vr_LocalCommandAck result \<and> hasVenueEventWatermark (ord_LastVenueEventAt row))"
    using last skip(1,2) by simp
  ultimately show ?thesis using skip(1) by (auto simp: mergeOrderUpdate_def)
next
  case report
  have "event_fresh (ord_LastVenueEventAt row) eventAt = event_fresh (ord_LastVenueEventAt current) eventAt"
    using last report(1) by (auto simp: event_fresh_def IsZero_def max_def)
  then show ?thesis
    using report last merge_report_again [OF report(3) assms(2-5) same] by (auto simp: mergeOrderUpdate_def)
qed

end

lemma merged_venue_id:
  assumes "mergeOrderUpdate L current result eventAt fills skip = Inr merged"
    and "NewFromString L (ord_FilledQuantity current) = Some f"
  shows "ord_VenueOrderID merged = ord_VenueOrderID (adopt_venue_id result current)"
  using assms(1)
proof (cases rule: mergeOrderUpdate_cases)
  case ack
  from ack(3) assms(2) show ?thesis by (cases rule: merge_local_ack_cases) simp_all
next
  case report
  from report(3) show ?thesis by (cases rule: merge_report_cases) (simp add: Let_def)
qed simp

lemma target_venue_id_adopted:
  "ord_VenueOrderID row = ord_VenueOrderID (adopt_venue_id result current) \<Longrightarrow>
   target_venue_id row result = target_venue_id current result"
  by (auto simp: target_venue_id_def adopt_venue_id_def split: if_splits)

lemma updated_row_again:
  assumes "row = updated_row now True r v a current merged" "a' \<longleftrightarrow> a"
    and "v = None \<or> v = Some e"
  shows "updated_row now' True r v a' row row = row\<lparr>ord_UpdatedAt := now'\<rparr>"
  using assms by (cases a) (auto simp: updated_row_def Let_def)



end
