(* ===== verification/Venue_Orders.thy ===== *)
theory Venue_Orders
  imports Order_Merge Order_Rules
begin

text \<open>
  What the trader and a venue adapter say to each other: the requests, results and optional capabilities of
  \<^verbatim>\<open>trader/exchange/types.go\<close>, the lookup of an order with its evidence (\<^verbatim>\<open>trader/order_resolution.go\<close>) and the
  functions of \<^verbatim>\<open>trader/service.go\<close> that read results and errors. An adapter is a record of functions, which
  every operation that talks to a venue takes as an argument; nothing is assumed about them.
\<close>

section \<open>Errors\<close>

text \<open>An error of an adapter matches sentinels under \<^verbatim>\<open>errors.Is\<close> and has a text. An error of the service is a
  sentinel, an error of an adapter, or a sentinel that wraps errors.\<close>

record venue_error =
  ve_is :: "trader_error list"
  ve_text :: string

datatype go_error = Sentinel trader_error | VenueError venue_error | Wrapf trader_error "go_error list"

definition venue_Is :: "venue_error \<Rightarrow> trader_error \<Rightarrow> bool" where
  "venue_Is err e \<longleftrightarrow> e \<in> set (ve_is err)"

fun errors_Is :: "go_error \<Rightarrow> trader_error \<Rightarrow> bool" where
  "errors_Is (Sentinel s) e = (s = e)"
| "errors_Is (VenueError err) e = venue_Is err e"
| "errors_Is (Wrapf s errs) e = (s = e \<or> list_ex (\<lambda>err. errors_Is err e) errs)"

definition uncertain :: "venue_error \<Rightarrow> bool" where
  "uncertain err \<longleftrightarrow> venue_Is err DeadlineExceeded \<or> venue_Is err ErrContext \<or> venue_Is err ErrUncertain"

definition wrapQueryError :: "venue_error \<Rightarrow> go_error" where
  "wrapQueryError err =
     (if venue_Is err ErrRateLimited then Wrapf ErrVenueRateLimited [VenueError err]
      else if venue_Is err ErrRejected \<or> venue_Is err ErrOrderNotFound then Wrapf ErrVenueRejected [VenueError err]
      else Wrapf ErrVenueUncertain [VenueError err])"

definition wrapVenueError :: "venue_error \<Rightarrow> go_error" where
  "wrapVenueError err =
     (if venue_Is err ErrRateLimited then Wrapf ErrVenueRateLimited [VenueError err]
      else if venue_Is err ErrRejected \<or> venue_Is err ErrOrderNotFound then Wrapf ErrVenueRejected [VenueError err]
      else if venue_Is err ErrAmbiguousCancel \<or> venue_Is err ErrUncertain then Wrapf ErrVenueUncertain [VenueError err]
      else if venue_Is err ErrInvalidQuantity then Wrapf ErrInvalidArgument [VenueError err]
      else Wrapf ErrVenueUnavailable [VenueError err])"

definition classifyOrderError :: "go_error \<Rightarrow> string" where
  "classifyOrderError err =
     (if errors_Is err ErrPersistence then ''persistence''
      else if errors_Is err ErrVenueRateLimited then ''venue_rate_limited''
      else if errors_Is err ErrVenueRejected then ''venue_rejected''
      else if errors_Is err ErrVenueUncertain then ''venue_uncertain''
      else if errors_Is err ErrVenueUnavailable then ''venue_unavailable''
      else if errors_Is err ErrInvalidArgument then ''validation''
      else ''internal'')"

definition sanitizeError :: "venue_error \<Rightarrow> string" where
  "sanitizeError err =
     (if list_ex (Contains (ToLower (ve_text err)))
           [''apikey'', ''api-key'', ''secret'', ''passphrase'', ''signature'']
      then ''venue request failed'' else truncateMessage (ve_text err))"

section \<open>Requests, results and adapters\<close>

record Credentials =
  cr_TradingAccountID :: int
  cr_ProductName :: string
  cr_Exchange :: string
  cr_AccountName :: string
  cr_APIKey :: string
  cr_APISecret :: string
  cr_Passphrase :: string
  cr_CredentialKind :: string
  cr_SigningAddress :: string
  cr_VaultAddress :: string
  cr_AccountIndex :: "int option"
  cr_APIKeyIndex :: "int option"

record VenueCredentials =
  vc_APIKey :: string
  vc_APISecret :: string
  vc_Passphrase :: string
  vc_CredentialKind :: string
  vc_SigningAddress :: string
  vc_VaultAddress :: string
  vc_AccountIndex :: "int option"
  vc_APIKeyIndex :: "int option"

definition toVenueCredentials :: "Credentials \<Rightarrow> VenueCredentials" where
  "toVenueCredentials account =
     \<lparr>vc_APIKey = cr_APIKey account, vc_APISecret = cr_APISecret account, vc_Passphrase = cr_Passphrase account,
      vc_CredentialKind = cr_CredentialKind account, vc_SigningAddress = cr_SigningAddress account,
      vc_VaultAddress = cr_VaultAddress account, vc_AccountIndex = cr_AccountIndex account,
      vc_APIKeyIndex = cr_APIKeyIndex account\<rparr>"

record OrderRequest =
  req_Instrument :: VenueInstrument
  req_ClientOrderID :: string
  req_Side :: string
  req_OrderType :: string
  req_Quantity :: string
  req_Price :: string
  req_TimeInForce :: string
  req_PostOnly :: bool
  req_ReduceOnly :: bool

record VenueBBO =
  vb_BidPrice :: string
  vb_AskPrice :: string
  vb_Timestamp :: "time"

record QueryRequest =
  qr_Instrument :: VenueInstrument
  qr_ClientOrderID :: string
  qr_VenueOrderID :: string
  qr_CreatedAt :: "time"

record CancelRequest =
  cn_Instrument :: VenueInstrument
  cn_ClientOrderID :: string
  cn_VenueOrderID :: string

text \<open>\<^verbatim>\<open>exchange.Result\<close> has the fields of \<^verbatim>\<open>VenueResult\<close>.\<close>

type_synonym Result = VenueResult

record OrderResolution =
  res_Result :: Result
  res_Found :: bool
  res_Active :: bool
  res_ConfirmedAbsent :: bool

record Capabilities =
  cap_Products :: "string list"
  cap_QuoteAssets :: "string list"
  cap_TimeInForce :: "string list"
  cap_PostOnly :: bool
  cap_ReduceOnly :: bool
  cap_MakerTwap :: bool
  cap_PrivateOrderStream :: bool
  cap_OneWayOnly :: bool
  cap_Arbitrage :: bool

text \<open>A method returns its result together with an error, if any. The interfaces that an adapter may
  or may not implement are optional fields.\<close>

record Adapter =
  ad_GetBBO :: "VenueInstrument \<Rightarrow> VenueBBO \<times> venue_error option"
  ad_PlaceOrder :: "VenueCredentials \<Rightarrow> OrderRequest \<Rightarrow> Result \<times> venue_error option"
  ad_GetOrder :: "VenueCredentials \<Rightarrow> QueryRequest \<Rightarrow> Result \<times> venue_error option"
  ad_CancelOrder :: "VenueCredentials \<Rightarrow> CancelRequest \<Rightarrow> Result \<times> venue_error option"
  ad_CancelAndGetOrder :: "VenueCredentials \<Rightarrow> CancelRequest \<Rightarrow> Result \<times> venue_error option"
  ad_ResolveOrder :: "(VenueCredentials \<Rightarrow> QueryRequest \<Rightarrow> OrderResolution \<times> venue_error option) option"
  ad_Capabilities :: "(VenueCredentials \<Rightarrow> Capabilities \<times> venue_error option) option"
  ad_VenueClientOrderID :: "(string \<Rightarrow> string) option"

section \<open>Statuses of venues\<close>

definition normalizeStatus :: "string \<Rightarrow> string" where
  "normalizeStatus text =
     (let status = ToLower (TrimSpace text); lower = ToLower text in
      if status \<in> set [''new'', ''live'', ''open'', ''submitted'', ''untriggered'', ''partiallyfilled'',
                       ''partial-fill'', ''partially_filled'']
      then (if Contains lower ''partial'' then ''partially_filled'' else ''open'')
      else if status \<in> set [''filled'', ''closed'', ''completely_filled''] then ''filled''
      else if status \<in> set [''canceled'', ''cancelled'', ''cancel'', ''deactivated''] then ''canceled''
      else if status \<in> set [''rejected'', ''expire'', ''expired'']
      then (if Contains lower ''expir'' then ''expired'' else ''rejected'')
      else if status \<in> set [''pending'', ''created''] then ''pending''
      else if Contains lower ''partial'' then ''partially_filled''
      else if Contains lower ''fill'' then ''filled''
      else if Contains lower ''cancel'' then ''canceled''
      else if Contains lower ''reject'' then ''rejected''
      else if Contains lower ''expir'' then ''expired''
      else if Contains lower ''new'' \<or> Contains lower ''live'' \<or> Contains lower ''open'' then ''open''
      else ''unknown'')"

definition terminalOrderStatus :: "string \<Rightarrow> bool" where
  "terminalOrderStatus status \<longleftrightarrow>
     normalizeStatus status \<in> set [''filled'', ''canceled'', ''rejected'', ''expired'']"

definition normalizeVenueResult :: "decimal_lib \<Rightarrow> Order \<Rightarrow> Result \<Rightarrow> Result" where
  "normalizeVenueResult L order result =
     (let r = (case (NewFromString L (TrimSpace (vr_FilledQuantity result)),
                     NewFromString L (TrimSpace (ord_Quantity order))) of
                 (Some filled, Some quantity) \<Rightarrow>
                   if 0 < quantity \<and> quantity \<le> filled
                   then result\<lparr>vr_Status := ''filled'', vr_FilledQuantity := StringOf L quantity\<rparr> else result
               | _ \<Rightarrow> result)
      in if TrimSpace (vr_Status r) = [] then r\<lparr>vr_Status := ord_Status order\<rparr> else r)"

definition hasVenueResult :: "Result \<Rightarrow> bool" where
  "hasVenueResult result \<longleftrightarrow>
     TrimSpace (vr_Status result) \<noteq> [] \<or> TrimSpace (vr_ErrorCode result) \<noteq> [] \<or>
     TrimSpace (vr_ErrorMessage result) \<noteq> [] \<or> TrimSpace (vr_VenueOrderID result) \<noteq> []"

definition orderErrorResult :: "Result \<Rightarrow> string \<Rightarrow> string \<Rightarrow> string \<Rightarrow> Result" where
  "orderErrorResult result status errorCode errorMessage =
     (let r1 = (if TrimSpace (vr_Status result) = [] then result\<lparr>vr_Status := status\<rparr> else result);
          r2 = (if TrimSpace (vr_ErrorCode r1) = [] then r1\<lparr>vr_ErrorCode := errorCode\<rparr> else r1)
      in if TrimSpace (vr_ErrorMessage r2) = [] then r2\<lparr>vr_ErrorMessage := errorMessage\<rparr> else r2)"

section \<open>Looking an order up\<close>

definition confirmedAbsentRejectAfter :: int where
  "confirmedAbsentRejectAfter = 3"

definition errorConfirmedAbsentAfterUncertainSubmit :: string where
  "errorConfirmedAbsentAfterUncertainSubmit = ''CONFIRMED_ABSENT_AFTER_UNCERTAIN_SUBMIT''"

definition resolvedVenueOrder :: "Result \<Rightarrow> bool" where
  "resolvedVenueOrder result \<longleftrightarrow>
     (let status = ToLower (TrimSpace (vr_Status result)) in status \<noteq> [] \<and> status \<noteq> ''unknown'')"

definition strictZeroFilledQuantity :: "decimal_lib \<Rightarrow> string \<Rightarrow> bool" where
  "strictZeroFilledQuantity L text \<longleftrightarrow> NewFromString L (TrimSpace text) = Some 0"

definition confirmedAbsentReliableZeroFill :: "decimal_lib \<Rightarrow> Order \<Rightarrow> bool" where
  "confirmedAbsentReliableZeroFill L order \<longleftrightarrow>
     EqualFold (TrimSpace (ord_Status order)) ''rejected'' \<and> TrimSpace (ord_VenueOrderID order) = [] \<and>
     ord_ErrorCode order = errorConfirmedAbsentAfterUncertainSubmit \<and>
     strictZeroFilledQuantity L (ord_FilledQuantity order)"

definition explicitVenueRejectedZeroFill :: "decimal_lib \<Rightarrow> Order \<Rightarrow> bool" where
  "explicitVenueRejectedZeroFill L order =
     (if \<not> EqualFold (TrimSpace (ord_Status order)) ''rejected'' then False
      else if TrimSpace (ord_VenueOrderID order) \<noteq> [] \<or> \<not> strictZeroFilledQuantity L (ord_FilledQuantity order)
      then False
      else let code = TrimSpace (ord_ErrorCode order) in
        if code = [] \<or> code = errorConfirmedAbsentAfterUncertainSubmit then False
        else let lower = ToLower code in
          \<not> (Contains lower ''timeout'' \<or> Contains lower ''uncertain'' \<or> Contains lower ''unknown''))"

definition filledWithZeroQuantity :: "decimal_lib \<Rightarrow> Order \<Rightarrow> bool" where
  "filledWithZeroQuantity L order \<longleftrightarrow>
     EqualFold (TrimSpace (ord_Status order)) ''filled'' \<and> strictZeroFilledQuantity L (ord_FilledQuantity order)"

definition confirmedAbsentZeroFillReject :: "decimal_lib \<Rightarrow> Order \<Rightarrow> Result option" where
  "confirmedAbsentZeroFillReject L order =
     (if terminalStatus (ord_Status order) then None
      else if TrimSpace (ord_VenueOrderID order) \<noteq> [] then None
      else let filled = TrimSpace (ord_FilledQuantity order) in
        if filled \<noteq> [] \<and> \<not> strictZeroFilledQuantity L filled then None
        else if ord_AbsenceConfirmations order + 1 < confirmedAbsentRejectAfter then None
        else Some (zero_VenueResult\<lparr>vr_Status := ''rejected'', vr_FilledQuantity := ''0'',
                     vr_ErrorCode := errorConfirmedAbsentAfterUncertainSubmit\<rparr>))"

text \<open>The query for a stored order.\<close>

definition order_query :: "Instrument \<Rightarrow> Order \<Rightarrow> QueryRequest" where
  "order_query instrument order =
     \<lparr>qr_Instrument = toVenueInstrument instrument, qr_ClientOrderID = ord_ClientOrderID order,
      qr_VenueOrderID = ord_VenueOrderID order, qr_CreatedAt = ord_CreatedAt order\<rparr>"

text \<open>An error of the lookup itself.\<close>

definition uncertain_error :: "string \<Rightarrow> venue_error" where
  "uncertain_error text = \<lparr>ve_is = [ErrUncertain], ve_text = ''venue result uncertain: '' @ text\<rparr>"

definition only_result :: "Result \<Rightarrow> OrderResolution" where
  "only_result result =
     \<lparr>res_Result = result, res_Found = False, res_Active = False, res_ConfirmedAbsent = False\<rparr>"

definition check_resolution :: "OrderResolution \<Rightarrow> OrderResolution \<times> venue_error option" where
  "check_resolution resolution =
     (if res_Found resolution then
        if res_ConfirmedAbsent resolution then
          (resolution, Some (uncertain_error ''resolver returned contradictory found and absent evidence''))
        else if \<not> resolvedVenueOrder (res_Result resolution) then
          (resolution, Some (uncertain_error ''resolver returned an invalid order state''))
        else (resolution\<lparr>res_Active := \<not> terminalStatus (vr_Status (res_Result resolution))\<rparr>, None)
      else if res_ConfirmedAbsent resolution then
        if res_Active resolution \<or> resolvedVenueOrder (res_Result resolution) then
          (resolution, Some (uncertain_error ''resolver returned order state with confirmed absence''))
        else (resolution, None)
      else (resolution, Some (uncertain_error ''resolver returned neither an order nor confirmed absence'')))"

definition resolveVenueOrder ::
  "Adapter \<Rightarrow> VenueCredentials \<Rightarrow> QueryRequest \<Rightarrow> OrderResolution \<times> venue_error option" where
  "resolveVenueOrder adapter credentials request =
     (case ad_GetOrder adapter credentials request of (result, err) \<Rightarrow>
        if err = None \<and> resolvedVenueOrder result then
          (\<lparr>res_Result = result, res_Found = True, res_Active = \<not> terminalStatus (vr_Status result),
            res_ConfirmedAbsent = False\<rparr>, None)
        else (case err of
                Some e \<Rightarrow> if \<not> venue_Is e ErrOrderNotFound then (only_result result, Some e)
                          else (case ad_ResolveOrder adapter of
                                  None \<Rightarrow> (only_result result, Some e)
                                | Some resolver \<Rightarrow>
                                    (case resolver credentials request of
                                       (resolution, Some e') \<Rightarrow> (resolution, Some e')
                                     | (resolution, None) \<Rightarrow> check_resolution resolution))
              | None \<Rightarrow> (case ad_ResolveOrder adapter of
                           None \<Rightarrow> (only_result result,
                                    Some (uncertain_error ''venue returned no resolved order state''))
                         | Some resolver \<Rightarrow>
                             (case resolver credentials request of
                                (resolution, Some e') \<Rightarrow> (resolution, Some e')
                              | (resolution, None) \<Rightarrow> check_resolution resolution))))"

section \<open>What the lookup guarantees\<close>

text \<open>Without an error the evidence is one-sided: the order was found in a state that is known, or neither
  it nor any state of it was.\<close>

lemma check_resolution_sound:
  assumes "check_resolution r0 = (r, None)"
  shows "res_Found r \<and> \<not> res_ConfirmedAbsent r \<and> resolvedVenueOrder (res_Result r) \<and>
           res_Active r = (\<not> terminalStatus (vr_Status (res_Result r))) \<or>
         \<not> res_Found r \<and> res_ConfirmedAbsent r \<and> \<not> res_Active r \<and> \<not> resolvedVenueOrder (res_Result r)"
  using assms by (auto simp: check_resolution_def split: if_splits)

lemma resolve_sound:
  assumes "resolveVenueOrder adapter credentials request = (r, None)"
  shows "res_Found r \<and> \<not> res_ConfirmedAbsent r \<and> resolvedVenueOrder (res_Result r) \<and>
           res_Active r = (\<not> terminalStatus (vr_Status (res_Result r))) \<or>
         \<not> res_Found r \<and> res_ConfirmedAbsent r \<and> \<not> res_Active r \<and> \<not> resolvedVenueOrder (res_Result r)"
  using assms
  by (auto simp: resolveVenueOrder_def dest: check_resolution_sound split: prod.splits option.splits if_splits)

text \<open>Absence is concluded only from a resolver that says so, after the venue did not know the order or
  returned no state of it.\<close>

lemma absence_needs_resolver:
  assumes "resolveVenueOrder adapter credentials request = (r, None)" "res_ConfirmedAbsent r"
  shows "\<exists>resolver. ad_ResolveOrder adapter = Some resolver \<and> resolver credentials request = (r, None) \<and>
           (case ad_GetOrder adapter credentials request of
              (result, None) \<Rightarrow> \<not> resolvedVenueOrder result | (result, Some e) \<Rightarrow> venue_Is e ErrOrderNotFound)"
  using assms
  by (auto simp: resolveVenueOrder_def check_resolution_def split: prod.splits option.splits if_splits)

lemma normalizeStatus_valid: "valid_status (normalizeStatus text)"
  by (auto simp: normalizeStatus_def valid_status_def Let_def)

lemma normalizeVenueResult_status:
  assumes "TrimSpace (ord_Status order) \<noteq> []"
  shows "TrimSpace (vr_Status (normalizeVenueResult L order result)) \<noteq> []"
proof -
  have "TrimSpace ''filled'' \<noteq> []" by code_simp
  then show ?thesis using assms
    by (auto simp: normalizeVenueResult_def Let_def split: option.splits if_splits)
qed

end
