(* ===== verification/Order_Tables.thy ===== *)
theory Order_Tables
  imports Venue_Orders
begin

text \<open>
  The tables that orders share with executions and combinations, and the statements of
  \<^verbatim>\<open>trader/repository.go\<close>, \<^verbatim>\<open>trader/arbitrage_repository.go\<close> and \<^verbatim>\<open>trader/confirmed_absent_finalize.go\<close> on
  them: creating an order, leasing orders for reconciliation, counting failures and confirmations of absence,
  recomputing the position of a combination from its fills, and finishing an execution whose orders never
  reached a venue. A statement is a function on the rows. Numeric columns are the canonical
  texts they are read as.
  Payloads of events are left out.
\<close>

section \<open>Rows\<close>

text \<open>\<open>db_ids\<close> are the ids of the order rows in the order of their insertion. An order event is the order
  with the type of the event, an arbitrage event the combination, the execution and the type.\<close>

record trader_db =
  db_store :: order_store
  db_ids :: "string list"
  db_executions :: "ArbitrageExecution list"
  db_combinations :: "ArbitrageCombination list"
  db_events :: "(string \<times> string) list"
  db_arbitrage_events :: "(string \<times> string \<times> string) list"

definition order_rows :: "trader_db \<Rightarrow> Order list" where
  "order_rows db = List.map_filter (os_orders (db_store db)) (db_ids db)"

definition getOrder :: "(Order \<Rightarrow> bool) \<Rightarrow> trader_db \<Rightarrow> Order go_result" where
  "getOrder clause db = (case find clause (order_rows db) of None \<Rightarrow> Inl ErrNotFound | Some order \<Rightarrow> Inr order)"

definition GetByOwner :: "string \<Rightarrow> string \<Rightarrow> trader_db \<Rightarrow> Order go_result" where
  "GetByOwner owner orderID db =
     getOrder (\<lambda>order. ord_OwnerUsername order = owner \<and> ord_ID order = orderID) db"

definition getByIdempotency :: "string \<Rightarrow> trader_db \<Rightarrow> Order go_result" where
  "getByIdempotency key db = getOrder (\<lambda>order. ord_IdempotencyKey order = key) db"

definition AppendEvent :: "string \<Rightarrow> string \<Rightarrow> trader_db \<Rightarrow> trader_db" where
  "AppendEvent orderID eventType db = db\<lparr>db_events := db_events db @ [(orderID, eventType)]\<rparr>"

text \<open>Writing a row of the orders.\<close>

definition put_order :: "string \<Rightarrow> Order \<Rightarrow> trader_db \<Rightarrow> trader_db" where
  "put_order orderID order db =
     db\<lparr>db_store := (db_store db)\<lparr>os_orders := (os_orders (db_store db))(orderID \<mapsto> order)\<rparr>\<rparr>"

definition set_schedule :: "string \<Rightarrow> time option \<Rightarrow> time option \<Rightarrow> trader_db \<Rightarrow> trader_db" where
  "set_schedule orderID next_at lease db =
     db\<lparr>db_store := (db_store db)\<lparr>os_next := (os_next (db_store db))(orderID := next_at),
                                os_lease := (os_lease (db_store db))(orderID := lease)\<rparr>\<rparr>"

section \<open>Creating an order\<close>

text \<open>The inserted row, as it is read back: amounts are printed canonically and a missing price is empty.\<close>

definition intent_row :: "decimal_lib \<Rightarrow> time \<Rightarrow> decimal \<Rightarrow> Order \<Rightarrow> Order" where
  "intent_row L now quantity order =
     zero_Order\<lparr>ord_ID := ord_ID order, ord_IdempotencyKey := ord_IdempotencyKey order,
       ord_OwnerUsername := ord_OwnerUsername order, ord_TradingAccountID := ord_TradingAccountID order,
       ord_ProductName := ord_ProductName order, ord_Exchange := ord_Exchange order,
       ord_InstrumentID := ord_InstrumentID order, ord_ContractType := ord_ContractType order,
       ord_ExchangeSymbol := ord_ExchangeSymbol order, ord_ClientOrderID := ord_ClientOrderID order,
       ord_Side := ord_Side order, ord_OrderType := ord_OrderType order, ord_Quantity := StringOf L quantity,
       ord_Price := (case NewFromString L (ord_Price order) of None \<Rightarrow> [] | Some p \<Rightarrow> StringOf L p),
       ord_Status := ''pending'', ord_RequestFingerprint := ord_RequestFingerprint order,
       ord_BaseAsset := ord_BaseAsset order, ord_QuoteAsset := ord_QuoteAsset order,
       ord_ArbitrageExecutionID := ord_ArbitrageExecutionID order, ord_ArbitrageLeg := ord_ArbitrageLeg order,
       ord_ArbitrageRole := ord_ArbitrageRole order, ord_ReduceOnly := ord_ReduceOnly order,
       ord_FilledQuantity := StringOf L 0, ord_AveragePrice := StringOf L 0, ord_CreatedAt := now, ord_UpdatedAt := now,
       ord_LastReconciledAt := epoch_time, ord_SyncState := ''pending'',
       ord_LastStreamEventAt := epoch_time, ord_LastVenueEventAt := epoch_time\<rparr>"

definition with_ids :: "string \<Rightarrow> string \<Rightarrow> Order \<Rightarrow> Order" where
  "with_ids newID newClientOrderID order =
     order\<lparr>ord_ID := (if ord_ID order = [] then newID else ord_ID order),
           ord_ClientOrderID := (if ord_ClientOrderID order = [] then newClientOrderID else ord_ClientOrderID order)\<rparr>"

text \<open>\<open>newID\<close> and \<open>newClientOrderID\<close> are the random identifiers of this call. A key that is taken yields the
  order that has it; an identifier that is taken, or an amount that is none, makes the statement fail.\<close>

definition CreateIntent ::
  "decimal_lib \<Rightarrow> time \<Rightarrow> string \<Rightarrow> string \<Rightarrow> Order \<Rightarrow> trader_db \<Rightarrow> (Order \<times> bool) go_result \<times> trader_db" where
  "CreateIntent L now newID newClientOrderID order0 db =
     (let order = with_ids newID newClientOrderID order0 in
      case getByIdempotency (ord_IdempotencyKey order) db of
        Inr existing \<Rightarrow> (Inr (existing, False), db)
      | Inl e \<Rightarrow>
          if list_ex (\<lambda>row. ord_ID row = ord_ID order \<or> ord_ClientOrderID row = ord_ClientOrderID order) (order_rows db)
             \<or> (ord_Price order \<noteq> [] \<and> NewFromString L (ord_Price order) = None)
          then (Inl (ErrText ''create trader order''), db)
          else (case NewFromString L (ord_Quantity order) of
                  None \<Rightarrow> (Inl (ErrText ''create trader order''), db)
                | Some quantity \<Rightarrow>
                    let row = intent_row L now quantity order in
                    (Inr (row, True),
                     AppendEvent (ord_ID row) ''intent''
                       (set_schedule (ord_ID row) (Some now) None
                         (put_order (ord_ID row) row (db\<lparr>db_ids := db_ids db @ [ord_ID row]\<rparr>))))))"

section \<open>Reports\<close>

definition on_store ::
  "(order_store \<Rightarrow> 'a \<times> order_store) \<Rightarrow> trader_db \<Rightarrow> 'a \<times> trader_db" where
  "on_store f db = (case f (db_store db) of (r, s) \<Rightarrow> (r, db\<lparr>db_store := s\<rparr>))"

definition db_UpdateResultWithFillDelta ::
  "decimal_lib \<Rightarrow> time \<Rightarrow> string list \<Rightarrow> string \<Rightarrow> VenueResult \<Rightarrow> trader_db \<Rightarrow> (Order \<times> bool) go_result \<times> trader_db" where
  "db_UpdateResultWithFillDelta L now ids orderID result =
     on_store (UpdateResultWithFillDelta L now ids orderID result)"

definition UpdateResult ::
  "decimal_lib \<Rightarrow> time \<Rightarrow> string list \<Rightarrow> string \<Rightarrow> VenueResult \<Rightarrow> trader_db \<Rightarrow> Order go_result \<times> trader_db" where
  "UpdateResult L now ids orderID result db =
     (case db_UpdateResultWithFillDelta L now ids orderID result db of (r, db') \<Rightarrow> (map_sum id fst r, db'))"

definition db_ApplyStreamUpdate ::
  "decimal_lib \<Rightarrow> time \<Rightarrow> string list \<Rightarrow> string \<Rightarrow> StreamUpdate \<Rightarrow> trader_db \<Rightarrow> Order go_result \<times> trader_db" where
  "db_ApplyStreamUpdate L now ids orderID update db =
     (case on_store (ApplyStreamUpdate L now ids orderID update) db of (r, db') \<Rightarrow> (map_sum id fst r, db'))"

definition db_DeferReconcile :: "string \<Rightarrow> time \<Rightarrow> trader_db \<Rightarrow> trader_db" where
  "db_DeferReconcile orderID next_at db = db\<lparr>db_store := DeferReconcile orderID next_at (db_store db)\<rparr>"

section \<open>Reconciliation columns\<close>

definition maxOrderReconcileFailures :: int where
  "maxOrderReconcileFailures = 10"

definition maxOrderReconcileUncertainAge :: duration where
  "maxOrderReconcileUncertainAge = 5 * Minute"

definition arbitrageOrderReconcileError :: string where
  "arbitrageOrderReconcileError = ''order state remained uncertain after bounded reconciliation''"

definition open_status :: "string \<Rightarrow> bool" where
  "open_status status \<longleftrightarrow> status \<in> set [''pending'', ''open'', ''partially_filled'', ''unknown'']"

definition find_execution :: "string \<Rightarrow> trader_db \<Rightarrow> ArbitrageExecution option" where
  "find_execution executionID db = find (\<lambda>e. ae_ID e = executionID) (db_executions db)"

definition find_combination :: "string \<Rightarrow> trader_db \<Rightarrow> ArbitrageCombination option" where
  "find_combination combinationID db = find (\<lambda>c. ac_ID c = combinationID) (db_combinations db)"

definition execution_combination :: "string \<Rightarrow> trader_db \<Rightarrow> ArbitrageCombination option" where
  "execution_combination executionID db =
     (case find_execution executionID db of None \<Rightarrow> None | Some e \<Rightarrow> find_combination (ae_CombinationID e) db)"

definition lease_candidate :: "trader_db \<Rightarrow> Order \<Rightarrow> bool" where
  "lease_candidate db order \<longleftrightarrow>
     open_status (ord_Status order) \<or>
     ord_ArbitrageExecutionID order \<noteq> [] \<and> ord_ReconcileFailures order > 0 \<and>
     (case execution_combination (ord_ArbitrageExecutionID order) db of
        None \<Rightarrow> False
      | Some c \<Rightarrow> ac_Status c = ''running'' \<and> ac_PositionUncertain c \<and>
                  ac_ErrorMessage c = arbitrageOrderReconcileError)"

definition lease_due :: "time \<Rightarrow> trader_db \<Rightarrow> Order \<Rightarrow> bool" where
  "lease_due now db order \<longleftrightarrow>
     (case os_next (db_store db) (ord_ID order) of None \<Rightarrow> False | Some t \<Rightarrow> t \<le> now) \<and>
     (case os_lease (db_store db) (ord_ID order) of None \<Rightarrow> True | Some t \<Rightarrow> t < now)"

definition next_of :: "trader_db \<Rightarrow> Order \<Rightarrow> time" where
  "next_of db order = (case os_next (db_store db) (ord_ID order) of None \<Rightarrow> 0 | Some t \<Rightarrow> t)"

text \<open>\<open>locked\<close> are the rows that another transaction has locked, which the statement skips. The stable sort by
  the second key first orders by both.\<close>

definition LeaseDueOrders ::
  "time \<Rightarrow> (string \<Rightarrow> bool) \<Rightarrow> int \<Rightarrow> duration \<Rightarrow> trader_db \<Rightarrow> Order list \<times> trader_db" where
  "LeaseDueOrders now locked limit0 lease0 db =
     (let limit = (if limit0 \<le> 0 \<or> limit0 > 100 then 20 else limit0);
          lease = (if lease0 \<le> 0 then 30 * Second else lease0);
          due = filter (\<lambda>order. lease_candidate db order \<and> lease_due now db order \<and> \<not> locked (ord_ID order)) (order_rows db);
          items = take (nat limit) (sort_key (next_of db) (sort_key ord_UpdatedAt due))
      in (items,
          db\<lparr>db_store := (db_store db)\<lparr>os_lease :=
               (\<lambda>orderID. if orderID \<in> ord_ID ` set items then Some (now + lease) else os_lease (db_store db) orderID)\<rparr>\<rparr>))"

definition uncertain_combination :: "time \<Rightarrow> ArbitrageCombination \<Rightarrow> ArbitrageCombination" where
  "uncertain_combination now c =
     c\<lparr>ac_PositionUncertain := True, ac_RuntimeState := ''position_uncertain'',
       ac_ErrorMessage := arbitrageOrderReconcileError, ac_UpdatedAt := now, ac_Version := ac_Version c + 1\<rparr>"

definition failed_row :: "time \<Rightarrow> Order \<Rightarrow> Order" where
  "failed_row now order =
     order\<lparr>ord_ReconcileFailures := ord_ReconcileFailures order + 1, ord_AbsenceConfirmations := 0,
           ord_LastReconciledAt := now, ord_SyncState := sync_state now (ord_ReconcileFailures order + 1)\<rparr>"

definition MarkReconcileFailure :: "time \<Rightarrow> string \<Rightarrow> time \<Rightarrow> trader_db \<Rightarrow> trader_db" where
  "MarkReconcileFailure now orderID next_at db =
     (case os_orders (db_store db) orderID of
        None \<Rightarrow> db
      | Some order \<Rightarrow>
          if \<not> open_status (ord_Status order) then db
          else
            let row = failed_row now order;
                db1 = set_schedule orderID (Some next_at) None (put_order orderID row db)
            in if ord_ReconcileFailures row \<ge> maxOrderReconcileFailures \<or>
                  now - ord_CreatedAt row \<ge> maxOrderReconcileUncertainAge
               then (case find_execution (ord_ArbitrageExecutionID row) db of
                       None \<Rightarrow> db1
                     | Some e \<Rightarrow>
                         db1\<lparr>db_combinations := map (\<lambda>c. if ac_ID c = ae_CombinationID e \<and>
                                ac_Status c \<in> set [''running'', ''closing''] then uncertain_combination now c else c)
                              (db_combinations db1)\<rparr>)
               else db1)"

definition absence_applies :: "decimal_lib \<Rightarrow> time \<Rightarrow> trader_db \<Rightarrow> Order \<Rightarrow> bool" where
  "absence_applies L expectedUpdatedAt db order \<longleftrightarrow>
     ord_UpdatedAt order = expectedUpdatedAt \<and> ord_VenueOrderID order = [] \<and>
     NewFromString L (ord_FilledQuantity order) = Some 0 \<and> open_status (ord_Status order) \<and>
     \<not> list_ex (\<lambda>(key, row). sf_OrderID row = ord_ID order) (os_fills (db_store db))"

definition absent_row :: "decimal_lib \<Rightarrow> time \<Rightarrow> Order \<Rightarrow> Order" where
  "absent_row L now order =
     (let confirmations = ord_AbsenceConfirmations order + 1;
          reject = (confirmedAbsentRejectAfter \<le> confirmations);
          failures = (if reject then 0 else ord_ReconcileFailures order);
          row = order\<lparr>ord_AbsenceConfirmations := confirmations, ord_LastReconciledAt := now, ord_UpdatedAt := now,
                  ord_ReconcileFailures := failures, ord_SyncState := sync_state now failures\<rparr>
      in if reject
         then row\<lparr>ord_Status := ''rejected'', ord_ErrorCode := errorConfirmedAbsentAfterUncertainSubmit,
                  ord_ErrorMessage := ''venue confirmed the order was never accepted'', ord_FilledQuantity := StringOf L 0\<rparr>
         else row)"

definition ConfirmOrderAbsence ::
  "decimal_lib \<Rightarrow> time \<Rightarrow> string \<Rightarrow> time \<Rightarrow> time \<Rightarrow> trader_db \<Rightarrow> (Order \<times> bool) go_result \<times> trader_db" where
  "ConfirmOrderAbsence L now orderID expectedUpdatedAt next0 db =
     (let next_at = (if IsZero next0 then now + 2 * Second else next0) in
      case os_orders (db_store db) orderID of
        None \<Rightarrow> (Inl ErrNotFound, db)
      | Some order \<Rightarrow>
          if absence_applies L expectedUpdatedAt db order then
            let row = absent_row L now order in
            (Inr (row, confirmedAbsentReliableZeroFill L row),
             set_schedule orderID
               (if confirmedAbsentRejectAfter \<le> ord_AbsenceConfirmations order + 1 then None else Some next_at) None
               (put_order orderID row db))
          else (Inr (order, False), db))"

section \<open>Positions from fills\<close>

text \<open>\<^verbatim>\<open>trim\<close> and \<^verbatim>\<open>lower\<close> of the database.\<close>

definition sql_trim :: "string \<Rightarrow> string" where
  "sql_trim s = rev (dropWhile (\<lambda>c. c = CHR 0x20) (rev (dropWhile (\<lambda>c. c = CHR 0x20) s)))"

definition sql_key :: "string \<Rightarrow> string" where
  "sql_key s = ToLower (sql_trim s)"

definition execution_orders :: "string \<Rightarrow> trader_db \<Rightarrow> Order list" where
  "execution_orders executionID db = filter (\<lambda>order. ord_ArbitrageExecutionID order = executionID) (order_rows db)"

definition order_filled :: "decimal_lib \<Rightarrow> Order \<Rightarrow> decimal" where
  "order_filled L order = fill_amount L (ord_FilledQuantity order)"

text \<open>The sum of the positive filled quantities of some orders.\<close>

definition sum_filled :: "decimal_lib \<Rightarrow> (Order \<Rightarrow> bool) \<Rightarrow> Order list \<Rightarrow> decimal" where
  "sum_filled L clause orders =
     sum_list (map (order_filled L) (filter (\<lambda>order. clause order \<and> 0 < order_filled L order) orders))"

definition recomputed_execution ::
  "decimal_lib \<Rightarrow> time \<Rightarrow> ArbitrageCombination \<Rightarrow> Order list \<Rightarrow> ArbitrageExecution \<Rightarrow> ArbitrageExecution" where
  "recomputed_execution L now c orders e =
     (let makerLeg = (if sql_key (ac_MakerLeg c) = [] then ''a'' else sql_key (ac_MakerLeg c));
          hedgeLeg = (if makerLeg = ''b'' then ''a'' else ''b'');
          direction = sql_key (ae_Direction e);
          hedgeSide = (if direction = ''ask'' \<and> makerLeg = ''b'' then ''buy'' else if direction = ''ask'' then ''sell''
                       else if direction = ''bid'' \<and> makerLeg = ''b'' then ''sell'' else if direction = ''bid'' then ''buy''
                       else []);
          lastCloseClosing = (sql_key (ac_Status c) = ''closing'' \<and> ae_LastCloseClip e \<and>
                              sql_key (ae_PositionEffect e) = ''close'' \<and> ae_ReduceOnly e);
          mode = sql_key (ac_ExecutionMode c);
          makerFill = sum_filled L (\<lambda>order. sql_key (ord_ArbitrageRole order) = ''maker'' \<and>
                                      sql_key (ord_ArbitrageLeg order) = makerLeg) orders;
          hedgeFill = sum_filled L (\<lambda>order. sql_key (ord_ArbitrageRole order) = ''hedge'' \<and>
                                      sql_key (ord_ArbitrageLeg order) = hedgeLeg \<and> sql_key (ord_Side order) = hedgeSide) orders;
          residualFill = sum_filled L (\<lambda>order. sql_key (ord_ArbitrageRole order) = ''residual'' \<and>
                                      sql_key (ord_ArbitrageLeg order) = hedgeLeg \<and> sql_key (ord_Side order) = hedgeSide) orders;
          paired = (\<lambda>leg. sum_filled L (\<lambda>order. ord_ArbitrageLeg order = leg \<and> ord_ArbitrageRole order \<noteq> ''residual'') orders);
          market = (\<lambda>leg. sum_filled L (\<lambda>order. sql_key (ord_ArbitrageRole order) = ''market'' \<and>
                                      sql_key (ord_ArbitrageLeg order) = leg) orders);
          hedged = hedgeFill + min residualFill (max (makerFill - hedgeFill) 0);
          filled = (\<lambda>leg other. if lastCloseClosing \<and> mode = ''simultaneous_market'' then market leg
                           else if lastCloseClosing \<and> makerLeg = leg then makerFill
                           else if lastCloseClosing \<and> makerLeg = other then hedged
                           else paired leg)
      in e\<lparr>ae_LegAFilledQuantity := StringOf L (filled ''a'' ''b''),
           ae_LegBFilledQuantity := StringOf L (filled ''b'' ''a''), ae_UpdatedAt := now\<rparr>)"

definition signed_fill :: "decimal_lib \<Rightarrow> string \<Rightarrow> Order \<Rightarrow> decimal" where
  "signed_fill L leg order =
     (if ord_ArbitrageLeg order = leg \<and> ord_Side order = ''buy'' then order_filled L order
      else if ord_ArbitrageLeg order = leg \<and> ord_Side order = ''sell'' then - order_filled L order
      else 0)"

definition combination_orders :: "string \<Rightarrow> trader_db \<Rightarrow> Order list" where
  "combination_orders combinationID db =
     filter (\<lambda>order. list_ex (\<lambda>e. ae_ID e = ord_ArbitrageExecutionID order \<and> ae_CombinationID e = combinationID)
                       (db_executions db)) (order_rows db)"

definition leg_position :: "decimal_lib \<Rightarrow> string \<Rightarrow> string \<Rightarrow> trader_db \<Rightarrow> decimal" where
  "leg_position L combinationID leg db =
     sum_list (map (signed_fill L leg)
       (filter (\<lambda>order. 0 < order_filled L order) (combination_orders combinationID db)))"

definition updateArbitrageCombinationPositions ::
  "decimal_lib \<Rightarrow> time \<Rightarrow> string \<Rightarrow> trader_db \<Rightarrow> ArbitrageCombination go_result \<times> trader_db" where
  "updateArbitrageCombinationPositions L now combinationID db =
     (let a = leg_position L combinationID ''a'' db; b = leg_position L combinationID ''b'' db;
          update = (\<lambda>c. c\<lparr>ac_LegABasePosition := StringOf L (a + fill_amount L (ac_LegAReconciliationAdjustment c)),
                         ac_LegBBasePosition := StringOf L (b + fill_amount L (ac_LegBReconciliationAdjustment c)),
                         ac_Version := ac_Version c + 1, ac_UpdatedAt := now\<rparr>)
      in case find_combination combinationID db of
           None \<Rightarrow> (Inl ErrNotFound, db)
         | Some c \<Rightarrow> (Inr (update c),
                      db\<lparr>db_combinations := map (\<lambda>c. if ac_ID c = combinationID then update c else c) (db_combinations db)\<rparr>))"

definition RecomputeArbitrageBasePositionsForExecution ::
  "decimal_lib \<Rightarrow> time \<Rightarrow> string \<Rightarrow> trader_db \<Rightarrow> ArbitrageCombination go_result \<times> trader_db" where
  "RecomputeArbitrageBasePositionsForExecution L now executionID db =
     (if TrimSpace executionID = [] then (Inl ErrInvalidArgument, db)
      else case execution_combination executionID db of
             None \<Rightarrow> (Inl ErrNotFound, db)
           | Some c \<Rightarrow>
               updateArbitrageCombinationPositions L now (ac_ID c)
                 (db\<lparr>db_executions := map (\<lambda>e. if ae_ID e = executionID
                        then recomputed_execution L now c (execution_orders executionID db) e else e) (db_executions db)\<rparr>))"

section \<open>Finishing an execution that never reached a venue\<close>

datatype confirmedAbsentFinalizeResult =
  confirmedAbsentFinalizeSkipped | confirmedAbsentFinalizeCanceledExec | confirmedAbsentFinalizeRecovered

definition confirmedAbsentFinalizeEligible :: "ArbitrageCombination \<Rightarrow> bool" where
  "confirmedAbsentFinalizeEligible combo \<longleftrightarrow> ac_Status combo = ''running'' \<and> \<not> ac_CircuitOpen combo"

text \<open>The loop over the orders: None when an order forbids it, otherwise whether one carries the signature.\<close>

fun absent_signature :: "decimal_lib \<Rightarrow> string \<Rightarrow> Order list \<Rightarrow> bool \<Rightarrow> bool option" where
  "absent_signature L executionID [] hasSignature = Some hasSignature"
| "absent_signature L executionID (order # orders) hasSignature =
     (if ord_ArbitrageExecutionID order \<noteq> executionID then absent_signature L executionID orders hasSignature
      else if \<not> terminalStatus (ord_Status order) \<or> ord_ReconcileFailures order > 0 then None
      else if filledWithZeroQuantity L order then None
      else if \<not> strictZeroFilledQuantity L (ord_FilledQuantity order) then None
      else absent_signature L executionID orders (hasSignature \<or> confirmedAbsentReliableZeroFill L order))"

definition evaluateConfirmedAbsentZeroFillFinalize ::
  "decimal_lib \<Rightarrow> ArbitrageCombination \<Rightarrow> ArbitrageExecution \<Rightarrow> Order list \<Rightarrow> confirmedAbsentFinalizeResult" where
  "evaluateConfirmedAbsentZeroFillFinalize L combo execution orders =
     (if \<not> confirmedAbsentFinalizeEligible combo then confirmedAbsentFinalizeSkipped
      else if \<not> strictZeroFilledQuantity L (ae_LegAFilledQuantity execution) \<or>
              \<not> strictZeroFilledQuantity L (ae_LegBFilledQuantity execution) then confirmedAbsentFinalizeSkipped
      else if absent_signature L (ae_ID execution) orders False \<noteq> Some True then confirmedAbsentFinalizeSkipped
      else confirmedAbsentFinalizeCanceledExec)"

definition terminalArbitrageExecutionStatus :: "string \<Rightarrow> bool" where
  "terminalArbitrageExecutionStatus status \<longleftrightarrow> status \<in> set [''completed'', ''failed'', ''canceled'', ''dry_run'']"

definition canceled_execution :: "time \<Rightarrow> ArbitrageExecution \<Rightarrow> ArbitrageExecution" where
  "canceled_execution now e =
     e\<lparr>ae_Status := ''canceled'', ae_ErrorMessage := [], ae_UpdatedAt := now,
       ae_ClosedAt := (if ae_ClosedAt e = epoch_time then now else ae_ClosedAt e)\<rparr>"

text \<open>The rows are locked throughout, so the guards of the two updates hold again when they run.\<close>

definition FinalizeConfirmedAbsentZeroFillExecution ::
  "decimal_lib \<Rightarrow> time \<Rightarrow> string \<Rightarrow> trader_db \<Rightarrow> confirmedAbsentFinalizeResult \<times> trader_db" where
  "FinalizeConfirmedAbsentZeroFillExecution L now executionID db =
     (case find_execution executionID db of
        None \<Rightarrow> (confirmedAbsentFinalizeSkipped, db)
      | Some execution \<Rightarrow>
     (case find_combination (ae_CombinationID execution) db of
        None \<Rightarrow> (confirmedAbsentFinalizeSkipped, db)
      | Some combo \<Rightarrow>
          let outcome = evaluateConfirmedAbsentZeroFillFinalize L combo execution (combination_orders (ac_ID combo) db) in
          if executionID = [] \<or> outcome = confirmedAbsentFinalizeSkipped then (confirmedAbsentFinalizeSkipped, db)
          else (outcome,
                db\<lparr>db_executions := map (\<lambda>e. if ae_ID e = executionID \<and> \<not> terminalArbitrageExecutionStatus (ae_Status e)
                                            then canceled_execution now e else e) (db_executions db),
                   db_combinations := map (\<lambda>c. if ac_ID c = ac_ID combo then uncertain_combination now c else c)
                                        (db_combinations db),
                   db_arbitrage_events := db_arbitrage_events db @
                     [(ac_ID combo, executionID, ''confirmed_absent_canceled'')]\<rparr>)))"

section \<open>What the operations keep\<close>

text \<open>The identity of a row never changes, and no operation but the creation of an order adds or removes one.\<close>

definition row_identity :: "Order \<Rightarrow> string list \<times> int \<times> int" where
  "row_identity order =
     ([ord_ID order, ord_IdempotencyKey order, ord_ClientOrderID order, ord_ArbitrageExecutionID order,
      ord_ArbitrageLeg order, ord_Side order, ord_OrderType order, ord_Quantity order, ord_Price order,
      ord_OwnerUsername order, ord_TwapJobID order], ord_TwapSliceIndex order, ord_TwapAttemptIndex order)"

definition keeps_rows :: "trader_db \<Rightarrow> trader_db \<Rightarrow> bool" where
  "keeps_rows db db' \<longleftrightarrow>
     db_ids db' = db_ids db \<and>
     (\<forall>orderID. map_option row_identity (os_orders (db_store db') orderID) =
                map_option row_identity (os_orders (db_store db) orderID))"

text \<open>An order whose amounts are sound keeps them so and moves forward.\<close>

definition order_sound :: "decimal_lib \<Rightarrow> decimal \<Rightarrow> Order \<Rightarrow> bool" where
  "order_sound L q order \<longleftrightarrow>
     0 < q \<and> NewFromString L (ord_Quantity order) = Some q \<and>
     (\<exists>f \<le> q. NewFromString L (ord_FilledQuantity order) = Some f)"

definition orders_forward :: "decimal_lib \<Rightarrow> trader_db \<Rightarrow> trader_db \<Rightarrow> bool" where
  "orders_forward L db db' \<longleftrightarrow>
     (\<forall>orderID o1 q. os_orders (db_store db) orderID = Some o1 \<longrightarrow> order_sound L q o1 \<longrightarrow>
        (\<exists>o2. os_orders (db_store db') orderID = Some o2 \<and> moved_forward L q o1 o2))"

text \<open>A relation between the tables before and after that every operation respects. The client of the tables
  proves once that its handlers respect it; \<open>store_relation\<close> covers polled and streamed reports,
  \<open>command_relation\<close> also the acknowledgements of own commands.\<close>

locale store_relation =
  fixes L :: decimal_lib and R :: "trader_db \<Rightarrow> trader_db \<Rightarrow> bool"
  assumes R_refl: "R db db"
    and R_trans: "R db1 db2 \<Longrightarrow> R db2 db3 \<Longrightarrow> R db1 db3"
    and R_update: "\<not> vr_LocalCommandAck result \<Longrightarrow>
      R db (snd (db_UpdateResultWithFillDelta L now ids orderID result db))"
    and R_stream: "\<not> vr_LocalCommandAck (su_Result update) \<Longrightarrow>
      R db (snd (db_ApplyStreamUpdate L now ids orderID update db))"
    and R_event: "R db (AppendEvent orderID eventType db)"
    and R_defer: "R db (db_DeferReconcile orderID next_at db)"
    and R_failure: "R db (MarkReconcileFailure now orderID next_at db)"
    and R_absence: "R db (snd (ConfirmOrderAbsence L now orderID expected next_at db))"
    and R_recompute: "R db (snd (RecomputeArbitrageBasePositionsForExecution L now executionID db))"
    and R_finalize: "R db (snd (FinalizeConfirmedAbsentZeroFillExecution L now executionID db))"
    and R_lease: "R db (snd (LeaseDueOrders now locked limit lease db))"

locale command_relation = store_relation +
  assumes R_ack: "R db (snd (db_UpdateResultWithFillDelta L now ids orderID result db))"

text \<open>Operations that leave the order rows alone.\<close>

definition same_orders :: "trader_db \<Rightarrow> trader_db \<Rightarrow> bool" where
  "same_orders db db' \<longleftrightarrow> db_ids db' = db_ids db \<and> os_orders (db_store db') = os_orders (db_store db)"

lemma same_orders_trans: "same_orders db1 db2 \<Longrightarrow> same_orders db2 db3 \<Longrightarrow> same_orders db1 db3"
  by (simp add: same_orders_def)

lemma same_orders_event: "same_orders db (AppendEvent orderID eventType db)"
  by (simp add: same_orders_def AppendEvent_def)

lemma same_orders_defer: "same_orders db (db_DeferReconcile orderID next_at db)"
  by (simp add: same_orders_def db_DeferReconcile_def DeferReconcile_def)

lemma same_orders_positions: "same_orders db (snd (updateArbitrageCombinationPositions L now combinationID db))"
  by (auto simp: same_orders_def updateArbitrageCombinationPositions_def Let_def split: option.splits)

lemma same_orders_recompute: "same_orders db (snd (RecomputeArbitrageBasePositionsForExecution L now executionID db))"
proof (cases "TrimSpace executionID = []")
  case False
  show ?thesis
  proof (cases "execution_combination executionID db")
    case (Some c)
    then show ?thesis using False
      same_orders_positions [of "db\<lparr>db_executions := map (\<lambda>e. if ae_ID e = executionID
         then recomputed_execution L now c (execution_orders executionID db) e else e) (db_executions db)\<rparr>" L now "ac_ID c"]
      by (simp add: RecomputeArbitrageBasePositionsForExecution_def same_orders_def)
  qed (use False in \<open>simp add: RecomputeArbitrageBasePositionsForExecution_def same_orders_def\<close>)
qed (simp add: RecomputeArbitrageBasePositionsForExecution_def same_orders_def)

lemma same_orders_finalize: "same_orders db (snd (FinalizeConfirmedAbsentZeroFillExecution L now executionID db))"
  by (simp add: same_orders_def FinalizeConfirmedAbsentZeroFillExecution_def Let_def split: option.splits)

lemma same_orders_lease: "same_orders db (snd (LeaseDueOrders now locked limit lease db))"
  by (simp add: same_orders_def LeaseDueOrders_def Let_def)

lemmas same_orders_intros = same_orders_event same_orders_defer same_orders_recompute same_orders_finalize same_orders_lease

lemma keeps_rows_refl: "keeps_rows db db"
  by (simp add: keeps_rows_def)

lemma keeps_rows_same: "same_orders db db' \<Longrightarrow> keeps_rows db db'"
  by (simp add: same_orders_def keeps_rows_def)

lemma forward_refl: "order_sound L q order \<Longrightarrow> moved_forward L q order order"
  by (auto simp: order_sound_def moved_forward_def)

lemma orders_forward_same: "same_orders db db' \<Longrightarrow> orders_forward L db db'"
  by (auto simp: same_orders_def orders_forward_def intro: forward_refl)

lemma moved_forward_sound: "order_sound L q o1 \<Longrightarrow> moved_forward L q o1 o2 \<Longrightarrow> order_sound L q o2"
  by (auto simp: order_sound_def moved_forward_def)

lemma orders_forward_trans:
  assumes "orders_forward L db1 db2" "orders_forward L db2 db3" shows "orders_forward L db1 db3"
  unfolding orders_forward_def
proof (intro allI impI)
  fix orderID o1 q
  assume o1: "os_orders (db_store db1) orderID = Some o1" "order_sound L q o1"
  then obtain o2 where o2: "os_orders (db_store db2) orderID = Some o2" "moved_forward L q o1 o2"
    using assms(1) unfolding orders_forward_def by blast
  then obtain o3 where "os_orders (db_store db3) orderID = Some o3" "moved_forward L q o2 o3"
    using assms(2) moved_forward_sound [OF o1(2) o2(2)] unfolding orders_forward_def by blast
  then show "\<exists>o3. os_orders (db_store db3) orderID = Some o3 \<and> moved_forward L q o1 o3"
    using moved_forward_trans [OF o2(2)] by blast
qed

text \<open>Operations that rewrite one row.\<close>

definition rewrites_row :: "string \<Rightarrow> Order \<Rightarrow> Order \<Rightarrow> trader_db \<Rightarrow> trader_db \<Rightarrow> bool" where
  "rewrites_row orderID order row db db' \<longleftrightarrow>
     os_orders (db_store db) orderID = Some order \<and> db_ids db' = db_ids db \<and>
     os_orders (db_store db') = (os_orders (db_store db))(orderID \<mapsto> row)"

lemma keeps_rows_rewrite:
  "rewrites_row orderID order row db db' \<Longrightarrow> row_identity row = row_identity order \<Longrightarrow> keeps_rows db db'"
  by (simp add: keeps_rows_def rewrites_row_def)

lemma orders_forward_rewrite:
  assumes "rewrites_row orderID order row db db'" "\<And>q. order_sound L q order \<Longrightarrow> moved_forward L q order row"
  shows "orders_forward L db db'"
  using assms by (auto simp: orders_forward_def rewrites_row_def intro: forward_refl)

lemma apply_cases:
  assumes "db' = snd (on_store (applyOrderUpdate L now ids orderID result eventAt receivedAt stream fills skip) db)"
  obtains "same_orders db db'"
  | order updated changed where "rewrites_row orderID order updated db db'"
      "applyOrderUpdate L now ids orderID result eventAt receivedAt stream fills skip (db_store db) =
         (Inr (updated, changed), db_store db')"
proof -
  obtain outcome s where a: "applyOrderUpdate L now ids orderID result eventAt receivedAt stream fills skip (db_store db) =
    (outcome, s)" by (rule prod.exhaust)
  then have db': "db' = db\<lparr>db_store := s\<rparr>" by (simp add: assms on_store_def)
  show ?thesis
  proof (cases outcome)
    case (Inl e)
    then have "same_orders db db'" using applyOrderUpdate_error(1) a by (simp add: db' same_orders_def)
    then show ?thesis by (rule that(1))
  next
    case (Inr oc)
    then obtain updated changed where oc: "outcome = Inr (updated, changed)" by (cases oc) auto
    from a [unfolded oc] obtain order where "os_orders (db_store db) orderID = Some order"
      "os_orders s = (os_orders (db_store db))(orderID \<mapsto> updated)"
      by (rule applyOrderUpdate_cases)
    then show ?thesis using that(2) [of order updated changed] a oc by (simp add: db' rewrites_row_def)
  qed
qed

lemma updated_row_identity: "row_identity (updated_row now stream receivedAt v a current merged) = row_identity current"
  by (simp add: row_identity_def updated_row_def Let_def)

lemma apply_keeps_rows:
  "keeps_rows db (snd (on_store (applyOrderUpdate L now ids orderID result eventAt receivedAt stream fills skip) db))"
proof (rule apply_cases [OF refl, where L = L and now = now and ids = ids and orderID = orderID and result = result and eventAt = eventAt
      and receivedAt = receivedAt and stream = stream and fills = fills and skip = skip and db = db])
  fix order updated changed
  let ?db = "snd (on_store (applyOrderUpdate L now ids orderID result eventAt receivedAt stream fills skip) db)"
  assume r: "rewrites_row orderID order updated db ?db"
    and a: "applyOrderUpdate L now ids orderID result eventAt receivedAt stream fills skip (db_store db) =
      (Inr (updated, changed), db_store ?db)"
  from a have "row_identity updated = row_identity order"
    by (rule applyOrderUpdate_cases) (use r in \<open>simp add: updated_row_identity rewrites_row_def\<close>)
  then show "keeps_rows db ?db" by (rule keeps_rows_rewrite [OF r])
qed (rule keeps_rows_same)

lemma apply_forward:
  assumes "decimal_library L" "\<not> vr_LocalCommandAck result"
  shows "orders_forward L db (snd (on_store (applyOrderUpdate L now ids orderID result eventAt receivedAt stream fills skip) db))"
    (is "orders_forward L db ?db")
proof (rule apply_cases [OF refl, where L = L and now = now and ids = ids and orderID = orderID and result = result and eventAt = eventAt
      and receivedAt = receivedAt and stream = stream and fills = fills and skip = skip and db = db])
  fix order updated changed
  assume r: "rewrites_row orderID order updated db ?db"
    and a: "applyOrderUpdate L now ids orderID result eventAt receivedAt stream fills skip (db_store db) =
      (Inr (updated, changed), db_store ?db)"
  show "orders_forward L db ?db"
  proof (rule orders_forward_rewrite [OF r])
    fix q assume q: "order_sound L q order"
    then obtain f where f: "NewFromString L (ord_FilledQuantity order) = Some f" "f \<le> q"
      "NewFromString L (ord_Quantity order) = Some q" "0 < q" by (auto simp: order_sound_def)
    have "store_step L orderID q (db_store db) (db_store ?db)"
      by (rule store_step.update [OF _ a]) (use assms(2) in simp)
    from store_step_forward [OF assms(1) this _ f(3,4,1,2)] r
    show "moved_forward L q order updated" by (simp add: rewrites_row_def)
  qed
qed (rule orders_forward_same)

lemma update_is_apply:
  obtains eventAt where "db_UpdateResultWithFillDelta L now ids orderID result =
    on_store (applyOrderUpdate L now ids orderID result eventAt zero_time False [] False)"
proof -
  have "db_UpdateResultWithFillDelta L now ids orderID result =
    on_store (applyOrderUpdate L now ids orderID result
      (let eventAt0 = ref_EventAt (vr_Reference result)
       in if IsZero eventAt0 \<and> \<not> vr_LocalCommandAck result then now else eventAt0) zero_time False [] False)"
    by (simp add: db_UpdateResultWithFillDelta_def on_store_def fun_eq_iff UpdateResultWithFillDelta_def Let_def)
  then show ?thesis by (rule that)
qed

lemma stream_is_apply:
  obtains eventAt receivedAt where "snd (db_ApplyStreamUpdate L now ids orderID update db) =
    snd (on_store (applyOrderUpdate L now ids orderID (su_Result update) eventAt receivedAt True (su_Fills update)
       (su_SkipVenueWatermark update)) db)"
  by (rule that [of "if IsZero (su_EventAt update) then now else su_EventAt update"
        "if IsZero (su_ReceivedAt update) then now else su_ReceivedAt update"])
     (simp add: db_ApplyStreamUpdate_def on_store_def ApplyStreamUpdate_def case_prod_beta)

lemma failure_rewrites:
  obtains "MarkReconcileFailure now orderID next_at db = db"
  | order where "rewrites_row orderID order (failed_row now order) db (MarkReconcileFailure now orderID next_at db)"
proof (cases "os_orders (db_store db) orderID")
  case None
  then show ?thesis using that(1) by (simp add: MarkReconcileFailure_def)
next
  case (Some order)
  show ?thesis
  proof (cases "open_status (ord_Status order)")
    case False
    then show ?thesis using that(1) Some by (simp add: MarkReconcileFailure_def)
  next
    case True
    show ?thesis
      by (rule that(2) [of order])
         (use Some True in \<open>simp add: MarkReconcileFailure_def rewrites_row_def Let_def put_order_def set_schedule_def split: option.splits\<close>)
  qed
qed

lemma absence_rewrites:
  obtains "snd (ConfirmOrderAbsence L now orderID expected next_at db) = db"
  | order where "absence_applies L expected db order"
      "rewrites_row orderID order (absent_row L now order) db (snd (ConfirmOrderAbsence L now orderID expected next_at db))"
proof (cases "os_orders (db_store db) orderID")
  case None
  then show ?thesis using that(1) by (simp add: ConfirmOrderAbsence_def)
next
  case (Some order)
  show ?thesis
  proof (cases "absence_applies L expected db order")
    case False
    then show ?thesis using that(1) Some by (simp add: ConfirmOrderAbsence_def)
  next
    case True
    then show ?thesis
      by (rule that(2)) (use Some True in \<open>simp add: ConfirmOrderAbsence_def rewrites_row_def Let_def put_order_def set_schedule_def\<close>)
  qed
qed

lemma failed_row_kept: "row_identity (failed_row now order) = row_identity order"
  "order_sound L q order \<Longrightarrow> moved_forward L q order (failed_row now order)"
  by (auto simp: row_identity_def failed_row_def order_sound_def moved_forward_def)

lemma failed_row_filled [simp]: "ord_FilledQuantity (failed_row now order) = ord_FilledQuantity order"
  by (simp add: failed_row_def)

lemma absent_row_kept: "row_identity (absent_row L now order) = row_identity order"
  by (simp add: row_identity_def absent_row_def Let_def)

lemma open_not_terminal: "open_status s \<Longrightarrow> \<not> terminalStatus s"
  by (auto simp: open_status_def terminalStatus_def)

lemma absent_row_forward:
  assumes "decimal_library L" "absence_applies L expected db order" "order_sound L q order"
  shows "moved_forward L q order (absent_row L now order)"
proof -
  have "NewFromString L (StringOf L 0) = Some 0" by (rule decimal_library.parse_print [OF assms(1)]) simp
  then show ?thesis
    using assms(2,3) open_not_terminal [of "ord_Status order"]
    by (auto simp: moved_forward_def absence_applies_def order_sound_def absent_row_def Let_def)
qed

interpretation rows_kept: command_relation L keeps_rows for L
proof (unfold_locales, goal_cases)
  case (2 db1 db2 db3)
  then show ?case by (simp add: keeps_rows_def)
next
  case (3 result db now ids orderID)
  show ?case by (rule update_is_apply [of L now ids orderID result]) (simp add: apply_keeps_rows)
next
  case (4 update db now ids orderID)
  show ?case by (rule stream_is_apply [of L now ids orderID update db]) (simp add: apply_keeps_rows)
next
  case (7 db now orderID next_at)
  show ?case
    by (rule failure_rewrites [of now orderID next_at db]) (auto intro: keeps_rows_refl keeps_rows_rewrite failed_row_kept)
next
  case (8 db now orderID expected next_at)
  show ?case
    by (rule absence_rewrites [of L now orderID expected next_at db])
       (auto intro: keeps_rows_refl keeps_rows_rewrite absent_row_kept)
next
  case (12 db now ids orderID result)
  show ?case by (rule update_is_apply [of L now ids orderID result]) (simp add: apply_keeps_rows)
qed (auto intro: keeps_rows_refl keeps_rows_same same_orders_intros)

lemma store_relation_forward:
  assumes "decimal_library L" shows "store_relation L (orders_forward L)"
proof (unfold_locales, goal_cases)
  case (2 db1 db2 db3)
  then show ?case by (rule orders_forward_trans)
next
  case (3 result db now ids orderID)
  show ?case by (rule update_is_apply [of L now ids orderID result]) (simp add: apply_forward [OF assms 3])
next
  case (4 update db now ids orderID)
  show ?case by (rule stream_is_apply [of L now ids orderID update db]) (simp add: apply_forward [OF assms 4])
next
  case (7 db now orderID next_at)
  show ?case
    by (rule failure_rewrites [of now orderID next_at db])
       (auto intro: orders_forward_same orders_forward_rewrite failed_row_kept simp: same_orders_def)
next
  case (8 db now orderID expected next_at)
  show ?case
    by (rule absence_rewrites [of L now orderID expected next_at db])
       (auto intro: orders_forward_same orders_forward_rewrite absent_row_forward [OF assms] simp: same_orders_def)
qed (auto intro: orders_forward_same same_orders_intros simp: same_orders_def [of db db for db])

sublocale decimal_library < orders: store_relation L "orders_forward L"
  by (rule store_relation_forward) (rule decimal_library_axioms)

section \<open>Positions follow fills\<close>

text \<open>The rows are consistent: a row is stored under its id with a canonical amount, and the executions and
  combinations it refers to exist.\<close>

definition trimmed_rows :: "trader_db \<Rightarrow> bool" where
  "trimmed_rows db \<longleftrightarrow>
     (\<forall>orderID order. os_orders (db_store db) orderID = Some order \<longrightarrow>
        TrimSpace (ord_FilledQuantity order) = ord_FilledQuantity order)"

definition tables_ok :: "trader_db \<Rightarrow> bool" where
  "tables_ok db \<longleftrightarrow>
     trimmed_rows db \<and> (\<forall>orderID order. os_orders (db_store db) orderID = Some order \<longrightarrow> ord_ID order = orderID) \<and>
     (\<forall>orderID order. os_orders (db_store db) orderID = Some order \<longrightarrow> ord_ArbitrageExecutionID order \<noteq> [] \<longrightarrow>
        execution_combination (ord_ArbitrageExecutionID order) db \<noteq> None) \<and>
     (\<forall>e \<in> set (db_executions db). TrimSpace (ae_ID e) \<noteq> []) \<and>
     distinct (map ae_ID (db_executions db)) \<and> distinct (map ac_ID (db_combinations db))"

definition positions_ok :: "decimal_lib \<Rightarrow> trader_db \<Rightarrow> bool" where
  "positions_ok L db \<longleftrightarrow>
     (\<forall>c \<in> set (db_combinations db).
        NewFromString L (ac_LegABasePosition c) =
          Some (leg_position L (ac_ID c) ''a'' db + fill_amount L (ac_LegAReconciliationAdjustment c)) \<and>
        NewFromString L (ac_LegBBasePosition c) =
          Some (leg_position L (ac_ID c) ''b'' db + fill_amount L (ac_LegBReconciliationAdjustment c)))"

text \<open>What one row adds to the position of a leg.\<close>

definition contribution :: "decimal_lib \<Rightarrow> string \<Rightarrow> string \<Rightarrow> ArbitrageExecution list \<Rightarrow> Order option \<Rightarrow> decimal" where
  "contribution L combinationID leg executions row =
     (case row of
        None \<Rightarrow> 0
      | Some order \<Rightarrow>
          if list_ex (\<lambda>e. ae_ID e = ord_ArbitrageExecutionID order \<and> ae_CombinationID e = combinationID) executions \<and>
             0 < order_filled L order then signed_fill L leg order else 0)"

lemma leg_position_contributions:
  "leg_position L combinationID leg db =
     sum_list (map (\<lambda>orderID. contribution L combinationID leg (db_executions db) (os_orders (db_store db) orderID)) (db_ids db))"
proof -
  have "sum_list (map (signed_fill L leg) (filter (\<lambda>order. 0 < order_filled L order)
          (filter (\<lambda>order. list_ex (\<lambda>e. ae_ID e = ord_ArbitrageExecutionID order \<and> ae_CombinationID e = combinationID) executions)
            (List.map_filter rows ids)))) =
        sum_list (map (\<lambda>orderID. contribution L combinationID leg executions (rows orderID)) ids)" for rows ids executions
    by (induction ids) (auto simp: contribution_def map_filter_simps split: option.splits)
  then show ?thesis by (simp add: leg_position_def combination_orders_def order_rows_def)
qed

lemma leg_position_cong:
  assumes "db_ids db' = db_ids db"
    and "\<And>orderID. contribution L combinationID leg (db_executions db') (os_orders (db_store db') orderID) =
           contribution L combinationID leg (db_executions db) (os_orders (db_store db) orderID)"
  shows "leg_position L combinationID leg db' = leg_position L combinationID leg db"
  by (simp add: leg_position_contributions assms)

text \<open>Only the ids of the executions matter for positions.\<close>

definition same_executions :: "trader_db \<Rightarrow> trader_db \<Rightarrow> bool" where
  "same_executions db db' \<longleftrightarrow>
     map (\<lambda>e. (ae_ID e, ae_CombinationID e)) (db_executions db') = map (\<lambda>e. (ae_ID e, ae_CombinationID e)) (db_executions db)"

lemma same_executions_list_ex:
  assumes "same_executions db db'"
  shows "list_ex (\<lambda>e. P (ae_ID e) (ae_CombinationID e)) (db_executions db') =
         list_ex (\<lambda>e. P (ae_ID e) (ae_CombinationID e)) (db_executions db)"
proof -
  have "list_ex (\<lambda>e. P (ae_ID e) (ae_CombinationID e)) es =
    list_ex (case_prod P) (map (\<lambda>e. (ae_ID e, ae_CombinationID e)) es)" for es by (induction es) simp_all
  note this [of "db_executions db'"] this [of "db_executions db"]
  then show ?thesis using assms by (simp only: same_executions_def)
qed

lemma contribution_same_executions:
  "same_executions db db' \<Longrightarrow> contribution L c leg (db_executions db') row = contribution L c leg (db_executions db) row"
  using same_executions_list_ex [of db db' "\<lambda>i k. i = e \<and> k = c" for e]
  by (simp add: contribution_def split: option.splits)

lemma find_execution_map:
  "map_option ae_CombinationID (find_execution i db) =
     map_of (map (\<lambda>e. (ae_ID e, ae_CombinationID e)) (db_executions db)) i"
proof -
  have "map_option ae_CombinationID (find (\<lambda>e. ae_ID e = i) es) = map_of (map (\<lambda>e. (ae_ID e, ae_CombinationID e)) es) i" for es
    by (induction es) auto
  then show ?thesis by (simp add: find_execution_def)
qed

lemma find_execution_Some: "find_execution i db = Some e \<Longrightarrow> ae_ID e = i \<and> e \<in> set (db_executions db)"
  by (auto simp: find_execution_def find_Some_iff)

lemma find_combination_None: "find_combination i db = None \<longleftrightarrow> i \<notin> ac_ID ` set (db_combinations db)"
  by (auto simp: find_combination_def find_None_iff)

lemma find_combination_Some: "find_combination i db = Some c \<Longrightarrow> ac_ID c = i \<and> c \<in> set (db_combinations db)"
  by (auto simp: find_combination_def find_Some_iff)

lemma execution_combination_exists:
  "execution_combination i db \<noteq> None \<longleftrightarrow>
     (\<exists>k. map_of (map (\<lambda>e. (ae_ID e, ae_CombinationID e)) (db_executions db)) i = Some k \<and> k \<in> ac_ID ` set (db_combinations db))"
proof (cases "find_execution i db")
  case None
  then show ?thesis using find_execution_map [of i db] by (simp add: execution_combination_def)
next
  case (Some e)
  then have "map_of (map (\<lambda>e. (ae_ID e, ae_CombinationID e)) (db_executions db)) i = Some (ae_CombinationID e)"
    using find_execution_map [of i db] by simp
  then show ?thesis
    using Some find_combination_None [of "ae_CombinationID e" db] unfolding execution_combination_def by simp
qed

text \<open>The part of a row, of an execution and of a combination that positions depend on.\<close>

definition row_fill :: "decimal_lib \<Rightarrow> Order \<Rightarrow> (string list \<times> int \<times> int) \<times> decimal" where
  "row_fill L order = (row_identity order, order_filled L order)"

definition combination_position :: "ArbitrageCombination \<Rightarrow> string list" where
  "combination_position c =
     [ac_ID c, ac_LegABasePosition c, ac_LegBBasePosition c, ac_LegAReconciliationAdjustment c, ac_LegBReconciliationAdjustment c]"

lemma contribution_row_fill:
  assumes "map_option (row_fill L) row' = map_option (row_fill L) row"
  shows "contribution L c leg es row' = contribution L c leg es row"
  using assms by (cases row; cases row') (simp_all add: contribution_def row_fill_def row_identity_def signed_fill_def)

lemma combination_position_ids:
  assumes "map combination_position cs' = map combination_position cs" shows "map ac_ID cs' = map ac_ID cs"
  using arg_cong [OF assms, of "map hd"] by (simp add: combination_position_def comp_def)

lemma positions_ok_position:
  "positions_ok L db \<longleftrightarrow>
     (\<forall>p \<in> set (map combination_position (db_combinations db)).
        NewFromString L (p ! 1) = Some (leg_position L (p ! 0) ''a'' db + fill_amount L (p ! 3)) \<and>
        NewFromString L (p ! 2) = Some (leg_position L (p ! 0) ''b'' db + fill_amount L (p ! 4)))"
  by (simp add: positions_ok_def combination_position_def)

text \<open>Tables that agree on these parts.\<close>

definition same_positions :: "decimal_lib \<Rightarrow> trader_db \<Rightarrow> trader_db \<Rightarrow> bool" where
  "same_positions L db db' \<longleftrightarrow>
     db_ids db' = db_ids db \<and> same_executions db db' \<and>
     map combination_position (db_combinations db') = map combination_position (db_combinations db) \<and>
     (\<forall>orderID. map_option (row_fill L) (os_orders (db_store db') orderID) =
                map_option (row_fill L) (os_orders (db_store db) orderID))"

lemma same_positions_leg:
  assumes "same_positions L db db'" shows "leg_position L c leg db' = leg_position L c leg db"
proof (rule leg_position_cong)
  fix orderID
  have "same_executions db db'" "map_option (row_fill L) (os_orders (db_store db') orderID) =
      map_option (row_fill L) (os_orders (db_store db) orderID)" using assms by (simp_all add: same_positions_def)
  from contribution_same_executions [OF this(1)] contribution_row_fill [OF this(2)]
  show "contribution L c leg (db_executions db') (os_orders (db_store db') orderID) =
    contribution L c leg (db_executions db) (os_orders (db_store db) orderID)" by simp
qed (use assms in \<open>simp add: same_positions_def\<close>)

lemma same_positions_positions:
  assumes "same_positions L db db'" "positions_ok L db" shows "positions_ok L db'"
proof -
  have "map combination_position (db_combinations db') = map combination_position (db_combinations db)"
    using assms(1) by (simp only: same_positions_def)
  then show ?thesis using assms(2) unfolding positions_ok_position same_positions_leg [OF assms(1)] by (simp only:)
qed

definition consistent :: "decimal_lib \<Rightarrow> trader_db \<Rightarrow> bool" where
  "consistent L db \<longleftrightarrow> tables_ok db \<and> positions_ok L db"

lemma same_executions_exist:
  assumes "same_executions db db'" "map ac_ID (db_combinations db') = map ac_ID (db_combinations db)"
  shows "execution_combination i db' \<noteq> None \<longleftrightarrow> execution_combination i db \<noteq> None"
proof -
  have "ac_ID ` set (db_combinations db') = ac_ID ` set (db_combinations db)"
    using arg_cong [OF assms(2), of set] by simp
  then show ?thesis using assms(1) by (simp only: execution_combination_exists same_executions_def)
qed

lemma same_executions_ids:
  assumes "same_executions db db'" shows "map ae_ID (db_executions db') = map ae_ID (db_executions db)"
  using arg_cong [OF assms [unfolded same_executions_def], of "map fst"] by (simp add: comp_def)

lemma tables_ok_kept:
  assumes "tables_ok db" "same_executions db db'" "map ac_ID (db_combinations db') = map ac_ID (db_combinations db)"
    and "\<And>orderID. map_option row_identity (os_orders (db_store db') orderID) =
           map_option row_identity (os_orders (db_store db) orderID)"
    and "trimmed_rows db'"
  shows "tables_ok db'"
proof -
  have ids: "map ae_ID (db_executions db') = map ae_ID (db_executions db)" by (rule same_executions_ids [OF assms(2)])
  have "execution_combination (ord_ArbitrageExecutionID order) db' \<noteq> None"
    if o: "os_orders (db_store db') orderID = Some order" "ord_ArbitrageExecutionID order \<noteq> []" for orderID order
  proof -
    obtain order' where "os_orders (db_store db) orderID = Some order'" "row_identity order' = row_identity order"
      using assms(4) [of orderID] o(1) by (cases "os_orders (db_store db) orderID") auto
    moreover from this(2) have "ord_ArbitrageExecutionID order' = ord_ArbitrageExecutionID order"
      by (simp add: row_identity_def)
    ultimately have "execution_combination (ord_ArbitrageExecutionID order) db \<noteq> None"
      using assms(1) o(2) unfolding tables_ok_def by metis
    then show ?thesis using same_executions_exist [OF assms(2,3)] by blast
  qed
  moreover have "\<forall>e \<in> set (db_executions db'). TrimSpace (ae_ID e) \<noteq> []"
  proof -
    have "ae_ID ` set (db_executions db') = ae_ID ` set (db_executions db)" using arg_cong [OF ids, of set] by simp
    moreover have "\<forall>i \<in> ae_ID ` set (db_executions db). TrimSpace i \<noteq> []" using assms(1) by (simp add: tables_ok_def)
    ultimately show ?thesis by (metis imageI)
  qed
  moreover have "ord_ID order = orderID" if "os_orders (db_store db') orderID = Some order" for orderID order
    using assms(1) assms(4) [of orderID] that
    by (cases "os_orders (db_store db) orderID") (auto simp: tables_ok_def row_identity_def)
  ultimately show ?thesis using assms(1,5) unfolding tables_ok_def ids assms(3) by blast
qed

lemma same_positions_parts:
  assumes "same_positions L db db'"
  shows "same_executions db db'" "map ac_ID (db_combinations db') = map ac_ID (db_combinations db)"
    and "map_option row_identity (os_orders (db_store db') orderID) = map_option row_identity (os_orders (db_store db) orderID)"
proof -
  show "same_executions db db'" using assms by (simp only: same_positions_def)
  show "map ac_ID (db_combinations db') = map ac_ID (db_combinations db)"
    by (rule combination_position_ids) (use assms in \<open>simp only: same_positions_def\<close>)
  have "map_option fst (map_option (row_fill L) (os_orders (db_store db') orderID)) =
    map_option fst (map_option (row_fill L) (os_orders (db_store db) orderID))" using assms by (simp only: same_positions_def)
  then show "map_option row_identity (os_orders (db_store db') orderID) = map_option row_identity (os_orders (db_store db) orderID)"
    by (simp add: option.map_comp comp_def row_fill_def)
qed

lemma consistent_same:
  assumes "consistent L db" "same_positions L db db'" "trimmed_rows db'" shows "consistent L db'"
  using tables_ok_kept [OF _ same_positions_parts [OF assms(2)] assms(3)] same_positions_positions [OF assms(2)] assms(1)
  by (simp add: consistent_def)

lemma consistent_trimmed: "consistent L db \<Longrightarrow> trimmed_rows db"
  by (simp add: consistent_def tables_ok_def)

text \<open>Operations that touch no amount.\<close>

lemma consistent_bookkeeping:
  assumes "consistent L db" "same_orders db db'" "same_executions db db'"
    and "map combination_position (db_combinations db') = map combination_position (db_combinations db)"
  shows "consistent L db'"
  by (rule consistent_same [OF assms(1)])
     (use assms consistent_trimmed [OF assms(1)] in \<open>simp_all add: same_positions_def same_orders_def trimmed_rows_def\<close>)

lemma uncertain_position [simp]: "combination_position (uncertain_combination now c) = combination_position c"
  by (simp add: combination_position_def uncertain_combination_def)

lemma map_position_uncertain:
  "map combination_position (map (\<lambda>c. if P c then uncertain_combination now c else c) cs) = map combination_position cs"
  by (induction cs) simp_all

lemma consistent_event: "consistent L db \<Longrightarrow> consistent L (AppendEvent orderID eventType db)"
  by (rule consistent_bookkeeping [OF _ same_orders_event]) (simp_all add: AppendEvent_def same_executions_def)

lemma consistent_defer: "consistent L db \<Longrightarrow> consistent L (db_DeferReconcile orderID next_at db)"
  by (rule consistent_bookkeeping [OF _ same_orders_defer]) (simp_all add: db_DeferReconcile_def same_executions_def)

lemma canceled_execution_ids: "map (\<lambda>e. (ae_ID e, ae_CombinationID e)) (map (\<lambda>e. if P e then canceled_execution now e else e) es) =
  map (\<lambda>e. (ae_ID e, ae_CombinationID e)) es"
  by (induction es) (simp_all add: canceled_execution_def)

lemma consistent_finalize:
  assumes "consistent L db" shows "consistent L (snd (FinalizeConfirmedAbsentZeroFillExecution L now executionID db))"
  by (rule consistent_bookkeeping [OF assms same_orders_finalize])
     (auto simp: FinalizeConfirmedAbsentZeroFillExecution_def same_executions_def Let_def canceled_execution_ids map_position_uncertain
       simp del: map_map list.map_comp split: option.splits)

lemma rewrite_same_positions:
  assumes "rewrites_row orderID order row db db'" "row_fill L row = row_fill L order" "same_executions db db'"
    and "map combination_position (db_combinations db') = map combination_position (db_combinations db)"
  shows "same_positions L db db'"
  using assms by (simp add: same_positions_def rewrites_row_def)

lemma rewrite_trimmed:
  assumes "rewrites_row orderID order row db db'" "trimmed_rows db" "TrimSpace (ord_FilledQuantity row) = ord_FilledQuantity row"
  shows "trimmed_rows db'"
  using assms by (simp add: trimmed_rows_def rewrites_row_def)

lemma consistent_rewrite:
  assumes "consistent L db" "rewrites_row orderID order row db db'" "row_fill L row = row_fill L order"
    and "TrimSpace (ord_FilledQuantity row) = ord_FilledQuantity row" "same_executions db db'"
    and "map combination_position (db_combinations db') = map combination_position (db_combinations db)"
  shows "consistent L db'"
  by (rule consistent_same [OF assms(1)])
     (rule rewrite_same_positions [OF assms(2,3,5,6)], rule rewrite_trimmed [OF assms(2) consistent_trimmed [OF assms(1)] assms(4)])

lemma stored_trimmed:
  "consistent L db \<Longrightarrow> os_orders (db_store db) orderID = Some order \<Longrightarrow> TrimSpace (ord_FilledQuantity order) = ord_FilledQuantity order"
  using consistent_trimmed by (auto simp: trimmed_rows_def)

lemma failure_combinations:
  "same_executions db (MarkReconcileFailure now orderID next_at db) \<and>
   map combination_position (db_combinations (MarkReconcileFailure now orderID next_at db)) =
     map combination_position (db_combinations db)"
  by (simp add: MarkReconcileFailure_def same_executions_def Let_def put_order_def set_schedule_def map_position_uncertain
    del: map_map list.map_comp split: option.splits)

lemma consistent_failure:
  assumes "consistent L db" shows "consistent L (MarkReconcileFailure now orderID next_at db)"
proof (rule failure_rewrites [of now orderID next_at db])
  fix order assume r: "rewrites_row orderID order (failed_row now order) db (MarkReconcileFailure now orderID next_at db)"
  then have "TrimSpace (ord_FilledQuantity order) = ord_FilledQuantity order"
    using stored_trimmed [OF assms, of orderID order] by (simp add: rewrites_row_def)
  then show ?thesis using failure_combinations [of db now orderID next_at]
    by (intro consistent_rewrite [OF assms r])
       (simp_all add: row_fill_def failed_row_kept order_filled_def)
qed (use assms in simp)

lemma absence_combinations:
  "same_executions db (snd (ConfirmOrderAbsence L now orderID expected next_at db)) \<and>
   db_combinations (snd (ConfirmOrderAbsence L now orderID expected next_at db)) = db_combinations db"
  by (simp add: ConfirmOrderAbsence_def same_executions_def Let_def put_order_def set_schedule_def split: option.splits)

context decimal_library
begin

lemma consistent_absence:
  assumes "consistent L db" shows "consistent L (snd (ConfirmOrderAbsence L now orderID expected next_at db))"
proof (rule absence_rewrites [of L now orderID expected next_at db])
  fix order assume a: "absence_applies L expected db order"
    and r: "rewrites_row orderID order (absent_row L now order) db (snd (ConfirmOrderAbsence L now orderID expected next_at db))"
  have "TrimSpace (ord_FilledQuantity order) = ord_FilledQuantity order"
    using stored_trimmed [OF assms, of orderID order] r by (simp add: rewrites_row_def)
  then have "TrimSpace (ord_FilledQuantity (absent_row L now order)) = ord_FilledQuantity (absent_row L now order)"
    "order_filled L (absent_row L now order) = order_filled L order"
    using a by (simp_all add: absent_row_def Let_def print_trim order_filled_def fill_amount_def parse_print absence_applies_def)
  then show ?thesis using absence_combinations [of db L now orderID expected next_at]
    by (intro consistent_rewrite [OF assms r]) (simp_all add: row_fill_def absent_row_kept)
qed (use assms in simp)

lemma merged_trimmed:
  assumes "mergeOrderUpdate L current result eventAt fills skip = Inr merged" "fills_positive L fills"
    and "TrimSpace (ord_FilledQuantity current) = ord_FilledQuantity current"
  shows "TrimSpace (ord_FilledQuantity merged) = ord_FilledQuantity merged"
  using assms(1)
proof (cases rule: mergeOrderUpdate_cases)
  case ack
  obtain f where f: "NewFromString L (ord_FilledQuantity current) = Some f"
    using ack(3) by (cases "NewFromString L (ord_FilledQuantity current)") (simp_all add: merge_local_ack_def)
  from ack(3) f show ?thesis
  proof (cases rule: merge_local_ack_cases)
    case (2 c a)
    then show ?thesis using parse_decimal [OF 2(1)] by (simp add: print_trim)
  qed (use assms(3) in simp)
next
  case skip
  then show ?thesis using assms(3) by simp
next
  case report
  from report(3) obtain f q av f0 a0 s where r: "NewFromString L (ord_FilledQuantity current) = Some f"
    "NewFromString L (ord_Quantity current) = Some q"
    "merge_amounts L result fills (event_fresh (ord_LastVenueEventAt current) eventAt) f av = Inr (f0, a0)"
    and m: "ord_FilledQuantity merged = StringOf L (cap_filled q f0)"
    by (rule merge_report_cases) (simp add: Let_def)
  have "is_decimal f0" using merge_amounts_grow [OF r(3) assms(2) parse_decimal [OF r(1)]] by blast
  then have "is_decimal (cap_filled q f0)" using parse_decimal [OF r(2)] by (simp add: cap_filled_def)
  then show ?thesis by (simp add: m print_trim)
qed

lemma fill_amount_trimmed: "TrimSpace s = s \<Longrightarrow> fill_amount L s = parseDecimal L s"
  by (simp add: fill_amount_def parseDecimal_def)

text \<open>A report either leaves the filled amount alone or says that it changed.\<close>

lemma update_changes:
  assumes "db_UpdateResultWithFillDelta L now ids orderID result db = (outcome, db')" "consistent L db"
  obtains "\<exists>e. outcome = Inl e" "same_orders db db'" "db_executions db' = db_executions db" "db_combinations db' = db_combinations db"
  | order updated changed where "outcome = Inr (updated, changed)" "rewrites_row orderID order updated db db'"
      "row_identity updated = row_identity order" "TrimSpace (ord_FilledQuantity updated) = ord_FilledQuantity updated"
      "\<not> changed \<Longrightarrow> row_fill L updated = row_fill L order"
      "db_executions db' = db_executions db" "db_combinations db' = db_combinations db"
proof -
  obtain eventAt where "db_UpdateResultWithFillDelta L now ids orderID result =
    on_store (applyOrderUpdate L now ids orderID result eventAt zero_time False [] False)" by (rule update_is_apply)
  then obtain store' where a: "applyOrderUpdate L now ids orderID result eventAt zero_time False [] False (db_store db) = (outcome, store')"
    and db': "db' = db\<lparr>db_store := store'\<rparr>" using assms(1) by (auto simp: on_store_def split: prod.splits)
  show ?thesis
  proof (cases outcome)
    case (Inl e)
    then show ?thesis using applyOrderUpdate_error(1) a by (intro that(1)) (simp_all add: db' same_orders_def)
  next
    case (Inr oc)
    then obtain updated changed where oc: "outcome = Inr (updated, changed)" by (cases oc) auto
    from a [unfolded oc] show ?thesis
    proof (cases rule: applyOrderUpdate_cases)
      case (1 current inserted stored merged0 average handle t t')
      have trim: "TrimSpace (ord_FilledQuantity current) = ord_FilledQuantity current"
        by (rule stored_trimmed [OF assms(2) 1(1)])
      have m: "ord_FilledQuantity updated = ord_FilledQuantity merged0" unfolding 1(6) by (cases average) simp_all
      have trim': "TrimSpace (ord_FilledQuantity updated) = ord_FilledQuantity updated"
        unfolding m by (rule merged_trimmed [OF 1(4) insert_fills_positive [OF 1(3)] trim])
      have i: "row_identity updated = row_identity current" unfolding 1(6) by (rule updated_row_identity)
      have f: "row_fill L updated = row_fill L current" if "\<not> changed"
        using that 1(7) trim trim' m by (simp add: row_fill_def i order_filled_def fill_amount_trimmed)
      have r: "rewrites_row orderID current updated db db'" using 1(1,8) by (simp add: rewrites_row_def db')
      show ?thesis by (rule that(2) [OF oc r i trim' f]) (simp_all add: db')
    qed
  qed
qed

end

text \<open>A row counts only for the combination of its execution.\<close>

lemma other_combination:
  assumes "rewrites_row orderID order row db db'" "row_identity row = row_identity order" "db_executions db' = db_executions db"
    and "\<not> list_ex (\<lambda>e. ae_ID e = ord_ArbitrageExecutionID order \<and> ae_CombinationID e = k) (db_executions db)"
  shows "leg_position L k leg db' = leg_position L k leg db"
proof (rule leg_position_cong)
  fix i
  have "ord_ArbitrageExecutionID row = ord_ArbitrageExecutionID order" using assms(2) by (simp add: row_identity_def)
  then show "contribution L k leg (db_executions db') (os_orders (db_store db') i) =
      contribution L k leg (db_executions db) (os_orders (db_store db) i)"
    using assms(1,3,4) by (cases "i = orderID") (simp_all add: rewrites_row_def contribution_def)
qed (use assms(1) in \<open>simp add: rewrites_row_def\<close>)

lemma leg_position_combinations [simp]: "leg_position L k l (db\<lparr>db_combinations := cs\<rparr>) = leg_position L k l db"
  by (rule leg_position_cong) simp_all

lemma recomputed_execution_ids:
  "map (\<lambda>e. (ae_ID e, ae_CombinationID e)) (map (\<lambda>e. if P e then recomputed_execution L now c orders e else e) es) =
   map (\<lambda>e. (ae_ID e, ae_CombinationID e)) es"
  by (induction es) (simp_all add: recomputed_execution_def Let_def)

context decimal_library
begin

lemma leg_position_decimal: "is_decimal (leg_position L k leg db)"
proof -
  have "is_decimal (contribution L k leg es row)" for es row
    by (auto simp: contribution_def signed_fill_def order_filled_def intro: fill_amount_decimal is_decimal_uminus split: option.splits)
  then have "is_decimal (sum_list (map (\<lambda>i. contribution L k leg es (rows i)) ids))" for es rows ids
    by (induction ids) (auto intro: is_decimal_add)
  then show ?thesis by (simp add: leg_position_contributions)
qed

text \<open>The combination of an execution gets its position from the fills; the others keep theirs.\<close>

lemma consistent_recompute:
  assumes t: "tables_ok db" and i: "TrimSpace i \<noteq> []" and c: "execution_combination i db = Some c"
    and others: "\<forall>c2 \<in> set (db_combinations db). ac_ID c2 \<noteq> ac_ID c \<longrightarrow>
        NewFromString L (ac_LegABasePosition c2) =
          Some (leg_position L (ac_ID c2) ''a'' db + fill_amount L (ac_LegAReconciliationAdjustment c2)) \<and>
        NewFromString L (ac_LegBBasePosition c2) =
          Some (leg_position L (ac_ID c2) ''b'' db + fill_amount L (ac_LegBReconciliationAdjustment c2))"
  shows "consistent L (snd (RecomputeArbitrageBasePositionsForExecution L now i db))"
    and "\<exists>c'. fst (RecomputeArbitrageBasePositionsForExecution L now i db) = Inr c'"
proof -
  let ?db1 = "db\<lparr>db_executions := map (\<lambda>e. if ae_ID e = i then recomputed_execution L now c (execution_orders i db) e else e)
    (db_executions db)\<rparr>"
  let ?update = "\<lambda>c2. c2\<lparr>ac_LegABasePosition := StringOf L (leg_position L (ac_ID c) ''a'' db + fill_amount L (ac_LegAReconciliationAdjustment c2)),
     ac_LegBBasePosition := StringOf L (leg_position L (ac_ID c) ''b'' db + fill_amount L (ac_LegBReconciliationAdjustment c2)),
     ac_Version := ac_Version c2 + 1, ac_UpdatedAt := now\<rparr>"
  let ?db2 = "?db1\<lparr>db_combinations := map (\<lambda>c2. if ac_ID c2 = ac_ID c then ?update c2 else c2) (db_combinations db)\<rparr>"
  obtain c0 where c0: "find_combination (ac_ID c) ?db1 = Some c0"
  proof -
    have "c \<in> set (db_combinations db)"
      using c find_combination_Some by (auto simp: execution_combination_def split: option.splits)
    then have "find_combination (ac_ID c) db \<noteq> None" by (simp only: find_combination_None) blast
    then show ?thesis using that by (auto simp: find_combination_def)
  qed
  have se: "same_executions db ?db2" "same_executions db ?db1"
    using recomputed_execution_ids by (simp_all add: same_executions_def del: map_map list.map_comp)
  have leg: "leg_position L k l ?db1 = leg_position L k l db" for k l
    by (rule leg_position_cong) (simp, simp only: contribution_same_executions [OF se(2)], simp)
  have run: "RecomputeArbitrageBasePositionsForExecution L now i db = (Inr (?update c0), ?db2)"
    using i c c0 by (simp add: RecomputeArbitrageBasePositionsForExecution_def updateArbitrageCombinationPositions_def Let_def leg)
  then show "\<exists>c'. fst (RecomputeArbitrageBasePositionsForExecution L now i db) = Inr c'" by simp
  have "tables_ok ?db2"
    by (rule tables_ok_kept [OF t se(1)]) (use t in \<open>simp_all add: tables_ok_def trimmed_rows_def\<close>)
  moreover have "positions_ok L ?db2"
    unfolding positions_ok_def leg_position_combinations leg using others
    by (auto simp: parse_print leg_position_decimal fill_amount_decimal is_decimal_add)
  ultimately show "consistent L (snd (RecomputeArbitrageBasePositionsForExecution L now i db))"
    by (simp add: run consistent_def)
qed

end

end
