(* ===== verification/Order_Service.thy ===== *)
theory Order_Service
  imports Order_Tables
begin

text \<open>
  The handlers of manual orders in \<^verbatim>\<open>trader/service.go\<close>: placing an order with an idempotency key, recovering the
  state of one whose submission had no clear outcome, looking one up and cancelling one. The state is the
  tables with a log of the requests that were sent to venues and of the ids that were bound to streams.
  What the handlers ask of the account service, the catalog and the venue adapters are arguments, as are the
  clock, the random identifiers and the digest of a fingerprint.
\<close>

section \<open>State and environment\<close>

record trader_world =
  tw_db :: trader_db
  tw_submitted :: "OrderRequest list"
  tw_bindings :: "(string \<times> string \<times> string \<times> string \<times> string) list"

record service_env =
  sv_now :: "time"
  sv_ids :: "string list"
  sv_newID :: string
  sv_newClientOrderID :: string
  sv_Sum256 :: "string \<Rightarrow> string"
  sv_Owner :: "string \<Rightarrow> go_error + string"
  sv_Get :: "string \<Rightarrow> int \<Rightarrow> go_error + Credentials"
  sv_catalog :: "int \<Rightarrow> go_error + Instrument"
  sv_Adapter :: "string \<Rightarrow> Adapter option"
  sv_streams :: bool

definition log_event :: "string \<Rightarrow> string \<Rightarrow> trader_world \<Rightarrow> trader_world" where
  "log_event orderID eventType w = w\<lparr>tw_db := AppendEvent orderID eventType (tw_db w)\<rparr>"

section \<open>Capabilities and fingerprints\<close>

definition staticExchangeCapabilities :: "string \<Rightarrow> Capabilities" where
  "staticExchangeCapabilities exchangeName =
     (if ToLower (TrimSpace exchangeName) \<in> set [''hyperliquid'', ''aster'', ''lighter'']
      then \<lparr>cap_Products = [''perpetual''], cap_QuoteAssets = [], cap_TimeInForce = [''GTC'', ''IOC'', ''POST_ONLY''],
            cap_PostOnly = True, cap_ReduceOnly = True, cap_MakerTwap = True, cap_PrivateOrderStream = True,
            cap_OneWayOnly = True, cap_Arbitrage = True\<rparr>
      else \<lparr>cap_Products = [''spot'', ''perpetual''], cap_QuoteAssets = [], cap_TimeInForce = [''GTC'', ''IOC'', ''POST_ONLY''],
            cap_PostOnly = True, cap_ReduceOnly = True, cap_MakerTwap = True, cap_PrivateOrderStream = False,
            cap_OneWayOnly = False, cap_Arbitrage = True\<rparr>)"

definition venueCapabilities :: "Adapter \<Rightarrow> Credentials \<Rightarrow> go_error + Capabilities" where
  "venueCapabilities adapter account =
     (case ad_Capabilities adapter of
        None \<Rightarrow> Inr (staticExchangeCapabilities (cr_Exchange account))
      | Some provider \<Rightarrow>
          (case provider (toVenueCredentials account) of
             (capabilities, Some e) \<Rightarrow> Inl (VenueError e) | (capabilities, None) \<Rightarrow> Inr capabilities))"

definition supportsCapability :: "string list \<Rightarrow> string \<Rightarrow> bool" where
  "supportsCapability values expected = list_ex (\<lambda>v. EqualFold (TrimSpace v) (TrimSpace expected)) values"

definition itoa :: "decimal_lib \<Rightarrow> int \<Rightarrow> string" where
  "itoa L n = StringOf L (of_int n)"

fun join_parts :: "string list \<Rightarrow> string" where
  "join_parts [] = []"
| "join_parts [part] = part"
| "join_parts (part # parts) = part @ ''|'' @ join_parts parts"

definition requestFingerprint ::
  "decimal_lib \<Rightarrow> (string \<Rightarrow> string) \<Rightarrow> int \<Rightarrow> int \<Rightarrow> string \<Rightarrow> string \<Rightarrow> string \<Rightarrow> string \<Rightarrow> string list \<Rightarrow> string" where
  "requestFingerprint L sum256 accountID instrumentID side orderType quantity price extras =
     sum256 (join_parts ([itoa L accountID, itoa L instrumentID, side, orderType, quantity, price] @ extras))"

section \<open>Storing a result\<close>

definition bindHyperliquidOrderIDs :: "decimal_lib \<Rightarrow> service_env \<Rightarrow> Order \<Rightarrow> trader_world \<Rightarrow> trader_world" where
  "bindHyperliquidOrderIDs L env order w =
     (if \<not> sv_streams env \<or> \<not> EqualFold (TrimSpace (ord_Exchange order)) ''hyperliquid'' then w
      else let clientOrderID = TrimSpace (ord_ClientOrderID order); venueOrderID = TrimSpace (ord_VenueOrderID order) in
        if clientOrderID = [] \<or> venueOrderID = [] then w
        else let encoded = (case sv_Adapter env (ord_Exchange order) of
                              None \<Rightarrow> clientOrderID
                            | Some adapter \<Rightarrow>
                                (case ad_VenueClientOrderID adapter of None \<Rightarrow> clientOrderID | Some encode \<Rightarrow> encode clientOrderID))
             in w\<lparr>tw_bindings := tw_bindings w @
                  [(itoa L (ord_TradingAccountID order), ord_Exchange order, ord_ContractType order, encoded, venueOrderID)]\<rparr>)"

definition persistResult ::
  "decimal_lib \<Rightarrow> service_env \<Rightarrow> string \<Rightarrow> string \<Rightarrow> Result \<Rightarrow> trader_world \<Rightarrow> (go_error + Order) \<times> trader_world" where
  "persistResult L env orderID eventType result w =
     (case UpdateResult L (sv_now env) (sv_ids env) orderID (result\<lparr>vr_Raw := []\<rparr>) (tw_db w) of
        (Inl e, db) \<Rightarrow> (Inl (Sentinel e), w\<lparr>tw_db := db\<rparr>)
      | (Inr updated, db) \<Rightarrow>
          (Inr updated, bindHyperliquidOrderIDs L env updated (log_event orderID eventType (w\<lparr>tw_db := db\<rparr>))))"

text \<open>A handler returns an order together with an error, if any; without a result the order is the zero value.\<close>

type_synonym handler_result = "Order \<times> go_error option"

definition persisted :: "(go_error + Order) \<times> trader_world \<Rightarrow> handler_result \<times> trader_world" where
  "persisted r = (case r of (Inl e, w) \<Rightarrow> ((zero_Order, Some e), w) | (Inr order, w) \<Rightarrow> ((order, None), w))"

definition uncertain_result :: "venue_error \<Rightarrow> Result \<Rightarrow> Result" where
  "uncertain_result err result =
     orderErrorResult (result\<lparr>vr_Status := ''unknown''\<rparr>) ''unknown'' ''venue_uncertain'' (sanitizeError err)"

text \<open>A result that came with an error is stored as uncertain, and the error is returned.\<close>

definition persist_uncertain ::
  "decimal_lib \<Rightarrow> service_env \<Rightarrow> string \<Rightarrow> string \<Rightarrow> venue_error \<Rightarrow> Result \<Rightarrow> trader_world \<Rightarrow> handler_result \<times> trader_world" where
  "persist_uncertain L env orderID eventType err result w =
     (case persistResult L env orderID eventType (uncertain_result err result) w of
        (Inl e, w') \<Rightarrow> ((zero_Order, Some e), w')
      | (Inr updated, w') \<Rightarrow> ((updated, Some (wrapQueryError err)), w'))"

definition absent_error :: "string \<Rightarrow> venue_error" where
  "absent_error orderID =
     \<lparr>ve_is = [ErrOrderNotFound],
      ve_text = ''venue order not found: venue history and active orders do not contain order '' @ orderID\<rparr>"

definition refused :: "venue_error \<Rightarrow> bool" where
  "refused err \<longleftrightarrow> venue_Is err ErrRejected \<or> venue_Is err ErrOrderNotFound"

definition failure_event :: "venue_error \<Rightarrow> string" where
  "failure_event err = (if venue_Is err ErrOrderNotFound then ''reconcile_absent'' else ''reconcile_failed'')"

section \<open>Submitting\<close>

definition recover ::
  "decimal_lib \<Rightarrow> service_env \<Rightarrow> Adapter \<Rightarrow> Credentials \<Rightarrow> Instrument \<Rightarrow> Order \<Rightarrow> trader_world \<Rightarrow> handler_result \<times> trader_world" where
  "recover L env adapter account instrument intent w =
     (case resolveVenueOrder adapter (toVenueCredentials account) (order_query instrument intent) of
        (resolution, Some err) \<Rightarrow>
          if hasVenueResult (res_Result resolution)
          then persist_uncertain L env (ord_ID intent) ''reconcile_uncertain'' err (res_Result resolution) w
          else if refused err
          then ((intent, Some (wrapQueryError err)), log_event (ord_ID intent) (failure_event err) w)
          else ((zero_Order, Some (Wrapf ErrVenueUncertain [VenueError err])), w)
      | (resolution, None) \<Rightarrow>
          if res_ConfirmedAbsent resolution
          then ((intent, Some (wrapQueryError (absent_error (ord_ID intent)))), log_event (ord_ID intent) ''reconcile_absent'' w)
          else persisted (persistResult L env (ord_ID intent) ''reconcile''
                 (normalizeVenueResult L intent (res_Result resolution)) w))"

definition order_request :: "Instrument \<Rightarrow> Order \<Rightarrow> string \<Rightarrow> bool \<Rightarrow> OrderRequest" where
  "order_request instrument intent timeInForce postOnly =
     \<lparr>req_Instrument = toVenueInstrument instrument, req_ClientOrderID = ord_ClientOrderID intent,
      req_Side = ord_Side intent, req_OrderType = ord_OrderType intent, req_Quantity = ord_Quantity intent,
      req_Price = ord_Price intent, req_TimeInForce = timeInForce, req_PostOnly = postOnly,
      req_ReduceOnly = ord_ReduceOnly intent\<rparr>"

definition place_uncertain ::
  "decimal_lib \<Rightarrow> service_env \<Rightarrow> Adapter \<Rightarrow> Credentials \<Rightarrow> Instrument \<Rightarrow> Order \<Rightarrow> Result \<Rightarrow> venue_error \<Rightarrow>
   trader_world \<Rightarrow> handler_result \<times> trader_world" where
  "place_uncertain L env adapter account instrument intent result err w =
     (case recover L env adapter account instrument intent w of
        ((recovered, None), w') \<Rightarrow> ((recovered, None), w')
      | ((recovered, Some recoverErr), w') \<Rightarrow>
          (case persistResult L env (ord_ID intent) ''uncertain''
                  (orderErrorResult result ''unknown'' ''venue_uncertain'' (sanitizeError err)) w' of
             (Inl e, w2) \<Rightarrow> ((zero_Order, Some e), w2)
           | (Inr updated, w2) \<Rightarrow> ((updated, Some (Wrapf ErrVenueUncertain [VenueError err, recoverErr])), w2)))"

definition placeSubmittedOrder ::
  "decimal_lib \<Rightarrow> service_env \<Rightarrow> Adapter \<Rightarrow> Credentials \<Rightarrow> Instrument \<Rightarrow> Order \<Rightarrow> string \<Rightarrow> bool \<Rightarrow> bool \<Rightarrow>
   trader_world \<Rightarrow> handler_result \<times> trader_world" where
  "placeSubmittedOrder L env adapter account instrument intent timeInForce postOnly skipSubmitted w0 =
     (let w1 = (if skipSubmitted then w0 else log_event (ord_ID intent) ''submitted'' w0);
          request = order_request instrument intent timeInForce postOnly;
          w = w1\<lparr>tw_submitted := tw_submitted w1 @ [request]\<rparr>
      in case ad_PlaceOrder adapter (toVenueCredentials account) request of
           (result, Some err) \<Rightarrow>
             if uncertain err then place_uncertain L env adapter account instrument intent result err w
             else (case persistResult L env (ord_ID intent) ''reject''
                          (orderErrorResult result ''rejected''
                             (if venue_Is err ErrInvalidQuantity then ''invalid_quantity'' else ''venue_rejected'')
                             (sanitizeError err)) w of
                     (Inl e, w') \<Rightarrow> ((zero_Order, Some e), w')
                   | (Inr updated, w') \<Rightarrow> ((updated, Some (wrapVenueError err)), w'))
         | (result, None) \<Rightarrow>
             let r = normalizeVenueResult L intent result in
             persisted (persistResult L env (ord_ID intent)
               (if vr_Status r = ''pending'' then ''venue_submitted'' else ''accepted'') r w))"

definition submitPrepared ::
  "decimal_lib \<Rightarrow> service_env \<Rightarrow> Adapter \<Rightarrow> Credentials \<Rightarrow> Instrument \<Rightarrow> Order \<Rightarrow> string \<Rightarrow> bool \<Rightarrow> trader_world \<Rightarrow> handler_result \<times> trader_world" where
  "submitPrepared L env adapter account instrument intent timeInForce postOnly w =
     placeSubmittedOrder L env adapter account instrument intent timeInForce postOnly True w"

definition submitWithOptions ::
  "decimal_lib \<Rightarrow> service_env \<Rightarrow> Adapter \<Rightarrow> Credentials \<Rightarrow> Instrument \<Rightarrow> Order \<Rightarrow> string \<Rightarrow> bool \<Rightarrow> trader_world \<Rightarrow> handler_result \<times> trader_world" where
  "submitWithOptions L env adapter account instrument intent timeInForce postOnly w =
     placeSubmittedOrder L env adapter account instrument intent timeInForce postOnly False w"

definition submit ::
  "decimal_lib \<Rightarrow> service_env \<Rightarrow> Adapter \<Rightarrow> Credentials \<Rightarrow> Instrument \<Rightarrow> Order \<Rightarrow> trader_world \<Rightarrow> handler_result \<times> trader_world" where
  "submit L env adapter account instrument intent w =
     submitWithOptions L env adapter account instrument intent [] False w"

section \<open>Placing\<close>

definition result_bind :: "'e + 'a \<Rightarrow> ('a \<Rightarrow> 'e + 'b) \<Rightarrow> 'e + 'b" where
  "result_bind r f = (case r of Inl e \<Rightarrow> Inl e | Inr x \<Rightarrow> f x)"

definition reference_price :: "Adapter \<Rightarrow> Instrument \<Rightarrow> PlaceOrderInput \<Rightarrow> go_error + string" where
  "reference_price adapter instrument input =
     (if poi_OrderType input \<noteq> ''market'' then Inr (poi_Price input)
      else case ad_GetBBO adapter (toVenueInstrument instrument) of
             (bbo, Some e) \<Rightarrow> Inl (Wrapf ErrVenueUnavailable [])
           | (bbo, None) \<Rightarrow> Inr (if poi_Side input = ''sell'' then vb_BidPrice bbo else vb_AskPrice bbo))"

definition place_intent ::
  "decimal_lib \<Rightarrow> service_env \<Rightarrow> string \<Rightarrow> Credentials \<Rightarrow> Instrument \<Rightarrow> PlaceOrderInput \<Rightarrow> string \<Rightarrow> string \<Rightarrow> Order" where
  "place_intent L env owner account instrument input quantity price =
     zero_Order\<lparr>ord_IdempotencyKey := poi_IdempotencyKey input, ord_OwnerUsername := owner,
       ord_TradingAccountID := cr_TradingAccountID account, ord_ProductName := cr_ProductName account,
       ord_Exchange := cr_Exchange account, ord_InstrumentID := inst_ID instrument,
       ord_ContractType := inst_ContractType instrument, ord_ExchangeSymbol := inst_ExchangeSymbol instrument,
       ord_BaseAsset := inst_BaseAsset instrument, ord_QuoteAsset := inst_QuoteAsset instrument,
       ord_Side := poi_Side input, ord_OrderType := poi_OrderType input, ord_Quantity := quantity, ord_Price := price,
       ord_RequestFingerprint := requestFingerprint L (sv_Sum256 env) (cr_TradingAccountID account) (inst_ID instrument)
         (poi_Side input) (poi_OrderType input) quantity price []\<rparr>"

record submission =
  sb_adapter :: Adapter
  sb_account :: Credentials
  sb_instrument :: Instrument
  sb_intent :: Order

text \<open>Everything before the intent is created.\<close>

definition validate_place :: "decimal_lib \<Rightarrow> service_env \<Rightarrow> PlaceOrderInput \<Rightarrow> go_error + submission" where
  "validate_place L env input0 =
     result_bind (map_sum Sentinel id (normalizePlaceInput L input0)) (\<lambda>input.
     result_bind (sv_Owner env (poi_Token input)) (\<lambda>owner.
     result_bind (sv_Get env (poi_Token input) (poi_TradingAccountID input)) (\<lambda>account.
     result_bind (sv_catalog env (poi_InstrumentID input)) (\<lambda>instrument.
       if inst_Exchange instrument \<noteq> cr_Exchange account then Inl (Sentinel ErrInvalidArgument)
       else case sv_Adapter env (cr_Exchange account) of
         None \<Rightarrow> Inl (Sentinel ErrUnsupportedExchange)
       | Some adapter \<Rightarrow>
     result_bind (venueCapabilities adapter account) (\<lambda>capabilities.
       if \<not> supportsCapability (cap_Products capabilities) (inst_ContractType instrument) \<or>
          cap_QuoteAssets capabilities \<noteq> [] \<and>
          \<not> supportsCapability (cap_QuoteAssets capabilities) (inst_QuoteAsset instrument)
       then Inl (Sentinel ErrInvalidArgument)
       else
     result_bind (reference_price adapter instrument input) (\<lambda>reference.
     result_bind (map_sum Sentinel id (prepareOrder L instrument (poi_OrderType input) (poi_Quantity input) (poi_Price input) reference))
       (\<lambda>(quantity, price).
          Inr \<lparr>sb_adapter = adapter, sb_account = account, sb_instrument = instrument,
               sb_intent = place_intent L env owner account instrument input quantity price\<rparr>)))))))"

text \<open>The handler up to the point where it takes the lock of the account: it answers, or goes on to submit.\<close>

definition place_admit ::
  "decimal_lib \<Rightarrow> service_env \<Rightarrow> PlaceOrderInput \<Rightarrow> trader_world \<Rightarrow> (handler_result + submission) \<times> trader_world" where
  "place_admit L env input w =
     (case validate_place L env input of
        Inl e \<Rightarrow> (Inl (zero_Order, Some e), w)
      | Inr s \<Rightarrow>
          (case CreateIntent L (sv_now env) (sv_newID env) (sv_newClientOrderID env) (sb_intent s) (tw_db w) of
             (Inl e, db) \<Rightarrow> (Inl (zero_Order, Some (Wrapf ErrPersistence [Sentinel e])), w\<lparr>tw_db := db\<rparr>)
           | (Inr (intent, created), db) \<Rightarrow>
               if created then (Inr (s\<lparr>sb_intent := intent\<rparr>), w\<lparr>tw_db := db\<rparr>)
               else if ord_RequestFingerprint intent \<noteq> ord_RequestFingerprint (sb_intent s)
               then (Inl (zero_Order, Some (Sentinel ErrIdempotencyConflict)), w\<lparr>tw_db := db\<rparr>)
               else (Inl (intent, None), w\<lparr>tw_db := db\<rparr>)))"

definition submit_admitted :: "decimal_lib \<Rightarrow> service_env \<Rightarrow> submission \<Rightarrow> trader_world \<Rightarrow> handler_result \<times> trader_world" where
  "submit_admitted L env s w = submit L env (sb_adapter s) (sb_account s) (sb_instrument s) (sb_intent s) w"

definition PlaceOrder :: "decimal_lib \<Rightarrow> service_env \<Rightarrow> PlaceOrderInput \<Rightarrow> trader_world \<Rightarrow> handler_result \<times> trader_world" where
  "PlaceOrder L env input w =
     (case place_admit L env input w of (Inl r, w') \<Rightarrow> (r, w') | (Inr s, w') \<Rightarrow> submit_admitted L env s w')"

section \<open>Looking up and cancelling\<close>

text \<open>A handler runs as one step, so the row that is read again under the lock of the account is the row that was read.\<close>

definition query_order ::
  "decimal_lib \<Rightarrow> service_env \<Rightarrow> Adapter \<Rightarrow> Credentials \<Rightarrow> Instrument \<Rightarrow> Order \<Rightarrow> trader_world \<Rightarrow> handler_result \<times> trader_world" where
  "query_order L env adapter account instrument latest w =
     (case resolveVenueOrder adapter (toVenueCredentials account) (order_query instrument latest) of
        (resolution, Some err) \<Rightarrow>
          if hasVenueResult (res_Result resolution)
          then persist_uncertain L env (ord_ID latest) ''reconcile_uncertain'' err (res_Result resolution) w
          else ((latest, Some (wrapQueryError err)),
                log_event (ord_ID latest) (if refused err then failure_event err else ''reconcile_failed'') w)
      | (resolution, None) \<Rightarrow>
          if res_ConfirmedAbsent resolution
          then ((latest, Some (wrapQueryError (absent_error (ord_ID latest)))), log_event (ord_ID latest) ''reconcile_absent'' w)
          else persisted (persistResult L env (ord_ID latest) ''reconcile''
                 (normalizeVenueResult L latest (res_Result resolution)) w))"

definition GetOrder :: "decimal_lib \<Rightarrow> service_env \<Rightarrow> string \<Rightarrow> string \<Rightarrow> trader_world \<Rightarrow> handler_result \<times> trader_world" where
  "GetOrder L env token orderID w =
     (let failed = (\<lambda>e. ((zero_Order, Some e), w)) in
      if TrimSpace token = [] \<or> TrimSpace orderID = [] then failed (Sentinel ErrInvalidArgument)
      else case sv_Owner env token of Inl e \<Rightarrow> failed e | Inr owner \<Rightarrow>
     (case GetByOwner owner orderID (tw_db w) of Inl e \<Rightarrow> failed (Sentinel e) | Inr order \<Rightarrow>
        if terminalStatus (ord_Status order) then ((order, None), w)
        else (case sv_Get env token (ord_TradingAccountID order) of Inl e \<Rightarrow> failed e | Inr account \<Rightarrow>
     (case sv_catalog env (ord_InstrumentID order) of Inl e \<Rightarrow> failed e | Inr instrument \<Rightarrow>
     (case sv_Adapter env (cr_Exchange account) of None \<Rightarrow> ((order, None), w) | Some adapter \<Rightarrow>
        query_order L env adapter account instrument order w)))))"

definition CancelOrder :: "decimal_lib \<Rightarrow> service_env \<Rightarrow> string \<Rightarrow> string \<Rightarrow> trader_world \<Rightarrow> handler_result \<times> trader_world" where
  "CancelOrder L env token orderID w =
     (let failed = (\<lambda>e. ((zero_Order, Some e), w)) in
      if TrimSpace token = [] \<or> TrimSpace orderID = [] then failed (Sentinel ErrInvalidArgument)
      else case sv_Owner env token of Inl e \<Rightarrow> failed e | Inr owner \<Rightarrow>
     (case GetByOwner owner orderID (tw_db w) of Inl e \<Rightarrow> failed (Sentinel e) | Inr order \<Rightarrow>
        if terminalStatus (ord_Status order) \<or> \<not> cancelableStatus (ord_Status order) then failed (Sentinel ErrOrderNotCancelable)
        else (case sv_Get env token (ord_TradingAccountID order) of Inl e \<Rightarrow> failed e | Inr account \<Rightarrow>
     (case sv_catalog env (ord_InstrumentID order) of Inl e \<Rightarrow> failed e | Inr instrument \<Rightarrow>
     (case sv_Adapter env (cr_Exchange account) of None \<Rightarrow> failed (Sentinel ErrUnsupportedExchange) | Some adapter \<Rightarrow>
     (case ad_CancelAndGetOrder adapter (toVenueCredentials account)
             \<lparr>cn_Instrument = toVenueInstrument instrument, cn_ClientOrderID = ord_ClientOrderID order,
              cn_VenueOrderID = ord_VenueOrderID order\<rparr> of
        (result, Some err) \<Rightarrow>
          let w1 = log_event (ord_ID order) ''cancel_failed'' w in
          if hasVenueResult result then persist_uncertain L env (ord_ID order) ''cancel_uncertain'' err result w1
          else ((order, Some (wrapQueryError err)), w1)
      | (result, None) \<Rightarrow>
          persisted (persistResult L env (ord_ID order) ''cancel'' (normalizeVenueResult L order result) w)))))))"

section \<open>What the handlers respect\<close>

lemma log_event_db [simp]: "tw_db (log_event i e w) = AppendEvent i e (tw_db w)" "tw_submitted (log_event i e w) = tw_submitted w"
  by (simp_all add: log_event_def)

lemma bind_db [simp]: "tw_db (bindHyperliquidOrderIDs L env order w) = tw_db w"
  "tw_submitted (bindHyperliquidOrderIDs L env order w) = tw_submitted w"
  by (simp_all add: bindHyperliquidOrderIDs_def Let_def)

text \<open>Only \<open>placeSubmittedOrder\<close> sends a request.\<close>

lemma persist_submitted [simp]: "tw_submitted (snd (persistResult L env i e r w)) = tw_submitted w"
  by (auto simp: persistResult_def split: prod.splits sum.splits)

lemma persisted_snd [simp]: "snd (persisted r) = snd r"
  by (auto simp: persisted_def split: prod.splits sum.splits)

lemma persist_uncertain_snd [simp]: "snd (persist_uncertain L env i e err r w) = snd (persistResult L env i e (uncertain_result err r) w)"
  by (auto simp: persist_uncertain_def split: prod.splits sum.splits)

lemma recover_submitted [simp]: "tw_submitted (snd (recover L env adapter account instrument intent w)) = tw_submitted w"
  by (auto simp: recover_def split: prod.splits option.splits)

lemma query_submitted [simp]: "tw_submitted (snd (query_order L env adapter account instrument latest w)) = tw_submitted w"
  by (auto simp: query_order_def split: prod.splits option.splits)

lemma GetOrder_submitted: "tw_submitted (snd (GetOrder L env token i w)) = tw_submitted w"
  by (auto simp: GetOrder_def Let_def split: sum.splits option.splits)

lemma CancelOrder_submitted: "tw_submitted (snd (CancelOrder L env token i w)) = tw_submitted w"
  by (auto simp: CancelOrder_def Let_def split: sum.splits option.splits prod.splits)

lemma place_uncertain_snd:
  obtains "snd (place_uncertain L env adapter account instrument intent result err w) = snd (recover L env adapter account instrument intent w)"
  | r where "snd (place_uncertain L env adapter account instrument intent result err w) =
      snd (persistResult L env (ord_ID intent) ''uncertain'' r (snd (recover L env adapter account instrument intent w)))"
proof -
  obtain o1 e w' where r: "recover L env adapter account instrument intent w = ((o1, e), w')" by (metis prod.collapse)
  show ?thesis
  proof (cases e)
    case None
    then show ?thesis using that(1) r by (simp add: place_uncertain_def)
  next
    case (Some err')
    let ?r = "orderErrorResult result ''unknown'' ''venue_uncertain'' (sanitizeError err)"
    have "snd (place_uncertain L env adapter account instrument intent result err w) =
      snd (persistResult L env (ord_ID intent) ''uncertain'' ?r (snd (recover L env adapter account instrument intent w)))"
      using Some r by (simp add: place_uncertain_def split: prod.splits sum.splits)
    then show ?thesis by (rule that(2))
  qed
qed

lemma place_submitted:
  "tw_submitted (snd (placeSubmittedOrder L env adapter account instrument intent tif post skip w)) =
     tw_submitted w @ [order_request instrument intent tif post]"
proof -
  let ?req = "order_request instrument intent tif post"
  have u: "tw_submitted (snd (place_uncertain L env adapter account instrument intent result err w)) = tw_submitted w" for result err w
    by (rule place_uncertain_snd [of L env adapter account instrument intent result err w]) simp_all
  have s: "tw_submitted (snd (case persistResult L env i e r w of (Inl e, w') \<Rightarrow> ((zero_Order, Some e), w') | (Inr updated, w') \<Rightarrow> ((updated, x), w'))) =
    tw_submitted w" for i e r w x using persist_submitted [of L env i e r w] by (auto split: prod.splits sum.splits simp del: persist_submitted)
  show ?thesis
    by (cases "ad_PlaceOrder adapter (toVenueCredentials account) ?req"; cases "snd (ad_PlaceOrder adapter (toVenueCredentials account) ?req)")
       (simp_all add: placeSubmittedOrder_def Let_def u s)
qed

context command_relation
begin

lemma R_persist: "R (tw_db w) (tw_db (snd (persistResult L env i e r w)))"
proof -
  obtain x db where u: "UpdateResult L (sv_now env) (sv_ids env) i (r\<lparr>vr_Raw := []\<rparr>) (tw_db w) = (x, db)" by (rule prod.exhaust)
  have "R (tw_db w) db"
    using R_ack [of "tw_db w" "sv_now env" "sv_ids env" i "r\<lparr>vr_Raw := []\<rparr>"] u by (auto simp: UpdateResult_def split: prod.splits)
  then show ?thesis using u R_trans [OF _ R_event] by (cases x) (simp_all add: persistResult_def)
qed

lemma R_recover: "R (tw_db w) (tw_db (snd (recover L env adapter account instrument intent w)))"
  using R_persist R_event R_refl by (auto simp: recover_def split: prod.splits option.splits)

lemma R_query: "R (tw_db w) (tw_db (snd (query_order L env adapter account instrument latest w)))"
  using R_persist R_event by (auto simp: query_order_def split: prod.splits option.splits)

lemma R_GetOrder: "R (tw_db w) (tw_db (snd (GetOrder L env token i w)))"
  using R_query R_refl by (auto simp: GetOrder_def Let_def split: sum.splits option.splits)

lemma R_CancelOrder: "R (tw_db w) (tw_db (snd (CancelOrder L env token i w)))"
proof -
  have "R (tw_db w) (tw_db (snd (persistResult L env i e r (log_event i' e' w))))" for w i e r i' e'
    using R_trans [OF R_event R_persist [of "log_event i' e' w", unfolded log_event_db]] by simp
  then show ?thesis using R_persist R_refl R_event
    by (auto simp: CancelOrder_def Let_def split: sum.splits option.splits prod.splits)
qed

lemma R_place_uncertain: "R (tw_db w) (tw_db (snd (place_uncertain L env adapter account instrument intent result err w)))"
  by (rule place_uncertain_snd [of L env adapter account instrument intent result err w])
     (use R_recover R_trans [OF R_recover R_persist] in simp_all)

lemma R_place: "R (tw_db w) (tw_db (snd (placeSubmittedOrder L env adapter account instrument intent tif post skip w)))"
proof -
  let ?req = "order_request instrument intent tif post"
  have s: "snd (case persistResult L env i e r w of (Inl e, w') \<Rightarrow> ((zero_Order, Some e), w') | (Inr updated, w') \<Rightarrow> ((updated, x), w')) =
    snd (persistResult L env i e r w)" for i e r w x by (auto split: prod.splits sum.splits)
  define w1 where "w1 = (if skip then w else log_event (ord_ID intent) ''submitted'' w)"
  define w2 where "w2 = w1\<lparr>tw_submitted := tw_submitted w1 @ [?req]\<rparr>"
  have w2: "R (tw_db w) (tw_db w2)" using R_refl R_event by (simp add: w2_def w1_def)
  have "R (tw_db w2) (tw_db (snd (placeSubmittedOrder L env adapter account instrument intent tif post skip w)))"
    by (cases "ad_PlaceOrder adapter (toVenueCredentials account) ?req"; cases "snd (ad_PlaceOrder adapter (toVenueCredentials account) ?req)")
       (simp_all add: placeSubmittedOrder_def Let_def s R_place_uncertain R_persist flip: w1_def w2_def)
  then show ?thesis by (rule R_trans [OF w2])
qed

end

end
