(* ===== verification/Order_Reconciler.thy ===== *)
theory Order_Reconciler
  imports Order_Tables
begin

text \<open>
  The reconciler of \<^verbatim>\<open>trader/reconciler.go\<close>: it leases orders whose state is open, asks the venue about each
  and stores what it learns, and applies the updates of private streams. Credentials, the instrument catalog,
  the health of a stream and the venue are arguments. One order is processed at one time, a function of the order.
\<close>

section \<open>Backing off\<close>

definition reconcile_delay :: "int \<Rightarrow> duration" where
  "reconcile_delay n = (let delay = Second * 2 ^ nat (min n 6) in if delay > Minute then Minute else delay)"

text \<open>\<open>order\<close> is the copy that was leased, not the row.\<close>

definition reconcile_fail :: "time \<Rightarrow> Order \<Rightarrow> trader_db \<Rightarrow> trader_db" where
  "reconcile_fail now order db =
     AppendEvent (ord_ID order) ''reconcile_failed''
       (MarkReconcileFailure now (ord_ID order) (now + reconcile_delay (ord_ReconcileFailures order + 1)) db)"

section \<open>One order\<close>

record reconcile_env =
  re_now :: "Order \<Rightarrow> time"
  re_ids :: "string list"
  re_GetInternal :: "string \<Rightarrow> int \<Rightarrow> trader_error + Credentials"
  re_Adapter :: "string \<Rightarrow> Adapter option"
  re_catalog :: "int \<Rightarrow> trader_error + Instrument"
  re_streams :: bool
  re_Healthy :: "int \<Rightarrow> string \<Rightarrow> string \<Rightarrow> bool"
  re_streamAudit :: duration
  re_cancelled :: "Order \<Rightarrow> bool"

definition stream_fresh :: "reconcile_env \<Rightarrow> Order \<Rightarrow> bool" where
  "stream_fresh env order \<longleftrightarrow>
     ord_ArbitrageExecutionID order \<noteq> [] \<and> re_streams env \<and> \<not> IsZero (ord_LastStreamEventAt order) \<and>
     time_Sub (re_now env order) (ord_LastStreamEventAt order) < re_streamAudit env \<and>
     re_Healthy env (ord_TradingAccountID order) (ord_Exchange order) (ord_ContractType order)"

text \<open>The fields of a result that the reconciler stores.\<close>

definition polled_result :: "Result \<Rightarrow> VenueResult" where
  "polled_result result = result\<lparr>vr_Raw := [], vr_LocalCommandAck := False\<rparr>"

definition recompute_changed :: "decimal_lib \<Rightarrow> time \<Rightarrow> Order \<Rightarrow> bool \<Rightarrow> trader_db \<Rightarrow> trader_error option \<times> trader_db" where
  "recompute_changed L now updated changed db =
     (if changed \<and> ord_ArbitrageExecutionID updated \<noteq> []
      then (case RecomputeArbitrageBasePositionsForExecution L now (ord_ArbitrageExecutionID updated) db of
              (Inl e, db') \<Rightarrow> (Some e, db') | (Inr c, db') \<Rightarrow> (None, db'))
      else (None, db))"

definition reconcile_error :: "decimal_lib \<Rightarrow> reconcile_env \<Rightarrow> Order \<Rightarrow> Result \<Rightarrow> trader_db \<Rightarrow> trader_db" where
  "reconcile_error L env order result db =
     (let now = re_now env order;
          db1 = (if hasVenueResult result then
                   (case db_UpdateResultWithFillDelta L now (re_ids env) (ord_ID order)
                           (polled_result (normalizeVenueResult L order (result\<lparr>vr_Status := ''unknown''\<rparr>))) db of
                      (Inr (updated, filledChanged), db') \<Rightarrow> snd (recompute_changed L now updated filledChanged db')
                    | (Inl e, db') \<Rightarrow> db')
                 else db)
      in reconcile_fail now order db1)"

definition reconcile_converted :: "decimal_lib \<Rightarrow> reconcile_env \<Rightarrow> Order \<Rightarrow> Order \<Rightarrow> trader_db \<Rightarrow> trader_db" where
  "reconcile_converted L env order updatedOrder db =
     (let now = re_now env order; db1 = AppendEvent (ord_ID order) ''reconcile'' db in
      if ord_ArbitrageExecutionID updatedOrder = [] then db1
      else (case recompute_changed L now updatedOrder
                   (parseDecimal L (ord_FilledQuantity order) \<noteq> parseDecimal L (ord_FilledQuantity updatedOrder)) db1 of
              (Some e, db2) \<Rightarrow> reconcile_fail now order db2
            | (None, db2) \<Rightarrow>
                snd (FinalizeConfirmedAbsentZeroFillExecution L now (ord_ArbitrageExecutionID updatedOrder) db2)))"

definition reconcile_absent :: "decimal_lib \<Rightarrow> reconcile_env \<Rightarrow> Order \<Rightarrow> trader_db \<Rightarrow> trader_db" where
  "reconcile_absent L env order db =
     (let now = re_now env order in
      if terminalStatus (ord_Status order) then
        (case db_UpdateResultWithFillDelta L now (re_ids env) (ord_ID order)
                (zero_VenueResult\<lparr>vr_VenueOrderID := ord_VenueOrderID order, vr_Status := ord_Status order,
                   vr_FilledQuantity := ord_FilledQuantity order, vr_AveragePrice := ord_AveragePrice order,
                   vr_ErrorCode := ord_ErrorCode order, vr_ErrorMessage := ord_ErrorMessage order\<rparr>) db of
           (Inl e, db') \<Rightarrow> reconcile_fail now order db' | (Inr r, db') \<Rightarrow> db')
      else if TrimSpace (ord_VenueOrderID order) \<noteq> [] then reconcile_fail now order db
      else (case ConfirmOrderAbsence L now (ord_ID order) (ord_UpdatedAt order)
                   (now + reconcile_delay (ord_AbsenceConfirmations order + 1)) db of
              (Inl e, db') \<Rightarrow> reconcile_fail now order db'
            | (Inr (updatedOrder, converted), db') \<Rightarrow>
                if converted then reconcile_converted L env order updatedOrder db'
                else if ord_AbsenceConfirmations updatedOrder = ord_AbsenceConfirmations order
                then db_DeferReconcile (ord_ID order) (now + 2 * Second) db'
                else AppendEvent (ord_ID order) ''reconcile_absent'' db'))"

definition reconcile_found :: "decimal_lib \<Rightarrow> reconcile_env \<Rightarrow> Order \<Rightarrow> Result \<Rightarrow> trader_db \<Rightarrow> trader_db" where
  "reconcile_found L env order result db =
     (let now = re_now env order in
      case db_UpdateResultWithFillDelta L now (re_ids env) (ord_ID order)
             (polled_result (normalizeVenueResult L order result)) db of
        (Inl e, db') \<Rightarrow> reconcile_fail now order db'
      | (Inr (updatedOrder, filledChanged), db') \<Rightarrow>
          (case recompute_changed L now updatedOrder filledChanged db' of
             (Some e, db2) \<Rightarrow> reconcile_fail now order db2
           | (None, db2) \<Rightarrow> AppendEvent (ord_ID order) ''reconcile'' db2))"

definition reconcile_order ::
  "decimal_lib \<Rightarrow> reconcile_env \<Rightarrow> Credentials \<Rightarrow> Adapter \<Rightarrow> Order \<Rightarrow> trader_db \<Rightarrow> trader_db" where
  "reconcile_order L env credentials adapter order db =
     (let now = re_now env order in
      if stream_fresh env order then db_DeferReconcile (ord_ID order) (now + re_streamAudit env) db
      else (case re_catalog env (ord_InstrumentID order) of
              Inl e \<Rightarrow> reconcile_fail now order db
            | Inr instrument \<Rightarrow>
                (case resolveVenueOrder adapter (toVenueCredentials credentials) (order_query instrument order) of
                   (resolution, Some err) \<Rightarrow> reconcile_error L env order (res_Result resolution) db
                 | (resolution, None) \<Rightarrow>
                     if res_ConfirmedAbsent resolution then reconcile_absent L env order db
                     else reconcile_found L env order (res_Result resolution) db)))"

section \<open>The orders of an account, and a run\<close>

fun reconcile_orders :: "decimal_lib \<Rightarrow> reconcile_env \<Rightarrow> Credentials \<Rightarrow> Adapter \<Rightarrow> Order list \<Rightarrow> trader_db \<Rightarrow> trader_db" where
  "reconcile_orders L env credentials adapter [] db = db"
| "reconcile_orders L env credentials adapter (order # orders) db =
     (if re_cancelled env order then db
      else reconcile_orders L env credentials adapter orders (reconcile_order L env credentials adapter order db))"

definition fail_all :: "reconcile_env \<Rightarrow> Order list \<Rightarrow> trader_db \<Rightarrow> trader_db" where
  "fail_all env orders db = fold (\<lambda>order. reconcile_fail (re_now env order) order) orders db"

definition reconcileAccount :: "decimal_lib \<Rightarrow> reconcile_env \<Rightarrow> Order list \<Rightarrow> trader_db \<Rightarrow> trader_db" where
  "reconcileAccount L env orders db =
     (case orders of
        [] \<Rightarrow> db
      | first # _ \<Rightarrow>
          (case re_GetInternal env (ord_OwnerUsername first) (ord_TradingAccountID first) of
             Inl e \<Rightarrow> fail_all env orders db
           | Inr credentials \<Rightarrow>
               (case re_Adapter env (cr_Exchange credentials) of
                  None \<Rightarrow> fail_all env orders db
                | Some adapter \<Rightarrow> reconcile_orders L env credentials adapter orders db)))"

text \<open>The groups of a batch, by owner and account. The goroutines of a batch work on different accounts and
  every statement is a transaction, so a run is the groups in some order, here \<open>schedule\<close>.\<close>

definition account_group :: "Order list \<Rightarrow> string \<times> int \<Rightarrow> Order list" where
  "account_group orders key = filter (\<lambda>order. (ord_OwnerUsername order, ord_TradingAccountID order) = key) orders"

definition reconcile_runOnce ::
  "decimal_lib \<Rightarrow> reconcile_env \<Rightarrow> time \<Rightarrow> (string \<Rightarrow> bool) \<Rightarrow> int \<Rightarrow> duration \<Rightarrow> (string \<times> int) list \<Rightarrow> trader_db \<Rightarrow> trader_db" where
  "reconcile_runOnce L env now locked batchSize timeout schedule db =
     (case LeaseDueOrders now locked batchSize (2 * timeout) db of
        (orders, db') \<Rightarrow> fold (\<lambda>key. reconcileAccount L env (account_group orders key)) schedule db')"

section \<open>Private streams\<close>

record stream_update =
  up_Type :: string
  up_Account :: string
  up_Venue :: string
  up_Product :: string
  up_ClientOrderID :: string
  up_VenueOrderID :: string
  up_Status :: string
  up_CumulativeFilled :: string
  up_AveragePrice :: string
  up_LastFilled :: string
  up_LastPrice :: string
  up_TradeID :: string
  up_ErrorCode :: string
  up_ErrorMessage :: string
  up_EventTime :: "time"
  up_Sequence :: int
  up_Error :: string
  up_FeeAmount :: string
  up_FeeCurrency :: string
  up_LiquidityRole :: string

definition stream_status :: "string \<Rightarrow> string" where
  "stream_status status = (if status = ''new'' then ''open'' else status)"

definition hyperliquidTerminalFillUnknown :: "string \<Rightarrow> string \<Rightarrow> string \<Rightarrow> string \<Rightarrow> bool" where
  "hyperliquidTerminalFillUnknown exchangeName updateType status cumulativeFilled =
     (if \<not> EqualFold exchangeName ''hyperliquid'' \<or> updateType \<noteq> ''order'' then False
      else terminalStatus (stream_status status) \<and> TrimSpace cumulativeFilled = [])"

definition streamFillSkipsVenueWatermark :: "string \<Rightarrow> string \<Rightarrow> string \<Rightarrow> bool" where
  "streamFillSkipsVenueWatermark exchangeName updateType cumulativeFilled =
     (if updateType \<noteq> ''trade'' then False
      else if EqualFold exchangeName ''hyperliquid'' then True
      else EqualFold exchangeName ''bitget'' \<and> TrimSpace cumulativeFilled = [])"

text \<open>A quantity of the venue in base units; an empty one stays empty.\<close>

definition stream_quantity :: "decimal_lib \<Rightarrow> Instrument \<Rightarrow> string \<Rightarrow> string go_result" where
  "stream_quantity L instrument quantity =
     (if quantity = [] then Inr [] else FromVenueQuantity L (toVenueInstrument instrument) quantity)"

definition to_StreamUpdate :: "decimal_lib \<Rightarrow> time \<Rightarrow> Order \<Rightarrow> stream_update \<Rightarrow> string \<Rightarrow> string \<Rightarrow> StreamUpdate" where
  "to_StreamUpdate L now order update cumulative last_filled =
     (let status = stream_status (up_Status update); fillQuantity = \<bar>parseDecimal L last_filled\<bar> in
      \<lparr>su_Result = zero_VenueResult\<lparr>vr_VenueOrderID := up_VenueOrderID update, vr_Status := status,
         vr_FilledQuantity := cumulative, vr_AveragePrice := up_AveragePrice update,
         vr_ErrorCode := up_ErrorCode update, vr_ErrorMessage := up_ErrorMessage update,
         vr_Reference := zero_VenueReference\<lparr>ref_ClientOrderID := up_ClientOrderID update,
           ref_VenueOrderID := up_VenueOrderID update, ref_EventAt := up_EventTime update, ref_ReconcileStatus := status\<rparr>\<rparr>,
       su_EventAt = up_EventTime update, su_ReceivedAt = now,
       su_Fills = (if up_TradeID update \<noteq> [] \<and> 0 < fillQuantity
                   then [zero_OrderFill\<lparr>fill_TradeID := up_TradeID update, fill_Quantity := StringOf L fillQuantity,
                           fill_Price := (if up_LastPrice update = [] then up_AveragePrice update else up_LastPrice update),
                           fill_ExecutedAt := up_EventTime update, fill_FeeAmount := up_FeeAmount update,
                           fill_FeeCurrency := up_FeeCurrency update, fill_LiquidityRole := up_LiquidityRole update\<rparr>]
                   else []),
       su_SkipVenueWatermark = streamFillSkipsVenueWatermark (ord_Exchange order) (up_Type update) cumulative\<rparr>)"

definition applyPrivateStreamUpdate ::
  "decimal_lib \<Rightarrow> time \<Rightarrow> string list \<Rightarrow> Instrument \<Rightarrow> Order \<Rightarrow> stream_update \<Rightarrow> trader_db \<Rightarrow> Order go_result \<times> trader_db" where
  "applyPrivateStreamUpdate L now ids instrument order update db =
     (case stream_quantity L instrument (up_CumulativeFilled update) of
        Inl e \<Rightarrow> (Inl e, db)
      | Inr cumulative \<Rightarrow>
     (case stream_quantity L instrument (up_LastFilled update) of
        Inl e \<Rightarrow> (Inl e, db)
      | Inr last_filled \<Rightarrow>
          if hyperliquidTerminalFillUnknown (ord_Exchange order) (up_Type update) (up_Status update) cumulative
          then (Inl errHyperliquidFillUnknown, db)
          else db_ApplyStreamUpdate L now ids (ord_ID order)
                 (to_StreamUpdate L now order update cumulative last_filled) db))"

text \<open>A watch consumes its updates, each at its time, until the order is terminal or the stream ends.\<close>

fun consumeOrderStream ::
  "decimal_lib \<Rightarrow> string list \<Rightarrow> Instrument \<Rightarrow> Order \<Rightarrow> (time \<times> stream_update) list \<Rightarrow> trader_db \<Rightarrow> trader_db" where
  "consumeOrderStream L ids instrument order [] db = db"
| "consumeOrderStream L ids instrument order ((now, update) # updates) db =
     (if up_Type update = ''connection'' then consumeOrderStream L ids instrument order updates db
      else (case applyPrivateStreamUpdate L now ids instrument order update db of
              (Inl e, db') \<Rightarrow> consumeOrderStream L ids instrument order updates db'
            | (Inr updated, db') \<Rightarrow>
                let db2 = AppendEvent (ord_ID order) ''venue_stream'' db' in
                if terminalStatus (ord_Status updated) then db2
                else consumeOrderStream L ids instrument order updates db2))"

text \<open>Whether an order gets a watch: the orders that already have one are \<open>watches\<close>.\<close>

definition ensureOrderStreamWatch ::
  "reconcile_env \<Rightarrow> Adapter \<Rightarrow> Credentials \<Rightarrow> Order \<Rightarrow> bool \<Rightarrow> string list \<Rightarrow> bool \<times> string list" where
  "ensureOrderStreamWatch env adapter credentials order subscribed watches =
     (if \<not> re_streams env \<or> terminalStatus (ord_Status order) then (False, watches)
      else case ad_Capabilities adapter of
             None \<Rightarrow> (False, watches)
           | Some provider \<Rightarrow>
               (case provider (toVenueCredentials credentials) of
                  (capabilities, Some e) \<Rightarrow> (False, watches)
                | (capabilities, None) \<Rightarrow>
                    if \<not> cap_PrivateOrderStream capabilities \<or> ord_ID order \<in> set watches then (False, watches)
                    else if subscribed then (True, ord_ID order # watches)
                    else (False, watches)))"

definition releaseWatch :: "string \<Rightarrow> string list \<Rightarrow> string list" where
  "releaseWatch orderID watches = removeAll orderID watches"

section \<open>What the reconciler respects\<close>

lemma recompute_changed_snd:
  "snd (recompute_changed L now updated changed db) =
     (if changed \<and> ord_ArbitrageExecutionID updated \<noteq> []
      then snd (RecomputeArbitrageBasePositionsForExecution L now (ord_ArbitrageExecutionID updated) db) else db)"
  by (auto simp: recompute_changed_def split: prod.splits sum.splits)

context store_relation
begin

lemma R_fail: "R db (reconcile_fail now order db)"
  unfolding reconcile_fail_def by (rule R_trans [OF R_failure R_event])

lemma R_recompute_changed: "R db (snd (recompute_changed L now updated changed db))"
  using R_recompute R_refl by (simp add: recompute_changed_snd)

lemma polled_no_ack [simp]: "\<not> vr_LocalCommandAck (polled_result r)"
  by (simp add: polled_result_def)

lemma R_update_then:
  assumes "\<not> vr_LocalCommandAck result" "\<And>e db'. R db' (f e db')" "\<And>updated changed db'. R db' (g updated changed db')"
  shows "R db (case db_UpdateResultWithFillDelta L now ids orderID result db of
                 (Inl e, db') \<Rightarrow> f e db' | (Inr (updated, changed), db') \<Rightarrow> g updated changed db')"
  using R_update [OF assms(1), of db now ids orderID] assms(2,3)
  by (auto split: prod.splits sum.splits intro: R_trans)

lemma R_error: "R db (reconcile_error L env order result db)"
proof -
  have "R db (case db_UpdateResultWithFillDelta L now ids orderID (polled_result r) db of
      (Inr (updated, filledChanged), db') \<Rightarrow> snd (recompute_changed L now updated filledChanged db') | (Inl e, db') \<Rightarrow> db')"
    for now ids orderID r
    using R_update_then [of "polled_result r" "\<lambda>e db. db" "\<lambda>u c db. snd (recompute_changed L now u c db)" db now ids orderID]
      R_refl R_recompute_changed by simp
  then show ?thesis unfolding reconcile_error_def Let_def by (cases "hasVenueResult result") (auto intro: R_trans [OF _ R_fail] R_fail)
qed

lemma R_converted: "R db (reconcile_converted L env order updatedOrder db)"
proof -
  have "R db (case recompute_changed L now updatedOrder changed db1 of (Some e, db2) \<Rightarrow> reconcile_fail now order db2
      | (None, db2) \<Rightarrow> snd (FinalizeConfirmedAbsentZeroFillExecution L now i db2))" if "R db db1" for now changed db1 i
    using that R_recompute_changed [of db1 now updatedOrder changed] R_fail R_finalize
    by (auto split: prod.splits option.splits intro: R_trans)
  then show ?thesis using R_event by (simp add: reconcile_converted_def Let_def)
qed

lemma R_absent: "R db (reconcile_absent L env order db)"
proof -
  let ?now = "re_now env order"
  have a: "R db (case db_UpdateResultWithFillDelta L ?now (re_ids env) (ord_ID order) r db of
      (Inl e, db') \<Rightarrow> reconcile_fail ?now order db' | (Inr x, db') \<Rightarrow> db')" if "\<not> vr_LocalCommandAck r" for r
    using R_update [OF that, of db ?now "re_ids env" "ord_ID order"] R_fail
    by (auto split: prod.splits sum.splits intro: R_trans)
  have b: "R db (case ConfirmOrderAbsence L ?now (ord_ID order) u n db of
      (Inl e, db') \<Rightarrow> reconcile_fail ?now order db'
    | (Inr (updatedOrder, converted), db') \<Rightarrow>
        if converted then reconcile_converted L env order updatedOrder db'
        else if ord_AbsenceConfirmations updatedOrder = ord_AbsenceConfirmations order
        then db_DeferReconcile (ord_ID order) (?now + 2 * Second) db'
        else AppendEvent (ord_ID order) ''reconcile_absent'' db')" for u n
    using R_absence [of db ?now "ord_ID order" u n] R_fail R_converted R_defer R_event
    by (auto split: prod.splits sum.splits intro: R_trans)
  show ?thesis unfolding reconcile_absent_def Let_def using a b R_fail by (simp add: zero_VenueResult_def)
qed

lemma R_found: "R db (reconcile_found L env order result db)"
proof -
  let ?now = "re_now env order"
  have "R db (case recompute_changed L ?now u c db of (Some e, db2) \<Rightarrow> reconcile_fail ?now order db2
      | (None, db2) \<Rightarrow> AppendEvent (ord_ID order) ''reconcile'' db2)" for u c db
    using R_recompute_changed [of db ?now u c] R_fail R_event by (auto split: prod.splits option.splits intro: R_trans)
  then show ?thesis unfolding reconcile_found_def Let_def by (intro R_update_then) (simp_all add: R_fail)
qed

lemma R_reconcile_order: "R db (reconcile_order L env credentials adapter order db)"
  unfolding reconcile_order_def Let_def using R_defer R_fail R_error R_absent R_found
  by (auto split: sum.splits prod.splits option.splits)

lemma R_reconcile_orders: "R db (reconcile_orders L env credentials adapter orders db)"
  by (induction orders arbitrary: db) (auto intro: R_refl R_trans [OF R_reconcile_order])

lemma R_fold: "(\<And>x db. R db (f x db)) \<Longrightarrow> R db (fold f xs db)"
  by (induction xs arbitrary: db) (auto intro: R_refl R_trans)

lemma R_fail_all: "R db (fail_all env orders db)"
  unfolding fail_all_def by (rule R_fold) (rule R_fail)

lemma R_reconcileAccount: "R db (reconcileAccount L env orders db)"
  unfolding reconcileAccount_def using R_refl R_fail_all R_reconcile_orders
  by (auto split: list.splits sum.splits option.splits)

lemma R_runOnce: "R db (reconcile_runOnce L env now locked batchSize timeout schedule db)"
proof -
  have "R db0 (fold (\<lambda>key. reconcileAccount L env (account_group orders key)) schedule db0)" for orders db0
    by (rule R_fold) (rule R_reconcileAccount)
  then show ?thesis
    using R_lease [of db now locked batchSize "2 * timeout"] by (auto simp: reconcile_runOnce_def split: prod.splits intro: R_trans)
qed

lemma R_private_stream: "R db (snd (applyPrivateStreamUpdate L now ids instrument order update db))"
  unfolding applyPrivateStreamUpdate_def
  using R_refl R_stream [of "to_StreamUpdate L now order update c l" db now ids "ord_ID order" for c l]
  by (auto simp: to_StreamUpdate_def Let_def zero_VenueResult_def split: sum.splits)

lemma R_consume: "R db (consumeOrderStream L ids instrument order updates db)"
proof (induction updates arbitrary: db)
  case (Cons p updates)
  obtain now update where p: "p = (now, update)" by (cases p)
  obtain outcome db' where a: "applyPrivateStreamUpdate L now ids instrument order update db = (outcome, db')" by (rule prod.exhaust)
  then have "R db db'" using R_private_stream [of db now ids instrument order update] by simp
  moreover have "R db' (AppendEvent (ord_ID order) ''venue_stream'' db')" by (rule R_event)
  ultimately show ?case using Cons a
    by (cases outcome) (auto simp: p Let_def intro: R_trans)
qed (simp add: R_refl)

end

section \<open>Positions stay in line with fills\<close>

definition rows_sound :: "decimal_lib \<Rightarrow> trader_db \<Rightarrow> bool" where
  "rows_sound L db \<longleftrightarrow> (\<forall>orderID order. os_orders (db_store db) orderID = Some order \<longrightarrow> (\<exists>q. order_sound L q order))"

text \<open>A copy that was read earlier reports no more than the row.\<close>

definition copy_of_row :: "decimal_lib \<Rightarrow> trader_db \<Rightarrow> Order \<Rightarrow> bool" where
  "copy_of_row L db order \<longleftrightarrow>
     (\<exists>row f. os_orders (db_store db) (ord_ID order) = Some row \<and> NewFromString L (ord_FilledQuantity row) = Some f \<and>
        parseDecimal L (ord_FilledQuantity order) \<le> f)"

text \<open>The tables are in line, also for the copies that are still to be processed.\<close>

definition in_line :: "decimal_lib \<Rightarrow> Order list \<Rightarrow> trader_db \<Rightarrow> bool" where
  "in_line L orders db \<longleftrightarrow> consistent L db \<and> rows_sound L db \<and> (\<forall>order \<in> set orders. copy_of_row L db order)"

lemma rows_sound_forward:
  assumes "rows_sound L db" "orders_forward L db db'" "keeps_rows db db'" shows "rows_sound L db'"
  unfolding rows_sound_def
proof (intro allI impI)
  fix orderID order assume o: "os_orders (db_store db') orderID = Some order"
  obtain order0 where o0: "os_orders (db_store db) orderID = Some order0"
    using assms(3) o by (cases "os_orders (db_store db) orderID") (auto simp: keeps_rows_def dest: spec [of _ orderID])
  then obtain q where q: "order_sound L q order0" using assms(1) by (auto simp: rows_sound_def)
  then have "moved_forward L q order0 order" using assms(2) o0 o unfolding orders_forward_def by fastforce
  then show "\<exists>q. order_sound L q order" using moved_forward_sound [OF q] by blast
qed

lemma copy_of_row_forward:
  assumes "copy_of_row L db order" "rows_sound L db" "orders_forward L db db'" shows "copy_of_row L db' order"
proof -
  obtain row f where r: "os_orders (db_store db) (ord_ID order) = Some row" "NewFromString L (ord_FilledQuantity row) = Some f"
    "parseDecimal L (ord_FilledQuantity order) \<le> f" using assms(1) by (auto simp: copy_of_row_def)
  obtain q where q: "order_sound L q row" using assms(2) r(1) by (auto simp: rows_sound_def)
  obtain row' where "os_orders (db_store db') (ord_ID order) = Some row'" "moved_forward L q row row'"
    using assms(3) r(1) q unfolding orders_forward_def by blast
  then show ?thesis using r(2,3) by (auto simp: copy_of_row_def moved_forward_def)
qed

context decimal_library
begin

lemma no_execution:
  assumes "tables_ok db" shows "\<not> list_ex (\<lambda>e. ae_ID e = [] \<and> ae_CombinationID e = k) (db_executions db)"
proof -
  have "TrimSpace [] = []" by (simp add: TrimSpace_def)
  then show ?thesis using assms by (auto simp: tables_ok_def list_ex_iff)
qed

lemma one_combination:
  assumes "tables_ok db" "execution_combination i db = Some c" "k \<noteq> ac_ID c"
  shows "\<not> list_ex (\<lambda>e. ae_ID e = i \<and> ae_CombinationID e = k) (db_executions db)"
proof -
  obtain e where e: "find_execution i db = Some e" "find_combination (ae_CombinationID e) db = Some c"
    using assms(2) by (auto simp: execution_combination_def split: option.splits)
  then have e': "e \<in> set (db_executions db)" "ae_ID e = i" "ae_CombinationID e = ac_ID c"
    using find_combination_Some [OF e(2)] find_execution_Some [OF e(1)] by auto
  have "inj_on ae_ID (set (db_executions db))" using assms(1) by (simp add: tables_ok_def distinct_map)
  then show ?thesis using e' assms(3) unfolding list_ex_iff inj_on_def by metis
qed

text \<open>A report, with the recomputation when it says that the filled amount changed.\<close>

lemma consistent_report:
  assumes "db_UpdateResultWithFillDelta L now ids orderID result db = (Inr (updated, changed), db')" "consistent L db"
  shows "consistent L (snd (recompute_changed L now' updated changed db'))"
  using assms
proof (cases rule: update_changes)
  case 1
  then show ?thesis by simp
next
  case (2 order updated' changed')
  have u: "updated' = updated" "changed' = changed" using 2(1) by simp_all
  note r = 2(2)[unfolded u] and ident = 2(3)[unfolded u]
  have exec: "ord_ArbitrageExecutionID updated = ord_ArbitrageExecutionID order" using ident by (simp add: row_identity_def)
  have se: "same_executions db db'" using 2(6) by (simp add: same_executions_def)
  show ?thesis
  proof (cases changed)
    case False
    then have "consistent L db'" using consistent_rewrite [OF assms(2) r] 2(4-7) u se by simp
    then show ?thesis using False by (simp add: recompute_changed_def)
  next
    case True
    have t: "tables_ok db" "positions_ok L db" using assms(2) by (simp_all add: consistent_def)
    have t': "tables_ok db'"
      by (rule tables_ok_kept [OF t(1) se])
         (use r ident 2(4,7) u rewrite_trimmed [OF r consistent_trimmed [OF assms(2)]] in \<open>simp_all add: rewrites_row_def\<close>)
    have keep: "leg_position L k leg db' = leg_position L k leg db"
      if "\<not> list_ex (\<lambda>e. ae_ID e = ord_ArbitrageExecutionID order \<and> ae_CombinationID e = k) (db_executions db)" for k leg
      by (rule other_combination [OF r ident 2(6) that])
    show ?thesis
    proof (cases "ord_ArbitrageExecutionID order = []")
      case none: True
      then have "positions_ok L db'"
        using t(2) keep no_execution [OF t(1)] by (simp add: positions_ok_def 2(7))
      then show ?thesis using t' none exec by (simp add: recompute_changed_def consistent_def)
    next
      case False
      then have "execution_combination (ord_ArbitrageExecutionID order) db' \<noteq> None"
        using t' r exec unfolding tables_ok_def rewrites_row_def by (metis fun_upd_same)
      then obtain c where c: "execution_combination (ord_ArbitrageExecutionID order) db' = Some c" by blast
      then obtain e where "find_execution (ord_ArbitrageExecutionID order) db' = Some e"
        by (auto simp: execution_combination_def split: option.splits)
      then have blank: "TrimSpace (ord_ArbitrageExecutionID order) \<noteq> []"
        using find_execution_Some t' unfolding tables_ok_def by metis
      have "consistent L (snd (RecomputeArbitrageBasePositionsForExecution L now' (ord_ArbitrageExecutionID order) db'))"
        using t(2) keep one_combination [OF t' c, unfolded 2(6)]
        by (intro consistent_recompute [OF t' blank c]) (simp add: positions_ok_def 2(7))
      then show ?thesis using True False by (simp add: recompute_changed_snd exec)
    qed
  qed
qed

lemma consistent_no_report:
  assumes "db_UpdateResultWithFillDelta L now ids orderID result db = (Inl e, db')" "consistent L db"
  shows "consistent L db'"
  using assms
proof (cases rule: update_changes)
  case 1
  then show ?thesis by (intro consistent_bookkeeping [OF assms(2) 1(2)]) (simp_all add: same_executions_def)
qed simp

lemma consistent_fail: "consistent L db \<Longrightarrow> consistent L (reconcile_fail now order db)"
  by (simp add: reconcile_fail_def consistent_event consistent_failure)

text \<open>Storing again what a copy of the row says changes no amount.\<close>

lemma merge_known:
  assumes "mergeOrderUpdate L current result eventAt [] False = Inr merged" "\<not> vr_LocalCommandAck result"
    and "order_sound L q current" "NewFromString L (ord_FilledQuantity current) = Some f"
    and "parseDecimal L (vr_FilledQuantity result) \<le> f"
  shows "parseDecimal L (ord_FilledQuantity merged) = f"
  using assms(1)
proof (cases rule: mergeOrderUpdate_cases)
  case report
  from report(3) obtain q' av f0 a0 where r:
    "NewFromString L (ord_Quantity current) = Some q'"
    "merge_amounts L result [] (event_fresh (ord_LastVenueEventAt current) eventAt) f av = Inr (f0, a0)"
    and m: "ord_FilledQuantity merged = StringOf L (cap_filled q' f0)"
    by (rule merge_report_cases) (use assms(4) in \<open>simp add: Let_def\<close>)
  have q: "q' = q" "f \<le> q" "0 < q" using assms(3,4) r(1) by (auto simp: order_sound_def)
  have "f0 = f"
  proof (cases "TrimSpace (vr_FilledQuantity result) = []")
    case True
    then show ?thesis using r(2) by (simp add: merge_amounts_def)
  next
    case False
    then obtain c where "NewFromString L (TrimSpace (vr_FilledQuantity result)) = Some c" "f0 = max f c"
      using merge_amounts_grow [OF r(2)] parse_decimal [OF assms(4)] by (auto simp: fills_positive_def)
    then show ?thesis using assms(5) by (simp add: parseDecimal_def)
  qed
  then have "cap_filled q' f0 = f" using q by (simp add: cap_filled_def)
  then show ?thesis using parse_decimal [OF assms(4)] by (simp add: m)
qed (use assms(2) in simp_all)

lemma update_known:
  assumes "db_UpdateResultWithFillDelta L now ids (ord_ID order) result db = (Inr (updated, changed), db')"
    and "\<not> vr_LocalCommandAck result" "consistent L db" "rows_sound L db" "copy_of_row L db order"
    and "vr_FilledQuantity result = ord_FilledQuantity order"
  shows "\<not> changed"
proof -
  obtain row f where r: "os_orders (db_store db) (ord_ID order) = Some row" "NewFromString L (ord_FilledQuantity row) = Some f"
    "parseDecimal L (ord_FilledQuantity order) \<le> f" using assms(5) by (auto simp: copy_of_row_def)
  obtain q where q: "order_sound L q row" using assms(4) r(1) by (auto simp: rows_sound_def)
  obtain eventAt where "db_UpdateResultWithFillDelta L now ids (ord_ID order) result =
    on_store (applyOrderUpdate L now ids (ord_ID order) result eventAt zero_time False [] False)" by (rule update_is_apply)
  then have a: "applyOrderUpdate L now ids (ord_ID order) result eventAt zero_time False [] False (db_store db) =
    (Inr (updated, changed), db_store db')" using assms(1) by (auto simp: on_store_def split: prod.splits)
  from a show ?thesis
  proof (cases rule: applyOrderUpdate_cases)
    case (1 current inserted stored merged0 average handle t t')
    have c: "current = row" "inserted = []" using 1(1,3) r(1) by simp_all
    have "parseDecimal L (ord_FilledQuantity merged0) = f"
      by (rule merge_known [OF _ assms(2) q r(2)]) (use 1(4) c assms(6) r(3) in simp_all)
    moreover have "parseDecimal L (ord_FilledQuantity row) = f"
      using r(2) stored_trimmed [OF assms(3) r(1)] by (simp add: parseDecimal_def)
    ultimately show ?thesis using 1(7) c by simp
  qed
qed

lemma consistent_recompute_changed:
  assumes "consistent L db" shows "consistent L (snd (recompute_changed L now updated changed db))"
proof (cases "changed \<and> ord_ArbitrageExecutionID updated \<noteq> [] \<and> TrimSpace (ord_ArbitrageExecutionID updated) \<noteq> []")
  case True
  show ?thesis
  proof (cases "execution_combination (ord_ArbitrageExecutionID updated) db")
    case (Some c)
    have "consistent L (snd (RecomputeArbitrageBasePositionsForExecution L now (ord_ArbitrageExecutionID updated) db))"
      using assms True by (intro consistent_recompute [OF _ _ Some]) (auto simp: consistent_def positions_ok_def)
    then show ?thesis using True by (simp add: recompute_changed_snd)
  qed (use True assms in \<open>simp add: recompute_changed_snd RecomputeArbitrageBasePositionsForExecution_def\<close>)
qed (use assms in \<open>auto simp: recompute_changed_snd RecomputeArbitrageBasePositionsForExecution_def\<close>)

lemma consistent_error: "consistent L db \<Longrightarrow> consistent L (reconcile_error L env order result db)"
  unfolding reconcile_error_def Let_def
  by (rule consistent_fail) (auto split: prod.splits sum.splits intro: consistent_report consistent_no_report)

lemma consistent_after_recompute:
  assumes "consistent L (snd (recompute_changed L now updated changed db))"
    and "\<And>e db'. consistent L db' \<Longrightarrow> consistent L (f e db')" "\<And>db'. consistent L db' \<Longrightarrow> consistent L (g db')"
  shows "consistent L (case recompute_changed L now updated changed db of (Some e, db') \<Rightarrow> f e db' | (None, db') \<Rightarrow> g db')"
  using assms by (cases "recompute_changed L now updated changed db"; cases "fst (recompute_changed L now updated changed db)") simp_all

lemma consistent_found:
  assumes "consistent L db" shows "consistent L (reconcile_found L env order result db)"
proof -
  let ?now = "re_now env order"
  obtain outcome db' where u: "db_UpdateResultWithFillDelta L ?now (re_ids env) (ord_ID order)
    (polled_result (normalizeVenueResult L order result)) db = (outcome, db')" by (rule prod.exhaust)
  show ?thesis
  proof (cases outcome)
    case (Inl e)
    then show ?thesis using u consistent_no_report [OF u [unfolded Inl] assms] by (simp add: reconcile_found_def consistent_fail)
  next
    case (Inr oc)
    then obtain updated changed where oc: "outcome = Inr (updated, changed)" by (cases oc) auto
    show ?thesis unfolding reconcile_found_def Let_def u oc prod.case sum.case
      by (rule consistent_after_recompute [OF consistent_report [OF u [unfolded oc] assms]]) (rule consistent_fail consistent_event; assumption)+
  qed
qed

lemma consistent_converted:
  assumes "consistent L db" shows "consistent L (reconcile_converted L env order updatedOrder db)"
  using consistent_event [OF assms]
  by (simp add: reconcile_converted_def Let_def consistent_after_recompute consistent_recompute_changed consistent_fail consistent_finalize)

lemma consistent_absent:
  assumes c: "consistent L db" and s: "rows_sound L db" "copy_of_row L db order"
  shows "consistent L (reconcile_absent L env order db)"
proof -
  let ?now = "re_now env order"
  let ?r = "zero_VenueResult\<lparr>vr_VenueOrderID := ord_VenueOrderID order, vr_Status := ord_Status order,
     vr_FilledQuantity := ord_FilledQuantity order, vr_AveragePrice := ord_AveragePrice order,
     vr_ErrorCode := ord_ErrorCode order, vr_ErrorMessage := ord_ErrorMessage order\<rparr>"
  have known: "consistent L (case db_UpdateResultWithFillDelta L ?now (re_ids env) (ord_ID order) ?r db of
      (Inl e, db') \<Rightarrow> reconcile_fail ?now order db' | (Inr r, db') \<Rightarrow> db')"
  proof -
    obtain outcome db' where u: "db_UpdateResultWithFillDelta L ?now (re_ids env) (ord_ID order) ?r db = (outcome, db')"
      by (rule prod.exhaust)
    show ?thesis
    proof (cases outcome)
      case (Inl e)
      then show ?thesis using u consistent_no_report [OF u [unfolded Inl] c] by (simp add: consistent_fail)
    next
      case (Inr oc)
      then obtain updated changed where oc: "outcome = Inr (updated, changed)" by (cases oc) auto
      have "\<not> changed" by (rule update_known [OF u [unfolded oc] _ c s]) (simp_all add: zero_VenueResult_def)
      then have "consistent L db'" using consistent_report [OF u [unfolded oc] c] by (simp add: recompute_changed_snd)
      then show ?thesis using u oc by simp
    qed
  qed
  have absent: "consistent L (case ConfirmOrderAbsence L ?now (ord_ID order) (ord_UpdatedAt order) n db of
      (Inl e, db') \<Rightarrow> reconcile_fail ?now order db'
    | (Inr (updatedOrder, converted), db') \<Rightarrow>
        if converted then reconcile_converted L env order updatedOrder db'
        else if ord_AbsenceConfirmations updatedOrder = ord_AbsenceConfirmations order
        then db_DeferReconcile (ord_ID order) (?now + 2 * Second) db'
        else AppendEvent (ord_ID order) ''reconcile_absent'' db')" for n
    using consistent_absence [OF c, of ?now "ord_ID order" "ord_UpdatedAt order" n]
    by (auto split: prod.splits sum.splits intro: consistent_fail consistent_converted consistent_defer consistent_event)
  show ?thesis unfolding reconcile_absent_def Let_def using known absent consistent_fail [OF c] by simp
qed

lemma consistent_order:
  assumes "consistent L db" "rows_sound L db" "copy_of_row L db order"
  shows "consistent L (reconcile_order L env credentials adapter order db)"
  unfolding reconcile_order_def Let_def
  using consistent_defer consistent_fail consistent_error consistent_found consistent_absent assms
  by (auto split: sum.splits prod.splits option.splits)

lemma in_line_kept:
  assumes "in_line L orders db" "orders_forward L db db'" "keeps_rows db db'" "consistent L db'" "set orders' \<subseteq> set orders"
  shows "in_line L orders' db'"
  using assms rows_sound_forward [of L db db'] copy_of_row_forward [of L db _ db'] by (auto simp: in_line_def)

lemma in_line_order:
  assumes "in_line L orders db" "order \<in> set orders"
  shows "in_line L orders (reconcile_order L env credentials adapter order db)"
  by (rule in_line_kept [OF assms(1) orders.R_reconcile_order rows_kept.R_reconcile_order])
     (use assms consistent_order in \<open>auto simp: in_line_def\<close>)

lemma in_line_fail:
  assumes "in_line L orders db" shows "in_line L orders (reconcile_fail now order db)"
  by (rule in_line_kept [OF assms orders.R_fail rows_kept.R_fail]) (use assms consistent_fail in \<open>auto simp: in_line_def\<close>)

lemma in_line_account:
  assumes "in_line L orders db" "set batch \<subseteq> set orders"
  shows "in_line L orders (reconcileAccount L env batch db)"
proof -
  have a: "in_line L orders (reconcile_orders L env credentials adapter batch' db)"
    if "set batch' \<subseteq> set orders" "in_line L orders db" for credentials adapter batch' db
    using that by (induction batch' arbitrary: db) (auto intro: in_line_order)
  have b: "in_line L orders (fail_all env batch' db)" if "in_line L orders db" for batch' db
    using that unfolding fail_all_def by (induction batch' arbitrary: db) (auto intro: in_line_fail)
  show ?thesis using a [OF assms(2,1)] b [OF assms(1)] assms(1)
    by (auto simp: reconcileAccount_def split: list.splits sum.splits option.splits)
qed

lemma leased_rows:
  assumes "LeaseDueOrders now locked limit lease db = (orders, db')" "order \<in> set orders"
  obtains orderID where "os_orders (db_store db) orderID = Some order"
proof -
  have "order \<in> set (order_rows db)"
    using assms by (auto simp: LeaseDueOrders_def Let_def dest!: in_set_takeD)
  then show ?thesis using that by (auto simp: order_rows_def List.map_filter_def)
qed

lemma in_line_lease:
  assumes "LeaseDueOrders now locked limit lease db = (orders, db')" "consistent L db" "rows_sound L db"
  shows "in_line L orders db'"
proof -
  have same: "same_orders db db'" "db_executions db' = db_executions db" "db_combinations db' = db_combinations db"
    using assms(1) same_orders_lease [of db now locked limit lease] by (auto simp: LeaseDueOrders_def Let_def)
  have "copy_of_row L db order" if o: "order \<in> set orders" for order
  proof -
    obtain orderID where "os_orders (db_store db) orderID = Some order" by (rule leased_rows [OF assms(1) o])
    moreover from this have "ord_ID order = orderID" "TrimSpace (ord_FilledQuantity order) = ord_FilledQuantity order"
      using assms(2) stored_trimmed by (auto simp: consistent_def tables_ok_def)
    moreover obtain q where "order_sound L q order" using calculation(1) assms(3) by (auto simp: rows_sound_def)
    ultimately show ?thesis by (auto simp: copy_of_row_def order_sound_def parseDecimal_def)
  qed
  then have "in_line L orders db" using assms by (simp add: in_line_def)
  then show ?thesis
    by (rule in_line_kept [OF _ orders_forward_same keeps_rows_same])
       (use same assms(2) consistent_bookkeeping [OF assms(2) same(1)] in \<open>simp_all add: same_executions_def\<close>)
qed

lemma in_line_run:
  assumes "consistent L db" "rows_sound L db"
  shows "consistent L (reconcile_runOnce L env now locked batchSize timeout schedule db) \<and>
         rows_sound L (reconcile_runOnce L env now locked batchSize timeout schedule db)"
proof -
  obtain orders db' where l: "LeaseDueOrders now locked batchSize (2 * timeout) db = (orders, db')" by (rule prod.exhaust)
  have "in_line L orders (fold (\<lambda>key. reconcileAccount L env (account_group orders key)) schedule db0)" if "in_line L orders db0" for db0
    using that
  proof (induction schedule arbitrary: db0)
    case (Cons key schedule)
    have "set (account_group orders key) \<subseteq> set orders" by (auto simp: account_group_def)
    then show ?case using Cons.IH in_line_account [OF Cons.prems] by simp
  qed simp
  then show ?thesis using in_line_lease [OF l assms] l by (simp add: reconcile_runOnce_def in_line_def)
qed

end


definition sample_leg_order :: Order where
  "sample_leg_order =
     sample_stored_order\<lparr>ord_OwnerUsername := ''u'', ord_Side := ''buy'', ord_FilledQuantity := ''0.5'',
       ord_ArbitrageExecutionID := ''e1'', ord_ArbitrageLeg := ''a'', ord_ArbitrageRole := ''maker''\<rparr>"

definition sample_db :: trader_db where
  "sample_db =
     \<lparr>db_store = \<lparr>os_orders = [''o1'' \<mapsto> sample_leg_order], os_fills = [], os_refs = Map.empty,
        os_next = (\<lambda>_. Some 0), os_lease = (\<lambda>_. None), os_tracker = newOrderFillAverageTracker\<rparr>,
      db_ids = [''o1''], db_executions = [zero_ArbitrageExecution\<lparr>ae_ID := ''e1'', ae_CombinationID := ''c1''\<rparr>],
      db_combinations = [zero_ArbitrageCombination\<lparr>ac_ID := ''c1'', ac_LegABasePosition := ''0.5'', ac_LegBBasePosition := ''0'',
        ac_LegAReconciliationAdjustment := ''0'', ac_LegBReconciliationAdjustment := ''0''\<rparr>],
      db_events = [], db_arbitrage_events = []\<rparr>"

definition sample_adapter :: "Result \<Rightarrow> Adapter" where
  "sample_adapter result =
     \<lparr>ad_GetBBO = (\<lambda>_. (\<lparr>vb_BidPrice = ''9'', vb_AskPrice = ''10'', vb_Timestamp = 0\<rparr>, None)),
      ad_PlaceOrder = (\<lambda>_ _. (result, None)), ad_GetOrder = (\<lambda>_ _. (result, None)),
      ad_CancelOrder = (\<lambda>_ _. (result, None)), ad_CancelAndGetOrder = (\<lambda>_ _. (result, None)),
      ad_ResolveOrder = None, ad_Capabilities = None, ad_VenueClientOrderID = None\<rparr>"

definition sample_env :: reconcile_env where
  "sample_env =
     \<lparr>re_now = (\<lambda>_. Hour), re_ids = [],
      re_GetInternal = (\<lambda>owner account. Inr \<lparr>cr_TradingAccountID = account, cr_ProductName = [], cr_Exchange = ''binance'',
         cr_AccountName = [], cr_APIKey = [], cr_APISecret = [], cr_Passphrase = [], cr_CredentialKind = [],
         cr_SigningAddress = [], cr_VaultAddress = [], cr_AccountIndex = None, cr_APIKeyIndex = None\<rparr>),
      re_Adapter = (\<lambda>_. Some (sample_adapter (zero_VenueResult\<lparr>vr_Status := ''open'', vr_FilledQuantity := ''1.5'',
         vr_AveragePrice := ''9''\<rparr>))),
      re_catalog = (\<lambda>_. Inr zero_Instrument), re_streams = False, re_Healthy = (\<lambda>_ _ _. False),
      re_streamAudit = 0, re_cancelled = (\<lambda>_. False)\<rparr>"

lemma sample_db_parses:
  "NewFromString std_lib ''0.5'' = Some (1 / 2)" "NewFromString std_lib ''0'' = Some 0" "NewFromString std_lib ''2'' = Some 2"
  "TrimSpace ''0.5'' = ''0.5''" "TrimSpace ''e1'' = ''e1''"
  by code_simp+

lemma sample_db_ok: "consistent std_lib sample_db" "rows_sound std_lib sample_db"
proof -
  have o: "os_orders (db_store sample_db) i = (if i = ''o1'' then Some sample_leg_order else None)" for i
    by (simp add: sample_db_def)
  have f: "ord_FilledQuantity sample_leg_order = ''0.5''" "ord_Quantity sample_leg_order = ''2''" "ord_ID sample_leg_order = ''o1''"
    "ord_ArbitrageExecutionID sample_leg_order = ''e1''" "ord_ArbitrageLeg sample_leg_order = ''a''" "ord_Side sample_leg_order = ''buy''"
    by (simp_all add: sample_leg_order_def sample_stored_order_def)
  have t: "tables_ok sample_db"
    unfolding tables_ok_def trimmed_rows_def o
    by (simp add: f sample_db_parses) (simp add: sample_db_def execution_combination_def find_execution_def find_combination_def sample_db_parses zero_values)
  have "leg_position std_lib ''c1'' ''a'' sample_db = 1 / 2" "leg_position std_lib ''c1'' ''b'' sample_db = 0"
    unfolding leg_position_contributions o
    by (simp_all add: sample_db_def contribution_def f order_filled_def fill_amount_def sample_db_parses signed_fill_def zero_values)
  then have "positions_ok std_lib sample_db"
    by (simp add: positions_ok_def sample_db_def [THEN arg_cong [where f = db_combinations]] fill_amount_def sample_db_parses zero_values)
  then show "consistent std_lib sample_db" using t by (simp add: consistent_def)
  have "order_sound std_lib 2 sample_leg_order"
    unfolding order_sound_def f sample_db_parses by (intro conjI exI [of _ "1 / 2"]) simp_all
  then show "rows_sound std_lib sample_db" unfolding rows_sound_def o by auto
qed


section \<open>When an order is taken to have never existed\<close>

definition order_row :: "trader_db \<Rightarrow> string \<Rightarrow> Order option" where
  "order_row db orderID = os_orders (db_store db) orderID"

text \<open>The venue has confirmed the absence of an order when it is asked.\<close>

definition absence_confirmed :: "reconcile_env \<Rightarrow> Credentials \<Rightarrow> Adapter \<Rightarrow> Order \<Rightarrow> bool" where
  "absence_confirmed env credentials adapter order \<longleftrightarrow>
     \<not> stream_fresh env order \<and>
     (case re_catalog env (ord_InstrumentID order) of
        Inl e \<Rightarrow> False
      | Inr instrument \<Rightarrow>
          (case resolveVenueOrder adapter (toVenueCredentials credentials) (order_query instrument order) of
             (resolution, Some err) \<Rightarrow> False | (resolution, None) \<Rightarrow> res_ConfirmedAbsent resolution))"

text \<open>\<open>absence_run L orderID n db\<close>: the tables were reached by reports, by polls of the order and by operations
  on other rows, and \<open>n\<close> polls have confirmed the absence of the order since it was last reported or a poll
  failed or found it. A poll may work on any earlier copy of the row.\<close>

inductive absence_run :: "decimal_lib \<Rightarrow> string \<Rightarrow> nat \<Rightarrow> trader_db \<Rightarrow> bool" for L orderID where
  start: "\<forall>row. order_row db orderID = Some row \<longrightarrow> ord_AbsenceConfirmations row = 0 \<Longrightarrow> absence_run L orderID 0 db"
| report: "absence_run L orderID n db \<Longrightarrow>
    on_store (applyOrderUpdate L now ids orderID result eventAt receivedAt stream fills skip) db = (Inr outcome, db') \<Longrightarrow>
    absence_run L orderID 0 db'"
| poll: "absence_run L orderID n db \<Longrightarrow> ord_ID order = orderID \<Longrightarrow>
    absence_run L orderID
      (if stream_fresh env order then n else if absence_confirmed env credentials adapter order then Suc n else 0)
      (reconcile_order L env credentials adapter order db)"
| other: "absence_run L orderID n db \<Longrightarrow> order_row db' orderID = order_row db orderID \<Longrightarrow> absence_run L orderID n db'"

text \<open>The stored count never exceeds it while the order is open.\<close>

definition counted_at_most :: "string \<Rightarrow> nat \<Rightarrow> trader_db \<Rightarrow> bool" where
  "counted_at_most orderID n db \<longleftrightarrow>
     (\<forall>row. order_row db orderID = Some row \<longrightarrow> open_status (ord_Status row) \<longrightarrow> ord_AbsenceConfirmations row \<le> int n)"

lemma counted_same: "same_orders db db' \<Longrightarrow> counted_at_most i n db' = counted_at_most i n db"
  by (simp add: counted_at_most_def same_orders_def order_row_def)

lemma counted_mono: "counted_at_most i n db \<Longrightarrow> n \<le> m \<Longrightarrow> counted_at_most i m db"
  by (force simp: counted_at_most_def)

lemma fail_row:
  "order_row (reconcile_fail now order db) (ord_ID order) =
    (case order_row db (ord_ID order) of None \<Rightarrow> None
     | Some row \<Rightarrow> Some (if open_status (ord_Status row) then failed_row now row else row))"
  by (auto simp: order_row_def reconcile_fail_def AppendEvent_def MarkReconcileFailure_def Let_def put_order_def set_schedule_def
    split: option.splits)

lemma failed_row_open [simp]: "ord_Status (failed_row now row) = ord_Status row"
  by (simp add: failed_row_def)

lemma counted_fail: "counted_at_most (ord_ID order) 0 (reconcile_fail now order db)"
  by (auto simp: counted_at_most_def fail_row failed_row_def split: option.splits if_splits)

lemma counted_report:
  assumes "on_store (applyOrderUpdate L now ids i result eventAt receivedAt stream fills skip) db = (Inr outcome, db')"
  shows "counted_at_most i 0 db'"
proof -
  obtain updated changed where oc: "outcome = (updated, changed)" by (cases outcome)
  have "applyOrderUpdate L now ids i result eventAt receivedAt stream fills skip (db_store db) = (Inr (updated, changed), db_store db')"
    using assms oc by (auto simp: on_store_def split: prod.splits)
  then show ?thesis
    by (rule applyOrderUpdate_cases) (simp add: counted_at_most_def order_row_def updated_row_def Let_def)
qed

lemma counted_update:
  assumes "db_UpdateResultWithFillDelta L now ids i result db = (Inr outcome, db')" shows "counted_at_most i 0 db'"
  by (rule update_is_apply [of L now ids i result]) (use assms counted_report in simp)

lemma same_orders_recompute_changed: "same_orders db (snd (recompute_changed L now u c db))"
  using same_orders_recompute by (simp add: recompute_changed_snd same_orders_def)

lemma counted_after_recompute:
  assumes "counted_at_most (ord_ID order) n db" "\<And>db'. same_orders db' (f db')"
  shows "counted_at_most (ord_ID order) n (case recompute_changed L now u c db of (Some e, db') \<Rightarrow> reconcile_fail now' order db' | (None, db') \<Rightarrow> f db')"
proof -
  obtain x db' where r: "recompute_changed L now u c db = (x, db')" by (rule prod.exhaust)
  then have "counted_at_most (ord_ID order) n db'"
    using counted_same [OF same_orders_recompute_changed [of db L now u c]] assms(1) by simp
  then show ?thesis using r counted_same [OF assms(2)] counted_mono [OF counted_fail] by (cases x) simp_all
qed

lemma counted_found: "counted_at_most (ord_ID order) 0 (reconcile_found L env order result db)"
proof -
  let ?now = "re_now env order"
  obtain outcome db' where u: "db_UpdateResultWithFillDelta L ?now (re_ids env) (ord_ID order)
    (polled_result (normalizeVenueResult L order result)) db = (outcome, db')" by (rule prod.exhaust)
  show ?thesis
  proof (cases outcome)
    case (Inr oc)
    then obtain updated changed where oc: "outcome = Inr (updated, changed)" by (cases oc) auto
    show ?thesis unfolding reconcile_found_def Let_def u oc prod.case sum.case
      by (rule counted_after_recompute [OF counted_update [OF u [unfolded oc]] same_orders_event])
  qed (use u counted_fail in \<open>simp add: reconcile_found_def\<close>)
qed

lemma counted_error: "counted_at_most (ord_ID order) 0 (reconcile_error L env order result db)"
  by (simp add: reconcile_error_def Let_def counted_fail)

lemma counted_converted:
  assumes "counted_at_most (ord_ID order) n db" shows "counted_at_most (ord_ID order) n (reconcile_converted L env order u db)"
  unfolding reconcile_converted_def Let_def
  using counted_after_recompute [of order n "AppendEvent (ord_ID order) ''reconcile'' db"] same_orders_finalize assms
  by (simp add: counted_same [OF same_orders_event])

lemma counted_absence:
  assumes "counted_at_most i n db" shows "counted_at_most i (Suc n) (snd (ConfirmOrderAbsence L now i expected next_at db))"
proof (rule absence_rewrites [of L now i expected next_at db])
  fix row assume a: "absence_applies L expected db row"
    and r: "rewrites_row i row (absent_row L now row) db (snd (ConfirmOrderAbsence L now i expected next_at db))"
  then have "ord_AbsenceConfirmations row \<le> int n"
    using assms by (simp add: counted_at_most_def order_row_def rewrites_row_def absence_applies_def)
  then show ?thesis using r by (simp add: counted_at_most_def order_row_def rewrites_row_def absent_row_def Let_def)
qed (use counted_mono [OF assms] in simp)

text \<open>What a poll that found the order absent does with a copy that is not terminal.\<close>

lemma absent_open_cases:
  assumes "\<not> terminalStatus (ord_Status order)"
  obtains (failed) db' where "reconcile_absent L env order db = reconcile_fail (re_now env order) order db'"
      "order_row db' (ord_ID order) = order_row db (ord_ID order)"
  | (counted) next_at where
      "same_orders (snd (ConfirmOrderAbsence L (re_now env order) (ord_ID order) (ord_UpdatedAt order) next_at db)) (reconcile_absent L env order db)"
  | (converted) next_at db' where
      "same_orders (snd (ConfirmOrderAbsence L (re_now env order) (ord_ID order) (ord_UpdatedAt order) next_at db)) db'"
      "reconcile_absent L env order db = reconcile_fail (re_now env order) order db'"
proof (cases "TrimSpace (ord_VenueOrderID order) = []")
  case False
  then show ?thesis using assms by (intro failed [of db]) (simp_all add: reconcile_absent_def)
next
  case True
  let ?now = "re_now env order"
  let ?next = "?now + reconcile_delay (ord_AbsenceConfirmations order + 1)"
  let ?c = "ConfirmOrderAbsence L ?now (ord_ID order) (ord_UpdatedAt order) ?next db"
  obtain outcome db1 where c: "?c = (outcome, db1)" by (rule prod.exhaust)
  show ?thesis
  proof (cases outcome)
    case (Inl e)
    then have "db1 = db" using c by (auto simp: ConfirmOrderAbsence_def Let_def split: option.splits if_splits)
    then show ?thesis using True assms c Inl by (intro failed [of db]) (simp_all add: reconcile_absent_def)
  next
    case (Inr oc)
    then obtain u b where oc: "outcome = Inr (u, b)" by (cases oc) auto
    have run: "reconcile_absent L env order db =
      (if b then reconcile_converted L env order u db1
       else if ord_AbsenceConfirmations u = ord_AbsenceConfirmations order then db_DeferReconcile (ord_ID order) (?now + 2 * Second) db1
       else AppendEvent (ord_ID order) ''reconcile_absent'' db1)"
      using True assms c oc by (simp add: reconcile_absent_def Let_def)
    show ?thesis
    proof (cases b)
      case False
      then show ?thesis using run c same_orders_defer same_orders_event by (intro counted [of ?next]) simp
    next
      case b: True
      let ?db2 = "AppendEvent (ord_ID order) ''reconcile'' db1"
      obtain x db3 where r: "recompute_changed L ?now u (parseDecimal L (ord_FilledQuantity order) \<noteq> parseDecimal L (ord_FilledQuantity u)) ?db2 = (x, db3)"
        by (rule prod.exhaust)
      have "same_orders ?db2 db3"
        using same_orders_recompute_changed [of ?db2 L ?now u
          "parseDecimal L (ord_FilledQuantity order) \<noteq> parseDecimal L (ord_FilledQuantity u)"] unfolding r by simp
      then have s: "same_orders db1 db3" by (rule same_orders_trans [OF same_orders_event])
      show ?thesis
      proof (cases "ord_ArbitrageExecutionID u = [] \<or> x = None")
        case True
        then have "same_orders db1 (reconcile_converted L env order u db1)"
          unfolding reconcile_converted_def Let_def r
          using same_orders_trans [OF s same_orders_finalize] same_orders_event by auto
        then show ?thesis using run b c by (intro counted [of ?next]) simp
      next
        case False
        then have "reconcile_converted L env order u db1 = reconcile_fail ?now order db3"
          unfolding reconcile_converted_def Let_def r by auto
        then show ?thesis using run b c s by (intro converted [of ?next db3]) simp_all
      qed
    qed
  qed
qed

lemma counted_absent:
  assumes "counted_at_most (ord_ID order) n db" shows "counted_at_most (ord_ID order) (Suc n) (reconcile_absent L env order db)"
proof (cases "terminalStatus (ord_Status order)")
  case True
  have fail: "counted_at_most (ord_ID order) (Suc n) (reconcile_fail now order db)" for now db by (rule counted_mono [OF counted_fail]) simp
  have update: "counted_at_most (ord_ID order) (Suc n) db'" if "db_UpdateResultWithFillDelta L now ids (ord_ID order) r db = (Inr x, db')"
    for now ids r x db' by (rule counted_mono [OF counted_update [OF that]]) simp
  show ?thesis using True fail update by (auto simp: reconcile_absent_def Let_def split: prod.splits sum.splits)
next
  case False
  then show ?thesis
  proof (cases rule: absent_open_cases [of order L env db])
    case (failed db')
    then show ?thesis using counted_mono [OF counted_fail] by simp
  next
    case (counted next_at)
    then show ?thesis using counted_absence [OF assms] counted_same by blast
  next
    case (converted next_at db')
    then show ?thesis using counted_mono [OF counted_fail] by simp
  qed
qed

lemma counted_order:
  assumes "counted_at_most (ord_ID order) n db"
  shows "counted_at_most (ord_ID order)
    (if stream_fresh env order then n else if absence_confirmed env credentials adapter order then Suc n else 0)
    (reconcile_order L env credentials adapter order db)"
proof (cases "stream_fresh env order")
  case True
  then show ?thesis using assms by (simp add: reconcile_order_def counted_same [OF same_orders_defer])
next
  case False
  then show ?thesis
    using counted_fail counted_error counted_found counted_absent [OF assms]
    by (auto simp: reconcile_order_def absence_confirmed_def Let_def split: sum.splits prod.splits option.splits)
qed

lemma absence_run_counted: "absence_run L i n db \<Longrightarrow> counted_at_most i n db"
proof (induction rule: absence_run.induct)
  case (start db)
  then show ?case by (simp add: counted_at_most_def)
next
  case (report n db now ids result eventAt receivedAt stream fills skip outcome db')
  then show ?case using counted_report by blast
next
  case (poll n db order env credentials adapter)
  then show ?case using counted_order by blast
next
  case (other n db db')
  then show ?case by (simp add: counted_at_most_def)
qed

lemma absent_row_status:
  "\<not> confirmedAbsentRejectAfter \<le> ord_AbsenceConfirmations row + 1 \<Longrightarrow> ord_Status (absent_row L now row) = ord_Status row"
  by (simp add: absent_row_def Let_def)

lemma confirm_row:
  assumes "order_row db i = Some row"
  shows "order_row (snd (ConfirmOrderAbsence L now i expected next_at db)) i =
    Some (if absence_applies L expected db row then absent_row L now row else row)"
  using assms by (simp add: order_row_def ConfirmOrderAbsence_def Let_def put_order_def set_schedule_def)

lemma absent_ends_order:
  assumes "\<not> terminalStatus (ord_Status order)" "order_row db (ord_ID order) = Some row" "open_status (ord_Status row)"
    and "order_row (reconcile_absent L env order db) (ord_ID order) = Some row'" "terminalStatus (ord_Status row')"
  shows "absence_applies L (ord_UpdatedAt order) db row \<and> confirmedAbsentRejectAfter \<le> ord_AbsenceConfirmations row + 1 \<and>
         row' = absent_row L (re_now env order) row"
proof -
  let ?i = "ord_ID order" and ?now = "re_now env order"
  let ?c = "\<lambda>n. snd (ConfirmOrderAbsence L ?now ?i (ord_UpdatedAt order) n db)"
  let ?confirmed = "if absence_applies L (ord_UpdatedAt order) db row then absent_row L ?now row else row"
  have open_row: "\<not> terminalStatus (ord_Status row)" by (rule open_not_terminal [OF assms(3)])
  have c: "order_row (?c n) ?i = Some ?confirmed" for n by (rule confirm_row [OF assms(2)])
  have *: ?thesis if "row' = ?confirmed"
    using that assms(5) open_row absent_row_status [of row L ?now]
    by (cases "absence_applies L (ord_UpdatedAt order) db row";
        cases "confirmedAbsentRejectAfter \<le> ord_AbsenceConfirmations row + 1") simp_all
  from assms(1) show ?thesis
  proof (cases rule: absent_open_cases [of order L env db])
    case (failed db')
    then have "row' = failed_row ?now row" using assms(2-4) by (simp add: fail_row)
    then show ?thesis using assms(5) open_row by simp
  next
    case (counted n)
    then show ?thesis using * c [of n] assms(4) by (simp add: same_orders_def order_row_def)
  next
    case (converted n db')
    then have "order_row db' ?i = Some ?confirmed" using c [of n] by (simp add: same_orders_def order_row_def)
    then have r: "row' = (if open_status (ord_Status ?confirmed) then failed_row ?now ?confirmed else ?confirmed)"
      using converted(2) assms(4) by (simp add: fail_row)
    then have "\<not> open_status (ord_Status ?confirmed)" using assms(5) open_not_terminal by (metis failed_row_open)
    then show ?thesis using r * by simp
  qed
qed

text \<open>C8: an order is taken to have never reached the venue only when two polls before this one had confirmed its
  absence, with no report of the order, no failed poll and no poll that found it since; this poll confirms it
  too, on the word of a resolver whose history and active-order queries both succeeded; and the row
  has no venue id, no filled quantity and no stored fill.\<close>

theorem absence_needs_three_confirmations:
  assumes "absence_run L (ord_ID order) n db" "order_row db (ord_ID order) = Some row" "open_status (ord_Status row)"
    and "\<not> terminalStatus (ord_Status order)" "absence_confirmed env credentials adapter order"
    and "order_row (reconcile_order L env credentials adapter order db) (ord_ID order) = Some row'" "terminalStatus (ord_Status row')"
  shows "2 \<le> n \<and> ad_ResolveOrder adapter \<noteq> None \<and> ord_VenueOrderID row = [] \<and>
         NewFromString L (ord_FilledQuantity row) = Some 0 \<and>
         (\<forall>(key, fill) \<in> set (os_fills (db_store db)). sf_OrderID fill \<noteq> ord_ID row) \<and>
         ord_Status row' = ''rejected'' \<and> ord_ErrorCode row' = errorConfirmedAbsentAfterUncertainSubmit"
proof -
  obtain instrument resolution where i: "re_catalog env (ord_InstrumentID order) = Inr instrument" and
    r: "resolveVenueOrder adapter (toVenueCredentials credentials) (order_query instrument order) = (resolution, None)"
       "res_ConfirmedAbsent resolution" "\<not> stream_fresh env order"
    using assms(5) by (auto simp: absence_confirmed_def split: sum.splits prod.splits option.splits)
  have resolver: "ad_ResolveOrder adapter \<noteq> None" using absence_needs_resolver [OF r(1,2)] by auto
  have "reconcile_order L env credentials adapter order db = reconcile_absent L env order db"
    using i r by (simp add: reconcile_order_def)
  then have e: "absence_applies L (ord_UpdatedAt order) db row" "confirmedAbsentRejectAfter \<le> ord_AbsenceConfirmations row + 1"
    "row' = absent_row L (re_now env order) row"
    using absent_ends_order [OF assms(4,2,3)] assms(6,7) by simp_all
  have "ord_AbsenceConfirmations row \<le> int n"
    using absence_run_counted [OF assms(1)] assms(2,3) by (simp add: counted_at_most_def)
  then have "2 \<le> n" using e(2) by (simp add: confirmedAbsentRejectAfter_def)
  then show ?thesis using resolver e
    by (auto simp: absence_applies_def list_ex_iff absent_row_def Let_def)
qed

definition sample_lost_order :: Order where
  "sample_lost_order =
     zero_Order\<lparr>ord_ID := ''o1'', ord_Quantity := ''2'', ord_FilledQuantity := ''0'', ord_AveragePrice := ''0'', ord_Status := ''pending''\<rparr>"

definition sample_lost_db :: trader_db where
  "sample_lost_db =
     sample_db\<lparr>db_store := (db_store sample_db)\<lparr>os_orders := [''o1'' \<mapsto> sample_lost_order]\<rparr>\<rparr>"

definition sample_absent_adapter :: Adapter where
  "sample_absent_adapter =
     (sample_adapter zero_VenueResult)\<lparr>ad_ResolveOrder :=
        Some (\<lambda>_ _. (\<lparr>res_Result = zero_VenueResult, res_Found = False, res_Active = False, res_ConfirmedAbsent = True\<rparr>, None))\<rparr>"

definition sample_credentials :: Credentials where
  "sample_credentials =
     \<lparr>cr_TradingAccountID = 7, cr_ProductName = [], cr_Exchange = ''binance'', cr_AccountName = [], cr_APIKey = [],
      cr_APISecret = [], cr_Passphrase = [], cr_CredentialKind = [], cr_SigningAddress = [], cr_VaultAddress = [],
      cr_AccountIndex = None, cr_APIKeyIndex = None\<rparr>"

lemma sample_absence_confirmed:
  assumes "ord_ArbitrageExecutionID order = []"
  shows "absence_confirmed sample_env sample_credentials sample_absent_adapter order" "\<not> stream_fresh sample_env order"
proof -
  have "\<not> resolvedVenueOrder zero_VenueResult" by code_simp
  then show "absence_confirmed sample_env sample_credentials sample_absent_adapter order" "\<not> stream_fresh sample_env order"
    using assms
    by (simp_all add: absence_confirmed_def stream_fresh_def sample_env_def resolveVenueOrder_def sample_absent_adapter_def
      sample_adapter_def check_resolution_def)
qed

lemma sample_poll:
  assumes "order_row db ''o1'' = Some row" "absence_applies std_lib (ord_UpdatedAt row) db row" "ord_ID row = ''o1''"
    and "ord_ArbitrageExecutionID row = []"
  defines "db' \<equiv> reconcile_order std_lib sample_env sample_credentials sample_absent_adapter row db"
  shows "order_row db' ''o1'' = Some (absent_row std_lib Hour row)" "os_fills (db_store db') = os_fills (db_store db)"
proof -
  obtain resolution where r: "resolveVenueOrder sample_absent_adapter (toVenueCredentials sample_credentials)
      (order_query zero_Instrument row) = (resolution, None)" "res_ConfirmedAbsent resolution"
    using sample_absence_confirmed(1) [OF assms(4)]
    by (auto simp: absence_confirmed_def sample_env_def split: prod.splits option.splits)
  have t: "\<not> terminalStatus (ord_Status row)" "TrimSpace (ord_VenueOrderID row) = []"
    using assms(2) open_not_terminal by (auto simp: absence_applies_def TrimSpace_def)
  have "db' = reconcile_absent std_lib sample_env row db"
    using r sample_absence_confirmed(2) [OF assms(4)] by (simp add: db'_def reconcile_order_def sample_env_def)
  moreover have "ord_ArbitrageExecutionID (absent_row std_lib Hour row) = []"
    using assms(4) by (simp add: absent_row_def Let_def)
  ultimately show "order_row db' ''o1'' = Some (absent_row std_lib Hour row)" "os_fills (db_store db') = os_fills (db_store db)"
    using t assms(1-3)
    by (simp_all add: reconcile_absent_def Let_def ConfirmOrderAbsence_def order_row_def sample_env_def reconcile_converted_def
      AppendEvent_def db_DeferReconcile_def DeferReconcile_def put_order_def set_schedule_def)
qed

theorem absence_needs_three_confirmations_witness:
  "\<exists>db row row'. absence_run std_lib ''o1'' 2 db \<and> order_row db ''o1'' = Some row \<and>
     order_row (reconcile_order std_lib sample_env sample_credentials sample_absent_adapter row db) ''o1'' = Some row' \<and>
     ord_Status row' = ''rejected'' \<and> ord_ErrorCode row' = errorConfirmedAbsentAfterUncertainSubmit"
proof -
  let ?poll = "reconcile_order std_lib sample_env sample_credentials sample_absent_adapter"
  let ?r0 = sample_lost_order and ?d0 = sample_lost_db
  let ?r1 = "absent_row std_lib Hour ?r0" and ?d1 = "?poll ?r0 ?d0"
  let ?r2 = "absent_row std_lib Hour ?r1" and ?d2 = "?poll ?r1 ?d1"
  let ?r3 = "absent_row std_lib Hour ?r2" and ?d3 = "?poll ?r2 ?d2"
  have rows: "ord_ID ?r0 = ''o1''" "ord_ID ?r1 = ''o1''" "ord_ID ?r2 = ''o1''" "ord_ArbitrageExecutionID ?r0 = []"
    "ord_ArbitrageExecutionID ?r1 = []" "ord_ArbitrageExecutionID ?r2 = []" "ord_AbsenceConfirmations ?r0 = 0"
    "ord_Status ?r2 = ''pending''" "ord_Status ?r3 = ''rejected''" "ord_Status ?r1 = ''pending''"
    "ord_VenueOrderID ?r1 = []" "ord_VenueOrderID ?r2 = []" "ord_FilledQuantity ?r1 = ''0''" "ord_FilledQuantity ?r2 = ''0''"
    by (simp_all add: sample_lost_order_def absent_row_def confirmedAbsentRejectAfter_def zero_values)
  have d0: "order_row ?d0 ''o1'' = Some ?r0" "os_fills (db_store ?d0) = []"
    by (simp_all add: order_row_def sample_lost_db_def sample_db_def)
  have a: "absence_applies std_lib (ord_UpdatedAt r) d r"
    if "os_fills (db_store d) = []" "ord_Status r = ''pending''" "ord_VenueOrderID r = []" "ord_FilledQuantity r = ''0''" for d r
    using that by (simp add: absence_applies_def open_status_def sample_db_parses)
  have r0: "ord_Status ?r0 = ''pending''" "ord_VenueOrderID ?r0 = []" "ord_FilledQuantity ?r0 = ''0''"
    by (simp_all add: sample_lost_order_def zero_values)
  note p1 = sample_poll [OF d0(1) a [OF d0(2) r0] rows(1,4)]
  note f1 = p1(2) [unfolded d0(2)]
  note p2 = sample_poll [OF p1(1) a [OF f1 rows(10,11,13)] rows(2,5)]
  note f2 = p2(2) [unfolded f1]
  note p3 = sample_poll [OF p2(1) a [OF f2 rows(8,12,14)] rows(3,6)]
  have "absence_run std_lib ''o1'' 0 ?d0" by (rule absence_run.start) (simp add: d0 rows)
  from absence_run.poll [OF this rows(1), of sample_env sample_credentials sample_absent_adapter]
  have "absence_run std_lib ''o1'' 1 ?d1" by (simp add: sample_absence_confirmed rows)
  from absence_run.poll [OF this rows(2), of sample_env sample_credentials sample_absent_adapter]
  have run: "absence_run std_lib ''o1'' 2 ?d2" by (simp add: sample_absence_confirmed rows numeral_2_eq_2)
  have o: "open_status (ord_Status ?r2)" "\<not> terminalStatus (ord_Status ?r2)" "terminalStatus (ord_Status ?r3)"
    by (simp_all add: rows open_status_def terminalStatus_def)
  have "ord_Status ?r3 = ''rejected'' \<and> ord_ErrorCode ?r3 = errorConfirmedAbsentAfterUncertainSubmit"
    using absence_needs_three_confirmations [of std_lib ?r2 2 ?d2 ?r2 sample_env sample_credentials sample_absent_adapter ?r3]
      run p2(1) p3(1) o sample_absence_confirmed(1) [OF rows(6)] by (simp add: rows(3))
  then show ?thesis using run p2(1) p3(1) by blast
qed

end
