(* ===== verification/Order_Lifecycle.thy ===== *)
theory Order_Lifecycle
  imports Order_Service Order_Reconciler "HOL-Library.Multiset"
begin

text \<open>
  The service, the reconciler and the private streams on the same tables. Requests are served concurrently:
  a request to place an order is admitted in one step and submits in a later one, and anything may happen in
  between, including a restart that forgets the requests that were admitted but not submitted.
\<close>

section \<open>Steps\<close>

record trader_system =
  sy_world :: trader_world
  sy_running :: "submission multiset"

definition on_db :: "(trader_db \<Rightarrow> trader_db) \<Rightarrow> trader_system \<Rightarrow> trader_system" where
  "on_db f s = s\<lparr>sy_world := (sy_world s)\<lparr>tw_db := f (tw_db (sy_world s))\<rparr>\<rparr>"

inductive trader_step :: "decimal_lib \<Rightarrow> trader_system \<Rightarrow> trader_system \<Rightarrow> bool" for L where
  answered: "place_admit L env input (sy_world s) = (Inl r, w) \<Longrightarrow> trader_step L s (s\<lparr>sy_world := w\<rparr>)"
| admitted: "place_admit L env input (sy_world s) = (Inr sub, w) \<Longrightarrow>
    trader_step L s \<lparr>sy_world = w, sy_running = add_mset sub (sy_running s)\<rparr>"
| submitted: "sub \<in># sy_running s \<Longrightarrow> submit_admitted L env sub (sy_world s) = (r, w) \<Longrightarrow>
    trader_step L s \<lparr>sy_world = w, sy_running = sy_running s - {#sub#}\<rparr>"
| queried: "trader_step L s (s\<lparr>sy_world := snd (GetOrder L env token orderID (sy_world s))\<rparr>)"
| cancelled: "trader_step L s (s\<lparr>sy_world := snd (CancelOrder L env token orderID (sy_world s))\<rparr>)"
| reconciled: "trader_step L s (on_db (reconcile_runOnce L renv now locked batchSize timeout schedule) s)"
| streamed: "trader_step L s (on_db (consumeOrderStream L ids instrument order updates) s)"
| restarted: "trader_step L s (s\<lparr>sy_running := {#}\<rparr>)"

section \<open>Rows are created once\<close>

definition rows_keyed :: "trader_db \<Rightarrow> bool" where
  "rows_keyed db \<longleftrightarrow> (\<forall>i \<in> set (db_ids db). \<exists>order. os_orders (db_store db) i = Some order \<and> ord_ID order = i)"

definition rows_unique :: "trader_db \<Rightarrow> bool" where
  "rows_unique db \<longleftrightarrow>
     rows_keyed db \<and> distinct (map ord_IdempotencyKey (order_rows db)) \<and> distinct (map ord_ClientOrderID (order_rows db))"

lemma rows_identity:
  assumes "keeps_rows db db'" shows "map row_identity (order_rows db') = map row_identity (order_rows db)"
proof -
  have "map row_identity (List.map_filter f xs) = List.map_filter (\<lambda>x. map_option row_identity (f x)) xs" for f and xs :: "string list"
    by (induction xs) (auto simp: map_filter_simps split: option.splits)
  then show ?thesis using assms by (simp add: order_rows_def keeps_rows_def)
qed

lemma map_identity:
  assumes "\<And>order. f order = g (row_identity order)" "keeps_rows db db'"
  shows "map f (order_rows db') = map f (order_rows db)"
proof -
  have "map f xs = map g (map row_identity xs)" for xs by (simp add: assms(1))
  then show ?thesis by (simp only: rows_identity [OF assms(2)])
qed

lemma rows_keyed_kept:
  assumes "rows_keyed db" "keeps_rows db db'" shows "rows_keyed db'"
  unfolding rows_keyed_def
proof
  fix i assume "i \<in> set (db_ids db')"
  then obtain order where "os_orders (db_store db) i = Some order" "ord_ID order = i"
    using assms by (auto simp: rows_keyed_def keeps_rows_def)
  moreover have "map_option row_identity (os_orders (db_store db') i) = map_option row_identity (os_orders (db_store db) i)"
    using assms(2) by (simp add: keeps_rows_def)
  ultimately show "\<exists>order. os_orders (db_store db') i = Some order \<and> ord_ID order = i"
    by (cases "os_orders (db_store db') i") (auto simp: row_identity_def)
qed

lemma rows_unique_kept:
  assumes "rows_unique db" "keeps_rows db db'" shows "rows_unique db'"
proof -
  have "map ord_IdempotencyKey (order_rows db') = map ord_IdempotencyKey (order_rows db)"
    "map ord_ClientOrderID (order_rows db') = map ord_ClientOrderID (order_rows db)"
    by (rule map_identity [OF _ assms(2), of _ "\<lambda>l. fst l ! 1"], simp add: row_identity_def)
       (rule map_identity [OF _ assms(2), of _ "\<lambda>l. fst l ! 2"], simp add: row_identity_def)
  moreover have "rows_keyed db'" using assms by (auto simp: rows_unique_def intro: rows_keyed_kept)
  ultimately show ?thesis using assms(1) by (simp add: rows_unique_def)
qed

lemma CreateIntent_existing:
  assumes "CreateIntent L now newID newClient order db = (r, db')" "\<not> (\<exists>row. r = Inr (row, True))"
  shows "db' = db"
  using assms by (auto simp: CreateIntent_def Let_def split: sum.splits option.splits if_splits)

lemma intent_row_identity [simp]:
  "ord_ID (intent_row L now q order) = ord_ID order" "ord_IdempotencyKey (intent_row L now q order) = ord_IdempotencyKey order"
  "ord_ClientOrderID (intent_row L now q order) = ord_ClientOrderID order"
  by (simp_all add: intent_row_def)

lemma CreateIntent_created:
  assumes "CreateIntent L now newID newClient order0 db = (Inr (row, True), db')" "rows_keyed db"
  shows "order_rows db' = order_rows db @ [row]" "rows_keyed db'"
    and "ord_IdempotencyKey row \<notin> ord_IdempotencyKey ` set (order_rows db)"
    and "ord_ClientOrderID row \<notin> ord_ClientOrderID ` set (order_rows db)"
proof -
  let ?o = "with_ids newID newClient order0"
  obtain e where e: "getByIdempotency (ord_IdempotencyKey ?o) db = Inl e"
    using assms(1) by (cases "getByIdempotency (ord_IdempotencyKey ?o) db") (simp_all add: CreateIntent_def Let_def)
  have new: "\<not> list_ex (\<lambda>row. ord_ID row = ord_ID ?o \<or> ord_ClientOrderID row = ord_ClientOrderID ?o) (order_rows db)"
    using assms(1) e by (auto simp: CreateIntent_def Let_def split: if_splits)
  obtain q where q: "NewFromString L (ord_Quantity ?o) = Some q" "row = intent_row L now q ?o"
    "db' = AppendEvent (ord_ID row) ''intent'' (set_schedule (ord_ID row) (Some now) None
       (put_order (ord_ID row) row (db\<lparr>db_ids := db_ids db @ [ord_ID row]\<rparr>)))"
    using assms(1) e new by (auto simp: CreateIntent_def Let_def split: if_splits option.splits)
  have row_id: "ord_ID row = ord_ID ?o" "ord_IdempotencyKey row = ord_IdempotencyKey ?o" "ord_ClientOrderID row = ord_ClientOrderID ?o"
    by (simp_all add: q(2))
  have fresh: "ord_ID row \<notin> set (db_ids db)"
  proof
    assume i: "ord_ID row \<in> set (db_ids db)"
    then obtain order where "os_orders (db_store db) (ord_ID row) = Some order" "ord_ID order = ord_ID row"
      using assms(2) by (auto simp: rows_keyed_def)
    then have "order \<in> set (order_rows db)" using i by (force simp: order_rows_def List.map_filter_def)
    then show False using new row_id(1) \<open>ord_ID order = ord_ID row\<close> by (auto simp: list_ex_iff)
  qed
  have store: "os_orders (db_store db') = (os_orders (db_store db))(ord_ID row \<mapsto> row)" "db_ids db' = db_ids db @ [ord_ID row]"
    by (simp_all add: q(3) AppendEvent_def set_schedule_def put_order_def)
  have "List.map_filter (f(i \<mapsto> x)) xs = List.map_filter f xs" if "i \<notin> set xs" for f and i :: string and x :: Order and xs
    using that by (induction xs) (auto simp: map_filter_simps split: option.splits)
  then show "order_rows db' = order_rows db @ [row]"
    using fresh by (simp add: order_rows_def store List.map_filter_def)
  show "rows_keyed db'" using assms(2) fresh by (auto simp: rows_keyed_def store)
  show "ord_IdempotencyKey row \<notin> ord_IdempotencyKey ` set (order_rows db)"
    using e row_id(2) by (auto simp: getByIdempotency_def getOrder_def find_None_iff split: option.splits)
  show "ord_ClientOrderID row \<notin> ord_ClientOrderID ` set (order_rows db)"
    using new row_id(3) by (auto simp: list_ex_iff)
qed

section \<open>Requests are sent once\<close>

lemma distinct_count_le:
  assumes "\<And>c. count (mset xs) c \<le> 1" shows "distinct xs"
  unfolding distinct_count_atmost_1
proof
  fix a show "count (mset xs) a = (if a \<in> set xs then 1 else 0)"
  proof (cases "a \<in> set xs")
    case True
    then have "0 < count (mset xs) a" by (simp only: count_greater_zero_iff set_mset_mset)
    then have "count (mset xs) a = 1" using assms [of a] by linarith
    then show ?thesis using True by (simp only: if_True)
  qed (simp add: count_eq_zero_iff)
qed

lemma at_most_one:
  assumes "distinct (map f xs)" "\<And>x y. x \<in> set xs \<Longrightarrow> y \<in> set xs \<Longrightarrow> f x = f y"
  shows "length xs \<le> 1"
proof (rule ccontr)
  assume "\<not> length xs \<le> 1"
  then obtain x y zs where xs: "xs = x # y # zs" by (cases xs rule: remdups_adj.cases) simp_all
  then have "f x = f y" using assms(2) by simp
  then show False using assms(1) xs by simp
qed

text \<open>The client ids of requests that were sent or are about to be.\<close>

definition client_ids :: "trader_system \<Rightarrow> string multiset" where
  "client_ids s =
     mset (map req_ClientOrderID (tw_submitted (sy_world s))) + image_mset (\<lambda>sub. ord_ClientOrderID (sb_intent sub)) (sy_running s)"

text \<open>A request asks for what the row says.\<close>

definition asks_for :: "OrderRequest \<Rightarrow> Order \<Rightarrow> bool" where
  "asks_for r row \<longleftrightarrow>
     req_ClientOrderID r = ord_ClientOrderID row \<and> req_Side r = ord_Side row \<and> req_OrderType r = ord_OrderType row \<and>
     req_Quantity r = ord_Quantity row \<and> req_Price r = ord_Price row"

definition system_ok :: "trader_system \<Rightarrow> bool" where
  "system_ok s \<longleftrightarrow>
     rows_unique (tw_db (sy_world s)) \<and> (\<forall>c. count (client_ids s) c \<le> 1) \<and>
     (\<forall>r \<in> set (tw_submitted (sy_world s)). \<exists>row \<in> set (order_rows (tw_db (sy_world s))). asks_for r row) \<and>
     (\<forall>sub \<in># sy_running s. \<exists>row \<in> set (order_rows (tw_db (sy_world s))). row_identity row = row_identity (sb_intent sub))"

lemma rows_with_identity:
  assumes "keeps_rows db db'" "row \<in> set (order_rows db)"
  obtains row' where "row' \<in> set (order_rows db')" "row_identity row' = row_identity row"
proof -
  have "row_identity row \<in> set (map row_identity (order_rows db'))" using assms by (simp add: rows_identity del: set_map) simp
  then show ?thesis using that by auto
qed

lemma asks_for_identity: "row_identity row' = row_identity row \<Longrightarrow> asks_for r row \<Longrightarrow> asks_for r row'"
  by (simp add: asks_for_def row_identity_def)

text \<open>A step that keeps the rows and sends nothing.\<close>

lemma system_ok_quiet:
  assumes "system_ok s" "keeps_rows (tw_db (sy_world s)) (tw_db w)" "tw_submitted w = tw_submitted (sy_world s)"
  shows "system_ok (s\<lparr>sy_world := w\<rparr>)"
  using assms rows_unique_kept [OF _ assms(2)] rows_with_identity [OF assms(2)] asks_for_identity
  unfolding system_ok_def client_ids_def
  by (simp add: assms(3)) metis

lemma known_clients:
  assumes "system_ok s" "c \<in># client_ids s" shows "c \<in> ord_ClientOrderID ` set (order_rows (tw_db (sy_world s)))"
proof -
  have "c \<in> req_ClientOrderID ` set (tw_submitted (sy_world s)) \<or> (\<exists>sub \<in># sy_running s. c = ord_ClientOrderID (sb_intent sub))"
    using assms(2) by (auto simp: client_ids_def)
  then show ?thesis
  proof
    assume "c \<in> req_ClientOrderID ` set (tw_submitted (sy_world s))"
    then obtain r row where "c = req_ClientOrderID r" "row \<in> set (order_rows (tw_db (sy_world s)))" "asks_for r row"
      using assms(1) unfolding system_ok_def by blast
    then show ?thesis by (simp add: asks_for_def)
  next
    assume "\<exists>sub \<in># sy_running s. c = ord_ClientOrderID (sb_intent sub)"
    then obtain sub where sub: "sub \<in># sy_running s" "c = ord_ClientOrderID (sb_intent sub)" by blast
    then obtain row where row: "row \<in> set (order_rows (tw_db (sy_world s)))" "row_identity row = row_identity (sb_intent sub)"
      using assms(1) unfolding system_ok_def by meson
    have "c = ord_ClientOrderID row" using sub(2) row(2) by (simp add: row_identity_def)
    then show ?thesis using row(1) by (rule image_eqI)
  qed
qed

lemma system_ok_admitted:
  assumes "system_ok s" "place_admit L env input (sy_world s) = (Inr sub, w)"
  shows "system_ok \<lparr>sy_world = w, sy_running = add_mset sub (sy_running s)\<rparr>"
proof -
  let ?db = "tw_db (sy_world s)" and ?s = "\<lparr>sy_world = w, sy_running = add_mset sub (sy_running s)\<rparr>"
  obtain v where v: "validate_place L env input = Inr v"
    using assms(2) by (cases "validate_place L env input") (simp_all add: place_admit_def)
  obtain row db' where c: "CreateIntent L (sv_now env) (sv_newID env) (sv_newClientOrderID env) (sb_intent v) ?db = (Inr (row, True), db')"
    and sub: "sub = v\<lparr>sb_intent := row\<rparr>" "w = (sy_world s)\<lparr>tw_db := db'\<rparr>"
    using assms(2) v by (auto simp: place_admit_def split: prod.splits sum.splits if_splits)
  have u: "rows_unique ?db" using assms(1) by (simp add: system_ok_def)
  note created = CreateIntent_created [OF c u [unfolded rows_unique_def, THEN conjunct1]]
  have ids: "client_ids ?s = add_mset (ord_ClientOrderID row) (client_ids s)" by (simp add: client_ids_def sub)
  have "count (client_ids s) (ord_ClientOrderID row) = 0"
    using created(4) known_clients [OF assms(1)] by (metis count_eq_zero_iff)
  then have "count (add_mset (ord_ClientOrderID row) (client_ids s)) x \<le> 1" for x
    using assms(1) by (cases "x = ord_ClientOrderID row") (simp_all add: system_ok_def)
  then have "count (client_ids ?s) x \<le> 1" for x by (simp only: ids)
  moreover have "rows_unique (tw_db (sy_world ?s))" using u created by (simp add: rows_unique_def sub)
  moreover have "\<forall>r \<in> set (tw_submitted (sy_world ?s)). \<exists>row \<in> set (order_rows (tw_db (sy_world ?s))). asks_for r row"
    using assms(1) by (auto simp: system_ok_def sub created(1))
  moreover have "\<forall>sub \<in># sy_running ?s. \<exists>row \<in> set (order_rows (tw_db (sy_world ?s))). row_identity row = row_identity (sb_intent sub)"
    using assms(1) by (auto simp: system_ok_def sub created(1))
  ultimately show ?thesis unfolding system_ok_def by blast
qed

lemma system_ok_submitted:
  assumes "system_ok s" "sub \<in># sy_running s" "submit_admitted L env sub (sy_world s) = (r, w)"
  shows "system_ok \<lparr>sy_world = w, sy_running = sy_running s - {#sub#}\<rparr>"
proof -
  let ?req = "order_request (sb_instrument sub) (sb_intent sub) [] False"
  have w: "w = snd (placeSubmittedOrder L env (sb_adapter sub) (sb_account sub) (sb_instrument sub) (sb_intent sub) [] False False (sy_world s))"
    using assms(3) by (simp add: submit_admitted_def submit_def submitWithOptions_def)
  have sent: "tw_submitted w = tw_submitted (sy_world s) @ [?req]" unfolding w by (rule place_submitted)
  have keeps: "keeps_rows (tw_db (sy_world s)) (tw_db w)" unfolding w by (rule rows_kept.R_place)
  have ids: "client_ids \<lparr>sy_world = w, sy_running = sy_running s - {#sub#}\<rparr> = client_ids s"
  proof -
    have "sy_running s = add_mset sub (sy_running s - {#sub#})" using assms(2) by simp
    then have "image_mset (\<lambda>sub. ord_ClientOrderID (sb_intent sub)) (sy_running s) =
      add_mset (ord_ClientOrderID (sb_intent sub)) (image_mset (\<lambda>sub. ord_ClientOrderID (sb_intent sub)) (sy_running s - {#sub#}))"
      by (metis image_mset_add_mset)
    then show ?thesis by (simp add: client_ids_def sent order_request_def)
  qed
  have q: "system_ok (s\<lparr>sy_world := (sy_world s)\<lparr>tw_db := tw_db w\<rparr>\<rparr>)" by (rule system_ok_quiet [OF assms(1)]) (simp_all add: keeps)
  obtain row where row: "row \<in> set (order_rows (tw_db w))" "row_identity row = row_identity (sb_intent sub)"
    using q assms(2) by (auto simp: system_ok_def)
  then have "asks_for ?req row" by (simp add: asks_for_def order_request_def row_identity_def)
  then show ?thesis
    using q row(1) ids assms(1) by (auto simp: system_ok_def sent dest: in_diffD)
qed

lemma admit_answered:
  assumes "place_admit L env input w = (Inl r, w')" shows "w' = w"
proof -
  have "w' = w \<or> (\<exists>v r db. CreateIntent L (sv_now env) (sv_newID env) (sv_newClientOrderID env) v (tw_db w) = (r, db) \<and>
      \<not> (\<exists>row. r = Inr (row, True)) \<and> w' = w\<lparr>tw_db := db\<rparr>)"
    using assms by (auto simp: place_admit_def split: sum.splits prod.splits if_splits)
  then show ?thesis using CreateIntent_existing by fastforce
qed

lemma system_ok_step:
  assumes "trader_step L s s'" "system_ok s" shows "system_ok s'"
  using assms(1)
proof cases
  case (answered env input r w)
  have "w = sy_world s" by (rule admit_answered [OF answered(2)])
  then show ?thesis using answered(1) assms(2) by simp
next
  case (admitted env input sub w)
  then show ?thesis using system_ok_admitted [OF assms(2)] by simp
next
  case (submitted sub env r w)
  then show ?thesis using system_ok_submitted [OF assms(2)] by simp
next
  case (queried env token orderID)
  then show ?thesis using system_ok_quiet [OF assms(2) rows_kept.R_GetOrder] by (simp add: GetOrder_submitted)
next
  case (cancelled env token orderID)
  then show ?thesis using system_ok_quiet [OF assms(2) rows_kept.R_CancelOrder] by (simp add: CancelOrder_submitted)
next
  case (reconciled renv now locked batchSize timeout schedule)
  then show ?thesis unfolding on_db_def by (simp add: system_ok_quiet [OF assms(2)] rows_kept.R_runOnce)
next
  case (streamed ids instrument order updates)
  then show ?thesis unfolding on_db_def by (simp add: system_ok_quiet [OF assms(2)] rows_kept.R_consume)
next
  case restarted
  have "count (client_ids s) c \<le> 1" for c using assms(2) by (simp add: system_ok_def)
  then have "count (mset (map req_ClientOrderID (tw_submitted (sy_world s)))) c \<le> 1" for c
    unfolding client_ids_def count_union by (rule add_leD1)
  then show ?thesis using restarted assms(2) by (simp add: system_ok_def client_ids_def)
qed

lemma system_ok_reachable: "(trader_step L)\<^sup>*\<^sup>* s s' \<Longrightarrow> system_ok s \<Longrightarrow> system_ok s'"
  by (induction rule: rtranclp_induct) (auto intro: system_ok_step)

definition requests_for :: "string \<Rightarrow> trader_world \<Rightarrow> OrderRequest list" where
  "requests_for key w =
     filter (\<lambda>r. list_ex (\<lambda>row. ord_IdempotencyKey row = key \<and> ord_ClientOrderID row = req_ClientOrderID r) (order_rows (tw_db w)))
       (tw_submitted w)"

lemma system_ok_once:
  assumes "system_ok s" shows "length (requests_for key (sy_world s)) \<le> 1"
proof -
  let ?sent = "tw_submitted (sy_world s)" and ?rows = "order_rows (tw_db (sy_world s))"
  have "count (client_ids s) c \<le> 1" for c using assms by (simp add: system_ok_def)
  then have "count (mset (map req_ClientOrderID ?sent)) c \<le> 1" for c
    unfolding client_ids_def count_union by (rule add_leD1)
  then have d: "distinct (map req_ClientOrderID ?sent)" by (rule distinct_count_le)
  have same: "req_ClientOrderID r = req_ClientOrderID r'" if r: "r \<in> set (requests_for key (sy_world s))" "r' \<in> set (requests_for key (sy_world s))" for r r'
  proof -
    obtain row row' where "row \<in> set ?rows" "ord_IdempotencyKey row = key" "ord_ClientOrderID row = req_ClientOrderID r"
      "row' \<in> set ?rows" "ord_IdempotencyKey row' = key" "ord_ClientOrderID row' = req_ClientOrderID r'"
      using r by (auto simp: requests_for_def list_ex_iff)
    moreover have "inj_on ord_IdempotencyKey (set ?rows)" using assms by (simp add: system_ok_def rows_unique_def distinct_map)
    ultimately show ?thesis by (metis inj_onD)
  qed
  have "distinct (map req_ClientOrderID (requests_for key (sy_world s)))" unfolding requests_for_def by (rule distinct_map_filter [OF d])
  then show ?thesis by (rule at_most_one) (rule same)
qed

section \<open>A sample run\<close>

definition sample_service_env :: service_env where
  "sample_service_env =
     \<lparr>sv_now = Hour, sv_ids = [], sv_newID = ''o9'', sv_newClientOrderID = ''sq9'', sv_Sum256 = id,
      sv_Owner = (\<lambda>_. Inr ''u''), sv_Get = (\<lambda>_ _. Inr sample_credentials), sv_catalog = (\<lambda>_. Inr (sample_instrument\<lparr>inst_Exchange := ''binance''\<rparr>)),
      sv_Adapter = (\<lambda>_. Some (sample_adapter (zero_VenueResult\<lparr>vr_VenueOrderID := ''v'', vr_Status := ''open''\<rparr>))), sv_streams = False\<rparr>"

definition sample_place_input :: PlaceOrderInput where
  "sample_place_input =
     \<lparr>poi_Token = ''t'', poi_TradingAccountID = 7, poi_InstrumentID = 1, poi_Side = ''buy'', poi_OrderType = ''limit'',
      poi_Quantity = ''0.012'', poi_Price = ''5000.1'', poi_IdempotencyKey = ''key-1''\<rparr>"

definition sample_world :: trader_world where
  "sample_world = \<lparr>tw_db = sample_db, tw_submitted = [], tw_bindings = []\<rparr>"

definition sample_system :: trader_system where
  "sample_system = \<lparr>sy_world = sample_world, sy_running = {#}\<rparr>"

text \<open>The same request twice, the second one after the order reached the venue.\<close>

lemma sample_admitted:
  obtains sub w where "place_admit std_lib sample_service_env sample_place_input (sy_world sample_system) = (Inr sub, w)"
    and "length (requests_for ''key-1'' (snd (submit_admitted std_lib sample_service_env sub w))) = 1"
    and "isl (fst (place_admit std_lib sample_service_env sample_place_input (snd (submit_admitted std_lib sample_service_env sub w))))"
proof -
  let ?admit = "place_admit std_lib sample_service_env sample_place_input"
  have run: "case ?admit sample_world of (Inl r, w) \<Rightarrow> False
    | (Inr sub, w) \<Rightarrow> let w' = snd (submit_admitted std_lib sample_service_env sub w) in
        length (requests_for ''key-1'' w') = 1 \<and> isl (fst (?admit w'))"
    by code_simp
  then obtain sub w where a: "?admit sample_world = (Inr sub, w)" by (auto split: prod.splits sum.splits)
  let ?w = "snd (submit_admitted std_lib sample_service_env sub w)"
  have r: "length (requests_for ''key-1'' ?w) = 1" "isl (fst (?admit ?w))" using run by (simp_all add: a Let_def)
  show ?thesis using that a r by (simp add: sample_system_def)
qed

end
