(* ===== verification/Twap_Tables.thy ===== *)
theory Twap_Tables
  imports Order_Service "HOL-Library.List_Lexorder" "HOL-Library.Char_ord"
begin

text \<open>
  The table of TWAP jobs beside the tables of orders, and the statements of \<^verbatim>\<open>trader/twap_repository.go\<close> on it:
  creating a job within the limit of an account, leasing jobs that are due, creating the child order of a
  slice together with the pointer to it, the progress that is computed from the children, moving the schedule,
  closing, listing and deleting jobs. A statement is a function on the rows, a failed transaction leaves
  them alone. A missing lease is \<open>None\<close>; missing times of a job are the epoch they are read as. Numeric
  columns are the canonical texts of what they are read as.
\<close>

section \<open>Rows\<close>

record twap_world =
  tp_world :: trader_world
  tp_jobs :: "TwapJob list"
  tp_lease :: "string \<Rightarrow> time option"
  tp_events :: "(string \<times> string) list"

definition tp_db :: "twap_world \<Rightarrow> trader_db" where
  "tp_db s = tw_db (tp_world s)"

definition set_db :: "trader_db \<Rightarrow> twap_world \<Rightarrow> twap_world" where
  "set_db db s = s\<lparr>tp_world := (tp_world s)\<lparr>tw_db := db\<rparr>\<rparr>"

definition active_twap :: "string \<Rightarrow> bool" where
  "active_twap status \<longleftrightarrow> status \<in> set [''pending'', ''running'']"

definition closed_twap :: "string \<Rightarrow> bool" where
  "closed_twap status \<longleftrightarrow> status \<in> set [''completed'', ''partially_completed'', ''canceled'', ''failed'']"

definition getTwapRow :: "(TwapJob \<Rightarrow> bool) \<Rightarrow> twap_world \<Rightarrow> TwapJob go_result" where
  "getTwapRow clause s = (case find clause (tp_jobs s) of None \<Rightarrow> Inl ErrNotFound | Some job \<Rightarrow> Inr job)"

definition repo_GetTwap :: "string \<Rightarrow> twap_world \<Rightarrow> TwapJob go_result" where
  "repo_GetTwap jobID = getTwapRow (\<lambda>job. tj_ID job = jobID)"

definition GetTwapByOwner :: "string \<Rightarrow> string \<Rightarrow> twap_world \<Rightarrow> TwapJob go_result" where
  "GetTwapByOwner owner jobID = getTwapRow (\<lambda>job. tj_OwnerUsername job = owner \<and> tj_ID job = jobID)"

definition AppendTwapEvent :: "string \<Rightarrow> string \<Rightarrow> twap_world \<Rightarrow> twap_world" where
  "AppendTwapEvent jobID eventType s = s\<lparr>tp_events := tp_events s @ [(jobID, eventType)]\<rparr>"

text \<open>An \<open>UPDATE\<close> of the row with an id that satisfies a condition; it returns the new row.\<close>

definition update_job ::
  "string \<Rightarrow> (TwapJob \<Rightarrow> bool) \<Rightarrow> (TwapJob \<Rightarrow> TwapJob) \<Rightarrow> twap_world \<Rightarrow> TwapJob go_result \<times> twap_world" where
  "update_job jobID condition f s =
     (case find (\<lambda>job. tj_ID job = jobID \<and> condition job) (tp_jobs s) of
        None \<Rightarrow> (Inl ErrNotFound, s)
      | Some job \<Rightarrow>
          (Inr (f job), s\<lparr>tp_jobs := map (\<lambda>row. if tj_ID row = jobID \<and> condition row then f row else row) (tp_jobs s)\<rparr>))"

definition set_lease :: "string \<Rightarrow> time option \<Rightarrow> twap_world \<Rightarrow> twap_world" where
  "set_lease jobID lease s = s\<lparr>tp_lease := (tp_lease s)(jobID := lease)\<rparr>"

section \<open>Creating a job\<close>

text \<open>The inserted row, as it is read back. A request that violates a constraint of the table fails.\<close>

definition job_row :: "decimal_lib \<Rightarrow> time \<Rightarrow> decimal \<Rightarrow> TwapJob \<Rightarrow> TwapJob" where
  "job_row L now quantity job =
     job\<lparr>tj_TotalQuantity := StringOf L quantity, tj_FilledQuantity := StringOf L 0, tj_AveragePrice := StringOf L 0,
       tj_LimitPrice := (case NewFromString L (tj_LimitPrice job) of None \<Rightarrow> [] | Some p \<Rightarrow> StringOf L p),
       tj_MaxQuantity := (case NewFromString L (tj_MaxQuantity job) of None \<Rightarrow> [] | Some q \<Rightarrow> StringOf L q),
       tj_Status := ''pending'', tj_CurrentSlice := 0, tj_CurrentAttempt := 0, tj_ActiveOrderID := [],
       tj_SchedulerLeaseUntil := epoch_time, tj_SchedulerFailures := 0, tj_ErrorMessage := [],
       tj_CreatedAt := now, tj_UpdatedAt := now, tj_StartedAt := epoch_time, tj_ClosedAt := epoch_time\<rparr>"

definition job_row_ok :: "decimal_lib \<Rightarrow> TwapJob \<Rightarrow> bool" where
  "job_row_ok L job \<longleftrightarrow>
     tj_Side job \<in> set [''buy'', ''sell''] \<and> tj_ContractType job \<in> set [''spot'', ''perpetual''] \<and>
     tj_ExecutionType job \<in> set [''maker'', ''market''] \<and>
     (case NewFromString L (tj_TotalQuantity job) of None \<Rightarrow> False | Some quantity \<Rightarrow> 0 < quantity) \<and>
     (tj_LimitPrice job \<noteq> [] \<longrightarrow> NewFromString L (tj_LimitPrice job) \<noteq> None) \<and>
     (tj_MaxQuantity job \<noteq> [] \<longrightarrow> NewFromString L (tj_MaxQuantity job) \<noteq> None) \<and>
     tj_StartAt job < tj_EndAt job \<and> 0 < tj_IntervalSeconds job \<and>
     (if tj_ExecutionType job = ''maker''
      then 0 < tj_OrderTimeoutSeconds job \<and> tj_OrderTimeoutSeconds job < tj_IntervalSeconds job
      else tj_OrderTimeoutSeconds job = 0)"

definition repo_CreateTwap ::
  "decimal_lib \<Rightarrow> time \<Rightarrow> string \<Rightarrow> TwapJob \<Rightarrow> twap_world \<Rightarrow> (TwapJob \<times> bool) go_result \<times> twap_world" where
  "repo_CreateTwap L now newID job0 s =
     (let job = (if tj_ID job0 = [] then job0\<lparr>tj_ID := newID\<rparr> else job0) in
      case getTwapRow (\<lambda>row. tj_IdempotencyKey row = tj_IdempotencyKey job) s of
        Inr existing \<Rightarrow> (Inr (existing, False), s)
      | Inl e \<Rightarrow>
          if 5 \<le> length (filter (\<lambda>row. tj_TradingAccountID row = tj_TradingAccountID job \<and> active_twap (tj_Status row)) (tp_jobs s))
          then (Inl ErrActiveTwapLimit, s)
          else if list_ex (\<lambda>row. tj_ID row = tj_ID job) (tp_jobs s) \<or> \<not> job_row_ok L job
          then (Inl (ErrText ''create twap''), s)
          else (case NewFromString L (tj_TotalQuantity job) of
                  None \<Rightarrow> (Inl (ErrText ''create twap''), s)
                | Some quantity \<Rightarrow>
                    let row = job_row L now quantity job in
                    (Inr (row, True),
                     AppendTwapEvent (tj_ID row) ''created''
                       (set_lease (tj_ID row) None (s\<lparr>tp_jobs := tp_jobs s @ [row]\<rparr>)))))"

section \<open>The child order of a slice\<close>

definition twap_children :: "string \<Rightarrow> trader_db \<Rightarrow> Order list" where
  "twap_children jobID db = filter (\<lambda>row. ord_TwapJobID row = jobID) (order_rows db)"

definition twap_row :: "decimal_lib \<Rightarrow> time \<Rightarrow> decimal \<Rightarrow> string \<Rightarrow> Order \<Rightarrow> Order" where
  "twap_row L now quantity jobID order =
     (intent_row L now quantity order)\<lparr>ord_ArbitrageExecutionID := [], ord_ArbitrageLeg := [], ord_ArbitrageRole := [],
       ord_ReduceOnly := False, ord_TwapJobID := jobID, ord_TwapSliceIndex := ord_TwapSliceIndex order,
       ord_TwapAttemptIndex := ord_TwapAttemptIndex order\<rparr>"

text \<open>Besides the identifiers, the position within the job is unique, and at most one child of a job is open.\<close>

definition child_conflict :: "string \<Rightarrow> Order \<Rightarrow> trader_db \<Rightarrow> bool" where
  "child_conflict jobID order db \<longleftrightarrow>
     list_ex (\<lambda>row. ord_ID row = ord_ID order \<or> ord_ClientOrderID row = ord_ClientOrderID order) (order_rows db) \<or>
     list_ex (\<lambda>row. ord_TwapSliceIndex row = ord_TwapSliceIndex order \<and> ord_TwapAttemptIndex row = ord_TwapAttemptIndex order)
       (twap_children jobID db) \<or>
     list_ex (\<lambda>row. open_status (ord_Status row)) (twap_children jobID db)"

definition insert_order :: "time \<Rightarrow> Order \<Rightarrow> trader_db \<Rightarrow> trader_db" where
  "insert_order now row db =
     set_schedule (ord_ID row) (Some now) None (put_order (ord_ID row) row (db\<lparr>db_ids := db_ids db @ [ord_ID row]\<rparr>))"

definition point_to :: "time \<Rightarrow> string \<Rightarrow> string \<Rightarrow> twap_world \<Rightarrow> twap_world" where
  "point_to now jobID orderID s =
     snd (update_job jobID (\<lambda>_. True) (\<lambda>job. job\<lparr>tj_ActiveOrderID := orderID, tj_UpdatedAt := now\<rparr>) s)"

definition CreateTwapIntent ::
  "decimal_lib \<Rightarrow> time \<Rightarrow> string \<Rightarrow> string \<Rightarrow> Order \<Rightarrow> twap_world \<Rightarrow> (Order \<times> bool) go_result \<times> twap_world" where
  "CreateTwapIntent L now newID jobID order0 s =
     (case repo_GetTwap jobID s of Inl e \<Rightarrow> (Inl ErrNotFound, s) | Inr job \<Rightarrow>
      if \<not> active_twap (tj_Status job) then (Inl ErrTwapNotCancelable, s)
      else
        let order = (if ord_ID order0 = [] then order0\<lparr>ord_ID := newID\<rparr> else order0) in
        (case getByIdempotency (ord_IdempotencyKey order) (tp_db s) of
           Inr existing \<Rightarrow>
             if ord_RequestFingerprint existing \<noteq> ord_RequestFingerprint order \<or> ord_TwapJobID existing \<noteq> jobID
             then (Inl ErrIdempotencyConflict, s)
             else (Inr (existing, False), point_to now jobID (ord_ID existing) s)
         | Inl e \<Rightarrow>
             (case NewFromString L (ord_Quantity order) of
                None \<Rightarrow> (Inl (ErrText ''create twap child intent''), s)
              | Some quantity \<Rightarrow>
                  if child_conflict jobID order (tp_db s) \<or> ord_Price order \<noteq> [] \<and> NewFromString L (ord_Price order) = None
                  then (Inl (ErrText ''create twap child intent''), s)
                  else
                    let row = twap_row L now quantity jobID order in
                    (Inr (row, True),
                     point_to now jobID (ord_ID row)
                       (set_db (AppendEvent (ord_ID row) ''intent'' (insert_order now row (tp_db s))) s)))))"

section \<open>Progress and schedule\<close>

text \<open>\<open>pg_div\<close> is the division of the database into the column of the average.\<close>

definition child_filled :: "decimal_lib \<Rightarrow> Order list \<Rightarrow> decimal" where
  "child_filled L rows = sum_list (map (\<lambda>row. fill_amount L (ord_FilledQuantity row)) rows)"

definition child_average :: "decimal_lib \<Rightarrow> (decimal \<Rightarrow> decimal \<Rightarrow> decimal) \<Rightarrow> Order list \<Rightarrow> decimal" where
  "child_average L pg_div rows =
     (if 0 < child_filled L rows
      then pg_div (sum_list (map (\<lambda>row. fill_amount L (ord_FilledQuantity row) * fill_amount L (ord_AveragePrice row)) rows))
             (child_filled L rows)
      else 0)"

definition refreshed_job :: "decimal_lib \<Rightarrow> (decimal \<Rightarrow> decimal \<Rightarrow> decimal) \<Rightarrow> time \<Rightarrow> Order list \<Rightarrow> TwapJob \<Rightarrow> TwapJob" where
  "refreshed_job L pg_div now children job =
     job\<lparr>tj_FilledQuantity := StringOf L (min (fill_amount L (tj_TotalQuantity job)) (child_filled L children)),
         tj_AveragePrice := StringOf L (child_average L pg_div children), tj_UpdatedAt := now\<rparr>"

definition RefreshTwapProgress ::
  "decimal_lib \<Rightarrow> (decimal \<Rightarrow> decimal \<Rightarrow> decimal) \<Rightarrow> time \<Rightarrow> string \<Rightarrow> twap_world \<Rightarrow> TwapJob go_result \<times> twap_world" where
  "RefreshTwapProgress L pg_div now jobID s =
     update_job jobID (\<lambda>_. True) (refreshed_job L pg_div now (twap_children jobID (tp_db s))) s"

definition scheduled_job ::
  "time \<Rightarrow> string \<Rightarrow> int \<Rightarrow> int \<Rightarrow> time \<Rightarrow> string \<Rightarrow> string \<Rightarrow> TwapJob \<Rightarrow> TwapJob" where
  "scheduled_job now status slice attempt next_at activeOrderID errorMessage job =
     job\<lparr>tj_Status := status, tj_CurrentSlice := slice, tj_CurrentAttempt := attempt, tj_NextActionAt := next_at,
         tj_ActiveOrderID := activeOrderID, tj_ErrorMessage := truncateMessage errorMessage,
         tj_StartedAt := (if status = ''running'' \<and> tj_StartedAt job = epoch_time then now else tj_StartedAt job),
         tj_SchedulerLeaseUntil := epoch_time, tj_SchedulerFailures := 0, tj_UpdatedAt := now\<rparr>"

definition UpdateTwapSchedule ::
  "time \<Rightarrow> string \<Rightarrow> string \<Rightarrow> int \<Rightarrow> int \<Rightarrow> time \<Rightarrow> string \<Rightarrow> string \<Rightarrow> twap_world \<Rightarrow> TwapJob go_result \<times> twap_world" where
  "UpdateTwapSchedule now jobID status slice attempt next_at activeOrderID errorMessage s =
     (case update_job jobID (\<lambda>job. active_twap (tj_Status job))
             (scheduled_job now status slice attempt next_at activeOrderID errorMessage) s of
        (Inl e, s') \<Rightarrow> (Inl e, s')
      | (Inr job, s') \<Rightarrow> (Inr job, set_lease jobID None s'))"

definition closed_job :: "time \<Rightarrow> string \<Rightarrow> string \<Rightarrow> TwapJob \<Rightarrow> TwapJob" where
  "closed_job now status message job =
     (let closedAt = (if tj_ClosedAt job = epoch_time then now else tj_ClosedAt job) in
      job\<lparr>tj_Status := status, tj_ErrorMessage := truncateMessage message, tj_ActiveOrderID := [],
          tj_ClosedAt := closedAt, tj_UpdatedAt := now, tj_NextActionAt := closedAt, tj_SchedulerLeaseUntil := epoch_time\<rparr>)"

definition CloseTwap :: "time \<Rightarrow> string \<Rightarrow> string \<Rightarrow> string \<Rightarrow> twap_world \<Rightarrow> TwapJob go_result \<times> twap_world" where
  "CloseTwap now jobID status message s =
     (case update_job jobID (\<lambda>job. active_twap (tj_Status job)) (closed_job now status message) s of
        (Inl e, s') \<Rightarrow> (repo_GetTwap jobID s', s')
      | (Inr job, s') \<Rightarrow> (Inr job, set_lease jobID None s'))"

section \<open>Leases, lists and deletion\<close>

definition LeaseDueTwaps ::
  "time \<Rightarrow> (string \<Rightarrow> bool) \<Rightarrow> int \<Rightarrow> duration \<Rightarrow> twap_world \<Rightarrow> TwapJob list \<times> twap_world" where
  "LeaseDueTwaps now locked limit0 lease0 s =
     (let limit = (if limit0 \<le> 0 \<or> limit0 > 100 then 20 else limit0);
          lease = (if lease0 \<le> 0 then 30 * Second else lease0);
          due = filter (\<lambda>job. active_twap (tj_Status job) \<and> tj_NextActionAt job \<le> now \<and>
                  (case tp_lease s (tj_ID job) of None \<Rightarrow> True | Some t \<Rightarrow> t < now) \<and> \<not> locked (tj_ID job)) (tp_jobs s);
          items = take (nat limit) (sort_key tj_NextActionAt (sort_key tj_CreatedAt (sort_key tj_ID due)));
          leased = (\<lambda>job. if tj_ID job \<in> tj_ID ` set items then job\<lparr>tj_SchedulerLeaseUntil := now + lease\<rparr> else job)
      in (map leased items,
          s\<lparr>tp_jobs := map leased (tp_jobs s),
            tp_lease := (\<lambda>jobID. if jobID \<in> tj_ID ` set items then Some (now + lease) else tp_lease s jobID)\<rparr>))"

definition repo_ListTwapOrders :: "string \<Rightarrow> string \<Rightarrow> twap_world \<Rightarrow> Order list" where
  "repo_ListTwapOrders owner jobID s =
     sort_key ord_TwapSliceIndex (sort_key ord_TwapAttemptIndex
       (filter (\<lambda>row. ord_OwnerUsername row = owner) (twap_children jobID (tp_db s))))"

text \<open>A page of jobs, newest first, and the id to continue from. The rows that follow the cursor are those whose
  time and id are smaller than the cursor's; a cursor that names no row leaves none.\<close>

definition list_time :: "string \<Rightarrow> TwapJob \<Rightarrow> time" where
  "list_time view job = (if view = ''closed'' then tj_ClosedAt job else tj_UpdatedAt job)"

definition repo_ListTwaps ::
  "string \<Rightarrow> int \<Rightarrow> string \<Rightarrow> string \<Rightarrow> int \<Rightarrow> string \<Rightarrow> twap_world \<Rightarrow> TwapJob list \<times> string" where
  "repo_ListTwaps owner accountID view status limit0 cursor s =
     (let limit = (if limit0 \<le> 0 \<or> limit0 > 100 then 50 else limit0);
          key = (\<lambda>job. (list_time view job, tj_ID job));
          after = (\<lambda>job. cursor = [] \<or>
            (case find (\<lambda>row. tj_ID row = cursor) (tp_jobs s) of
               None \<Rightarrow> False
             | Some c \<Rightarrow> list_time view job < list_time view c \<or> list_time view job = list_time view c \<and> tj_ID job < tj_ID c));
          rows = filter (\<lambda>job. tj_OwnerUsername job = owner \<and> (accountID = 0 \<or> tj_TradingAccountID job = accountID) \<and>
            (if view = ''closed'' then closed_twap (tj_Status job) else active_twap (tj_Status job)) \<and>
            (status = [] \<or> tj_Status job = status) \<and> after job) (tp_jobs s);
          items = take (nat limit + 1) (rev (sort_key (list_time view) (sort_key tj_ID rows)))
      in if nat limit < length items
         then (take (nat limit) items, tj_ID (last (take (nat limit) items))) else (items, []))"

text \<open>Deleting a job clears the reference of its children.\<close>

definition orphan :: "string set \<Rightarrow> trader_db \<Rightarrow> trader_db" where
  "orphan jobIDs db =
     db\<lparr>db_store := (db_store db)\<lparr>os_orders := (\<lambda>orderID. map_option (\<lambda>row.
          if ord_TwapJobID row \<in> jobIDs then row\<lparr>ord_TwapJobID := []\<rparr> else row) (os_orders (db_store db) orderID))\<rparr>\<rparr>"

definition DeleteClosedTwaps :: "(string \<Rightarrow> bool) \<Rightarrow> time \<Rightarrow> int \<Rightarrow> twap_world \<Rightarrow> int \<times> twap_world" where
  "DeleteClosedTwaps locked cutoff limit0 s =
     (let limit = (if limit0 \<le> 0 \<or> limit0 > 1000 then 100 else limit0);
          rows = filter (\<lambda>job. closed_twap (tj_Status job) \<and> tj_ClosedAt job \<noteq> epoch_time \<and> tj_ClosedAt job < cutoff \<and> \<not> locked (tj_ID job)) (tp_jobs s);
          ids = set (map tj_ID (take (nat limit) (sort_key tj_ClosedAt rows)))
      in (int (length (filter (\<lambda>job. tj_ID job \<in> ids) (tp_jobs s))),
          set_db (orphan ids (tp_db s))
            (s\<lparr>tp_jobs := filter (\<lambda>job. tj_ID job \<notin> ids) (tp_jobs s),
               tp_events := filter (\<lambda>(jobID, _). jobID \<notin> ids) (tp_events s)\<rparr>)))"

end
