(* ===== verification/Twap_Scheduler.thy ===== *)
theory Twap_Scheduler
  imports Twap_Tables
begin

text \<open>
  TWAP execution: the scheduler of \<^verbatim>\<open>trader/twap_scheduler.go\<close> that turns a job into child orders, the handlers
  of \<^verbatim>\<open>trader/twap_service.go\<close> that create, cancel and list jobs, and the cleanup of \<^verbatim>\<open>trader/twap_cleanup.go\<close>. A handler
  is a function on the tables; the readings of the clock, the venues, the catalog and the credentials are
  arguments. A job is advanced under the lock of its account, so advancing it is one step; reports on its
  children come between such steps.
\<close>

section \<open>Errors\<close>

fun sentinel_text :: "trader_error \<Rightarrow> string" where
  "sentinel_text ErrInvalidArgument = ''invalid argument''"
| "sentinel_text ErrInvalidServiceToken = ''invalid service token''"
| "sentinel_text ErrOrderBelowMinimum = ''order below minimum''"
| "sentinel_text ErrNotFound = ''not found''"
| "sentinel_text ErrIdempotencyConflict = ''idempotency key conflict''"
| "sentinel_text ErrActiveTwapLimit = ''active twap limit reached''"
| "sentinel_text ErrUnsupportedExchange = ''unsupported exchange''"
| "sentinel_text ErrInstrumentUnavailable = ''instrument unavailable''"
| "sentinel_text ErrOrderNotCancelable = ''order is not cancelable''"
| "sentinel_text ErrTwapNotCancelable = ''twap is not cancelable''"
| "sentinel_text ErrPersistence = ''order persistence failed''"
| "sentinel_text ErrVenueRejected = ''venue rejected order''"
| "sentinel_text ErrVenueRateLimited = ''venue rate limited''"
| "sentinel_text ErrVenueUnavailable = ''venue unavailable''"
| "sentinel_text ErrVenueUncertain = ''venue result uncertain''"
| "sentinel_text ErrUnsupported = ''unsupported exchange''"
| "sentinel_text ErrUncertain = ''venue result uncertain''"
| "sentinel_text ErrRejected = ''venue rejected order''"
| "sentinel_text ErrAmbiguousCancel = ''venue cancel result ambiguous''"
| "sentinel_text ErrOrderNotFound = ''venue order not found''"
| "sentinel_text ErrRateLimited = ''venue rate limited''"
| "sentinel_text ErrInvalidQuantity = ''invalid order quantity''"
| "sentinel_text ErrPreviousAttemptNotFound = ''previous twap attempt not found''"
| "sentinel_text (ErrText text) = text"
| "sentinel_text _ = []"

text \<open>The text of a wrapped error. The words a format adds between the parts are left out; none of the phrases that
  are looked for below occurs in them or across them.\<close>

fun error_text :: "go_error \<Rightarrow> string" where
  "error_text (Sentinel e) = sentinel_text e"
| "error_text (VenueError err) = ve_text err"
| "error_text (Wrapf e errs) = sentinel_text e @ concat (map (\<lambda>err. '': '' @ error_text err) errs)"

definition sanitized :: "go_error \<Rightarrow> string" where
  "sanitized err = sanitizeError \<lparr>ve_is = [], ve_text = error_text err\<rparr>"

definition tradingAuthorizationLost :: "go_error \<Rightarrow> bool" where
  "tradingAuthorizationLost err \<longleftrightarrow>
     list_ex (Contains (ToLower (error_text err)))
       [''unauthorized'', ''private key'', ''api wallet not found'', ''wallet unauthorized'']"

section \<open>Slices\<close>

definition twapSliceEnd :: "TwapJob \<Rightarrow> time" where
  "twapSliceEnd job =
     (let sliceEnd = tj_StartAt job + wrap64 (wrap64 (wrap64 (tj_CurrentSlice job + 1) * tj_IntervalSeconds job) * Second)
      in if sliceEnd > tj_EndAt job then tj_EndAt job else sliceEnd)"

text \<open>\<open>sum64\<close> is the number in the first eight bytes of the digest of a text.\<close>

definition twapSliceFireAt ::
  "decimal_lib \<Rightarrow> (string \<Rightarrow> int) \<Rightarrow> string \<Rightarrow> int \<Rightarrow> time \<Rightarrow> time \<Rightarrow> int \<Rightarrow> time" where
  "twapSliceFireAt L sum64 jobID slice start end_at intervalSeconds =
     (let sliceStart = start + wrap64 (wrap64 (slice * intervalSeconds) * Second) in
      if \<not> sliceStart < end_at then end_at
      else let end0 = sliceStart + wrap64 (intervalSeconds * Second);
               sliceEnd = (if end0 > end_at then end_at else end0);
               window = time_Sub sliceEnd sliceStart
           in if window \<le> 0 then sliceStart
              else sliceStart + sum64 (jobID @ '':'' @ itoa L slice) mod window)"

definition calculateSliceQuantity ::
  "decimal_lib \<Rightarrow> decimal \<Rightarrow> duration \<Rightarrow> duration \<Rightarrow> decimal \<Rightarrow> decimal \<Rightarrow> decimal" where
  "calculateSliceQuantity L remaining interval remainingTime maxQuantity step =
     (if \<not> 0 < remaining \<or> interval \<le> 0 \<or> remainingTime \<le> 0 then 0
      else let qty0 = Div L (remaining * of_int interval) (of_int remainingTime);
               qty1 = (if 0 < maxQuantity \<and> qty0 > maxQuantity then maxQuantity else qty0);
               qty2 = (if qty1 > remaining then remaining else qty1)
           in floorToStep L qty2 step)"

definition makerPrice :: "decimal_lib \<Rightarrow> TwapJob \<Rightarrow> Instrument \<Rightarrow> VenueBBO \<Rightarrow> string go_result" where
  "makerPrice L job instrument bbo =
     (let sell = (tj_Side job = ''sell'') in
      case NewFromString L (TrimSpace (if sell then vb_AskPrice bbo else vb_BidPrice bbo)) of
        None \<Rightarrow> Inl ErrInvalidArgument
      | Some price0 \<Rightarrow>
          if \<not> 0 < price0 then Inl ErrInvalidArgument
          else let tick = parsePositiveDecimal L (inst_PriceTick instrument);
                   price1 = (if 0 < tick then (if sell then ceilToStep L price0 tick else floorToStep L price0 tick) else price0);
                   limit = parsePositiveDecimal L (tj_LimitPrice job);
                   price2 = (if 0 < limit \<and> tj_Side job = ''buy'' \<and> price1 > limit then limit else price1);
                   price3 = (if 0 < limit \<and> tj_Side job = ''sell'' \<and> price2 < limit then limit else price2)
               in Inr (StringOf L price3))"

definition padded :: "decimal_lib \<Rightarrow> nat \<Rightarrow> int \<Rightarrow> string" where
  "padded L width n =
     (if n < 0 then CHR ''-'' # (let t = itoa L (- n) in replicate (width - 1 - length t) CHR ''0'' @ t)
      else (let t = itoa L n in replicate (width - length t) CHR ''0'' @ t))"

definition deterministicTwapClientID :: "decimal_lib \<Rightarrow> string \<Rightarrow> int \<Rightarrow> int \<Rightarrow> string" where
  "deterministicTwapClientID L jobID slice attempt =
     (let compact = filter (\<lambda>c. c \<noteq> CHR ''-'') jobID
      in ''sqt'' @ (if length compact > 12 then take 12 compact else compact) @ padded L 5 slice @ padded L 3 attempt)"

text \<open>The remainder of the child at the previous attempt; the newest one if there are several.\<close>

definition makerRetryQuantityFromOrders ::
  "decimal_lib \<Rightarrow> TwapJob \<Rightarrow> Instrument \<Rightarrow> Order list \<Rightarrow> decimal go_result" where
  "makerRetryQuantityFromOrders L job instrument orders =
     (case find (\<lambda>order. ord_TwapSliceIndex order = tj_CurrentSlice job \<and>
                         ord_TwapAttemptIndex order = tj_CurrentAttempt job - 1) (rev orders) of
        None \<Rightarrow> Inl ErrPreviousAttemptNotFound
      | Some order \<Rightarrow>
          Inr (floorToStep L (parseDecimal L (ord_Quantity order) - parseDecimal L (ord_FilledQuantity order))
                 (parsePositiveDecimal L (inst_QuantityStep instrument))))"

section \<open>The scheduler\<close>

record TwapScheduler =
  ts_interval :: duration
  ts_lease :: duration
  ts_timeout :: duration
  ts_batchSize :: int
  ts_workers :: int

definition NewTwapScheduler :: "duration \<Rightarrow> duration \<Rightarrow> duration \<Rightarrow> int \<Rightarrow> int \<Rightarrow> TwapScheduler" where
  "NewTwapScheduler interval lease timeout batchSize workers =
     \<lparr>ts_interval = (if interval \<le> 0 then 500 * Millisecond else interval),
      ts_lease = (if lease \<le> 0 then 30 * Second else lease),
      ts_timeout = (if timeout \<le> 0 then 12 * Second else timeout),
      ts_batchSize = (if batchSize \<le> 0 then 20 else batchSize),
      ts_workers = (if workers \<le> 0 then 4 else workers)\<rparr>"

text \<open>\<open>te_now\<close> are the readings of the clock in the order in which a handler takes them, \<open>te_db_now\<close> the clock of the
  database.\<close>

record twap_env =
  te_service :: service_env
  te_now :: "nat \<Rightarrow> time"
  te_db_now :: "time"
  te_catalog :: "int \<Rightarrow> go_error + Instrument"
  te_GetInternal :: "string \<Rightarrow> int \<Rightarrow> go_error + Credentials"
  te_Adapter :: "string \<Rightarrow> Adapter option"
  te_sum64 :: "string \<Rightarrow> int"
  te_pg_div :: "decimal \<Rightarrow> decimal \<Rightarrow> decimal"

definition twap_retry :: "twap_env \<Rightarrow> TwapJob \<Rightarrow> go_error \<Rightarrow> twap_world \<Rightarrow> twap_world" where
  "twap_retry env job err s =
     (let delay = Second * 2 ^ nat (min (tj_SchedulerFailures job) 6) in
      snd (UpdateTwapSchedule (te_db_now env) (tj_ID job) (tj_Status job) (tj_CurrentSlice job) (tj_CurrentAttempt job)
             (te_now env 9 + (if delay > Minute then Minute else delay)) (tj_ActiveOrderID job) (sanitized err) s))"

definition twap_refresh :: "decimal_lib \<Rightarrow> twap_env \<Rightarrow> string \<Rightarrow> twap_world \<Rightarrow> TwapJob go_result \<times> twap_world" where
  "twap_refresh L env jobID s = RefreshTwapProgress L (te_pg_div env) (te_db_now env) jobID s"

definition twap_close :: "decimal_lib \<Rightarrow> twap_env \<Rightarrow> TwapJob \<Rightarrow> string \<Rightarrow> string \<Rightarrow> twap_world \<Rightarrow> twap_world" where
  "twap_close L env job status message s =
     (case CloseTwap (te_db_now env) (tj_ID job) status message s of
        (Inl e, s1) \<Rightarrow> twap_retry env job (Sentinel e) s1
      | (Inr closedJob, s1) \<Rightarrow>
          if tj_Status closedJob \<noteq> status then s1
          else AppendTwapEvent (tj_ID job) ''closed'' (snd (twap_refresh L env (tj_ID closedJob) s1)))"

definition twap_fail :: "decimal_lib \<Rightarrow> twap_env \<Rightarrow> TwapJob \<Rightarrow> string \<Rightarrow> twap_world \<Rightarrow> twap_world" where
  "twap_fail L env job message s = twap_close L env job ''failed'' message s"

definition advanceSlice :: "decimal_lib \<Rightarrow> twap_env \<Rightarrow> TwapJob \<Rightarrow> twap_world \<Rightarrow> twap_world" where
  "advanceSlice L env job s =
     (let nextSlice = tj_CurrentSlice job + 1;
          next_at = twapSliceFireAt L (te_sum64 env) (tj_ID job) nextSlice (tj_StartAt job) (tj_EndAt job) (tj_IntervalSeconds job)
      in case UpdateTwapSchedule (te_db_now env) (tj_ID job) ''running'' nextSlice 0 next_at [] [] s of
           (Inl e, s1) \<Rightarrow> s1
         | (Inr _, s1) \<Rightarrow> AppendTwapEvent (tj_ID job) ''slice_advanced'' s1)"

definition scheduleMakerRetry :: "decimal_lib \<Rightarrow> twap_env \<Rightarrow> TwapJob \<Rightarrow> Order \<Rightarrow> twap_world \<Rightarrow> twap_world" where
  "scheduleMakerRetry L env job order s =
     (let remaining0 = parseDecimal L (ord_Quantity order) - parseDecimal L (ord_FilledQuantity order) in
      case te_catalog env (tj_InstrumentID job) of
        Inl e \<Rightarrow> twap_retry env job e s
      | Inr instrument \<Rightarrow>
          let remaining = floorToStep L remaining0 (parsePositiveDecimal L (inst_QuantityStep instrument)) in
          if \<not> 0 < remaining \<or> \<not> te_now env 3 < twapSliceEnd job then advanceSlice L env job s
          else let nextAttempt = max (tj_CurrentAttempt job) (ord_TwapAttemptIndex order) + 1 in
            (case UpdateTwapSchedule (te_db_now env) (tj_ID job) ''running'' (tj_CurrentSlice job) nextAttempt (te_now env 4) [] [] s of
               (Inl e, s1) \<Rightarrow> s1
             | (Inr _, s1) \<Rightarrow> AppendTwapEvent (tj_ID job) ''slice_retry_scheduled'' s1))"

definition cancel_request :: "Instrument \<Rightarrow> Order \<Rightarrow> CancelRequest" where
  "cancel_request instrument order =
     \<lparr>cn_Instrument = toVenueInstrument instrument, cn_ClientOrderID = ord_ClientOrderID order, cn_VenueOrderID = ord_VenueOrderID order\<rparr>"

definition cancelActive :: "decimal_lib \<Rightarrow> twap_env \<Rightarrow> TwapJob \<Rightarrow> twap_world \<Rightarrow> handler_result \<times> twap_world" where
  "cancelActive L env job s =
     (let failed = (\<lambda>e. ((zero_Order, Some e), s)) in
      case GetByOwner (tj_OwnerUsername job) (tj_ActiveOrderID job) (tp_db s) of Inl e \<Rightarrow> failed (Sentinel e) | Inr order \<Rightarrow>
        if terminalStatus (ord_Status order) then ((order, None), s)
        else
     (case te_GetInternal env (tj_OwnerUsername job) (tj_TradingAccountID job) of Inl e \<Rightarrow> failed e | Inr credentials \<Rightarrow>
     (case te_catalog env (tj_InstrumentID job) of Inl e \<Rightarrow> failed e | Inr instrument \<Rightarrow>
     (case te_Adapter env (tj_Exchange job) of None \<Rightarrow> failed (Sentinel ErrUnsupportedExchange) | Some adapter \<Rightarrow>
     (case ad_CancelAndGetOrder adapter (toVenueCredentials credentials) (cancel_request instrument order) of
        (result, Some err) \<Rightarrow> failed (VenueError err)
      | (result, None) \<Rightarrow>
          let status = (if TrimSpace (vr_Status result) = [] then ''canceled'' else vr_Status result) in
          (case UpdateResult L (te_db_now env) (sv_ids (te_service env)) (ord_ID order)
                  (result\<lparr>vr_Status := status, vr_LocalCommandAck := False, vr_Raw := []\<rparr>) (tp_db s) of
             (Inl e, db) \<Rightarrow> ((zero_Order, Some (Sentinel e)), set_db db s)
           | (Inr updated, db) \<Rightarrow>
               ((updated, if terminalStatus (ord_Status updated) then None else Some (Wrapf ErrVenueUncertain [])),
                AppendTwapEvent (tj_ID job) ''slice_canceled'' (set_db db s))))))))"

text \<open>A child order, and where the scheduler looks next after it was created.\<close>

definition child_order :: "decimal_lib \<Rightarrow> twap_env \<Rightarrow> TwapJob \<Rightarrow> string \<Rightarrow> decimal \<Rightarrow> string \<Rightarrow> Order" where
  "child_order L env job orderType qty price =
     zero_Order\<lparr>
       ord_IdempotencyKey := ''twap:'' @ tj_ID job @ '':'' @ itoa L (tj_CurrentSlice job) @ '':'' @ itoa L (tj_CurrentAttempt job),
       ord_OwnerUsername := tj_OwnerUsername job, ord_TradingAccountID := tj_TradingAccountID job,
       ord_ProductName := tj_ProductName job, ord_Exchange := tj_Exchange job, ord_InstrumentID := tj_InstrumentID job,
       ord_ContractType := tj_ContractType job, ord_ExchangeSymbol := tj_ExchangeSymbol job,
       ord_BaseAsset := tj_BaseAsset job, ord_QuoteAsset := tj_QuoteAsset job,
       ord_ClientOrderID := deterministicTwapClientID L (tj_ID job) (tj_CurrentSlice job) (tj_CurrentAttempt job),
       ord_Side := tj_Side job, ord_OrderType := orderType, ord_Quantity := StringOf L qty, ord_Price := price,
       ord_RequestFingerprint := requestFingerprint L (sv_Sum256 (te_service env)) (tj_TradingAccountID job)
         (tj_InstrumentID job) (tj_Side job) orderType (StringOf L qty) price [],
       ord_TwapJobID := tj_ID job, ord_TwapSliceIndex := tj_CurrentSlice job, ord_TwapAttemptIndex := tj_CurrentAttempt job\<rparr>"

definition after_child :: "twap_env \<Rightarrow> TwapJob \<Rightarrow> Order \<Rightarrow> time" where
  "after_child env job intent =
     (if tj_ExecutionType job = ''maker''
      then let timeout = wrap64 (tj_OrderTimeoutSeconds job * Second);
               next_at = (if IsZero (ord_CreatedAt intent) then te_now env 4 + timeout else ord_CreatedAt intent + timeout)
           in if twapSliceEnd job < next_at then twapSliceEnd job else next_at
      else te_now env 3 + Second)"

text \<open>Type, price, time in force and the post-only flag of the order of a slice; \<open>None\<close> without a usable quote.\<close>

definition slice_terms ::
  "decimal_lib \<Rightarrow> twap_env \<Rightarrow> TwapJob \<Rightarrow> Instrument \<Rightarrow> Adapter \<Rightarrow> (string \<times> string \<times> string \<times> bool) option" where
  "slice_terms L env job instrument adapter =
     (if tj_ExecutionType job = ''maker'' then
        (case ad_GetBBO adapter (toVenueInstrument instrument) of
           (bbo, Some e) \<Rightarrow> None
         | (bbo, None) \<Rightarrow>
             if IsZero (vb_Timestamp bbo) \<or> time_Sub (te_now env 2) (vb_Timestamp bbo) > 5 * Second then None
             else (case makerPrice L job instrument bbo of
                     Inl e \<Rightarrow> None | Inr price \<Rightarrow> Some (''limit'', price, ''GTC'', True)))
      else if tj_LimitPrice job \<noteq> [] then Some (''limit'', tj_LimitPrice job, ''IOC'', False)
      else Some (''market'', [], [], False))"

definition slice_quantity :: "decimal_lib \<Rightarrow> twap_env \<Rightarrow> TwapJob \<Rightarrow> Instrument \<Rightarrow> twap_world \<Rightarrow> decimal go_result" where
  "slice_quantity L env job instrument s =
     (if tj_CurrentAttempt job > 0
      then makerRetryQuantityFromOrders L job instrument (repo_ListTwapOrders (tj_OwnerUsername job) (tj_ID job) s)
      else Inr (calculateSliceQuantity L
             (parsePositiveDecimal L (tj_TotalQuantity job) - parseDecimal L (tj_FilledQuantity job))
             (wrap64 (tj_IntervalSeconds job * Second)) (time_Sub (tj_EndAt job) (te_now env 1))
             (parsePositiveDecimal L (tj_MaxQuantity job)) (parsePositiveDecimal L (inst_QuantityStep instrument))))"

text \<open>Creating and submitting the child. The last component tells whether the job was given up.\<close>

definition place_child ::
  "decimal_lib \<Rightarrow> twap_env \<Rightarrow> TwapJob \<Rightarrow> Instrument \<Rightarrow> Credentials \<Rightarrow> Adapter \<Rightarrow> Order \<Rightarrow> string \<Rightarrow> bool \<Rightarrow> twap_world \<Rightarrow> bool \<times> twap_world" where
  "place_child L env job instrument credentials adapter intent tif postOnly s =
     (let s1 = AppendTwapEvent (tj_ID job) ''slice_submitted'' s in
      case submitWithOptions L (te_service env) adapter credentials instrument intent tif postOnly (tp_world s1) of
        ((order, err), w) \<Rightarrow>
          let s2 = s1\<lparr>tp_world := w\<rparr> in
          (case err of
             None \<Rightarrow> (False, s2)
           | Some e \<Rightarrow>
               if \<not> errors_Is e ErrVenueUncertain \<and> tradingAuthorizationLost e
               then (True, twap_fail L env job ''trading authorization lost'' s2)
               else (False, s2)))"

definition submit_child ::
  "decimal_lib \<Rightarrow> twap_env \<Rightarrow> TwapJob \<Rightarrow> Instrument \<Rightarrow> Credentials \<Rightarrow> Adapter \<Rightarrow> decimal \<Rightarrow> string \<times> string \<times> string \<times> bool \<Rightarrow>
   twap_world \<Rightarrow> twap_world" where
  "submit_child L env job instrument credentials adapter qty terms s =
     (case terms of (orderType, price, tif, postOnly) \<Rightarrow>
     (case CreateTwapIntent L (te_db_now env) (sv_newID (te_service env)) (tj_ID job) (child_order L env job orderType qty price) s of
        (Inl e, s1) \<Rightarrow> if e = ErrTwapNotCancelable then s1 else twap_retry env job (Sentinel e) s1
      | (Inr (intent, created), s1) \<Rightarrow>
          (case (if created then place_child L env job instrument credentials adapter intent tif postOnly s1 else (False, s1)) of
             (givenUp, s2) \<Rightarrow>
               if givenUp then s2
               else snd (UpdateTwapSchedule (te_db_now env) (tj_ID job) ''running'' (tj_CurrentSlice job) (tj_CurrentAttempt job)
                           (after_child env job intent) (ord_ID intent) [] s2))))"

definition submitSlice :: "decimal_lib \<Rightarrow> twap_env \<Rightarrow> TwapJob \<Rightarrow> twap_world \<Rightarrow> twap_world" where
  "submitSlice L env job s =
     (let remaining = parsePositiveDecimal L (tj_TotalQuantity job) - parseDecimal L (tj_FilledQuantity job) in
      if \<not> 0 < remaining \<or> time_Sub (tj_EndAt job) (te_now env 1) \<le> 0
      then twap_close L env job ''partially_completed'' ''execution window ended'' s
      else case te_catalog env (tj_InstrumentID job) of Inl e \<Rightarrow> twap_retry env job e s | Inr instrument \<Rightarrow>
     (case slice_quantity L env job instrument s of Inl e \<Rightarrow> twap_retry env job (Sentinel e) s | Inr qty \<Rightarrow>
        if \<not> 0 < qty then advanceSlice L env job s
        else
     (case te_GetInternal env (tj_OwnerUsername job) (tj_TradingAccountID job) of Inl e \<Rightarrow> twap_retry env job e s | Inr credentials \<Rightarrow>
     (case te_Adapter env (tj_Exchange job) of None \<Rightarrow> twap_fail L env job ''unsupported exchange'' s | Some adapter \<Rightarrow>
     (case slice_terms L env job instrument adapter of
        None \<Rightarrow> advanceSlice L env job s
      | Some terms \<Rightarrow> submit_child L env job instrument credentials adapter qty terms s)))))"

definition handle_deadline :: "TwapJob \<Rightarrow> Order \<Rightarrow> time" where
  "handle_deadline job order =
     (let deadline = ord_CreatedAt order + wrap64 (tj_OrderTimeoutSeconds job * Second)
      in if twapSliceEnd job < deadline then twapSliceEnd job else deadline)"

definition handleActive :: "decimal_lib \<Rightarrow> twap_env \<Rightarrow> TwapJob \<Rightarrow> twap_world \<Rightarrow> twap_world" where
  "handleActive L env job s =
     (case GetByOwner (tj_OwnerUsername job) (tj_ActiveOrderID job) (tp_db s) of Inl e \<Rightarrow> twap_retry env job (Sentinel e) s | Inr order \<Rightarrow>
      if terminalStatus (ord_Status order) then
        (if tj_ExecutionType job = ''maker'' \<and> (ord_Status order = ''canceled'' \<or> ord_Status order = ''expired'') \<and>
            te_now env 1 < twapSliceEnd job
         then scheduleMakerRetry L env job order s else advanceSlice L env job s)
      else if tj_ExecutionType job = ''maker'' then
        (if \<not> te_now env 1 < handle_deadline job order
         then (case cancelActive L env job s of
                 ((canceled, Some e), s1) \<Rightarrow> twap_retry env job e s1
               | ((canceled, None), s1) \<Rightarrow>
                   if te_now env 2 < twapSliceEnd job then scheduleMakerRetry L env job canceled s1
                   else advanceSlice L env job s1)
         else snd (UpdateTwapSchedule (te_db_now env) (tj_ID job) ''running'' (tj_CurrentSlice job) (tj_CurrentAttempt job)
                     (handle_deadline job order) (tj_ActiveOrderID job) [] s))
      else snd (UpdateTwapSchedule (te_db_now env) (tj_ID job) ''running'' (tj_CurrentSlice job) (tj_CurrentAttempt job)
                  (te_now env 1 + Second) (tj_ActiveOrderID job) [] s))"

text \<open>The end of the window. A maker order that is still active is cancelled first, and what it filled counts.\<close>

definition window_ended :: "decimal_lib \<Rightarrow> twap_env \<Rightarrow> TwapJob \<Rightarrow> twap_world \<Rightarrow> twap_world" where
  "window_ended L env job s =
     (let requested = parsePositiveDecimal L (tj_TotalQuantity job);
          (job1, s1) =
            (if tj_ExecutionType job = ''maker'' \<and> tj_ActiveOrderID job \<noteq> []
             then (case twap_refresh L env (tj_ID job) (snd (cancelActive L env job s)) of
                     (Inl e, s1) \<Rightarrow> (zero_TwapJob, s1) | (Inr refreshed, s1) \<Rightarrow> (refreshed, s1))
             else (job, s))
      in twap_close L env job1
           (if requested \<le> parseDecimal L (tj_FilledQuantity job1) then ''completed'' else ''partially_completed'')
           ''execution window ended'' s1)"

definition start_job :: "decimal_lib \<Rightarrow> twap_env \<Rightarrow> TwapJob \<Rightarrow> twap_world \<Rightarrow> twap_world" where
  "start_job L env job s =
     (let fireAt = twapSliceFireAt L (te_sum64 env) (tj_ID job) (tj_CurrentSlice job) (tj_StartAt job) (tj_EndAt job) (tj_IntervalSeconds job)
      in case UpdateTwapSchedule (te_db_now env) (tj_ID job) ''running'' (tj_CurrentSlice job) (tj_CurrentAttempt job) fireAt
                (tj_ActiveOrderID job) [] s of
           (Inl e, s1) \<Rightarrow> twap_retry env zero_TwapJob (Sentinel e) s1
         | (Inr started, s1) \<Rightarrow> AppendTwapEvent (tj_ID started) ''started'' s1)"

definition advance :: "decimal_lib \<Rightarrow> twap_env \<Rightarrow> TwapJob \<Rightarrow> twap_world \<Rightarrow> twap_world" where
  "advance L env leased s =
     (case twap_refresh L env (tj_ID leased) s of
        (Inl e, s1) \<Rightarrow> twap_retry env leased (Sentinel e) s1
      | (Inr job, s1) \<Rightarrow>
          let requested = parsePositiveDecimal L (tj_TotalQuantity job) in
          if \<not> 0 < requested then twap_fail L env job ''invalid persisted total quantity'' s1
          else if requested \<le> parseDecimal L (tj_FilledQuantity job) then twap_close L env job ''completed'' [] s1
          else if \<not> te_now env 0 < tj_EndAt job then window_ended L env job s1
          else if tj_Status job = ''pending'' then start_job L env job s1
          else if tj_ActiveOrderID job \<noteq> [] then handleActive L env job s1
          else submitSlice L env job s1)"

definition job_group :: "TwapJob list \<Rightarrow> string \<times> int \<Rightarrow> TwapJob list" where
  "job_group jobs key = filter (\<lambda>job. (tj_OwnerUsername job, tj_TradingAccountID job) = key) jobs"

definition twap_runOnce ::
  "decimal_lib \<Rightarrow> (TwapJob \<Rightarrow> twap_env) \<Rightarrow> time \<Rightarrow> (string \<Rightarrow> bool) \<Rightarrow> TwapScheduler \<Rightarrow> (string \<times> int) list \<Rightarrow> twap_world \<Rightarrow> twap_world" where
  "twap_runOnce L env now locked scheduler schedule s =
     (case LeaseDueTwaps now locked (ts_batchSize scheduler) (ts_lease scheduler) s of
        (jobs, s1) \<Rightarrow> fold (\<lambda>key. fold (\<lambda>job. advance L (env job) job) (job_group jobs key)) schedule s1)"

end
