(* ===== verification/Twap_Service.thy ===== *)
theory Twap_Service
  imports Twap_Scheduler
begin

text \<open>
  The handlers of \<^verbatim>\<open>trader/twap_service.go\<close> for creating, reading, listing and cancelling TWAP jobs, and the cleanup of
  closed jobs of \<^verbatim>\<open>trader/twap_cleanup.go\<close>.
\<close>

section \<open>Fingerprint\<close>

text \<open>The calendar date of a number of days since the epoch, and the text of a time in RFC 3339.\<close>

definition civil_date :: "int \<Rightarrow> int \<times> int \<times> int" where
  "civil_date days =
     (let z = days + 719468; era = z div 146097; doe = z mod 146097;
          yoe = (doe - doe div 1460 + doe div 36524 - doe div 146096) div 365;
          doy = doe - (365 * yoe + yoe div 4 - yoe div 100);
          mp = (5 * doy + 2) div 153;
          month = (if mp < 10 then mp + 3 else mp - 9)
      in (yoe + era * 400 + (if month \<le> 2 then 1 else 0), month, doy - (153 * mp + 2) div 5 + 1))"

definition fraction_text :: "decimal_lib \<Rightarrow> int \<Rightarrow> string" where
  "fraction_text L nanos =
     (let digits = rev (dropWhile (\<lambda>c. c = CHR ''0'') (rev (padded L 9 nanos))) in if digits = [] then [] else CHR ''.'' # digits)"

definition RFC3339Nano :: "decimal_lib \<Rightarrow> time \<Rightarrow> string" where
  "RFC3339Nano L t =
     (let seconds = t div Second; (year, month, day) = civil_date (seconds div 86400); clock = seconds mod 86400
      in padded L 4 year @ ''-'' @ padded L 2 month @ ''-'' @ padded L 2 day @ ''T'' @ padded L 2 (clock div 3600) @ '':'' @
         padded L 2 (clock div 60 mod 60) @ '':'' @ padded L 2 (clock mod 60) @ fraction_text L (t mod Second) @ ''Z'')"

definition twapFingerprint :: "decimal_lib \<Rightarrow> (string \<Rightarrow> string) \<Rightarrow> CreateTwapInput \<Rightarrow> string" where
  "twapFingerprint L sum256 input =
     sum256 (join_parts [itoa L (cti_TradingAccountID input), itoa L (cti_InstrumentID input), cti_Side input,
       cti_TotalQuantity input, RFC3339Nano L (cti_StartAt input), RFC3339Nano L (cti_EndAt input),
       itoa L (cti_IntervalSeconds input), cti_LimitPrice input, cti_MaxQuantity input, cti_ExecutionType input,
       itoa L (cti_OrderTimeoutSeconds input)])"

section \<open>Handlers\<close>

definition requested_job ::
  "decimal_lib \<Rightarrow> service_env \<Rightarrow> string \<Rightarrow> Credentials \<Rightarrow> Instrument \<Rightarrow> CreateTwapInput \<Rightarrow> TwapJob" where
  "requested_job L env owner account instrument input =
     zero_TwapJob\<lparr>tj_ID := sv_newID env, tj_IdempotencyKey := cti_IdempotencyKey input,
       tj_RequestFingerprint := twapFingerprint L (sv_Sum256 env) input, tj_OwnerUsername := owner,
       tj_TradingAccountID := cr_TradingAccountID account, tj_ProductName := cr_ProductName account,
       tj_Exchange := cr_Exchange account, tj_InstrumentID := inst_ID instrument,
       tj_ContractType := inst_ContractType instrument, tj_ExchangeSymbol := inst_ExchangeSymbol instrument,
       tj_BaseAsset := inst_BaseAsset instrument, tj_QuoteAsset := inst_QuoteAsset instrument, tj_Side := cti_Side input,
       tj_TotalQuantity := cti_TotalQuantity input, tj_StartAt := cti_StartAt input, tj_EndAt := cti_EndAt input,
       tj_IntervalSeconds := cti_IntervalSeconds input, tj_LimitPrice := cti_LimitPrice input,
       tj_MaxQuantity := cti_MaxQuantity input, tj_ExecutionType := cti_ExecutionType input,
       tj_OrderTimeoutSeconds := cti_OrderTimeoutSeconds input, tj_Status := ''pending'', tj_NextActionAt := cti_StartAt input\<rparr>"

definition validate_twap :: "decimal_lib \<Rightarrow> service_env \<Rightarrow> time \<Rightarrow> CreateTwapInput \<Rightarrow> go_error + TwapJob" where
  "validate_twap L env now input0 =
     result_bind (map_sum Sentinel id (normalizeTwapInput L input0 now)) (\<lambda>input.
     result_bind (sv_Owner env (cti_Token input)) (\<lambda>owner.
     result_bind (sv_Get env (cti_Token input) (cti_TradingAccountID input)) (\<lambda>account.
     result_bind (sv_catalog env (cti_InstrumentID input)) (\<lambda>instrument.
       if inst_Exchange instrument \<noteq> cr_Exchange account then Inl (Sentinel ErrInvalidArgument)
       else case sv_Adapter env (cr_Exchange account) of
         None \<Rightarrow> Inl (Sentinel ErrUnsupportedExchange)
       | Some adapter \<Rightarrow>
     result_bind (venueCapabilities adapter account) (\<lambda>capabilities.
       if \<not> supportsCapability (cap_Products capabilities) (inst_ContractType instrument) \<or>
          cap_QuoteAssets capabilities \<noteq> [] \<and>
          \<not> supportsCapability (cap_QuoteAssets capabilities) (inst_QuoteAsset instrument) \<or>
          cti_ExecutionType input = ''maker'' \<and> \<not> cap_MakerTwap capabilities
       then Inl (Sentinel ErrInvalidArgument)
       else
     result_bind (map_sum Sentinel id (validateTwapInstrument L instrument input)) (\<lambda>_.
       Inr (requested_job L env owner account instrument input)))))))"

definition CreateTwap ::
  "decimal_lib \<Rightarrow> service_env \<Rightarrow> time \<Rightarrow> CreateTwapInput \<Rightarrow> twap_world \<Rightarrow> (go_error + TwapJob) \<times> twap_world" where
  "CreateTwap L env now input s =
     (case validate_twap L env now input of
        Inl e \<Rightarrow> (Inl e, s)
      | Inr job \<Rightarrow>
          (case repo_CreateTwap L (sv_now env) (sv_newID env) job s of
             (Inl e, s1) \<Rightarrow> (Inl (Sentinel e), s1)
           | (Inr (created, inserted), s1) \<Rightarrow>
               if \<not> inserted \<and> tj_RequestFingerprint created \<noteq> tj_RequestFingerprint job
               then (Inl (Sentinel ErrIdempotencyConflict), s1) else (Inr created, s1)))"

text \<open>\<open>validUUID\<close> is the parser of the library for identifiers, \<open>meta\<close> the check that the account belongs to the caller.\<close>

definition GetTwap ::
  "decimal_lib \<Rightarrow> twap_env \<Rightarrow> (string \<Rightarrow> bool) \<Rightarrow> string \<Rightarrow> string \<Rightarrow> twap_world \<Rightarrow> (go_error + TwapJob) \<times> twap_world" where
  "GetTwap L env validUUID token jobID s =
     (if TrimSpace token = [] \<or> \<not> validUUID (TrimSpace jobID) then (Inl (Sentinel ErrInvalidArgument), s)
      else case sv_Owner (te_service env) token of Inl e \<Rightarrow> (Inl e, s) | Inr owner \<Rightarrow>
     (case GetTwapByOwner owner jobID s of Inl e \<Rightarrow> (Inl (Sentinel e), s) | Inr job \<Rightarrow>
        if terminalTwapStatus (tj_Status job) then (Inr job, s)
        else (case twap_refresh L env (tj_ID job) s of (Inl e, s1) \<Rightarrow> (Inr job, s1) | (Inr refreshed, s1) \<Rightarrow> (Inr refreshed, s1))))"

definition ListTwaps ::
  "service_env \<Rightarrow> (string \<Rightarrow> int \<Rightarrow> go_error option) \<Rightarrow> (string \<Rightarrow> bool) \<Rightarrow> string \<Rightarrow> int \<Rightarrow> string \<Rightarrow> string \<Rightarrow> int \<Rightarrow> string \<Rightarrow>
   twap_world \<Rightarrow> go_error + (TwapJob list \<times> string)" where
  "ListTwaps env meta validUUID token accountID view0 status0 limit cursor s =
     (let view1 = ToLower (TrimSpace view0); view = (if view1 = [] then ''running'' else view1); status = ToLower (TrimSpace status0) in
      if TrimSpace token = [] \<or> accountID < 0 then Inl (Sentinel ErrInvalidArgument)
      else if view \<noteq> ''running'' \<and> view \<noteq> ''closed'' then Inl (Sentinel ErrInvalidArgument)
      else if status \<noteq> [] \<and> (view = ''running'' \<and> status \<noteq> ''pending'' \<and> status \<noteq> ''running'' \<or>
                            view = ''closed'' \<and> \<not> terminalTwapStatus status) then Inl (Sentinel ErrInvalidArgument)
      else if cursor \<noteq> [] \<and> \<not> validUUID (TrimSpace cursor) then Inl (Sentinel ErrInvalidArgument)
      else case sv_Owner env token of Inl e \<Rightarrow> Inl e | Inr owner \<Rightarrow>
     (case (if accountID > 0 then meta token accountID else None) of
        Some e \<Rightarrow> Inl e | None \<Rightarrow> Inr (repo_ListTwaps owner accountID view status limit cursor s)))"

definition ListTwapOrders :: "service_env \<Rightarrow> (string \<Rightarrow> bool) \<Rightarrow> string \<Rightarrow> string \<Rightarrow> twap_world \<Rightarrow> go_error + Order list" where
  "ListTwapOrders env validUUID token jobID s =
     (if TrimSpace token = [] \<or> \<not> validUUID (TrimSpace jobID) then Inl (Sentinel ErrInvalidArgument)
      else case sv_Owner env token of Inl e \<Rightarrow> Inl e | Inr owner \<Rightarrow>
     (case GetTwapByOwner owner jobID s of Inl e \<Rightarrow> Inl (Sentinel e) | Inr _ \<Rightarrow> Inr (repo_ListTwapOrders owner jobID s)))"

definition CancelTwap ::
  "decimal_lib \<Rightarrow> twap_env \<Rightarrow> (string \<Rightarrow> bool) \<Rightarrow> string \<Rightarrow> string \<Rightarrow> twap_world \<Rightarrow> (go_error + TwapJob) \<times> twap_world" where
  "CancelTwap L env validUUID token jobID s =
     (if TrimSpace token = [] \<or> \<not> validUUID (TrimSpace jobID) then (Inl (Sentinel ErrInvalidArgument), s)
      else case sv_Owner (te_service env) token of Inl e \<Rightarrow> (Inl e, s) | Inr owner \<Rightarrow>
     (case GetTwapByOwner owner jobID s of Inl e \<Rightarrow> (Inl (Sentinel e), s) | Inr job \<Rightarrow>
        if terminalTwapStatus (tj_Status job) then (Inl (Sentinel ErrTwapNotCancelable), s)
        else (case CloseTwap (te_db_now env) (tj_ID job) ''canceled'' ''canceled by user'' s of
          (Inl e, s1) \<Rightarrow> (Inl (Sentinel e), s1)
        | (Inr closedJob, s1) \<Rightarrow>
            let s2 = AppendTwapEvent (tj_ID job) ''canceled'' s1;
                s3 = (if tj_ActiveOrderID job \<noteq> []
                      then s2\<lparr>tp_world := snd (CancelOrder L (te_service env) token (tj_ActiveOrderID job) (tp_world s2))\<rparr> else s2)
            in (case twap_refresh L env (tj_ID closedJob) s3 of
                  (Inl e, s4) \<Rightarrow> (Inr closedJob, s4) | (Inr refreshed, s4) \<Rightarrow> (Inr refreshed, s4)))))"

section \<open>Cleanup\<close>

record TwapCleanup =
  tc_retention :: duration
  tc_interval :: duration
  tc_batch :: int
  tc_maxBatches :: int

definition NewTwapCleanup :: "duration \<Rightarrow> duration \<Rightarrow> int \<Rightarrow> int \<Rightarrow> TwapCleanup" where
  "NewTwapCleanup retention interval batch maxBatches =
     \<lparr>tc_retention = (if retention \<le> 0 then 7 * 24 * Hour else retention),
      tc_interval = (if interval \<le> 0 then Hour else interval),
      tc_batch = (if batch \<le> 0 then 100 else batch),
      tc_maxBatches = (if maxBatches \<le> 0 then 10 else maxBatches)\<rparr>"

text \<open>Up to a number of batches, until one is not full. \<open>locked\<close> are the rows that other transactions hold.\<close>

fun cleanup_batches :: "(string \<Rightarrow> bool) \<Rightarrow> time \<Rightarrow> int \<Rightarrow> nat \<Rightarrow> twap_world \<Rightarrow> int \<times> twap_world" where
  "cleanup_batches locked cutoff batch 0 s = (0, s)"
| "cleanup_batches locked cutoff batch (Suc n) s =
     (case DeleteClosedTwaps locked cutoff batch s of
        (deleted, s1) \<Rightarrow>
          if deleted < batch then (deleted, s1)
          else (case cleanup_batches locked cutoff batch n s1 of (others, s2) \<Rightarrow> (deleted + others, s2)))"

definition cleanup_runOnce :: "TwapCleanup \<Rightarrow> (string \<Rightarrow> bool) \<Rightarrow> time \<Rightarrow> twap_world \<Rightarrow> int \<times> twap_world" where
  "cleanup_runOnce c locked now s =
     cleanup_batches locked (now - tc_retention c) (tc_batch c) (nat (tc_maxBatches c)) s"

end
