(* ===== verification/Twap_Safety.thy ===== *)
theory Twap_Safety
  imports Twap_Service Order_Lifecycle "HOL-Library.Product_Lexorder"
begin

text \<open>
  A TWAP job never asks the venues for more than it was asked for. The children of a job have positions, slice and
  attempt, that grow; at most one of them is open, and each was sized from what the others had filled. The
  steps interleave the scheduler with the handlers, the cleanup, other orders and any reports on orders
  that venues may give.
\<close>

section \<open>Children of a job\<close>

definition filled_of :: "decimal_lib \<Rightarrow> Order \<Rightarrow> decimal" where
  "filled_of L row = fill_amount L (ord_FilledQuantity row)"

definition size_of :: "decimal_lib \<Rightarrow> Order \<Rightarrow> decimal" where
  "size_of L row = fill_amount L (ord_Quantity row)"

definition place_of :: "Order \<Rightarrow> int \<times> int" where
  "place_of row = (ord_TwapSliceIndex row, ord_TwapAttemptIndex row)"

text \<open>What a child may still have filled in the end: its quantity while it is open.\<close>

definition exposure :: "decimal_lib \<Rightarrow> Order \<Rightarrow> decimal" where
  "exposure L row = (if open_status (ord_Status row) then size_of L row else filled_of L row)"

definition children_ok :: "decimal_lib \<Rightarrow> decimal \<Rightarrow> decimal \<Rightarrow> Order list \<Rightarrow> bool" where
  "children_ok L e quantity rows \<longleftrightarrow>
     (\<forall>c \<in> set rows. (\<exists>q. order_sound L q c) \<and> 0 \<le> ord_TwapAttemptIndex c) \<and> distinct (map place_of rows) \<and>
     (\<forall>c \<in> set rows. open_status (ord_Status c) \<longrightarrow> (\<forall>c' \<in> set rows. place_of c' \<le> place_of c)) \<and>
     (\<forall>c \<in> set rows. sum_list (map (filled_of L) (filter (\<lambda>c'. place_of c' < place_of c) rows)) + size_of L c \<le>
        quantity + (1 + of_int (ord_TwapAttemptIndex c)) * e)"

lemma filled_le_size: "order_sound L q c \<Longrightarrow> filled_of L c \<le> size_of L c"
  by (auto simp: order_sound_def filled_of_def size_of_def fill_amount_def)

lemma find_member: "find P xs = Some x \<Longrightarrow> x \<in> set xs \<and> P x"
  by (induction xs) (auto split: if_splits)

lemma newest_split:
  fixes f :: "Order \<Rightarrow> decimal"
  assumes "distinct (map place_of rows)" "c \<in> set rows" "\<And>c'. c' \<in> set rows \<Longrightarrow> place_of c' \<le> place_of c"
  shows "sum_list (map f rows) = sum_list (map f (filter (\<lambda>c'. place_of c' < place_of c) rows)) + f c"
proof -
  have d: "distinct rows" and inj: "inj_on place_of (set rows)" using assms(1) by (simp_all add: distinct_map)
  have "set rows = set (filter (\<lambda>c'. place_of c' < place_of c) rows) \<union> {c}"
    using assms(2,3) inj by (auto dest: inj_onD simp: order_less_le)
  moreover have "c \<notin> set (filter (\<lambda>c'. place_of c' < place_of c) rows)" by simp
  ultimately have "sum f (set rows) = sum f (set (filter (\<lambda>c'. place_of c' < place_of c) rows)) + f c"
    by (metis Un_insert_right add.commute boolean_algebra.disj_zero_right finite_set sum.insert)
  then show ?thesis using d by (simp add: sum_list_distinct_conv_sum_set)
qed

lemma newest_child:
  assumes "rows \<noteq> []" obtains c where "c \<in> set rows" "\<And>c'. c' \<in> set rows \<Longrightarrow> place_of c' \<le> place_of c"
proof -
  have "Max (place_of ` set rows) \<in> place_of ` set rows" using assms by simp
  then obtain c where c: "c \<in> set rows" "place_of c = Max (place_of ` set rows)" by (metis imageE)
  have "place_of c' \<le> place_of c" if "c' \<in> set rows" for c' using that c(2) by simp
  then show ?thesis using that c(1) by blast
qed

definition last_attempt :: "Order list \<Rightarrow> int" where
  "last_attempt rows = Max (set (0 # map ord_TwapAttemptIndex rows))"

lemma exposure_bound:
  assumes ok: "children_ok L e quantity rows" and e: "0 \<le> e" "0 \<le> quantity"
  shows "sum_list (map (exposure L) rows) \<le> quantity + (1 + of_int (last_attempt rows)) * e"
proof (cases "rows = []")
  case True
  then show ?thesis using e by (simp add: last_attempt_def)
next
  case False
  then obtain c where c: "c \<in> set rows" "\<And>c'. c' \<in> set rows \<Longrightarrow> place_of c' \<le> place_of c" by (rule newest_child) blast
  have d: "distinct (map place_of rows)" using ok by (simp add: children_ok_def)
  have "exposure L c' = filled_of L c'" if "c' \<in> set rows" "place_of c' < place_of c" for c'
    using ok that c(1) by (force simp: children_ok_def exposure_def)
  then have eq: "map (exposure L) (filter (\<lambda>c'. place_of c' < place_of c) rows) =
      map (filled_of L) (filter (\<lambda>c'. place_of c' < place_of c) rows)" by simp
  have s: "sum_list (map (exposure L) rows) =
      sum_list (map (filled_of L) (filter (\<lambda>c'. place_of c' < place_of c) rows)) + exposure L c"
    using newest_split [OF d c, of "exposure L"] by (simp only: eq)
  have "exposure L c \<le> size_of L c" using ok c(1) filled_le_size by (auto simp: exposure_def children_ok_def)
  moreover have "sum_list (map (filled_of L) (filter (\<lambda>c'. place_of c' < place_of c) rows)) + size_of L c \<le>
      quantity + (1 + of_int (ord_TwapAttemptIndex c)) * e" using ok c(1) by (simp add: children_ok_def)
  moreover have "(of_int (ord_TwapAttemptIndex c) :: decimal) \<le> of_int (last_attempt rows)"
    using c(1) by (simp add: last_attempt_def)
  then have "(1 + of_int (ord_TwapAttemptIndex c)) * e \<le> (1 + of_int (last_attempt rows)) * e"
    using e(1) by (simp add: mult_right_mono)
  ultimately show ?thesis unfolding s by linarith
qed

text \<open>Reports move the children without reopening one or changing what a finished one filled.\<close>

definition settled_pair :: "decimal_lib \<Rightarrow> Order \<Rightarrow> Order \<Rightarrow> bool" where
  "settled_pair L o1 o2 \<longleftrightarrow>
     row_identity o2 = row_identity o1 \<and> (\<exists>q. order_sound L q o2) \<and>
     (\<not> open_status (ord_Status o1) \<longrightarrow> \<not> open_status (ord_Status o2) \<and> filled_of L o2 = filled_of L o1)"

lemma settled_pair_place:
  assumes "settled_pair L o1 o2"
  shows "place_of o2 = place_of o1" "size_of L o2 = size_of L o1" "ord_TwapAttemptIndex o2 = ord_TwapAttemptIndex o1"
    "ord_TwapJobID o2 = ord_TwapJobID o1"
  using assms by (simp_all add: settled_pair_def row_identity_def place_of_def size_of_def)

lemma children_ok_map:
  assumes ok: "children_ok L e quantity rows" and g: "\<And>c. c \<in> set rows \<Longrightarrow> settled_pair L c (g c)"
  shows "children_ok L e quantity (map g rows)"
proof -
  note p = settled_pair_place [OF g]
  have places: "map place_of (map g rows) = map place_of rows" using p(1) by simp
  have f: "sum_list (map (filled_of L) (filter (\<lambda>c'. place_of c' < place_of c) (map g rows))) =
      sum_list (map (filled_of L) (filter (\<lambda>c'. place_of c' < place_of c) rows))" if "c \<in> set rows" for c
  proof -
    have "filled_of L (g c') = filled_of L c'" if "c' \<in> set rows" "place_of c' < place_of c" for c'
    proof -
      have "\<not> open_status (ord_Status c')" using ok that \<open>c \<in> set rows\<close> by (force simp: children_ok_def)
      then show ?thesis using g [OF that(1)] by (simp add: settled_pair_def)
    qed
    then have eq: "map (filled_of L \<circ> g) (filter (\<lambda>c'. place_of c' < place_of c) rows) =
        map (filled_of L) (filter (\<lambda>c'. place_of c' < place_of c) rows)" by simp
    have "filter (\<lambda>c'. place_of (g c') < place_of c) rows = filter (\<lambda>c'. place_of c' < place_of c) rows"
      using p(1) by (simp cong: filter_cong)
    then have "map (filled_of L) (filter (\<lambda>c'. place_of c' < place_of c) (map g rows)) =
        map (filled_of L \<circ> g) (filter (\<lambda>c'. place_of c' < place_of c) rows)" by (simp add: filter_map o_def)
    then show ?thesis by (simp only: eq)
  qed
  have "open_status (ord_Status c)" if "c \<in> set rows" "open_status (ord_Status (g c))" for c
    using g [OF that(1)] that(2) by (auto simp: settled_pair_def)
  then show ?thesis
    using ok g f p unfolding children_ok_def places by (auto simp: settled_pair_def)
qed

lemma children_ok_snoc:
  assumes ok: "children_ok L e quantity rows" and "order_sound L q row" "0 \<le> ord_TwapAttemptIndex row"
    and closed: "\<And>c. c \<in> set rows \<Longrightarrow> \<not> open_status (ord_Status c)"
    and later: "\<And>c. c \<in> set rows \<Longrightarrow> place_of c < place_of row"
    and fits: "sum_list (map (filled_of L) rows) + size_of L row \<le> quantity + (1 + of_int (ord_TwapAttemptIndex row)) * e"
  shows "children_ok L e quantity (rows @ [row])"
proof -
  have "filter (\<lambda>c'. place_of c' < place_of row) (rows @ [row]) = rows" using later by simp
  moreover have "filter (\<lambda>c'. place_of c' < place_of c) (rows @ [row]) = filter (\<lambda>c'. place_of c' < place_of c) rows"
    if "c \<in> set rows" for c using later [OF that] by auto
  moreover have "place_of row \<notin> place_of ` set rows" using later by force
  ultimately show ?thesis
    using ok assms(2,3) closed later fits unfolding children_ok_def by (auto intro: less_imp_le)
qed

section \<open>Jobs move forward\<close>

definition job_at :: "TwapJob \<Rightarrow> int \<times> int" where
  "job_at job = (tj_CurrentSlice job, tj_CurrentAttempt job)"

definition job_terms :: "TwapJob \<Rightarrow> string \<times> string \<times> string \<times> string \<times> time \<times> time \<times> int \<times> int" where
  "job_terms job =
     (tj_Side job, tj_ContractType job, tj_ExecutionType job, tj_TotalQuantity job, tj_StartAt job, tj_EndAt job,
      tj_IntervalSeconds job, tj_OrderTimeoutSeconds job)"

definition job_move :: "TwapJob \<Rightarrow> TwapJob \<Rightarrow> bool" where
  "job_move j j' \<longleftrightarrow>
     tj_ID j' = tj_ID j \<and> job_terms j' = job_terms j \<and> job_at j \<le> job_at j' \<and>
     (0 \<le> tj_CurrentAttempt j \<longrightarrow> 0 \<le> tj_CurrentAttempt j') \<and>
     (closed_twap (tj_Status j) \<longrightarrow> tj_Status j' = tj_Status j) \<and>
     (active_twap (tj_Status j) \<longrightarrow> active_twap (tj_Status j') \<or> closed_twap (tj_Status j'))"

lemma closed_statuses [simp]:
  "closed_twap ''completed''" "closed_twap ''partially_completed''" "closed_twap ''canceled''" "closed_twap ''failed''"
  by (simp_all add: closed_twap_def)

lemma closed_not_active: "closed_twap status \<Longrightarrow> \<not> active_twap status"
  by (auto simp: closed_twap_def active_twap_def)

definition jobs_move :: "twap_world \<Rightarrow> twap_world \<Rightarrow> bool" where
  "jobs_move s s' \<longleftrightarrow> list_all2 job_move (tp_jobs s) (tp_jobs s')"

lemma job_move_refl [simp]: "job_move j j"
  by (simp add: job_move_def)

lemma job_move_total: "job_move j j' \<Longrightarrow> tj_TotalQuantity j' = tj_TotalQuantity j"
  by (simp add: job_move_def job_terms_def)

lemma jobs_move_refl [simp]: "jobs_move s s"
  by (simp add: jobs_move_def list_all2_refl)

lemma jobs_move_trans:
  assumes "jobs_move s1 s2" "jobs_move s2 s3" shows "jobs_move s1 s3"
proof -
  have "job_move j1 j3" if "job_move j1 j2" "job_move j2 j3" for j1 j2 j3
    using that order_trans [of "job_at j1" "job_at j2" "job_at j3"] by (auto simp: job_move_def)
  then show ?thesis using list_all2_trans [of job_move job_move job_move] assms unfolding jobs_move_def by blast
qed

lemma jobs_move_map:
  assumes "tp_jobs s' = map f (tp_jobs s)" "\<And>row. row \<in> set (tp_jobs s) \<Longrightarrow> job_move row (f row)"
  shows "jobs_move s s'"
  using assms by (simp add: jobs_move_def list_all2_conv_all_nth)

lemma jobs_move_same: "tp_jobs s' = tp_jobs s \<Longrightarrow> jobs_move s s'"
  by (simp add: jobs_move_def list_all2_refl)

text \<open>A copy of a job that agrees with the table on where the job is.\<close>

definition current_copy :: "TwapJob \<Rightarrow> twap_world \<Rightarrow> bool" where
  "current_copy job s \<longleftrightarrow>
     0 \<le> tj_CurrentAttempt job \<and>
     (\<forall>row \<in> set (tp_jobs s). tj_ID row = tj_ID job \<longrightarrow>
        job_at row = job_at job \<and> (active_twap (tj_Status row) \<longrightarrow> active_twap (tj_Status job)))"

definition quiet :: "twap_world \<Rightarrow> twap_world \<Rightarrow> bool" where
  "quiet s s' \<longleftrightarrow> tp_world s' = tp_world s \<and> jobs_move s s'"

lemma quiet_refl [simp]: "quiet s s"
  by (simp add: quiet_def)

lemma quiet_trans: "quiet s1 s2 \<Longrightarrow> quiet s2 s3 \<Longrightarrow> quiet s1 s3"
  using jobs_move_trans by (auto simp: quiet_def)

lemma update_job_rows:
  "tp_jobs (snd (update_job jobID condition f s)) =
     map (\<lambda>row. if tj_ID row = jobID \<and> condition row then f row else row) (tp_jobs s)"
  "tp_world (snd (update_job jobID condition f s)) = tp_world s"
  by (auto simp: update_job_def find_None_iff split: option.splits intro!: map_idI [symmetric])

lemma event_rows [simp]: "tp_jobs (AppendTwapEvent i e s) = tp_jobs s" "tp_world (AppendTwapEvent i e s) = tp_world s"
  by (simp_all add: AppendTwapEvent_def)

lemma lease_rows [simp]: "tp_jobs (set_lease i l s) = tp_jobs s" "tp_world (set_lease i l s) = tp_world s"
  by (simp_all add: set_lease_def)

lemma quiet_event [simp]: "quiet s1 (AppendTwapEvent i e s2) \<longleftrightarrow> quiet s1 s2"
  by (simp add: quiet_def jobs_move_def)

lemma refresh_rows:
  "tp_jobs (snd (RefreshTwapProgress L d now jobID s)) =
     map (\<lambda>row. if tj_ID row = jobID then refreshed_job L d now (twap_children jobID (tp_db s)) row else row) (tp_jobs s)"
  "tp_world (snd (RefreshTwapProgress L d now jobID s)) = tp_world s"
  unfolding RefreshTwapProgress_def update_job_rows by simp_all

lemma refreshed_job_kept [simp]:
  "tj_ID (refreshed_job L d now cs job) = tj_ID job" "tj_TotalQuantity (refreshed_job L d now cs job) = tj_TotalQuantity job"
  "job_terms (refreshed_job L d now cs job) = job_terms job" "tj_Status (refreshed_job L d now cs job) = tj_Status job"
  "job_at (refreshed_job L d now cs job) = job_at job" "tj_CurrentAttempt (refreshed_job L d now cs job) = tj_CurrentAttempt job"
  by (simp_all add: refreshed_job_def job_at_def job_terms_def)

lemma quiet_refresh: "quiet s (snd (RefreshTwapProgress L d now jobID s))"
  unfolding quiet_def refresh_rows(2) by (simp add: jobs_move_map [OF refresh_rows(1)] job_move_def)

lemma schedule_rows:
  "tp_jobs (snd (UpdateTwapSchedule now jobID status slice attempt next_at active message s)) =
     map (\<lambda>row. if tj_ID row = jobID \<and> active_twap (tj_Status row)
               then scheduled_job now status slice attempt next_at active message row else row) (tp_jobs s)"
  "tp_world (snd (UpdateTwapSchedule now jobID status slice attempt next_at active message s)) = tp_world s"
proof -
  let ?u = "update_job jobID (\<lambda>job. active_twap (tj_Status job)) (scheduled_job now status slice attempt next_at active message) s"
  have "tp_jobs (snd (UpdateTwapSchedule now jobID status slice attempt next_at active message s)) = tp_jobs (snd ?u)"
    "tp_world (snd (UpdateTwapSchedule now jobID status slice attempt next_at active message s)) = tp_world (snd ?u)"
    by (simp_all add: UpdateTwapSchedule_def split: prod.splits sum.splits)
  then show "tp_jobs (snd (UpdateTwapSchedule now jobID status slice attempt next_at active message s)) =
     map (\<lambda>row. if tj_ID row = jobID \<and> active_twap (tj_Status row)
               then scheduled_job now status slice attempt next_at active message row else row) (tp_jobs s)"
    "tp_world (snd (UpdateTwapSchedule now jobID status slice attempt next_at active message s)) = tp_world s"
    by (simp_all only: update_job_rows)
qed

lemma quiet_schedule:
  assumes "current_copy job s" "job_at job \<le> (slice, attempt)" "0 \<le> attempt" "status = ''running'' \<or> status = tj_Status job"
  shows "quiet s (snd (UpdateTwapSchedule now (tj_ID job) status slice attempt next_at active message s))"
  unfolding quiet_def schedule_rows(2)
  by (intro conjI refl jobs_move_map [OF schedule_rows(1)])
     (use assms closed_not_active in \<open>auto simp: job_move_def current_copy_def scheduled_job_def job_at_def job_terms_def active_twap_def\<close>)

lemma close_rows:
  "tp_jobs (snd (CloseTwap now jobID status message s)) =
     map (\<lambda>row. if tj_ID row = jobID \<and> active_twap (tj_Status row) then closed_job now status message row else row) (tp_jobs s)"
  "tp_world (snd (CloseTwap now jobID status message s)) = tp_world s"
proof -
  let ?u = "update_job jobID (\<lambda>job. active_twap (tj_Status job)) (closed_job now status message) s"
  have "tp_jobs (snd (CloseTwap now jobID status message s)) = tp_jobs (snd ?u)"
    "tp_world (snd (CloseTwap now jobID status message s)) = tp_world (snd ?u)"
    by (simp_all add: CloseTwap_def split: prod.splits sum.splits)
  then show "tp_jobs (snd (CloseTwap now jobID status message s)) =
     map (\<lambda>row. if tj_ID row = jobID \<and> active_twap (tj_Status row) then closed_job now status message row else row) (tp_jobs s)"
    "tp_world (snd (CloseTwap now jobID status message s)) = tp_world s"
    by (simp_all only: update_job_rows)
qed

lemma closed_job_kept [simp]:
  "tj_ID (closed_job now status message job) = tj_ID job" "job_terms (closed_job now status message job) = job_terms job"
  "tj_Status (closed_job now status message job) = status"
  "job_at (closed_job now status message job) = job_at job" "tj_CurrentAttempt (closed_job now status message job) = tj_CurrentAttempt job"
  by (simp_all add: closed_job_def job_at_def job_terms_def Let_def)

lemma quiet_CloseTwap: "closed_twap status \<Longrightarrow> quiet s (snd (CloseTwap now jobID status message s))"
  unfolding quiet_def close_rows(2) using closed_not_active by (auto simp: job_move_def intro: jobs_move_map [OF close_rows(1)])

lemma current_copy_rows:
  assumes "current_copy job s" "tp_jobs s' = map f (tp_jobs s)" "\<And>row. tj_ID (f row) = tj_ID row \<and> job_at (f row) = job_at row \<and> (active_twap (tj_Status (f row)) \<longrightarrow> active_twap (tj_Status row))"
  shows "current_copy job s'"
  using assms by (auto simp: current_copy_def)

lemma current_copy_close: "current_copy job s \<Longrightarrow> current_copy job (snd (CloseTwap now jobID status message s))"
  by (erule current_copy_rows [OF _ close_rows(1)]) auto

lemma quiet_retry: "current_copy job s \<Longrightarrow> quiet s (twap_retry env job err s)"
  unfolding twap_retry_def Let_def by (rule quiet_schedule) (auto simp: job_at_def current_copy_def)

lemma quiet_close:
  assumes "current_copy job s" "closed_twap status" shows "quiet s (twap_close L env job status message s)"
proof -
  obtain r s1 where r: "CloseTwap (te_db_now env) (tj_ID job) status message s = (r, s1)" by (rule prod.exhaust)
  have s1: "quiet s s1" "current_copy job s1"
    using quiet_CloseTwap [OF assms(2), of s "te_db_now env" "tj_ID job" message] current_copy_close [OF assms(1)] r by (metis snd_conv)+
  show ?thesis
    using r s1 quiet_trans [OF s1(1) quiet_retry [OF s1(2)]] quiet_trans [OF s1(1) quiet_refresh]
    by (cases r) (simp_all add: twap_close_def twap_refresh_def)
qed

lemma quiet_advanceSlice:
  assumes "current_copy job s" shows "quiet s (advanceSlice L env job s)"
proof -
  let ?next = "twapSliceFireAt L (te_sum64 env) (tj_ID job) (tj_CurrentSlice job + 1) (tj_StartAt job) (tj_EndAt job) (tj_IntervalSeconds job)"
  have "quiet s (snd (UpdateTwapSchedule (te_db_now env) (tj_ID job) ''running'' (tj_CurrentSlice job + 1) 0 ?next [] [] s))"
    by (rule quiet_schedule [OF assms]) (simp_all add: job_at_def)
  then show ?thesis by (auto simp: advanceSlice_def Let_def split: prod.splits sum.splits)
qed

lemma quiet_scheduleMakerRetry:
  assumes "current_copy job s" shows "quiet s (scheduleMakerRetry L env job order s)"
proof -
  let ?n = "max (tj_CurrentAttempt job) (ord_TwapAttemptIndex order) + 1"
  have "quiet s (snd (UpdateTwapSchedule (te_db_now env) (tj_ID job) ''running'' (tj_CurrentSlice job) ?n (te_now env 4) [] [] s))"
    by (rule quiet_schedule [OF assms]) (use assms in \<open>auto simp: job_at_def current_copy_def\<close>)
  then show ?thesis using quiet_retry [OF assms] quiet_advanceSlice [OF assms]
    by (auto simp: scheduleMakerRetry_def Let_def split: prod.splits sum.splits)
qed

section \<open>What advancing a job does\<close>

text \<open>Without a new order, rows keep their identity and jobs move forward.\<close>

definition moves :: "twap_world \<Rightarrow> twap_world \<Rightarrow> bool" where
  "moves s s' \<longleftrightarrow> keeps_rows (tp_db s) (tp_db s') \<and> jobs_move s s'"

lemma keeps_rows_trans: "keeps_rows db1 db2 \<Longrightarrow> keeps_rows db2 db3 \<Longrightarrow> keeps_rows db1 db3"
  by (simp add: keeps_rows_def)

lemma moves_trans: "moves s1 s2 \<Longrightarrow> moves s2 s3 \<Longrightarrow> moves s1 s3"
  using keeps_rows_trans jobs_move_trans by (auto simp: moves_def)

lemma moves_quiet: "quiet s s' \<Longrightarrow> moves s s'"
  by (simp add: quiet_def moves_def tp_db_def keeps_rows_refl)

lemma set_db_simps [simp]: "tp_db (set_db db s) = db" "tp_jobs (set_db db s) = tp_jobs s"
  by (simp_all add: set_db_def tp_db_def)

lemma event_db [simp]: "tp_db (AppendTwapEvent i e s) = tp_db s"
  by (simp add: tp_db_def)

lemma keeps_UpdateResult: "keeps_rows db (snd (UpdateResult L now ids orderID result db))"
  using rows_kept.R_ack [of db L now ids orderID result] by (auto simp: UpdateResult_def split: prod.splits)

lemma cancelActive_moves:
  "keeps_rows (tp_db s) (tp_db (snd (cancelActive L env job s)))" "tp_jobs (snd (cancelActive L env job s)) = tp_jobs s"
proof -
  have "keeps_rows (tp_db s) db" if "UpdateResult L now ids i r (tp_db s) = (x, db)" for now ids i r x db
    using keeps_UpdateResult [of "tp_db s" L now ids i r] that by simp
  then show "keeps_rows (tp_db s) (tp_db (snd (cancelActive L env job s)))" "tp_jobs (snd (cancelActive L env job s)) = tp_jobs s"
    by (auto simp: cancelActive_def Let_def keeps_rows_refl split: sum.splits option.splits prod.splits)
qed

lemma cancelActive_quiet:
  assumes "current_copy job s"
  shows "moves s (snd (cancelActive L env job s))" "current_copy job (snd (cancelActive L env job s))"
  using assms cancelActive_moves [where s = s and L = L and env = env and job = job] by (simp_all add: moves_def jobs_move_same current_copy_def)

lemma handleActive_moves:
  assumes "current_copy job s" shows "moves s (handleActive L env job s)"
proof -
  have stay: "moves s (snd (UpdateTwapSchedule (te_db_now env) (tj_ID job) ''running'' (tj_CurrentSlice job) (tj_CurrentAttempt job)
      next_at (tj_ActiveOrderID job) [] s))" for next_at
    by (rule moves_quiet, rule quiet_schedule [OF assms]) (use assms in \<open>simp_all add: job_at_def current_copy_def\<close>)
  obtain order err s1 where c: "cancelActive L env job s = ((order, err), s1)" by (metis prod.collapse)
  then have s1: "moves s s1" "current_copy job s1" using cancelActive_quiet [OF assms, of L env] by simp_all
  note quiets = quiet_retry quiet_scheduleMakerRetry quiet_advanceSlice
  show ?thesis
    using stay quiets [OF assms, THEN moves_quiet] quiets [OF s1(2), THEN moves_quiet, THEN moves_trans [OF s1(1)]] c
    by (auto simp: handleActive_def split: sum.splits option.splits)
qed

lemma refresh_result:
  assumes "RefreshTwapProgress L d now jobID s = (r, s1)"
  obtains (missing) e where "r = Inl e" "s1 = s" "\<And>row. row \<in> set (tp_jobs s) \<Longrightarrow> tj_ID row \<noteq> jobID"
  | (found) row where "r = Inr (refreshed_job L d now (twap_children jobID (tp_db s)) row)" "row \<in> set (tp_jobs s)" "tj_ID row = jobID"
proof (cases "find (\<lambda>job. tj_ID job = jobID) (tp_jobs s)")
  case None
  then have "\<And>row. row \<in> set (tp_jobs s) \<Longrightarrow> tj_ID row \<noteq> jobID" by (simp add: find_None_iff)
  then show ?thesis using missing [of ErrNotFound] None assms by (simp add: RefreshTwapProgress_def update_job_def)
next
  case (Some row)
  then have "row \<in> set (tp_jobs s)" "tj_ID row = jobID" by (auto simp: find_Some_iff)
  then show ?thesis using found Some assms by (auto simp: RefreshTwapProgress_def update_job_def)
qed

text \<open>What the columns of a job may hold, and that its identifier is its key.\<close>

definition job_typed :: "TwapJob \<Rightarrow> bool" where
  "job_typed job \<longleftrightarrow>
     tj_Side job \<in> set [''buy'', ''sell''] \<and> tj_ContractType job \<in> set [''spot'', ''perpetual''] \<and>
     tj_ExecutionType job \<in> set [''maker'', ''market''] \<and>
     tj_Status job \<in> set [''pending'', ''running'', ''completed'', ''partially_completed'', ''canceled'', ''failed''] \<and>
     tj_StartAt job < tj_EndAt job \<and> 0 < tj_IntervalSeconds job \<and>
     (if tj_ExecutionType job = ''maker''
      then 0 < tj_OrderTimeoutSeconds job \<and> tj_OrderTimeoutSeconds job < tj_IntervalSeconds job
      else tj_OrderTimeoutSeconds job = 0)"

lemma job_typed_move: "job_typed j \<Longrightarrow> job_move j j' \<Longrightarrow> job_typed j'"
  unfolding job_typed_def job_move_def job_terms_def active_twap_def closed_twap_def by auto

definition jobs_ok :: "twap_world \<Rightarrow> bool" where
  "jobs_ok s \<longleftrightarrow>
     distinct (map tj_ID (tp_jobs s)) \<and> (\<forall>job \<in> set (tp_jobs s). tj_ID job \<noteq> [] \<and> 0 \<le> tj_CurrentAttempt job \<and> job_typed job)"

lemma jobs_ok_copy:
  assumes "jobs_ok s" "row \<in> set (tp_jobs s)" "tj_ID job = tj_ID row" "job_at job = job_at row" "tj_Status job = tj_Status row"
  shows "current_copy job s"
proof -
  have "row' = row" if "row' \<in> set (tp_jobs s)" "tj_ID row' = tj_ID row" for row'
    using assms(1,2) that by (auto simp: jobs_ok_def distinct_map dest: inj_onD)
  then show ?thesis using assms by (auto simp: current_copy_def jobs_ok_def job_at_def)
qed

lemma jobs_ok_zero: "jobs_ok s \<Longrightarrow> current_copy zero_TwapJob s"
  by (auto simp: jobs_ok_def current_copy_def zero_TwapJob_def)

lemma jobs_ok_move:
  assumes "jobs_ok s" "jobs_move s s'" shows "jobs_ok s'"
proof -
  have l: "list_all2 job_move (tp_jobs s) (tp_jobs s')" using assms(2) by (simp add: jobs_move_def)
  have "map tj_ID (tp_jobs s') = map tj_ID (tp_jobs s)"
    using l by (induction rule: list_all2_induct) (simp_all add: job_move_def)
  moreover have "\<forall>job \<in> set (tp_jobs s'). tj_ID job \<noteq> [] \<and> 0 \<le> tj_CurrentAttempt job \<and> job_typed job"
  proof
    fix job assume "job \<in> set (tp_jobs s')"
    then obtain j where "j \<in> set (tp_jobs s)" "job_move j job" using l by (metis list_all2_conv_all_nth in_set_conv_nth)
    then show "tj_ID job \<noteq> [] \<and> 0 \<le> tj_CurrentAttempt job \<and> job_typed job"
      using assms(1) job_typed_move by (auto simp: job_move_def jobs_ok_def)
  qed
  ultimately show ?thesis using assms(1) by (simp add: jobs_ok_def)
qed

lemma window_ended_moves:
  assumes "jobs_ok s" "row \<in> set (tp_jobs s)" "tj_ID job = tj_ID row" "job_at job = job_at row" "tj_Status job = tj_Status row"
  shows "moves s (window_ended L env job s)"
proof -
  have job: "current_copy job s" by (rule jobs_ok_copy [OF assms])
  define s1 where "s1 = snd (cancelActive L env job s)"
  have s1: "moves s s1" "jobs_ok s1" "row \<in> set (tp_jobs s1)"
    using cancelActive_quiet(1) [OF job, of L env] assms(1,2) cancelActive_moves(2) [where s = s and L = L and env = env and job = job]
    by (simp_all add: s1_def jobs_ok_def)
  obtain r s2 where r: "twap_refresh L env (tj_ID job) s1 = (r, s2)" by (rule prod.exhaust)
  have q: "quiet s1 s2" using quiet_refresh [of s1] r by (metis snd_conv twap_refresh_def)
  then have "moves s1 s2" "jobs_ok s2" using moves_quiet jobs_ok_move [OF s1(2)] by (auto simp: quiet_def)
  moreover have "current_copy (case r of Inl e \<Rightarrow> zero_TwapJob | Inr j \<Rightarrow> j) s2"
    using r [unfolded twap_refresh_def]
  proof (cases rule: refresh_result)
    case (missing e)
    then show ?thesis using s1(3) assms(3) by auto
  next
    case (found row')
    then obtain row2 where "row2 \<in> set (tp_jobs s2)" "tj_ID row2 = tj_ID row'" "job_at row2 = job_at row'" "tj_Status row2 = tj_Status row'"
      using refresh_rows(1) [of L "te_pg_div env" "te_db_now env" "tj_ID job" s1] r
      by (force simp: twap_refresh_def)
    then show ?thesis using found jobs_ok_copy [OF \<open>jobs_ok s2\<close>] by simp
  qed
  ultimately have "moves s1 (twap_close L env (case r of Inl e \<Rightarrow> zero_TwapJob | Inr j \<Rightarrow> j) status message s2)"
    if "closed_twap status" for status message using moves_trans moves_quiet quiet_close that by blast
  then show ?thesis
    using moves_trans [OF s1(1)] r moves_quiet [OF quiet_close [OF job]]
    by (auto simp: window_ended_def Let_def s1_def split: sum.splits)
qed

text \<open>With a new order, it is a child of the job at the place where the job is; no other child is open.\<close>

definition new_child :: "decimal_lib \<Rightarrow> decimal \<Rightarrow> TwapJob \<Rightarrow> trader_db \<Rightarrow> Order \<Rightarrow> trader_db \<Rightarrow> bool" where
  "new_child L qty job db row db1 \<longleftrightarrow>
     order_rows db1 = order_rows db @ [row] \<and> rows_keyed db1 \<and> os_orders (db_store db1) = (os_orders (db_store db))(ord_ID row \<mapsto> row) \<and>
     ord_ID row \<notin> set (db_ids db) \<and> open_status (ord_Status row) \<and>
     ord_TwapJobID row = tj_ID job \<and> place_of row = job_at job \<and> order_sound L qty row \<and>
     (\<forall>c \<in> set (twap_children (tj_ID job) db). \<not> open_status (ord_Status c) \<and> place_of c \<noteq> job_at job)"

lemma inserted_rows:
  assumes "rows_keyed db" "\<And>r. r \<in> set (order_rows db) \<Longrightarrow> ord_ID r \<noteq> ord_ID row"
  shows "order_rows (insert_order now row db) = order_rows db @ [row]" "rows_keyed (insert_order now row db)" "ord_ID row \<notin> set (db_ids db)"
proof -
  show fresh: "ord_ID row \<notin> set (db_ids db)"
  proof
    assume i: "ord_ID row \<in> set (db_ids db)"
    then obtain order where "os_orders (db_store db) (ord_ID row) = Some order" "ord_ID order = ord_ID row"
      using assms(1) by (auto simp: rows_keyed_def)
    then have "order \<in> set (order_rows db)" using i by (force simp: order_rows_def List.map_filter_def)
    then show False using assms(2) \<open>ord_ID order = ord_ID row\<close> by blast
  qed
  have store: "os_orders (db_store (insert_order now row db)) = (os_orders (db_store db))(ord_ID row \<mapsto> row)"
    "db_ids (insert_order now row db) = db_ids db @ [ord_ID row]"
    by (simp_all add: insert_order_def set_schedule_def put_order_def)
  have "List.map_filter (f(i \<mapsto> x)) xs = List.map_filter f xs" if "i \<notin> set xs" for f and i :: string and x :: Order and xs
    using that by (induction xs) (auto simp: map_filter_simps split: option.splits)
  then show "order_rows (insert_order now row db) = order_rows db @ [row]"
    using fresh by (simp add: order_rows_def store List.map_filter_def)
  show "rows_keyed (insert_order now row db)" using assms(1) fresh by (auto simp: rows_keyed_def store)
qed

lemma point_to_rows:
  "tp_jobs (point_to now jobID orderID s) = map (\<lambda>row. if tj_ID row = jobID then row\<lparr>tj_ActiveOrderID := orderID, tj_UpdatedAt := now\<rparr> else row) (tp_jobs s)"
  "tp_world (point_to now jobID orderID s) = tp_world s"
  unfolding point_to_def update_job_rows by simp_all

lemma quiet_point_to: "quiet s (point_to now jobID orderID s)"
  unfolding quiet_def point_to_rows(2) by (simp add: jobs_move_map [OF point_to_rows(1)] job_move_def job_at_def job_terms_def)

lemma current_copy_point_to: "current_copy job s \<Longrightarrow> current_copy job (point_to now jobID orderID s)"
  by (erule current_copy_rows [OF _ point_to_rows(1)]) (simp add: job_at_def)

lemma same_rows_event: "order_rows (AppendEvent i e db) = order_rows db" "rows_keyed (AppendEvent i e db) = rows_keyed db"
  "os_orders (db_store (AppendEvent i e db)) = os_orders (db_store db)"
  by (simp_all add: AppendEvent_def order_rows_def rows_keyed_def)

text \<open>Half a unit of the last digit of a quotient by a step of at most \<open>S\<close>.\<close>

definition slack :: "decimal \<Rightarrow> decimal" where
  "slack S = S * div_unit / 2"

lemma slack_nonneg: "0 \<le> S \<Longrightarrow> 0 \<le> slack S"
  using div_unit_pos by (simp add: slack_def)

text \<open>The outcome of a step of the scheduler: rows and jobs move, possibly after a child was inserted.\<close>

definition outcome :: "decimal_lib \<Rightarrow> decimal \<Rightarrow> TwapJob \<Rightarrow> twap_world \<Rightarrow> twap_world \<Rightarrow> bool" where
  "outcome L qty job s s' \<longleftrightarrow>
     moves s s' \<or> (\<exists>row db1. new_child L qty job (tp_db s) row db1 \<and> keeps_rows db1 (tp_db s') \<and> jobs_move s s')"

lemma CreateTwapIntent_result:
  assumes "CreateTwapIntent L now newID jobID order0 s = (r, s1)"
    and "order = (if ord_ID order0 = [] then order0\<lparr>ord_ID := newID\<rparr> else order0)"
  obtains (failed) e where "r = Inl e" "s1 = s"
  | (existing) x where "r = Inr (x, False)" "s1 = point_to now jobID (ord_ID x) s"
  | (created) q row where "NewFromString L (ord_Quantity order) = Some q" "\<not> child_conflict jobID order (tp_db s)"
      "row = twap_row L now q jobID order" "r = Inr (row, True)"
      "s1 = point_to now jobID (ord_ID row) (set_db (AppendEvent (ord_ID row) ''intent'' (insert_order now row (tp_db s))) s)"
proof -
  note simps = CreateTwapIntent_def Let_def assms(2) [symmetric]
  show ?thesis
  proof (cases "repo_GetTwap jobID s")
    case (Inl e)
    then show ?thesis using assms(1) failed by (auto simp: simps)
  next
    case (Inr job)
    note job = this
    show ?thesis
    proof (cases "active_twap (tj_Status job)")
      case False
      then show ?thesis using assms(1) failed job by (auto simp: simps)
    next
      case True
      note run = assms(1) [unfolded simps job sum.case]
      show ?thesis
      proof (cases "getByIdempotency (ord_IdempotencyKey order) (tp_db s)")
        case (Inl e)
        note run = run [unfolded Inl sum.case]
        show ?thesis
        proof (cases "NewFromString L (ord_Quantity order)")
          case None
          then show ?thesis using run True failed by auto
        next
          case (Some q)
          note run = run [unfolded Some option.case]
          show ?thesis
          proof (cases "child_conflict jobID order (tp_db s) \<or> ord_Price order \<noteq> [] \<and> NewFromString L (ord_Price order) = None")
            case True
            then show ?thesis using run \<open>active_twap (tj_Status job)\<close> failed by auto
          next
            case False
            note run = run [unfolded if_not_P [OF False]]
            show ?thesis using run True False created [OF Some _ refl] by (cases r) auto
          qed
        qed
      next
        case (Inr x)
        note run = run [unfolded Inr sum.case]
        show ?thesis
        proof (cases "ord_RequestFingerprint x \<noteq> ord_RequestFingerprint order \<or> ord_TwapJobID x \<noteq> jobID")
          case False
          note run = run [unfolded if_not_P [OF False]]
          show ?thesis using run True existing by (cases r) auto
        qed (use run True failed in auto)
      qed
    qed
  qed
qed

context decimal_library
begin

lemma CreateTwapIntent_cases:
  assumes "CreateTwapIntent L now newID (tj_ID job) (child_order L env job orderType qty price) s = (r, s1)"
    and "rows_keyed (tp_db s)" "0 < qty" "is_decimal qty" "current_copy job s"
  obtains (failed) e where "r = Inl e" "s1 = s"
  | (existing) order where "r = Inr (order, False)" "quiet s s1" "current_copy job s1"
  | (created) row where "r = Inr (row, True)" "new_child L qty job (tp_db s) row (tp_db s1)" "jobs_move s s1" "current_copy job s1"
proof -
  let ?o = "child_order L env job orderType qty price"
  let ?order = "if ord_ID ?o = [] then ?o\<lparr>ord_ID := newID\<rparr> else ?o"
  have quantity: "ord_Quantity ?order = StringOf L qty" "ord_TwapSliceIndex ?order = tj_CurrentSlice job"
    "ord_TwapAttemptIndex ?order = tj_CurrentAttempt job" by (simp_all add: child_order_def)
  from assms(1) refl [of ?order] show ?thesis
  proof (cases rule: CreateTwapIntent_result)
    case (failed e)
    then show ?thesis by (rule that(1))
  next
    case (existing x)
    then show ?thesis using that(2) quiet_point_to current_copy_point_to assms(5) by blast
  next
    case 3: (created q row)
    then have row: "row = twap_row L now qty (tj_ID job) ?order" "r = Inr (row, True)"
      "s1 = point_to now (tj_ID job) (ord_ID row) (set_db (AppendEvent (ord_ID row) ''intent'' (insert_order now row (tp_db s))) s)"
      using parse_print [OF assms(4)] quantity by simp_all
    have id: "ord_ID row = ord_ID ?order" "ord_TwapJobID row = tj_ID job" "place_of row = job_at job"
      by (simp_all add: row(1) twap_row_def place_of_def job_at_def child_order_def)
    have fresh: "ord_ID r' \<noteq> ord_ID row" if "r' \<in> set (order_rows (tp_db s))" for r'
      using 3(2) that id(1) by (auto simp: child_conflict_def list_ex_iff)
    note ins = inserted_rows [OF assms(2) fresh]
    have db1: "tp_db s1 = AppendEvent (ord_ID row) ''intent'' (insert_order now row (tp_db s))"
      by (simp add: row(3) tp_db_def point_to_rows) (simp add: set_db_def)
    have sound: "order_sound L qty row"
      using assms(3) parse_print [OF assms(4)] parse_print [of 0] by (simp add: order_sound_def row(1) twap_row_def intent_row_def)
    have free: "\<forall>c \<in> set (twap_children (tj_ID job) (tp_db s)). \<not> open_status (ord_Status c) \<and> place_of c \<noteq> job_at job"
      using 3(2) by (auto simp: child_conflict_def list_ex_iff place_of_def job_at_def quantity)
    have store: "os_orders (db_store (tp_db s1)) = (os_orders (db_store (tp_db s)))(ord_ID row \<mapsto> row)"
      by (simp add: db1 same_rows_event insert_order_def set_schedule_def put_order_def)
    have "open_status (ord_Status row)" by (simp add: row(1) twap_row_def intent_row_def open_status_def)
    then have "new_child L qty job (tp_db s) row (tp_db s1)"
      using ins id(2,3) sound free store by (simp add: new_child_def db1 same_rows_event)
    moreover have "jobs_move s s1"
      using quiet_point_to [of "set_db (AppendEvent (ord_ID row) ''intent'' (insert_order now row (tp_db s))) s" now "tj_ID job" "ord_ID row"]
      by (simp add: row(3) quiet_def jobs_move_def)
    moreover have "current_copy job s1"
      unfolding row(3) by (rule current_copy_point_to) (use assms(5) in \<open>simp add: current_copy_def\<close>)
    ultimately show ?thesis using that(3) row(2) by blast
  qed
qed

lemma place_child_moves:
  assumes "current_copy job s" "place_child L env job instrument credentials adapter intent tif postOnly s = (givenUp, s1)"
  shows "moves s s1" "\<not> givenUp \<Longrightarrow> current_copy job s1"
proof -
  let ?s0 = "AppendTwapEvent (tj_ID job) ''slice_submitted'' s"
  obtain order err w where w: "submitWithOptions L (te_service env) adapter credentials instrument intent tif postOnly (tp_world ?s0) =
    ((order, err), w)" by (metis prod.collapse)
  have "keeps_rows (tw_db (tp_world s)) (tw_db w)"
    using rows_kept.R_place [of "tp_world s" L "te_service env" adapter credentials instrument intent tif postOnly False] w
    by (simp add: submitWithOptions_def)
  then have m: "moves s (?s0\<lparr>tp_world := w\<rparr>)" "current_copy job (?s0\<lparr>tp_world := w\<rparr>)"
    using assms(1) by (simp_all add: moves_def tp_db_def jobs_move_same current_copy_def)
  have "moves s (twap_fail L env job ''trading authorization lost'' (?s0\<lparr>tp_world := w\<rparr>))"
    unfolding twap_fail_def by (rule moves_trans [OF m(1) moves_quiet [OF quiet_close [OF m(2)]]]) simp
  then show "moves s s1" "\<not> givenUp \<Longrightarrow> current_copy job s1"
    using assms(2) w m by (auto simp: place_child_def Let_def split: option.splits if_splits)
qed

lemma submit_child_outcome:
  assumes "rows_keyed (tp_db s)" "0 < qty" "is_decimal qty" "current_copy job s"
  shows "outcome L qty job s (submit_child L env job instrument credentials adapter qty terms s)"
proof -
  obtain orderType price tif postOnly where t: "terms = (orderType, price, tif, postOnly)" by (metis prod.collapse)
  obtain r s1 where r: "CreateTwapIntent L (te_db_now env) (sv_newID (te_service env)) (tj_ID job)
    (child_order L env job orderType qty price) s = (r, s1)" by (rule prod.exhaust)
  have stay: "moves s2 (snd (UpdateTwapSchedule (te_db_now env) (tj_ID job) ''running'' (tj_CurrentSlice job) (tj_CurrentAttempt job)
      next_at active [] s2))" if "current_copy job s2" for s2 next_at active
    by (rule moves_quiet, rule quiet_schedule [OF that]) (use that in \<open>simp_all add: job_at_def current_copy_def\<close>)
  from r assms show ?thesis
  proof (cases rule: CreateTwapIntent_cases)
    case (failed e)
    then show ?thesis using r t moves_quiet [OF quiet_retry [OF assms(4)]] moves_quiet [OF quiet_refl [of s]]
      by (simp add: submit_child_def outcome_def)
  next
    case (existing order)
    then show ?thesis using r t moves_trans [OF moves_quiet [OF existing(2)] stay [OF existing(3)]]
      by (simp add: submit_child_def outcome_def)
  next
    case (created row)
    obtain givenUp s2 where p: "place_child L env job instrument credentials adapter row tif postOnly s1 = (givenUp, s2)"
      by (rule prod.exhaust)
    let ?s3 = "submit_child L env job instrument credentials adapter qty terms s"
    have "moves s1 s2" "\<not> givenUp \<Longrightarrow> current_copy job s2" using place_child_moves [OF created(4) p] by blast+
    then have "moves s1 ?s3"
      using r t p created(1) moves_trans [OF _ stay] by (simp add: submit_child_def)
    then have "keeps_rows (tp_db s1) (tp_db ?s3)" "jobs_move s ?s3"
      using jobs_move_trans [OF created(3)] by (simp_all add: moves_def)
    then show ?thesis using created(2) unfolding outcome_def by blast
  qed
qed

text \<open>The quantity of a slice fits into what is left, up to the rounding of the division by the step.\<close>

lemma floor_slack:
  assumes "parsePositiveDecimal L step \<le> S"
  shows "floorToStep L v (parsePositiveDecimal L step) \<le> v + slack S"
proof (cases "0 < parsePositiveDecimal L step")
  case True
  have "parsePositiveDecimal L step * div_unit / 2 \<le> slack S"
    unfolding slack_def by (intro divide_right_mono mult_right_mono assms) (use div_unit_pos in simp_all)
  then show ?thesis using floorToStep_upper [OF True, of v] by linarith
next
  case False
  moreover have "0 \<le> parsePositiveDecimal L step" by (simp add: parsePositiveDecimal_def split: option.splits)
  ultimately have "parsePositiveDecimal L step = 0" by simp
  then show ?thesis using assms slack_nonneg [of S] by (simp add: floorToStep_def)
qed

lemma parse_amounts:
  assumes "NewFromString L text = Some x" shows "parseDecimal L text = x" "0 < x \<Longrightarrow> parsePositiveDecimal L text = x"
  using assms parse_trim [OF assms] by (simp_all add: parseDecimal_def parsePositiveDecimal_def)

lemma sound_amounts:
  assumes "order_sound L q c"
  shows "parseDecimal L (ord_Quantity c) = size_of L c" "parseDecimal L (ord_FilledQuantity c) = filled_of L c"
  using assms parse_amounts(1) by (auto simp: order_sound_def size_of_def filled_of_def fill_amount_def)

lemma retry_quantity_fits:
  assumes "makerRetryQuantityFromOrders L job instrument orders = Inr qty" "set orders \<subseteq> set cs"
    and ok: "children_ok L (slack S) quantity cs" and before: "\<And>c. c \<in> set cs \<Longrightarrow> place_of c < job_at job"
    and step: "parsePositiveDecimal L (inst_QuantityStep instrument) \<le> S"
  shows "sum_list (map (filled_of L) cs) + qty \<le> quantity + (1 + of_int (tj_CurrentAttempt job)) * slack S"
proof -
  obtain c where f: "find (\<lambda>order. ord_TwapSliceIndex order = tj_CurrentSlice job \<and>
                         ord_TwapAttemptIndex order = tj_CurrentAttempt job - 1) (rev orders) = Some c"
    using assms(1) by (auto simp: makerRetryQuantityFromOrders_def split: option.splits)
  have c: "c \<in> set cs" "place_of c = (tj_CurrentSlice job, tj_CurrentAttempt job - 1)"
    "qty = floorToStep L (parseDecimal L (ord_Quantity c) - parseDecimal L (ord_FilledQuantity c))
       (parsePositiveDecimal L (inst_QuantityStep instrument))"
    using find_member [OF f] assms(2) by (auto simp: place_of_def) (use assms(1) f in \<open>simp add: makerRetryQuantityFromOrders_def\<close>)
  obtain q where q: "order_sound L q c" using ok c(1) by (auto simp: children_ok_def)
  have "place_of c' \<le> place_of c" if "c' \<in> set cs" for c'
    using before [OF that] by (cases "place_of c'") (auto simp: c(2) job_at_def)
  then have s: "sum_list (map (filled_of L) cs) =
      sum_list (map (filled_of L) (filter (\<lambda>c'. place_of c' < place_of c) cs)) + filled_of L c"
    using newest_split [of cs c] ok c(1) by (simp add: children_ok_def)
  have "sum_list (map (filled_of L) (filter (\<lambda>c'. place_of c' < place_of c) cs)) + size_of L c \<le>
      quantity + (1 + of_int (tj_CurrentAttempt job - 1)) * slack S"
    using ok c(1,2) by (force simp: children_ok_def place_of_def)
  moreover have "qty \<le> size_of L c - filled_of L c + slack S"
    using floor_slack [OF step, of "size_of L c - filled_of L c"] by (simp add: c(3) sound_amounts [OF q])
  ultimately show ?thesis unfolding s by (simp add: algebra_simps)
qed

lemma first_quantity_fits:
  assumes "parsePositiveDecimal L (inst_QuantityStep instrument) \<le> S" "0 < remaining"
  shows "calculateSliceQuantity L remaining interval remainingTime maxQuantity
      (parsePositiveDecimal L (inst_QuantityStep instrument)) \<le> remaining + slack S"
proof -
  have "floorToStep L v (parsePositiveDecimal L (inst_QuantityStep instrument)) \<le> remaining + slack S" if "v \<le> remaining" for v
    using floor_slack [OF assms(1), of v] that by linarith
  moreover have "0 \<le> slack S"
    using assms(1) by (intro slack_nonneg order_trans [OF _ assms(1)]) (simp add: parsePositiveDecimal_def split: option.splits)
  ultimately show ?thesis using assms(2) by (auto simp: calculateSliceQuantity_def Let_def)
qed

lemma slice_quantity_decimal:
  assumes "slice_quantity L env job instrument s = Inr qty" shows "is_decimal qty"
proof -
  let ?step = "parsePositiveDecimal L (inst_QuantityStep instrument)"
  have floor: "is_decimal (floorToStep L v ?step)" if "is_decimal v" for v
    using that by (rule is_decimal_floorToStep) simp
  have diff: "is_decimal (parsePositiveDecimal L a - parseDecimal L b)" "is_decimal (parseDecimal L a - parseDecimal L b)" for a b
    by (intro is_decimal_diff; simp)+
  have retry: "is_decimal q" if "makerRetryQuantityFromOrders L job instrument orders = Inr q" for q orders
    using that floor [OF diff(2)] by (auto simp: makerRetryQuantityFromOrders_def split: option.splits)
  have first: "is_decimal (calculateSliceQuantity L r i t m ?step)" if m: "is_decimal r" "is_decimal m" for r i t m
  proof (cases "\<not> 0 < r \<or> i \<le> 0 \<or> t \<le> 0")
    case False
    then have "is_decimal (Div L (r * of_int i) (of_int t))" by (intro is_decimal_Div) simp
    then show ?thesis using False m unfolding calculateSliceQuantity_def Let_def by (simp add: floor)
  qed (simp add: calculateSliceQuantity_def)
  show ?thesis
  proof (cases "0 < tj_CurrentAttempt job")
    case True
    then show ?thesis using assms retry by (simp add: slice_quantity_def)
  next
    case False
    then have "qty = calculateSliceQuantity L
             (parsePositiveDecimal L (tj_TotalQuantity job) - parseDecimal L (tj_FilledQuantity job))
             (wrap64 (tj_IntervalSeconds job * Second)) (time_Sub (tj_EndAt job) (te_now env 1))
             (parsePositiveDecimal L (tj_MaxQuantity job)) ?step"
      using assms by (simp add: slice_quantity_def)
    then show ?thesis using first [OF diff(1)] by simp
  qed
qed

end

section \<open>The invariant\<close>

text \<open>What is relied on of the venues: a child never fills more than its quantity, and once it is known to be
  finished it is not reopened and nothing more of it fills.\<close>

definition sound_row :: "decimal_lib \<Rightarrow> Order \<Rightarrow> bool" where
  "sound_row L row \<longleftrightarrow>
     (case (NewFromString L (ord_Quantity row), NewFromString L (ord_FilledQuantity row)) of
        (Some q, Some f) \<Rightarrow> 0 < q \<and> f \<le> q | _ \<Rightarrow> False)"

lemma sound_row_iff: "sound_row L row \<longleftrightarrow> (\<exists>q. order_sound L q row)"
  by (auto simp: sound_row_def order_sound_def split: option.splits)

definition venue_settled :: "decimal_lib \<Rightarrow> trader_db \<Rightarrow> trader_db \<Rightarrow> bool" where
  "venue_settled L db db' \<longleftrightarrow>
     (\<forall>row \<in> set (order_rows db'). ord_TwapJobID row \<noteq> [] \<longrightarrow> sound_row L row) \<and>
     (\<forall>row \<in> set (order_rows db). ord_TwapJobID row \<noteq> [] \<longrightarrow> \<not> open_status (ord_Status row) \<longrightarrow>
        (case os_orders (db_store db') (ord_ID row) of
           None \<Rightarrow> True | Some row' \<Rightarrow> \<not> open_status (ord_Status row') \<and> filled_of L row' = filled_of L row))"

definition job_children_ok :: "decimal_lib \<Rightarrow> decimal \<Rightarrow> trader_db \<Rightarrow> TwapJob \<Rightarrow> bool" where
  "job_children_ok L S db job \<longleftrightarrow>
     (\<exists>quantity > 0. NewFromString L (tj_TotalQuantity job) = Some quantity \<and>
        children_ok L (slack S) quantity (twap_children (tj_ID job) db)) \<and>
     (\<forall>c \<in> set (twap_children (tj_ID job) db). place_of c \<le> job_at job)"

definition twap_ok :: "decimal_lib \<Rightarrow> decimal \<Rightarrow> twap_world \<Rightarrow> bool" where
  "twap_ok L S s \<longleftrightarrow>
     jobs_ok s \<and> rows_keyed (tp_db s) \<and>
     (\<forall>row \<in> set (order_rows (tp_db s)). ord_TwapJobID row = [] \<or> ord_TwapJobID row \<in> tj_ID ` set (tp_jobs s)) \<and>
     (\<forall>job \<in> set (tp_jobs s). job_children_ok L S (tp_db s) job)"

definition row_now :: "trader_db \<Rightarrow> Order \<Rightarrow> Order" where
  "row_now db row = the (os_orders (db_store db) (ord_ID row))"

lemma keyed_row:
  assumes "rows_keyed db" "row \<in> set (order_rows db)"
  shows "os_orders (db_store db) (ord_ID row) = Some row" "ord_ID row \<in> set (db_ids db)"
proof -
  obtain i where "i \<in> set (db_ids db)" "os_orders (db_store db) i = Some row"
    using assms(2) by (auto simp: order_rows_def List.map_filter_def)
  then show "os_orders (db_store db) (ord_ID row) = Some row" "ord_ID row \<in> set (db_ids db)"
    using assms(1) by (auto simp: rows_keyed_def)
qed

lemma kept_row:
  assumes "rows_keyed db" "keeps_rows db db'" "row \<in> set (order_rows db)"
  shows "os_orders (db_store db') (ord_ID row) = Some (row_now db' row)" "row_identity (row_now db' row) = row_identity row"
proof -
  have "map_option row_identity (os_orders (db_store db') (ord_ID row)) = Some (row_identity row)"
    using assms(2) keyed_row [OF assms(1,3)] by (simp add: keeps_rows_def)
  then show "os_orders (db_store db') (ord_ID row) = Some (row_now db' row)" "row_identity (row_now db' row) = row_identity row"
    by (auto simp: row_now_def)
qed

lemma kept_rows:
  assumes "rows_keyed db" "keeps_rows db db'"
  shows "order_rows db' = map (row_now db') (order_rows db)"
proof -
  have present: "os_orders (db_store db') i \<noteq> None \<and> os_orders (db_store db) i \<noteq> None \<and>
      row_now db' (the (os_orders (db_store db) i)) = the (os_orders (db_store db') i)" if i: "i \<in> set (db_ids db)" for i
  proof -
    obtain row where row: "os_orders (db_store db) i = Some row" "ord_ID row = i" using assms(1) i by (auto simp: rows_keyed_def)
    have "map_option row_identity (os_orders (db_store db') i) = Some (row_identity row)" using assms(2) row(1) by (simp add: keeps_rows_def)
    then show ?thesis using row by (auto simp: row_now_def)
  qed
  have ids: "db_ids db' = db_ids db" using assms(2) by (simp add: keeps_rows_def)
  have all: "List.map_filter f xs = map (the \<circ> f) xs" if "\<And>i. i \<in> set xs \<Longrightarrow> f i \<noteq> None" for f :: "string \<Rightarrow> Order option" and xs
    unfolding List.map_filter_def using that by (simp cong: filter_cong)
  have "order_rows db' = map (the \<circ> os_orders (db_store db')) (db_ids db)" "order_rows db = map (the \<circ> os_orders (db_store db)) (db_ids db)"
    unfolding order_rows_def ids using present by (intro all; blast)+
  then show ?thesis using present by (simp only: map_map) (intro map_cong refl, simp)
qed

lemma kept_children:
  assumes "rows_keyed db" "keeps_rows db db'"
  shows "twap_children jobID db' = map (row_now db') (twap_children jobID db)"
proof -
  have "ord_TwapJobID (row_now db' row) = ord_TwapJobID row" if "row \<in> set (order_rows db)" for row
    using kept_row(2) [OF assms that] by (simp add: row_identity_def)
  then show ?thesis by (simp add: twap_children_def kept_rows [OF assms] filter_map o_def cong: filter_cong)
qed

lemma jobs_move_obtain:
  assumes "jobs_move s s'" "job' \<in> set (tp_jobs s')"
  obtains job where "job \<in> set (tp_jobs s)" "job_move job job'"
proof -
  obtain i where "i < length (tp_jobs s')" "tp_jobs s' ! i = job'" using assms(2) by (auto simp: in_set_conv_nth)
  then show ?thesis using assms(1) that [of "tp_jobs s ! i"] by (auto simp: jobs_move_def list_all2_conv_all_nth)
qed

lemma jobs_move_ids: "jobs_move s s' \<Longrightarrow> map tj_ID (tp_jobs s') = map tj_ID (tp_jobs s)"
  unfolding jobs_move_def by (induction rule: list_all2_induct) (simp_all add: job_move_def)

text \<open>Reports settle the rows of a job, including one that was just inserted.\<close>

lemma settled_now:
  assumes "venue_settled L db db'" "rows_keyed db1" "keeps_rows db1 db'" "row \<in> set (order_rows db1)" "ord_TwapJobID row \<noteq> []"
    and "row \<in> set (order_rows db) \<or> open_status (ord_Status row)"
  shows "settled_pair L row (row_now db' row)"
proof -
  note k = kept_row [OF assms(2-4)]
  have "ord_TwapJobID (row_now db' row) \<noteq> []" using k(2) assms(5) by (simp add: row_identity_def)
  moreover have "row_now db' row \<in> set (order_rows db')" using assms(4) by (simp add: kept_rows [OF assms(2,3)])
  ultimately have "\<exists>q. order_sound L q (row_now db' row)" using assms(1) by (simp add: venue_settled_def sound_row_iff)
  moreover have "\<not> open_status (ord_Status (row_now db' row)) \<and> filled_of L (row_now db' row) = filled_of L row"
    if "\<not> open_status (ord_Status row)"
    using assms(1,5,6) that k(1) by (auto simp: venue_settled_def)
  ultimately show ?thesis using k(2) by (simp add: settled_pair_def)
qed

lemma twap_ok_moves:
  assumes ok: "twap_ok L S s" and m: "moves s s'" and v: "venue_settled L (tp_db s) (tp_db s')"
  shows "twap_ok L S s'"
proof -
  let ?db = "tp_db s" and ?db' = "tp_db s'"
  have keyed: "rows_keyed ?db" and k: "keeps_rows ?db ?db'" and j: "jobs_move s s'"
    using ok m by (simp_all add: twap_ok_def moves_def)
  have ids: "tj_ID ` set (tp_jobs s') = tj_ID ` set (tp_jobs s)" using jobs_move_ids [OF j] by (metis set_map)
  have "job_children_ok L S ?db' job'" if job': "job' \<in> set (tp_jobs s')" for job'
  proof -
    obtain job where job: "job \<in> set (tp_jobs s)" "job_move job job'" using jobs_move_obtain [OF j job'] .
    have id: "tj_ID job' = tj_ID job" "tj_TotalQuantity job' = tj_TotalQuantity job" "job_at job \<le> job_at job'" "tj_ID job \<noteq> []"
      using job ok job_move_total [OF job(2)] by (auto simp: job_move_def twap_ok_def jobs_ok_def)
    have old: "job_children_ok L S ?db job" using ok job(1) by (simp add: twap_ok_def)
    have pair: "settled_pair L c (row_now ?db' c)" if "c \<in> set (twap_children (tj_ID job) ?db)" for c
      using that settled_now [OF v keyed k] id(4) by (simp add: twap_children_def)
    have "place_of (row_now ?db' c) \<le> job_at job'" if "c \<in> set (twap_children (tj_ID job) ?db)" for c
      using old that settled_pair_place(1) [OF pair [OF that]] id(3) by (force simp: job_children_ok_def)
    then show ?thesis
      using old children_ok_map [OF _ pair] id unfolding job_children_ok_def kept_children [OF keyed k] by auto
  qed
  moreover have "\<forall>row \<in> set (order_rows ?db'). ord_TwapJobID row = [] \<or> ord_TwapJobID row \<in> tj_ID ` set (tp_jobs s')"
  proof
    fix row assume "row \<in> set (order_rows ?db')"
    then obtain r where r: "r \<in> set (order_rows ?db)" "row = row_now ?db' r" by (auto simp: kept_rows [OF keyed k])
    then have "ord_TwapJobID row = ord_TwapJobID r" using kept_row(2) [OF keyed k r(1)] by (simp add: row_identity_def)
    then show "ord_TwapJobID row = [] \<or> ord_TwapJobID row \<in> tj_ID ` set (tp_jobs s')" using ok r(1) by (simp add: twap_ok_def ids)
  qed
  ultimately show ?thesis
    using ok jobs_ok_move [OF _ j] rows_keyed_kept [OF keyed k] by (simp add: twap_ok_def)
qed

text \<open>A new child that fits.\<close>

lemma twap_ok_created:
  assumes ok: "twap_ok L S s" and job: "job \<in> set (tp_jobs s)" and n: "new_child L qty job (tp_db s) row db1"
    and k: "keeps_rows db1 (tp_db s')" and j: "jobs_move s s'" and v: "venue_settled L (tp_db s) (tp_db s')"
    and fits: "\<And>quantity. NewFromString L (tj_TotalQuantity job) = Some quantity \<Longrightarrow>
      sum_list (map (filled_of L) (twap_children (tj_ID job) (tp_db s))) + qty \<le>
        quantity + (1 + of_int (tj_CurrentAttempt job)) * slack S"
  shows "twap_ok L S s'"
proof -
  let ?db = "tp_db s" and ?db' = "tp_db s'"
  have opened: "open_status (ord_Status row)" and keyed: "rows_keyed ?db" and keyed1: "rows_keyed db1" and rows: "order_rows db1 = order_rows ?db @ [row]"
    and store: "os_orders (db_store db1) = (os_orders (db_store ?db))(ord_ID row \<mapsto> row)" "ord_ID row \<notin> set (db_ids ?db)"
    and row: "ord_TwapJobID row = tj_ID job" "place_of row = job_at job" "order_sound L qty row"
    using ok n by (simp_all add: twap_ok_def new_child_def)
  have ids: "tj_ID ` set (tp_jobs s') = tj_ID ` set (tp_jobs s)" using jobs_move_ids [OF j] by (metis set_map)
  have children: "twap_children i db1 = twap_children i ?db @ (if i = tj_ID job then [row] else [])" for i
    by (simp add: twap_children_def rows row(1))
  have "job_children_ok L S ?db' job'" if job': "job' \<in> set (tp_jobs s')" for job'
  proof -
    obtain job0 where job0: "job0 \<in> set (tp_jobs s)" "job_move job0 job'" using jobs_move_obtain [OF j job'] .
    have id: "tj_ID job' = tj_ID job0" "tj_TotalQuantity job' = tj_TotalQuantity job0" "job_at job0 \<le> job_at job'" "tj_ID job0 \<noteq> []"
      using job0 ok job_move_total [OF job0(2)] by (auto simp: job_move_def twap_ok_def jobs_ok_def)
    have same: "job0 = job" if "tj_ID job0 = tj_ID job"
      using ok job job0(1) that by (auto simp: twap_ok_def jobs_ok_def distinct_map dest: inj_onD)
    obtain quantity where q: "0 < quantity" "NewFromString L (tj_TotalQuantity job0) = Some quantity"
      "children_ok L (slack S) quantity (twap_children (tj_ID job0) ?db)"
      "\<forall>c \<in> set (twap_children (tj_ID job0) ?db). place_of c \<le> job_at job0"
      using ok job0(1) by (auto simp: twap_ok_def job_children_ok_def)
    have new: "children_ok L (slack S) quantity (twap_children (tj_ID job0) db1)"
    proof (cases "tj_ID job0 = tj_ID job")
      case True
      have at: "place_of c < place_of row" "\<not> open_status (ord_Status c)" if "c \<in> set (twap_children (tj_ID job) ?db)" for c
        using q(4) n that same [OF True] row(2) by (force simp: new_child_def order_less_le)+
      have "size_of L row = qty" "ord_TwapAttemptIndex row = tj_CurrentAttempt job" "0 \<le> tj_CurrentAttempt job"
        using row(2,3) ok job by (auto simp: order_sound_def size_of_def fill_amount_def place_of_def job_at_def twap_ok_def jobs_ok_def)
      then show ?thesis
        unfolding children True using q(2,3) same [OF True] at fits row(3) by (auto intro!: children_ok_snoc)
    qed (use q(3) in \<open>simp add: children\<close>)
    have pair: "settled_pair L c (row_now ?db' c)" if "c \<in> set (twap_children (tj_ID job0) db1)" for c
    proof (rule settled_now [OF v keyed1 k])
      show "c \<in> set (order_rows db1)" "ord_TwapJobID c \<noteq> []" using that id(4) by (simp_all add: twap_children_def)
      then show "c \<in> set (order_rows ?db) \<or> open_status (ord_Status c)" using opened by (auto simp: rows)
    qed
    have "place_of c \<le> job_at job0" if "c \<in> set (twap_children (tj_ID job0) db1)" for c
      using that q(4) row(2) same by (auto simp: children split: if_splits)
    then have "place_of (row_now ?db' c) \<le> job_at job'" if "c \<in> set (twap_children (tj_ID job0) db1)" for c
      using settled_pair_place(1) [OF pair [OF that]] id(3) that by force
    then show ?thesis
      using q(1,2) children_ok_map [OF new pair] id unfolding job_children_ok_def kept_children [OF keyed1 k] by auto
  qed
  moreover have "\<forall>r' \<in> set (order_rows ?db'). ord_TwapJobID r' = [] \<or> ord_TwapJobID r' \<in> tj_ID ` set (tp_jobs s')"
  proof
    fix r' assume "r' \<in> set (order_rows ?db')"
    then obtain r where r: "r \<in> set (order_rows db1)" "r' = row_now ?db' r" by (auto simp: kept_rows [OF keyed1 k])
    then have "ord_TwapJobID r' = ord_TwapJobID r" using kept_row(2) [OF keyed1 k r(1)] by (simp add: row_identity_def)
    then show "ord_TwapJobID r' = [] \<or> ord_TwapJobID r' \<in> tj_ID ` set (tp_jobs s')"
      using ok r(1) row(1) job by (auto simp: twap_ok_def ids rows)
  qed
  ultimately show ?thesis
    using ok jobs_ok_move [OF _ j] rows_keyed_kept [OF keyed1 k] by (simp add: twap_ok_def)
qed

section \<open>Advancing a job\<close>

definition steps_within :: "decimal_lib \<Rightarrow> decimal \<Rightarrow> twap_env \<Rightarrow> bool" where
  "steps_within L S env \<longleftrightarrow>
     (\<forall>i instrument. te_catalog env i = Inr instrument \<longrightarrow> parsePositiveDecimal L (inst_QuantityStep instrument) \<le> S)"

lemma quiet_missing:
  assumes "\<And>row. row \<in> set (tp_jobs s) \<Longrightarrow> tj_ID row \<noteq> tj_ID job" shows "quiet s (twap_retry env job err s)"
proof -
  have "tp_jobs (twap_retry env job err s) = tp_jobs s"
    unfolding twap_retry_def Let_def schedule_rows(1) using assms by (intro map_idI) simp
  then show ?thesis by (simp add: quiet_def jobs_move_same) (simp add: twap_retry_def Let_def schedule_rows(2))
qed

lemma start_moves:
  assumes "jobs_ok s" "current_copy job s" shows "moves s (start_job L env job s)"
proof -
  let ?fire = "twapSliceFireAt L (te_sum64 env) (tj_ID job) (tj_CurrentSlice job) (tj_StartAt job) (tj_EndAt job) (tj_IntervalSeconds job)"
  obtain r s1 where r: "UpdateTwapSchedule (te_db_now env) (tj_ID job) ''running'' (tj_CurrentSlice job) (tj_CurrentAttempt job) ?fire
    (tj_ActiveOrderID job) [] s = (r, s1)" by (rule prod.exhaust)
  have q: "quiet s s1"
    using quiet_schedule [OF assms(2), of "tj_CurrentSlice job" "tj_CurrentAttempt job" "''running''" "te_db_now env" ?fire "tj_ActiveOrderID job" "[]"] r assms(2)
    by (simp add: job_at_def current_copy_def)
  then have "jobs_ok s1" using jobs_ok_move [OF assms(1)] by (simp add: quiet_def)
  then have "moves s (twap_retry env zero_TwapJob err s1)" for err
    using moves_quiet [OF quiet_trans [OF q quiet_retry [OF jobs_ok_zero]]] by blast
  then show ?thesis using r moves_quiet [OF q] by (cases r) (simp_all add: start_job_def moves_def jobs_move_def)
qed

context decimal_library
begin

lemma submitSlice_outcome:
  assumes "current_copy job s" "rows_keyed (tp_db s)" "steps_within L S env"
  shows "moves s (submitSlice L env job s) \<or>
    (\<exists>instrument qty. parsePositiveDecimal L (inst_QuantityStep instrument) \<le> S \<and> slice_quantity L env job instrument s = Inr qty \<and>
       0 < parsePositiveDecimal L (tj_TotalQuantity job) - parseDecimal L (tj_FilledQuantity job) \<and>
       outcome L qty job s (submitSlice L env job s))"
proof -
  note quiets = quiet_close [OF assms(1), THEN moves_quiet] quiet_retry [OF assms(1), THEN moves_quiet]
    quiet_advanceSlice [OF assms(1), THEN moves_quiet]
  show ?thesis
  proof (cases "\<not> 0 < parsePositiveDecimal L (tj_TotalQuantity job) - parseDecimal L (tj_FilledQuantity job) \<or>
      time_Sub (tj_EndAt job) (te_now env 1) \<le> 0")
    case True
    then show ?thesis using quiets(1) [of "''partially_completed''"] unfolding submitSlice_def Let_def by (simp only: if_True closed_statuses) blast
  next
    case left: False
    show ?thesis
    proof (cases "te_catalog env (tj_InstrumentID job)")
      case (Inl e)
      then show ?thesis using left quiets(2) by (simp add: submitSlice_def)
    next
      case catalog: (Inr instrument)
      show ?thesis
      proof (cases "slice_quantity L env job instrument s")
        case (Inl e)
        then show ?thesis using left catalog quiets(2) by (simp add: submitSlice_def)
      next
        case quantity: (Inr qty)
        have "outcome L qty job s (submit_child L env job instrument credentials adapter qty terms s)" if "0 < qty" for credentials adapter terms
          by (rule submit_child_outcome [OF assms(2) that slice_quantity_decimal [OF quantity] assms(1)])
        then have "outcome L qty job s (submitSlice L env job s)"
          using left catalog quantity quiets
          by (auto simp: submitSlice_def twap_fail_def outcome_def Let_def split: sum.splits option.splits)
        moreover have "parsePositiveDecimal L (inst_QuantityStep instrument) \<le> S"
          using assms(3) catalog by (auto simp: steps_within_def)
        ultimately show ?thesis using quantity left by blast
      qed
    qed
  qed
qed

lemma slice_fits:
  assumes "slice_quantity L env job instrument s = Inr qty" "parsePositiveDecimal L (inst_QuantityStep instrument) \<le> S"
    and job: "job = refreshed_job L d now (twap_children (tj_ID row) (tp_db s)) row"
    and left: "0 < parsePositiveDecimal L (tj_TotalQuantity job) - parseDecimal L (tj_FilledQuantity job)"
    and q: "0 < quantity" "NewFromString L (tj_TotalQuantity row) = Some quantity"
    and ok: "children_ok L (slack S) quantity (twap_children (tj_ID row) (tp_db s))" "0 \<le> tj_CurrentAttempt row"
    and before: "\<And>c. c \<in> set (twap_children (tj_ID row) (tp_db s)) \<Longrightarrow> place_of c < job_at row"
  shows "sum_list (map (filled_of L) (twap_children (tj_ID row) (tp_db s))) + qty \<le> quantity + (1 + of_int (tj_CurrentAttempt row)) * slack S"
proof (cases "tj_CurrentAttempt job > 0")
  case True
  let ?orders = "repo_ListTwapOrders (tj_OwnerUsername job) (tj_ID job) s"
  have at: "tj_ID job = tj_ID row" "job_at job = job_at row" "tj_CurrentAttempt job = tj_CurrentAttempt row" by (simp_all add: job)
  have m: "makerRetryQuantityFromOrders L job instrument ?orders = Inr qty" using assms(1) True by (simp add: slice_quantity_def)
  have sub: "set ?orders \<subseteq> set (twap_children (tj_ID row) (tp_db s))" by (auto simp: repo_ListTwapOrders_def at(1))
  show ?thesis using retry_quantity_fits [OF m sub ok(1) before [folded at(2)] assms(2)] by (simp only: at(3))
next
  case False
  let ?cs = "twap_children (tj_ID row) (tp_db s)" and ?step = "parsePositiveDecimal L (inst_QuantityStep instrument)"
  have zero: "tj_CurrentAttempt row = 0" using False ok(2) by (simp add: job)
  have f: "child_filled L ?cs = sum_list (map (filled_of L) ?cs)" by (simp add: child_filled_def filled_of_def [abs_def])
  have "is_decimal (sum_list (map (filled_of L) xs))" for xs
    by (induction xs) (auto simp: filled_of_def intro: fill_amount_decimal)
  then have d: "is_decimal (min quantity (child_filled L ?cs))" using parse_decimal [OF q(2)] by (simp add: f is_decimal_min_max)
  have "parsePositiveDecimal L (tj_TotalQuantity job) = quantity" using parse_amounts(2) [OF q(2,1)] by (simp add: job)
  moreover have "parseDecimal L (tj_FilledQuantity job) = min quantity (child_filled L ?cs)"
    using parse_amounts(1) [OF parse_print [OF d]] q(2) by (simp add: job refreshed_job_def fill_amount_def)
  ultimately have r: "parsePositiveDecimal L (tj_TotalQuantity job) - parseDecimal L (tj_FilledQuantity job) =
      quantity - sum_list (map (filled_of L) ?cs)" using left by (simp add: f min_def split: if_splits)
  have "qty \<le> (quantity - sum_list (map (filled_of L) ?cs)) + slack S"
    using assms(1) False first_quantity_fits [OF assms(2) left] by (auto simp: slice_quantity_def r)
  then show ?thesis by (simp add: zero)
qed

lemma advance_ok:
  assumes ok: "twap_ok L S s" and env: "steps_within L S env" and v: "venue_settled L (tp_db s) (tp_db (advance L env leased s))"
  shows "twap_ok L S (advance L env leased s)"
proof -
  obtain r s1 where r: "RefreshTwapProgress L (te_pg_div env) (te_db_now env) (tj_ID leased) s = (r, s1)" by (rule prod.exhaust)
  have q1: "quiet s s1" using quiet_refresh [of s] r by (metis snd_conv)
  then have db1: "tp_db s1 = tp_db s" and m1: "moves s s1" and jobs1: "jobs_ok s1" and keyed1: "rows_keyed (tp_db s1)"
    using ok moves_quiet [OF q1] jobs_ok_move by (auto simp: quiet_def tp_db_def twap_ok_def)
  have by_moves: ?thesis if "moves s1 (advance L env leased s)"
    by (rule twap_ok_moves [OF ok moves_trans [OF m1 that] v])
  from r show ?thesis
  proof (cases rule: refresh_result)
    case (missing e)
    have "moves s1 (advance L env leased s)"
      using r missing quiet_missing [of s leased env "Sentinel e"] by (simp add: advance_def twap_refresh_def moves_quiet)
    then show ?thesis by (rule by_moves)
  next
    case (found row)
    define job where "job = refreshed_job L (te_pg_div env) (te_db_now env) (twap_children (tj_ID row) (tp_db s)) row"
    have rj: "r = Inr job" using found by (simp add: job_def)
    have at: "tj_ID job = tj_ID row" "job_at job = job_at row" by (simp_all add: job_def)
    have "job \<in> set (tp_jobs s1)"
      using refresh_rows(1) [of L "te_pg_div env" "te_db_now env" "tj_ID leased" s] r found by (force simp: job_def)
    then have copy: "current_copy job s1" by (rule jobs_ok_copy [OF jobs1]) simp_all
    note quiets = quiet_close [OF copy, THEN moves_quiet] handleActive_moves [OF copy]
      window_ended_moves [OF jobs1 \<open>job \<in> set (tp_jobs s1)\<close> refl refl]
    note start = start_moves [OF jobs1 copy]
    let ?slice = "0 < parsePositiveDecimal L (tj_TotalQuantity job) \<and>
      \<not> parsePositiveDecimal L (tj_TotalQuantity job) \<le> parseDecimal L (tj_FilledQuantity job) \<and> te_now env 0 < tj_EndAt job \<and>
      tj_Status job \<noteq> ''pending'' \<and> tj_ActiveOrderID job = []"
    show ?thesis
    proof (cases ?slice)
      case True
      then have adv: "advance L env leased s = submitSlice L env job s1" using r rj by (simp add: advance_def twap_refresh_def Let_def)
      from submitSlice_outcome [OF copy keyed1 env]
      consider "moves s1 (submitSlice L env job s1)"
        | instrument qty child db where "parsePositiveDecimal L (inst_QuantityStep instrument) \<le> S" "slice_quantity L env job instrument s1 = Inr qty"
          "0 < parsePositiveDecimal L (tj_TotalQuantity job) - parseDecimal L (tj_FilledQuantity job)"
          "new_child L qty job (tp_db s1) child db" "keeps_rows db (tp_db (submitSlice L env job s1))" "jobs_move s1 (submitSlice L env job s1)"
        unfolding outcome_def by blast
      then show ?thesis
      proof cases
        case 1
        then show ?thesis using by_moves by (simp add: adv)
      next
        case 2
        have row: "job_children_ok L S (tp_db s) row" "0 \<le> tj_CurrentAttempt row"
          using ok found(2) by (simp_all add: twap_ok_def jobs_ok_def)
        have before: "place_of c < job_at row" if "c \<in> set (twap_children (tj_ID row) (tp_db s))" for c
          using row(1) 2(4) that by (force simp: job_children_ok_def new_child_def at db1 order_less_le)
        have fits: "sum_list (map (filled_of L) (twap_children (tj_ID row) (tp_db s))) + qty \<le> quantity + (1 + of_int (tj_CurrentAttempt row)) * slack S"
          if "NewFromString L (tj_TotalQuantity row) = Some quantity" for quantity
          using slice_fits [OF 2(2,1) job_def [folded db1] 2(3) _ that _ row(2) before [folded db1]] row(1) that
          by (auto simp: job_children_ok_def db1)
        have "new_child L qty row (tp_db s) child db" using 2(4) by (simp add: new_child_def at db1)
        then show ?thesis
          using twap_ok_created [OF ok found(2) _ 2(5) _ _ fits] v jobs_move_trans [OF _ 2(6)] m1 by (simp add: adv moves_def)
      qed
    next
      case False
      have "moves s1 (advance L env leased s)"
        using r rj quiets start False
        by (auto simp: advance_def twap_refresh_def twap_fail_def Let_def)
      then show ?thesis by (rule by_moves)
    qed
  qed
qed

end

end
