(* ===== verification/Twap_Steps.thy ===== *)
theory Twap_Steps
  imports Twap_Safety
begin

text \<open>The steps of a system with TWAP jobs: leasing and advancing jobs, the requests of users, the cleanup, other orders,
  and what venues report about orders. The invariant of \<^verbatim>\<open>Twap_Safety\<close> holds in every state they reach, which bounds
  what a job commits and fixes the types of its rows. A job ends with its window, and a request is refused on instruments
  with a minimum notional.\<close>

section \<open>Steps\<close>

inductive twap_step :: "decimal_lib \<Rightarrow> decimal \<Rightarrow> twap_world \<Rightarrow> twap_world \<Rightarrow> bool" for L S where
  leased: "twap_step L S s (snd (LeaseDueTwaps now locked limit lease s))"
| advanced: "steps_within L S env \<Longrightarrow> venue_settled L (tp_db s) (tp_db (advance L env job s)) \<Longrightarrow> twap_step L S s (advance L env job s)"
| requested: "sv_newID env \<noteq> [] \<Longrightarrow> twap_step L S s (snd (CreateTwap L env now input s))"
| looked_up: "twap_step L S s (snd (GetTwap L tenv validUUID token jobID s))"
| canceled: "venue_settled L (tp_db s) (tp_db (snd (CancelTwap L tenv validUUID token jobID s))) \<Longrightarrow>
    twap_step L S s (snd (CancelTwap L tenv validUUID token jobID s))"
| cleaned: "twap_step L S s (snd (cleanup_runOnce c locked now s))"
| placed: "twap_step L S s (set_db (snd (CreateIntent L now newID newClientOrderID order (tp_db s))) s)"
| reported: "keeps_rows (tp_db s) db \<Longrightarrow> venue_settled L (tp_db s) db \<Longrightarrow> twap_step L S s (set_db db s)"

text \<open>What the reconciler and the streams do with orders are such reports.\<close>

lemma reconciler_reports:
  "venue_settled L (tp_db s) (reconcile_runOnce L env now locked batchSize timeout schedule (tp_db s)) \<Longrightarrow>
     twap_step L S s (set_db (reconcile_runOnce L env now locked batchSize timeout schedule (tp_db s)) s)"
  "venue_settled L (tp_db s) (consumeOrderStream L ids instrument order updates (tp_db s)) \<Longrightarrow>
     twap_step L S s (set_db (consumeOrderStream L ids instrument order updates (tp_db s)) s)"
  by (auto intro: twap_step.reported rows_kept.R_runOnce rows_kept.R_consume)

lemma twap_ok_jobs:
  assumes "twap_ok L S s" "moves s s'" "tp_db s' = tp_db s" shows "twap_ok L S s'"
proof -
  have "venue_settled L (tp_db s) (tp_db s')"
    unfolding assms(3) venue_settled_def
  proof (intro conjI ballI impI)
    fix row assume row: "row \<in> set (order_rows (tp_db s))" "ord_TwapJobID row \<noteq> []"
    then obtain job where "job \<in> set (tp_jobs s)" "row \<in> set (twap_children (tj_ID job) (tp_db s))"
      using assms(1) by (auto simp: twap_ok_def twap_children_def)
    then show "sound_row L row" using assms(1) by (auto simp: twap_ok_def job_children_ok_def children_ok_def sound_row_iff)
    show "case os_orders (db_store (tp_db s)) (ord_ID row) of None \<Rightarrow> True
      | Some row' \<Rightarrow> \<not> open_status (ord_Status row') \<and> filled_of L row' = filled_of L row" if "\<not> open_status (ord_Status row)"
      using keyed_row(1) [OF _ row(1)] assms(1) that by (simp add: twap_ok_def)
  qed
  then show ?thesis by (rule twap_ok_moves [OF assms(1,2)])
qed

lemma twap_ok_quiet: "twap_ok L S s \<Longrightarrow> quiet s s' \<Longrightarrow> twap_ok L S s'"
  using twap_ok_jobs moves_quiet by (auto simp: quiet_def tp_db_def)

lemma quiet_lease: "quiet s (snd (LeaseDueTwaps now locked limit lease s))"
proof -
  have "job_move row (if P row then row\<lparr>tj_SchedulerLeaseUntil := t\<rparr> else row)" for P row t
    by (simp add: job_move_def job_at_def job_terms_def)
  then have "jobs_move s (s\<lparr>tp_jobs := map (\<lambda>row. if P row then row\<lparr>tj_SchedulerLeaseUntil := t\<rparr> else row) (tp_jobs s), tp_lease := q\<rparr>)" for P t q
    by (simp add: jobs_move_def list_all2_conv_all_nth)
  then show ?thesis unfolding quiet_def LeaseDueTwaps_def Let_def snd_conv by simp
qed

lemma quiet_GetTwap: "quiet s (snd (GetTwap L env validUUID token jobID s))"
proof -
  have "quiet s s1" if "twap_refresh L env i s = (r, s1)" for i r s1
    using quiet_refresh [of s L "te_pg_div env" "te_db_now env" i] that by (simp add: twap_refresh_def)
  then show ?thesis by (auto simp: GetTwap_def split: sum.splits prod.splits)
qed

lemma CancelTwap_moves: "moves s (snd (CancelTwap L env validUUID token jobID s))"
proof -
  have world: "moves s2 (s2\<lparr>tp_world := snd (CancelOrder L (te_service env) token i (tp_world s2))\<rparr>)" for s2 i
    using rows_kept.R_CancelOrder by (simp add: moves_def tp_db_def jobs_move_same)
  have close: "moves s (AppendTwapEvent i e s1)" if "CloseTwap now j ''canceled'' m s = (r, s1)" for now j m r s1 i e
    using quiet_CloseTwap [of "''canceled''" s now j m] that by (simp add: moves_quiet)
  have refresh: "moves s3 s4" if "twap_refresh L env i s3 = (r, s4)" for i r s3 s4
    using quiet_refresh [of s3 L "te_pg_div env" "te_db_now env" i] that by (simp add: twap_refresh_def moves_quiet)
  have "moves s s1" if "CloseTwap now j ''canceled'' m s = (r, s1)" for now j m r s1
    using quiet_CloseTwap [of "''canceled''" s now j m] that by (simp add: moves_quiet)
  then show ?thesis
    using moves_trans [OF close refresh] moves_trans [OF moves_trans [OF close world] refresh] moves_quiet [OF quiet_refl [of s]]
    by (auto simp: CancelTwap_def Let_def split: sum.splits prod.splits if_splits)
qed

text \<open>A database whose rows of jobs are the same.\<close>

lemma twap_ok_same_children:
  assumes ok: "twap_ok L S s" and jobs: "set (tp_jobs s') \<subseteq> set (tp_jobs s)" "distinct (map tj_ID (tp_jobs s'))"
    and keyed: "rows_keyed (tp_db s')"
    and children: "\<And>job. job \<in> set (tp_jobs s') \<Longrightarrow> twap_children (tj_ID job) (tp_db s') = twap_children (tj_ID job) (tp_db s)"
    and refs: "\<forall>row \<in> set (order_rows (tp_db s')). ord_TwapJobID row = [] \<or> ord_TwapJobID row \<in> tj_ID ` set (tp_jobs s')"
  shows "twap_ok L S s'"
  using assms by (auto simp: twap_ok_def jobs_ok_def job_children_ok_def)

lemma twap_ok_placed:
  assumes ok: "twap_ok L S s" shows "twap_ok L S (set_db (snd (CreateIntent L now newID newClient order (tp_db s))) s)"
proof -
  obtain r db where c: "CreateIntent L now newID newClient order (tp_db s) = (r, db)" by (rule prod.exhaust)
  have keyed: "rows_keyed (tp_db s)" using ok by (simp add: twap_ok_def)
  show ?thesis
  proof (cases "\<exists>row. r = Inr (row, True)")
    case True
    then obtain row where row: "r = Inr (row, True)" by blast
    note created = CreateIntent_created [OF c [unfolded row] keyed]
    have "ord_TwapJobID row = []"
      using c [unfolded row] by (auto simp: CreateIntent_def Let_def intent_row_def zero_Order_def split: sum.splits option.splits if_splits)
    moreover have "[] \<notin> tj_ID ` set (tp_jobs s)" using ok by (auto simp: twap_ok_def jobs_ok_def)
    ultimately show ?thesis
      using ok created(1,2) by (intro twap_ok_same_children [OF ok]) (force simp: c twap_children_def twap_ok_def jobs_ok_def)+
  next
    case False
    then have "db = tp_db s" using CreateIntent_existing [OF c] by blast
    then show ?thesis using ok by (simp add: c twap_ok_def jobs_ok_def)
  qed
qed

lemma orphan_rows:
  "order_rows (orphan ids db) = map (\<lambda>row. if ord_TwapJobID row \<in> ids then row\<lparr>ord_TwapJobID := []\<rparr> else row) (order_rows db)"
  by (simp add: order_rows_def orphan_def List.map_filter_def filter_map o_def option.map_sel cong: map_cong)

lemma rows_keyed_orphan:
  assumes "rows_keyed db" shows "rows_keyed (orphan ids db)"
  unfolding rows_keyed_def
proof
  fix i assume "i \<in> set (db_ids (orphan ids db))"
  then obtain row where row: "os_orders (db_store db) i = Some row" "ord_ID row = i" using assms by (auto simp: rows_keyed_def orphan_def)
  let ?row = "if ord_TwapJobID row \<in> ids then row\<lparr>ord_TwapJobID := []\<rparr> else row"
  show "\<exists>order. os_orders (db_store (orphan ids db)) i = Some order \<and> ord_ID order = i"
    by (intro exI [of _ ?row]) (simp add: orphan_def row)
qed

lemma filter_map_same: "(\<And>x. P (f x) = P x) \<Longrightarrow> (\<And>x. P x \<Longrightarrow> f x = x) \<Longrightarrow> filter P (map f xs) = filter P xs"
  by (induction xs) auto

lemma orphan_children:
  assumes "i \<notin> ids" "i \<noteq> []" shows "twap_children i (orphan ids db) = twap_children i db"
  unfolding twap_children_def orphan_rows
proof (rule filter_map_same)
  fix row
  show "(ord_TwapJobID (if ord_TwapJobID row \<in> ids then row\<lparr>ord_TwapJobID := []\<rparr> else row) = i) = (ord_TwapJobID row = i)"
    using assms by (cases "ord_TwapJobID row \<in> ids") auto
  show "ord_TwapJobID row = i \<Longrightarrow> (if ord_TwapJobID row \<in> ids then row\<lparr>ord_TwapJobID := []\<rparr> else row) = row"
    using assms by simp
qed

lemma twap_ok_orphan:
  assumes ok: "twap_ok L S s" and jobs: "tp_jobs s' = filter (\<lambda>job. tj_ID job \<notin> ids) (tp_jobs s)" and db: "tp_db s' = orphan ids (tp_db s)"
  shows "twap_ok L S s'"
proof (rule twap_ok_same_children [OF ok])
  show "rows_keyed (tp_db s')" using ok by (simp add: db rows_keyed_orphan twap_ok_def)
  show "distinct (map tj_ID (tp_jobs s'))" using ok by (simp add: jobs twap_ok_def jobs_ok_def distinct_map_filter)
  show "twap_children (tj_ID job) (tp_db s') = twap_children (tj_ID job) (tp_db s)" if "job \<in> set (tp_jobs s')" for job
    using that ok by (simp add: jobs db orphan_children twap_ok_def jobs_ok_def)
  show "\<forall>row \<in> set (order_rows (tp_db s')). ord_TwapJobID row = [] \<or> ord_TwapJobID row \<in> tj_ID ` set (tp_jobs s')"
    using ok by (auto simp: db orphan_rows jobs twap_ok_def)
qed (simp add: jobs)

lemma twap_ok_DeleteClosed:
  assumes "twap_ok L S s" shows "twap_ok L S (snd (DeleteClosedTwaps locked cutoff limit s))"
proof -
  have "twap_ok L S (set_db (orphan ids (tp_db s)) (s\<lparr>tp_jobs := filter (\<lambda>job. tj_ID job \<notin> ids) (tp_jobs s), tp_events := events\<rparr>))"
    for ids events by (rule twap_ok_orphan [OF assms]) simp_all
  then show ?thesis unfolding DeleteClosedTwaps_def Let_def snd_conv .
qed

lemma twap_ok_cleanup: "twap_ok L S s \<Longrightarrow> twap_ok L S (snd (cleanup_batches locked cutoff batch n s))"
proof (induction n arbitrary: s)
  case (Suc n)
  show ?case
    using Suc.IH [OF twap_ok_DeleteClosed [OF Suc.prems, of locked cutoff batch]] twap_ok_DeleteClosed [OF Suc.prems, of locked cutoff batch]
    by (auto split: prod.splits)
qed simp

lemma repo_CreateTwap_created:
  assumes changed: "snd (repo_CreateTwap L now newID job s) \<noteq> s" and id: "tj_ID job \<noteq> []"
  obtains quantity where "NewFromString L (tj_TotalQuantity job) = Some quantity" "0 < quantity" "job_row_ok L job"
    "\<And>row. row \<in> set (tp_jobs s) \<Longrightarrow> tj_ID row \<noteq> tj_ID job"
    "tp_jobs (snd (repo_CreateTwap L now newID job s)) = tp_jobs s @ [job_row L now quantity job]"
    "tp_db (snd (repo_CreateTwap L now newID job s)) = tp_db s"
proof -
  obtain e where e: "getTwapRow (\<lambda>row. tj_IdempotencyKey row = tj_IdempotencyKey job) s = Inl e"
    using changed id by (cases "getTwapRow (\<lambda>row. tj_IdempotencyKey row = tj_IdempotencyKey job) s") (simp_all add: repo_CreateTwap_def Let_def)
  note run = changed [unfolded repo_CreateTwap_def Let_def if_not_P [OF id] e sum.case]
  have new: "\<not> list_ex (\<lambda>row. tj_ID row = tj_ID job) (tp_jobs s)" and row: "job_row_ok L job"
    using run by (simp_all split: if_splits)
  obtain quantity where q: "NewFromString L (tj_TotalQuantity job) = Some quantity" "0 < quantity"
    using row by (auto simp: job_row_ok_def split: option.splits)
  have "snd (repo_CreateTwap L now newID job s) = AppendTwapEvent (tj_ID (job_row L now quantity job)) ''created''
      (set_lease (tj_ID (job_row L now quantity job)) None (s\<lparr>tp_jobs := tp_jobs s @ [job_row L now quantity job]\<rparr>))"
    using run q new row by (simp add: repo_CreateTwap_def Let_def id e split: if_splits)
  then show ?thesis
    using that [OF q row] new by (auto simp: list_ex_iff AppendTwapEvent_def set_lease_def tp_db_def)
qed

context decimal_library
begin

lemma twap_ok_CreateTwap:
  assumes ok: "twap_ok L S s" and id: "sv_newID env \<noteq> []" shows "twap_ok L S (snd (CreateTwap L env now input s))"
proof (cases "snd (CreateTwap L env now input s) = s")
  case False
  let ?s' = "snd (CreateTwap L env now input s)"
  obtain job where job: "validate_twap L env now input = Inr job" using False by (cases "validate_twap L env now input") (auto simp: CreateTwap_def)
  have jobID: "tj_ID job \<noteq> []"
    using job id by (auto simp: validate_twap_def requested_job_def result_bind_def split: sum.splits if_splits option.splits)
  have s': "?s' = snd (repo_CreateTwap L (sv_now env) (sv_newID env) job s)"
    by (auto simp: CreateTwap_def job split: prod.splits sum.splits)
  from repo_CreateTwap_created [OF False [unfolded s'] jobID]
  obtain quantity where q: "NewFromString L (tj_TotalQuantity job) = Some quantity" "0 < quantity" "job_row_ok L job"
    and new: "\<And>row. row \<in> set (tp_jobs s) \<Longrightarrow> tj_ID row \<noteq> tj_ID job"
    and jobs: "tp_jobs ?s' = tp_jobs s @ [job_row L (sv_now env) quantity job]" and db: "tp_db ?s' = tp_db s"
    unfolding s' by blast
  have row: "tj_ID (job_row L t quantity job) = tj_ID job" "tj_CurrentAttempt (job_row L t quantity job) = 0"
    "NewFromString L (tj_TotalQuantity (job_row L t quantity job)) = Some quantity" for t
    using parse_print [OF parse_decimal [OF q(1)]] by (simp_all add: job_row_def)
  have none: "twap_children (tj_ID job) (tp_db s) = []"
    using ok new jobID by (fastforce simp: twap_ok_def twap_children_def filter_empty_conv)
  have fresh: "tj_ID job \<notin> tj_ID ` set (tp_jobs s)" using new by (metis imageE)
  have "job_children_ok L S (tp_db s) (job_row L (sv_now env) quantity job)"
    using q(2) by (simp add: job_children_ok_def row none children_ok_def)
  moreover have "job_typed (job_row L (sv_now env) quantity job)" using q(3) by (auto simp: job_typed_def job_row_ok_def job_row_def)
  moreover from this have "jobs_ok ?s'" using ok jobID fresh by (simp add: twap_ok_def jobs_ok_def jobs row)
  ultimately show ?thesis using ok by (auto simp: twap_ok_def jobs db)
qed (use ok in simp)

lemma twap_step_ok:
  assumes "twap_step L S s s'" and ok: "twap_ok L S s" shows "twap_ok L S s'"
  using assms(1)
proof cases
  case leased
  then show ?thesis using twap_ok_quiet [OF ok quiet_lease] by simp
next
  case advanced
  then show ?thesis using advance_ok [OF ok] by simp
next
  case requested
  then show ?thesis using twap_ok_CreateTwap [OF ok] by simp
next
  case looked_up
  then show ?thesis using twap_ok_quiet [OF ok quiet_GetTwap] by simp
next
  case canceled
  then show ?thesis using twap_ok_moves [OF ok CancelTwap_moves] by simp
next
  case cleaned
  then show ?thesis using twap_ok_cleanup [OF ok] by (simp add: cleanup_runOnce_def)
next
  case placed
  then show ?thesis using twap_ok_placed [OF ok] by simp
next
  case (reported db)
  then show ?thesis using twap_ok_moves [OF ok, of "set_db db s"] by (simp add: moves_def jobs_move_same)
qed

lemma twap_reachable_ok: "(twap_step L S)\<^sup>*\<^sup>* s s' \<Longrightarrow> twap_ok L S s \<Longrightarrow> twap_ok L S s'"
  by (induction rule: rtranclp_induct) (auto intro: twap_step_ok)

end

text \<open>The system starts with the orders of other users, and no job.\<close>

definition twap_initial :: "twap_world \<Rightarrow> bool" where
  "twap_initial s \<longleftrightarrow> tp_jobs s = [] \<and> rows_keyed (tp_db s) \<and> list_all (\<lambda>row. ord_TwapJobID row = []) (order_rows (tp_db s))"

lemma twap_initial_ok: "twap_initial s \<Longrightarrow> twap_ok L S s"
  by (simp add: twap_initial_def twap_ok_def jobs_ok_def list_all_iff)


section \<open>A sample run\<close>

definition sample_twap_input :: CreateTwapInput where
  "sample_twap_input =
     \<lparr>cti_Token = ''t'', cti_TradingAccountID = 7, cti_InstrumentID = 1, cti_Side = ''buy'', cti_TotalQuantity = ''10'',
      cti_StartAt = 2 * Hour, cti_EndAt = 3 * Hour, cti_IntervalSeconds = 1200, cti_LimitPrice = [], cti_MaxQuantity = [],
      cti_ExecutionType = ''market'', cti_OrderTimeoutSeconds = 0, cti_IdempotencyKey = ''twap-1''\<rparr>"

definition sample_twap_service :: service_env where
  "sample_twap_service = sample_service_env\<lparr>sv_newID := ''j1'', sv_catalog :=
     (\<lambda>_. Inr (sample_instrument\<lparr>inst_Exchange := ''binance'', inst_MarketMinNotionalStatus := ''not_applicable''\<rparr>))\<rparr>"

definition sample_twap_env :: "time \<Rightarrow> Result \<Rightarrow> twap_env" where
  "sample_twap_env now result =
     \<lparr>te_service = sample_service_env, te_now = (\<lambda>_. now), te_db_now = now,
      te_catalog = sv_catalog sample_twap_service, te_GetInternal = (\<lambda>_ _. Inr sample_credentials),
      te_Adapter = (\<lambda>_. Some (sample_adapter result)), te_sum64 = (\<lambda>_. 0), te_pg_div = (\<lambda>x y. x / y)\<rparr>"

definition sample_twap_world :: twap_world where
  "sample_twap_world = \<lparr>tp_world = sample_world, tp_jobs = [], tp_lease = (\<lambda>_. None), tp_events = []\<rparr>"

text \<open>A job is requested, started, and submits its first slice.\<close>

definition sample_requested :: twap_world where
  "sample_requested = snd (CreateTwap std_lib sample_twap_service Hour sample_twap_input sample_twap_world)"

definition sample_leased :: TwapJob where
  "sample_leased = zero_TwapJob\<lparr>tj_ID := ''j1''\<rparr>"

definition sample_started :: twap_world where
  "sample_started = advance std_lib (sample_twap_env (2 * Hour) zero_VenueResult) sample_leased sample_requested"

definition sample_sliced :: twap_world where
  "sample_sliced =
     advance std_lib (sample_twap_env (2 * Hour + Minute) (zero_VenueResult\<lparr>vr_VenueOrderID := ''v'', vr_Status := ''open''\<rparr>))
       sample_leased sample_started"

lemma sample_started_settled: "venue_settled std_lib (tp_db sample_requested) (tp_db sample_started)"
  by code_simp

lemma sample_sliced_settled: "venue_settled std_lib (tp_db sample_started) (tp_db sample_sliced)"
  by code_simp

lemma sample_sliced_jobs:
  "map (\<lambda>job. (tj_ID job, tj_TotalQuantity job, tj_EndAt job)) (tp_jobs sample_sliced) = [(''j1'', ''10'', 3 * Hour)]"
  by code_simp

lemma sample_sliced_children:
  "map (\<lambda>row. (exposure std_lib row, ord_TwapAttemptIndex row)) (twap_children ''j1'' (tp_db sample_sliced)) = [(3389 / 1000, 0)]"
  by code_simp

lemma sample_sliced_exposure:
  "map (exposure std_lib) (twap_children ''j1'' (tp_db sample_sliced)) = [3389 / 1000]"
  "last_attempt (twap_children ''j1'' (tp_db sample_sliced)) = 0"
  using arg_cong [OF sample_sliced_children, of "map fst"] arg_cong [OF sample_sliced_children, of "map snd"]
  by (simp_all add: o_def last_attempt_def)

lemma sample_twap_initial: "twap_initial sample_twap_world"
proof -
  have "rows_keyed sample_db" by (simp add: rows_keyed_def sample_db_def) code_simp
  moreover have "list_all (\<lambda>row. ord_TwapJobID row = []) (order_rows sample_db)" by code_simp
  ultimately show ?thesis by (simp add: twap_initial_def sample_twap_world_def tp_db_def sample_world_def)
qed

lemma sample_twap_steps: "steps_within std_lib (1 / 1000) (sample_twap_env now result)"
proof -
  have "parsePositiveDecimal std_lib ''0.001'' \<le> 1 / 1000" by code_simp
  then show ?thesis by (auto simp: steps_within_def sample_twap_env_def sample_twap_service_def sample_instrument_def)
qed

lemma sample_twap_reachable: "(twap_step std_lib (1 / 1000))\<^sup>*\<^sup>* sample_twap_world sample_sliced"
proof -
  have "twap_step std_lib (1 / 1000) sample_twap_world sample_requested"
    unfolding sample_requested_def by (rule twap_step.requested) (simp add: sample_twap_service_def)
  moreover have "twap_step std_lib (1 / 1000) sample_requested sample_started"
    unfolding sample_started_def by (rule twap_step.advanced [OF sample_twap_steps]) (rule sample_started_settled [unfolded sample_started_def])
  moreover have "twap_step std_lib (1 / 1000) sample_started sample_sliced"
    unfolding sample_sliced_def by (rule twap_step.advanced [OF sample_twap_steps]) (rule sample_sliced_settled [unfolded sample_sliced_def])
  ultimately show ?thesis by (meson rtranclp.rtrancl_refl rtranclp.rtrancl_into_rtrancl)
qed




section \<open>A job does not outlive its window\<close>

lemma closed_kept:
  assumes "jobs_move s s'" "\<forall>row \<in> set (tp_jobs s). tj_ID row = i \<longrightarrow> closed_twap (tj_Status row)"
  shows "\<forall>row \<in> set (tp_jobs s'). tj_ID row = i \<longrightarrow> closed_twap (tj_Status row)"
proof (intro ballI impI)
  fix row' assume "row' \<in> set (tp_jobs s')" "tj_ID row' = i"
  then show "closed_twap (tj_Status row')" using jobs_move_obtain [OF assms(1)] assms(2) by (metis job_move_def)
qed

lemma jobs_move_event [simp]: "jobs_move s (AppendTwapEvent i e s') \<longleftrightarrow> jobs_move s s'"
  by (simp add: jobs_move_def)

lemma CloseTwap_closes:
  assumes "closed_twap status" "jobs_ok s" "tj_ID row = i" "row \<in> set (tp_jobs (snd (CloseTwap now i status message s)))"
  shows "closed_twap (tj_Status row)"
proof -
  obtain r where r: "r \<in> set (tp_jobs s)"
    "row = (if tj_ID r = i \<and> active_twap (tj_Status r) then closed_job now status message r else r)"
    using assms(4) unfolding close_rows by auto
  have "active_twap (tj_Status r) \<or> closed_twap (tj_Status r)"
    using assms(2) r(1) unfolding jobs_ok_def job_typed_def active_twap_def closed_twap_def by auto
  then show ?thesis using assms(1,3) by (cases "tj_ID r = i \<and> active_twap (tj_Status r)") (auto simp: r(2))
qed

lemma twap_close_closes:
  assumes "current_copy job s" "closed_twap status" "jobs_ok s"
  shows "\<forall>row \<in> set (tp_jobs (twap_close L env job status message s)). tj_ID row = tj_ID job \<longrightarrow> closed_twap (tj_Status row)"
proof -
  obtain r s1 where r: "CloseTwap (te_db_now env) (tj_ID job) status message s = (r, s1)" by (rule prod.exhaust)
  have c: "\<forall>row \<in> set (tp_jobs s1). tj_ID row = tj_ID job \<longrightarrow> closed_twap (tj_Status row)"
    using CloseTwap_closes [OF assms(2,3)] r by (metis snd_conv)
  have "current_copy job s1" using current_copy_close [OF assms(1)] r by (metis snd_conv)
  then have "jobs_move s1 (twap_close L env job status message s)"
    using r quiet_retry [of job s1] quiet_refresh [of s1] by (cases r) (auto simp: twap_close_def twap_refresh_def quiet_def)
  then show ?thesis using c by (rule closed_kept)
qed

lemma window_ended_closes:
  assumes ok: "jobs_ok s" and row: "row \<in> set (tp_jobs s)" "tj_ID job = tj_ID row" "job_at job = job_at row" "tj_Status job = tj_Status row"
  shows "\<forall>row \<in> set (tp_jobs (window_ended L env job s)). tj_ID row = tj_ID job \<longrightarrow> closed_twap (tj_Status row)"
proof (cases "tj_ExecutionType job = ''maker'' \<and> tj_ActiveOrderID job \<noteq> []")
  case False
  let ?status = "if parsePositiveDecimal L (tj_TotalQuantity job) \<le> parseDecimal L (tj_FilledQuantity job)
    then ''completed'' else ''partially_completed''"
  have "window_ended L env job s = twap_close L env job ?status ''execution window ended'' s"
    unfolding window_ended_def Let_def if_not_P [OF False] by simp
  then show ?thesis using twap_close_closes [OF jobs_ok_copy [OF ok row] _ ok, of ?status] by simp
next
  case True
  define s1 where "s1 = snd (cancelActive L env job s)"
  have jobs: "tp_jobs s1 = tp_jobs s" by (simp add: s1_def cancelActive_moves)
  then have ok1: "jobs_ok s1" using ok by (simp add: jobs_ok_def)
  obtain r s2 where r: "twap_refresh L env (tj_ID job) s1 = (r, s2)" by (rule prod.exhaust)
  then have "quiet s1 s2" using quiet_refresh [of s1] by (metis snd_conv twap_refresh_def)
  then have ok2: "jobs_ok s2" using jobs_ok_move [OF ok1] by (simp add: quiet_def)
  from r [unfolded twap_refresh_def] show ?thesis
  proof (cases rule: refresh_result)
    case (missing e)
    then show ?thesis using row(1,2) jobs by auto
  next
    case (found row')
    let ?job = "refreshed_job L (te_pg_div env) (te_db_now env) (twap_children (tj_ID job) (tp_db s1)) row'"
    have "?job \<in> set (tp_jobs s2)"
      using refresh_rows(1) [of L "te_pg_div env" "te_db_now env" "tj_ID job" s1] r found by (force simp: twap_refresh_def)
    then have "current_copy ?job s2" by (rule jobs_ok_copy [OF ok2]) simp_all
    let ?status = "if parsePositiveDecimal L (tj_TotalQuantity job) \<le> parseDecimal L (tj_FilledQuantity ?job)
      then ''completed'' else ''partially_completed''"
    have "window_ended L env job s = twap_close L env ?job ?status ''execution window ended'' s2"
      using r found(1) unfolding window_ended_def Let_def if_P [OF True] s1_def by simp
    then show ?thesis using twap_close_closes [OF \<open>current_copy ?job s2\<close> _ ok2, of ?status] found(3) by simp
  qed
qed

text \<open>C15: A job does not outlive its window. When the scheduler advances a job at or after its end, the job is closed
  afterwards, whatever the venue, the accounts and the catalogue answer and whatever copy of the job was leased.\<close>

theorem advance_closes_after_window:
  assumes "jobs_ok s" and "job \<in> set (tp_jobs s)" and "tj_ID leased = tj_ID job" and "tj_EndAt job \<le> te_now env 0"
  shows "\<exists>job' \<in> set (tp_jobs (advance L env leased s)). tj_ID job' = tj_ID job \<and> closed_twap (tj_Status job')"
proof -
  obtain r s1 where r: "RefreshTwapProgress L (te_pg_div env) (te_db_now env) (tj_ID leased) s = (r, s1)" by (rule prod.exhaust)
  have q1: "quiet s s1" using quiet_refresh [of s] r by (metis snd_conv)
  then have ok1: "jobs_ok s1" using jobs_ok_move [OF assms(1)] by (simp add: quiet_def)
  from r obtain row where row: "r = Inr (refreshed_job L (te_pg_div env) (te_db_now env) (twap_children (tj_ID leased) (tp_db s)) row)"
    "row \<in> set (tp_jobs s)" "tj_ID row = tj_ID leased"
    by (cases rule: refresh_result) (use assms(2,3) in auto)
  have "row = job" using assms(1-3) row(2,3) by (auto simp: jobs_ok_def distinct_map dest: inj_onD)
  define now where "now = refreshed_job L (te_pg_div env) (te_db_now env) (twap_children (tj_ID leased) (tp_db s)) job"
  have now: "r = Inr now" "tj_ID now = tj_ID job" "tj_EndAt now = tj_EndAt job"
    by (simp_all add: row(1) now_def \<open>row = job\<close>) (simp add: refreshed_job_def)
  have "now \<in> set (tp_jobs s1)"
    using refresh_rows(1) [of L "te_pg_div env" "te_db_now env" "tj_ID leased" s] r assms(2,3) by (force simp: now_def)
  note copy = jobs_ok_copy [OF ok1 this refl refl refl]
  have "moves s1 (advance L env leased s) \<and>
      (\<forall>row \<in> set (tp_jobs (advance L env leased s)). tj_ID row = tj_ID job \<longrightarrow> closed_twap (tj_Status row))"
    using r now assms(4) twap_close_closes [OF copy closed_statuses(1) ok1] twap_close_closes [OF copy closed_statuses(4) ok1]
      moves_quiet [OF quiet_close [OF copy]]
      window_ended_closes [OF ok1 \<open>now \<in> set (tp_jobs s1)\<close> refl refl refl] window_ended_moves [OF ok1 \<open>now \<in> set (tp_jobs s1)\<close> refl refl refl]
    by (auto simp: advance_def twap_refresh_def twap_fail_def Let_def)
  moreover from this have "map tj_ID (tp_jobs (advance L env leased s)) = map tj_ID (tp_jobs s)"
    using jobs_move_ids q1 by (metis moves_def quiet_def)
  then have "tj_ID job \<in> tj_ID ` set (tp_jobs (advance L env leased s))" using assms(2) by (metis image_eqI set_map)
  ultimately show ?thesis by auto
qed

theorem advance_closes_after_window_witness:
  "\<exists>job' \<in> set (tp_jobs (advance std_lib (sample_twap_env (3 * Hour) zero_VenueResult) sample_leased sample_sliced)).
     tj_ID job' = ''j1'' \<and> closed_twap (tj_Status job')"
proof -
  obtain job where job: "job \<in> set (tp_jobs sample_sliced)" "tj_ID job = ''j1''" "tj_EndAt job = 3 * Hour"
    using sample_sliced_jobs by (cases "tp_jobs sample_sliced") auto
  have "twap_ok std_lib (1 / 1000) sample_sliced"
    by (rule std.twap_reachable_ok [OF sample_twap_reachable twap_initial_ok [OF sample_twap_initial]])
  then have "jobs_ok sample_sliced" by (simp add: twap_ok_def)
  from advance_closes_after_window [OF this job(1)] show ?thesis
    by (simp add: job sample_leased_def sample_twap_env_def)
qed

section \<open>Instruments with a minimum notional\<close>

text \<open>C16: The total of a job is validated as a market order without a price, and the rule for the minimum notional of
  market orders rejects an order without a price. So no job is created on an instrument unless that rule does not apply
  to it, and the request leaves the tables as they are. An empty string is not a number.\<close>

theorem twap_needs_no_minimum_notional:
  assumes "NewFromString L [] = None" and "sv_catalog env (cti_InstrumentID input) = Inr instrument"
    and "inst_MarketMinNotionalStatus instrument \<noteq> ConstraintNotApplicable"
  shows "\<exists>e. CreateTwap L env now input s = (Inl e, s)"
proof -
  have "TrimSpace [] = []" "ToLower (TrimSpace ''market'') = ''market''" by code_simp+
  moreover from this have "parsePositiveDecimal L [] = 0" using assms(1) by (simp add: parsePositiveDecimal_def)
  ultimately have "\<exists>e. prepareOrder L instrument ''market'' quantity [] [] = Inl e" for quantity
    using assms(3)
    by (auto simp: prepareOrder_def prepareOrderMode_def order_limits_for_def limit_price_def validateNotionalRule_def
      Let_def split: option.splits sum.splits)
  then have invalid: "\<exists>e. validateTwapInstrument L instrument i = Inl e" for i
    by (metis validateTwapInstrument_def validateInstrumentRules_def sum.case(1))
  have same: "cti_InstrumentID i = cti_InstrumentID input" if "normalizeTwapInput L input now = Inr i" for i
    using that by (auto simp: normalizeTwapInput_def twap_input_trimmed_def Let_def split: option.splits sum.splits if_splits)
  have "\<exists>e. validate_twap L env now input = Inl e"
  proof (cases "normalizeTwapInput L input now")
    case (Inr i)
    moreover obtain e where "validateTwapInstrument L instrument i = Inl e" using invalid by blast
    ultimately show ?thesis
      using assms(2) same [OF Inr] by (auto simp: validate_twap_def result_bind_def split: sum.splits option.splits)
  qed (simp add: validate_twap_def result_bind_def)
  then show ?thesis by (auto simp: CreateTwap_def)
qed

theorem twap_needs_no_minimum_notional_witness:
  "\<exists>e. CreateTwap std_lib sample_service_env Hour sample_twap_input sample_twap_world = (Inl e, sample_twap_world)"
proof -
  have "NewFromString std_lib [] = None" by code_simp
  from twap_needs_no_minimum_notional [OF this, of sample_service_env sample_twap_input] show ?thesis
    by (simp add: sample_service_env_def sample_instrument_def constraint_defs)
qed

end
