(* ===== verification/Go_Channels.thy ===== *)
theory Go_Channels
  imports Go_Prelude
begin

text \<open>
  Buffered channels as the stream managers use them. A channel is an address of a heap. Closing a channel twice and
  sending on a closed channel panic. Receivers run concurrently with senders: the operations that consist of several
  selects say how many values receivers take in between.
\<close>

record 'a channel =
  ch_cap :: nat
  ch_buf :: "'a list"
  ch_closed :: bool

record 'a chan_heap =
  hp_chans :: "'a channel list"
  hp_panic :: bool

definition no_chans :: "'a chan_heap" where
  "no_chans = \<lparr>hp_chans = [], hp_panic = False\<rparr>"

definition make_chan :: "nat \<Rightarrow> 'a chan_heap \<Rightarrow> 'a chan_heap" where
  "make_chan cap h = h\<lparr>hp_chans := hp_chans h @ [\<lparr>ch_cap = cap, ch_buf = [], ch_closed = False\<rparr>]\<rparr>"

definition is_open :: "nat \<Rightarrow> 'a chan_heap \<Rightarrow> bool" where
  "is_open c h \<longleftrightarrow> c < length (hp_chans h) \<and> \<not> ch_closed (hp_chans h ! c)"

definition buffered :: "nat \<Rightarrow> 'a chan_heap \<Rightarrow> 'a list" where
  "buffered c h = (if c < length (hp_chans h) then ch_buf (hp_chans h ! c) else [])"

definition update_chan :: "nat \<Rightarrow> ('a channel \<Rightarrow> 'a channel) \<Rightarrow> 'a chan_heap \<Rightarrow> 'a chan_heap" where
  "update_chan c f h = (if c < length (hp_chans h) then h\<lparr>hp_chans := (hp_chans h)[c := f (hp_chans h ! c)]\<rparr> else h)"

definition close_chan :: "nat \<Rightarrow> 'a chan_heap \<Rightarrow> 'a chan_heap" where
  "close_chan c h = (if is_open c h then update_chan c (\<lambda>ch. ch\<lparr>ch_closed := True\<rparr>) h else h\<lparr>hp_panic := True\<rparr>)"

text \<open>A receive, and a send that gives up when the buffer is full.\<close>

definition take_chan :: "nat \<Rightarrow> 'a chan_heap \<Rightarrow> 'a chan_heap" where
  "take_chan c = update_chan c (\<lambda>ch. ch\<lparr>ch_buf := tl (ch_buf ch)\<rparr>)"

definition offer :: "'a \<Rightarrow> nat \<Rightarrow> 'a chan_heap \<Rightarrow> 'a chan_heap" where
  "offer x c h =
     (if \<not> is_open c h then h\<lparr>hp_panic := True\<rparr>
      else update_chan c (\<lambda>ch. if length (ch_buf ch) < ch_cap ch then ch\<lparr>ch_buf := ch_buf ch @ [x]\<rparr> else ch) h)"

definition has_room :: "nat \<Rightarrow> 'a chan_heap \<Rightarrow> bool" where
  "has_room c h \<longleftrightarrow> c < length (hp_chans h) \<and> length (ch_buf (hp_chans h ! c)) < ch_cap (hp_chans h ! c)"

text \<open>A send that makes room: when the buffer is full, the oldest value is dropped and the send tried again. Receivers take
  \<open>before\<close> values before the drop and \<open>after\<close> values after it. The result says whether the buffer was full.\<close>

definition send_dropping :: "nat \<times> nat \<Rightarrow> 'a \<Rightarrow> nat \<Rightarrow> 'a chan_heap \<Rightarrow> bool \<times> 'a chan_heap" where
  "send_dropping took x c h =
     (if \<not> is_open c h \<or> has_room c h then (False, offer x c h)
      else (True, offer x c ((take_chan c ^^ snd took) (take_chan c ((take_chan c ^^ fst took) h)))))"

section \<open>Facts\<close>

lemma update_chan_simps [simp]:
  "length (hp_chans (update_chan c f h)) = length (hp_chans h)" "hp_panic (update_chan c f h) = hp_panic h"
  by (simp_all add: update_chan_def)

lemma update_chan_nth: "d < length (hp_chans h) \<Longrightarrow> hp_chans (update_chan c f h) ! d = (if d = c then f (hp_chans h ! d) else hp_chans h ! d)"
  by (simp add: update_chan_def)

lemma is_open_update: "(\<And>ch. ch_closed (f ch) = ch_closed ch) \<Longrightarrow> is_open d (update_chan c f h) = is_open d h"
  unfolding is_open_def by (cases "d < length (hp_chans h)") (simp_all add: update_chan_nth)

lemma is_open_take [simp]: "is_open d (take_chan c h) = is_open d h"
  by (simp add: take_chan_def is_open_update)

lemma is_open_takes [simp]: "is_open d ((take_chan c ^^ n) h) = is_open d h"
  by (induction n) simp_all

lemma take_chan_simps [simp]: "length (hp_chans (take_chan c h)) = length (hp_chans h)" "hp_panic (take_chan c h) = hp_panic h"
  by (simp_all add: take_chan_def)

lemma takes_simps [simp]: "length (hp_chans ((take_chan c ^^ n) h)) = length (hp_chans h)" "hp_panic ((take_chan c ^^ n) h) = hp_panic h"
  by (induction n) simp_all

lemma buffered_take: "buffered d (take_chan c h) = (if d = c then tl (buffered d h) else buffered d h)"
  by (simp add: buffered_def take_chan_def update_chan_nth)

lemma buffered_takes: "buffered d ((take_chan c ^^ n) h) = (if d = c then drop n (buffered d h) else buffered d h)"
  by (induction n) (auto simp: buffered_take drop_Suc tl_drop)

lemma cap_take [simp]: "d < length (hp_chans h) \<Longrightarrow> ch_cap (hp_chans (take_chan c h) ! d) = ch_cap (hp_chans h ! d)"
  by (simp add: take_chan_def update_chan_nth)

lemma cap_takes [simp]: "d < length (hp_chans h) \<Longrightarrow> ch_cap (hp_chans ((take_chan c ^^ n) h) ! d) = ch_cap (hp_chans h ! d)"
  by (induction n) simp_all

lemma offer_simps [simp]:
  "length (hp_chans (offer x c h)) = length (hp_chans h)" "is_open d (offer x c h) = is_open d h"
  "d < length (hp_chans h) \<Longrightarrow> ch_cap (hp_chans (offer x c h) ! d) = ch_cap (hp_chans h ! d)"
  by (auto simp: offer_def is_open_update update_chan_nth) (simp_all add: is_open_def)

lemma offer_panic: "hp_panic (offer x c h) \<longleftrightarrow> hp_panic h \<or> \<not> is_open c h"
  by (simp add: offer_def)

lemma buffered_offer:
  "buffered d (offer x c h) = (if d = c \<and> is_open c h \<and> has_room c h then buffered d h @ [x] else buffered d h)"
  by (auto simp: offer_def buffered_def has_room_def is_open_def update_chan_nth)

lemma send_simps [simp]:
  "length (hp_chans (snd (send_dropping t x c h))) = length (hp_chans h)" "is_open d (snd (send_dropping t x c h)) = is_open d h"
  "d < length (hp_chans h) \<Longrightarrow> ch_cap (hp_chans (snd (send_dropping t x c h)) ! d) = ch_cap (hp_chans h ! d)"
  by (simp_all add: send_dropping_def)

lemma send_panic: "hp_panic (snd (send_dropping t x c h)) \<longleftrightarrow> hp_panic h \<or> \<not> is_open c h"
  by (auto simp: send_dropping_def offer_panic)

lemma buffered_send_other: "d \<noteq> c \<Longrightarrow> buffered d (snd (send_dropping t x c h)) = buffered d h"
  by (simp add: send_dropping_def buffered_offer buffered_take buffered_takes)

text \<open>The value that was sent is the last one in the buffer, and the buffer stays within its capacity.\<close>

lemma buffered_send:
  assumes "is_open c h" "0 < ch_cap (hp_chans h ! c)" "length (buffered c h) \<le> ch_cap (hp_chans h ! c)"
  shows "\<exists>n. buffered c (snd (send_dropping t x c h)) = drop n (buffered c h) @ [x]"
    and "length (buffered c (snd (send_dropping t x c h))) \<le> ch_cap (hp_chans h ! c)"
proof -
  let ?h = "(take_chan c ^^ snd t) (take_chan c ((take_chan c ^^ fst t) h))"
  have c: "c < length (hp_chans h)" using assms(1) by (simp add: is_open_def)
  have b: "buffered c ?h = drop (snd t + Suc (fst t)) (buffered c h)"
    by (simp add: buffered_take buffered_takes drop_Suc tl_drop)
  have "length (ch_buf (hp_chans ?h ! c)) = length (buffered c ?h)" using c by (simp add: buffered_def)
  then have room: "has_room c ?h" using b c assms(2,3) by (simp add: has_room_def)
  have "buffered c (snd (send_dropping t x c h)) = (if has_room c h then buffered c h @ [x] else buffered c ?h @ [x])"
    using assms(1) room by (simp add: send_dropping_def buffered_offer)
  moreover have "has_room c h \<Longrightarrow> length (buffered c h) < ch_cap (hp_chans h ! c)" using c by (simp add: has_room_def buffered_def)
  ultimately show "\<exists>n. buffered c (snd (send_dropping t x c h)) = drop n (buffered c h) @ [x]"
    and "length (buffered c (snd (send_dropping t x c h))) \<le> ch_cap (hp_chans h ! c)"
    using b assms(2,3) by (auto intro: exI [of _ 0] exI [of _ "snd t + Suc (fst t)"])
qed

lemma close_simps [simp]:
  "length (hp_chans (close_chan c h)) = length (hp_chans h)" "is_open d (close_chan c h) \<longleftrightarrow> is_open d h \<and> d \<noteq> c"
  "hp_panic (close_chan c h) \<longleftrightarrow> hp_panic h \<or> \<not> is_open c h" "buffered d (close_chan c h) = buffered d h"
  "d < length (hp_chans h) \<Longrightarrow> ch_cap (hp_chans (close_chan c h) ! d) = ch_cap (hp_chans h ! d)"
  by (auto simp: close_chan_def is_open_def buffered_def update_chan_nth split: if_splits)

lemma make_simps [simp]:
  "length (hp_chans (make_chan n h)) = Suc (length (hp_chans h))" "hp_panic (make_chan n h) = hp_panic h"
  "is_open d (make_chan n h) \<longleftrightarrow> is_open d h \<or> d = length (hp_chans h)"
  "buffered d (make_chan n h) = buffered d h"
  "d < length (hp_chans h) \<Longrightarrow> hp_chans (make_chan n h) ! d = hp_chans h ! d"
  "hp_chans (make_chan n h) ! length (hp_chans h) = \<lparr>ch_cap = n, ch_buf = [], ch_closed = False\<rparr>"
  by (auto simp: make_chan_def is_open_def buffered_def nth_append)

lemma has_room_make [simp]: "has_room (length (hp_chans h)) (make_chan n h) \<longleftrightarrow> 0 < n"
  by (simp add: has_room_def make_simps(1,6) del: One_nat_def)

text \<open>Sending to or closing several channels.\<close>

definition send_all :: "(nat \<Rightarrow> nat \<times> nat) \<Rightarrow> 'a \<Rightarrow> nat list \<Rightarrow> 'a chan_heap \<Rightarrow> 'a chan_heap" where
  "send_all took x cs h = fold (\<lambda>c h. snd (send_dropping (took c) x c h)) cs h"

definition close_all :: "nat list \<Rightarrow> 'a chan_heap \<Rightarrow> 'a chan_heap" where
  "close_all cs h = fold close_chan cs h"

lemma send_all_simps [simp]:
  "length (hp_chans (send_all took x cs h)) = length (hp_chans h)" "is_open d (send_all took x cs h) = is_open d h"
  "d < length (hp_chans h) \<Longrightarrow> ch_cap (hp_chans (send_all took x cs h) ! d) = ch_cap (hp_chans h ! d)"
  by (induction cs arbitrary: h) (simp_all add: send_all_def)

lemma send_all_panic: "hp_panic (send_all took x cs h) \<longleftrightarrow> hp_panic h \<or> (\<exists>c \<in> set cs. \<not> is_open c h)"
  by (induction cs arbitrary: h) (auto simp: send_all_def send_panic)

lemma buffered_send_all_other: "d \<notin> set cs \<Longrightarrow> buffered d (send_all took x cs h) = buffered d h"
  by (induction cs arbitrary: h) (simp_all add: send_all_def buffered_send_other)

lemma close_all_simps [simp]:
  "length (hp_chans (close_all cs h)) = length (hp_chans h)" "is_open d (close_all cs h) \<longleftrightarrow> is_open d h \<and> d \<notin> set cs"
  "buffered d (close_all cs h) = buffered d h"
  "d < length (hp_chans h) \<Longrightarrow> ch_cap (hp_chans (close_all cs h) ! d) = ch_cap (hp_chans h ! d)"
  by (induction cs arbitrary: h) (auto simp: close_all_def)

lemma close_all_panic: "hp_panic (close_all cs h) \<longleftrightarrow> hp_panic h \<or> \<not> distinct cs \<or> (\<exists>c \<in> set cs. \<not> is_open c h)"
  by (induction cs arbitrary: h) (auto simp: close_all_def)

end
