(* ===== verification/Market_Streams.thy ===== *)
theory Market_Streams
  imports Go_Channels Metrics_Worker
begin

text \<open>
  The manager of the public quote streams. Subscribers of an instrument share one stream, which lives as long as it has
  subscribers. Every critical section of the manager is an operation; subscriptions, the goroutines of the streams and
  receivers interleave as steps. Connections, the parsers of venues and the clock are arguments.
\<close>

text \<open>The errors of the package; \<open>NetTimeout\<close> is a timeout of the network. A key that is not supported has no normal form
  (\<open>NewKey\<close>), which is the error \<open>ErrUnsupportedKey\<close>.\<close>

datatype md_error = ErrClosed | ErrNoValue | ErrStale | ErrUnsupportedKey | ErrSubscriptionRejected
  | ErrSubscriptionAckTimeout | ErrSequenceGap | ErrBookUnavailable | ErrConnectionRotation | NetTimeout | MdText string

section \<open>State\<close>

record md_options =
  mo_StaleAfter :: duration
  mo_ReconnectInitial :: duration
  mo_ReconnectMax :: duration

record md_config =
  mc_parsers :: "string \<Rightarrow> bool"
  mc_staleAfter :: duration
  mc_reconnectInitial :: duration
  mc_reconnectMax :: duration

text \<open>A stream with the local variables of its goroutine: the back-off and the number of malformed frames in a row.\<close>

record md_stream =
  st_key :: Key
  st_cancelled :: bool
  st_refs :: int
  st_nextID :: nat
  st_subs :: "(nat \<times> nat) list"
  st_latest :: BBO
  st_hasData :: bool
  st_consecutiveFailures :: nat
  st_backoff :: duration
  st_parserErrors :: nat

record md_subscription =
  sb_key :: Key
  sb_id :: nat
  sb_updates :: nat
  sb_done :: bool
  sb_released :: bool

record md_manager =
  md_streams :: "Key \<Rightarrow> nat option"
  md_heap :: "md_stream list"
  md_closed :: bool
  md_chans :: "BBO chan_heap"
  md_subs :: "md_subscription list"
  md_connects :: nat
  md_reconnects :: nat
  md_disconnects :: nat
  md_updates :: nat
  md_staleReads :: nat
  md_parserErrors :: nat
  md_subscriptionRejections :: nat
  md_subscriptionAckTimeouts :: nat
  md_readTimeouts :: nat

definition md_New :: "(string \<Rightarrow> bool) \<Rightarrow> md_options \<Rightarrow> md_config option" where
  "md_New parsers options =
     (let stale = (if mo_StaleAfter options \<le> 0 then 15 * Second else mo_StaleAfter options);
          initial = (if mo_ReconnectInitial options \<le> 0 then 250 * Millisecond else mo_ReconnectInitial options);
          maximum = (if mo_ReconnectMax options \<le> 0 then 30 * Second else mo_ReconnectMax options)
      in if maximum < initial then None
         else Some \<lparr>mc_parsers = parsers, mc_staleAfter = stale, mc_reconnectInitial = initial, mc_reconnectMax = maximum\<rparr>)"

definition md_start :: md_manager where
  "md_start =
     \<lparr>md_streams = (\<lambda>_. None), md_heap = [], md_closed = False, md_chans = no_chans, md_subs = [], md_connects = 0,
      md_reconnects = 0, md_disconnects = 0, md_updates = 0, md_staleReads = 0, md_parserErrors = 0,
      md_subscriptionRejections = 0, md_subscriptionAckTimeouts = 0, md_readTimeouts = 0\<rparr>"

definition update_stream :: "nat \<Rightarrow> (md_stream \<Rightarrow> md_stream) \<Rightarrow> md_manager \<Rightarrow> md_manager" where
  "update_stream a f m = (if a < length (md_heap m) then m\<lparr>md_heap := (md_heap m)[a := f (md_heap m ! a)]\<rparr> else m)"

text \<open>The stream of an address is the one that the manager knows for its key.\<close>

definition current_stream :: "nat \<Rightarrow> md_manager \<Rightarrow> bool" where
  "current_stream a m \<longleftrightarrow> a < length (md_heap m) \<and> md_streams m (st_key (md_heap m ! a)) = Some a"

section \<open>Subscriptions\<close>

definition new_stream :: "md_config \<Rightarrow> Key \<Rightarrow> md_stream" where
  "new_stream cfg key =
     \<lparr>st_key = key, st_cancelled = False, st_refs = 0, st_nextID = 0, st_subs = [], st_latest = zero_BBO, st_hasData = False,
      st_consecutiveFailures = 0, st_backoff = mc_reconnectInitial cfg, st_parserErrors = 0\<rparr>"

definition ensure_stream :: "md_config \<Rightarrow> Key \<Rightarrow> md_manager \<Rightarrow> nat \<times> md_manager" where
  "ensure_stream cfg key m =
     (case md_streams m key of
        Some a \<Rightarrow> (a, m)
      | None \<Rightarrow> (length (md_heap m),
          m\<lparr>md_streams := (md_streams m)(key := Some (length (md_heap m))), md_heap := md_heap m @ [new_stream cfg key]\<rparr>))"

definition add_subscriber :: "nat \<Rightarrow> Key \<Rightarrow> md_manager \<Rightarrow> md_manager" where
  "add_subscriber a key m =
     (let s = md_heap m ! a; n = Suc (st_nextID s); c = length (hp_chans (md_chans m));
          chans = make_chan 1 (md_chans m)
      in update_stream a (\<lambda>s. s\<lparr>st_nextID := n, st_subs := st_subs s @ [(n, c)], st_refs := st_refs s + 1\<rparr>)
           (m\<lparr>md_chans := (if st_hasData s then offer (st_latest s) c chans else chans),
              md_subs := md_subs m @ [\<lparr>sb_key = key, sb_id = n, sb_updates = c, sb_done = False, sb_released = False\<rparr>]\<rparr>))"

definition md_Subscribe :: "md_config \<Rightarrow> Key \<Rightarrow> md_manager \<Rightarrow> (md_error + nat) \<times> md_manager" where
  "md_Subscribe cfg key m =
     (case NewKey (key_Venue key) (key_Product key) (key_Symbol key) of
        None \<Rightarrow> (Inl ErrUnsupportedKey, m)
      | Some normalized \<Rightarrow>
          if \<not> mc_parsers cfg (key_Venue normalized) then (Inl ErrUnsupportedKey, m)
          else if md_closed m then (Inl ErrClosed, m)
          else (case ensure_stream cfg normalized m of
                  (a, m1) \<Rightarrow> (Inr (length (md_subs m1)), add_subscriber a normalized m1)))"

definition unsubscribe :: "Key \<Rightarrow> nat \<Rightarrow> md_manager \<Rightarrow> md_manager" where
  "unsubscribe key n m =
     (case md_streams m key of
        None \<Rightarrow> m
      | Some a \<Rightarrow>
          (case map_of (st_subs (md_heap m ! a)) n of
             None \<Rightarrow> m
           | Some c \<Rightarrow>
               let refs = st_refs (md_heap m ! a) - 1;
                   m1 = update_stream a (\<lambda>s. s\<lparr>st_subs := filter (\<lambda>(i, _). i \<noteq> n) (st_subs s), st_refs := refs\<rparr>)
                          (m\<lparr>md_chans := close_chan c (md_chans m)\<rparr>)
               in if refs = 0
                  then update_stream a (\<lambda>s. s\<lparr>st_cancelled := True\<rparr>) (m1\<lparr>md_streams := (md_streams m1)(key := None)\<rparr>)
                  else m1))"

text \<open>Closing a subscription: the first call marks it as done and then takes the lock of the manager.\<close>

definition sub_done :: "nat \<Rightarrow> md_manager \<Rightarrow> md_manager" where
  "sub_done n m = m\<lparr>md_subs := (md_subs m)[n := (md_subs m ! n)\<lparr>sb_done := True\<rparr>]\<rparr>"

definition sub_release :: "nat \<Rightarrow> md_manager \<Rightarrow> md_manager" where
  "sub_release n m =
     (let h = md_subs m ! n in
      unsubscribe (sb_key h) (sb_id h) (m\<lparr>md_subs := (md_subs m)[n := h\<lparr>sb_released := True\<rparr>]\<rparr>))"

definition Subscription_Close :: "nat \<Rightarrow> md_manager \<Rightarrow> md_manager" where
  "Subscription_Close n m = (if n < length (md_subs m) \<and> \<not> sb_done (md_subs m ! n) then sub_release n (sub_done n m) else m)"

definition md_Latest :: "md_config \<Rightarrow> time \<Rightarrow> Key \<Rightarrow> md_manager \<Rightarrow> (BBO \<times> md_error option) \<times> md_manager" where
  "md_Latest cfg now key m =
     (case NewKey (key_Venue key) (key_Product key) (key_Symbol key) of
        None \<Rightarrow> ((zero_BBO, Some ErrUnsupportedKey), m)
      | Some normalized \<Rightarrow>
          (case md_streams m normalized of
             None \<Rightarrow> ((zero_BBO, Some ErrNoValue), m)
           | Some a \<Rightarrow>
               let s = md_heap m ! a in
               if \<not> st_hasData s then ((zero_BBO, Some ErrNoValue), m)
               else if BBO_Stale (st_latest s) now (mc_staleAfter cfg)
                    then ((st_latest s, Some ErrStale), m\<lparr>md_staleReads := Suc (md_staleReads m)\<rparr>)
                    else ((st_latest s, None), m)))"

definition IsStale :: "md_config \<Rightarrow> time \<Rightarrow> Key \<Rightarrow> md_manager \<Rightarrow> bool \<times> md_manager" where
  "IsStale cfg now key m =
     (case md_Latest cfg now key m of ((_, err), m1) \<Rightarrow> (err = Some ErrNoValue \<or> err = Some ErrStale, m1))"

definition live_streams :: "md_manager \<Rightarrow> nat list" where
  "live_streams m = filter (\<lambda>a. current_stream a m) [0..<length (md_heap m)]"

definition md_Close :: "md_manager \<Rightarrow> md_manager" where
  "md_Close m =
     (if md_closed m then m
      else m\<lparr>md_closed := True, md_streams := (\<lambda>_. None),
             md_heap := map (\<lambda>a. let s = md_heap m ! a in
               if current_stream a m then s\<lparr>st_subs := [], st_cancelled := True\<rparr> else s) [0..<length (md_heap m)],
             md_chans := close_all (concat (map (\<lambda>a. map snd (st_subs (md_heap m ! a))) (live_streams m))) (md_chans m)\<rparr>)"

section \<open>The goroutine of a stream\<close>

text \<open>\<open>took\<close> is what receivers take while the quote is published.\<close>

definition md_publish :: "(nat \<Rightarrow> nat \<times> nat) \<Rightarrow> nat \<Rightarrow> BBO \<Rightarrow> md_manager \<Rightarrow> md_manager" where
  "md_publish took a bbo m =
     (if \<not> current_stream a m then m
      else update_stream a (\<lambda>s. s\<lparr>st_latest := bbo, st_hasData := True, st_consecutiveFailures := 0\<rparr>)
             (m\<lparr>md_updates := Suc (md_updates m), md_chans := send_all took bbo (map snd (st_subs (md_heap m ! a))) (md_chans m)\<rparr>))"

definition md_invalidate :: "nat \<Rightarrow> md_manager \<Rightarrow> md_manager" where
  "md_invalidate a m =
     (if \<not> current_stream a m then m else update_stream a (\<lambda>s. s\<lparr>st_latest := zero_BBO, st_hasData := False\<rparr>) m)"

definition md_classifyDisconnect :: "md_error \<Rightarrow> md_manager \<Rightarrow> md_manager" where
  "md_classifyDisconnect err m =
     m\<lparr>md_subscriptionRejections := md_subscriptionRejections m + of_bool (err = ErrSubscriptionRejected),
       md_subscriptionAckTimeouts := md_subscriptionAckTimeouts m + of_bool (err = ErrSubscriptionAckTimeout),
       md_readTimeouts := md_readTimeouts m + of_bool (err = NetTimeout)\<rparr>"

text \<open>What reading a frame yields: an error of the connection, or what the parser makes of the payload.\<close>

datatype md_frame = ReadError md_error | Frame "md_error + BBO option"

definition consume_frame ::
  "(nat \<Rightarrow> nat \<times> nat) \<Rightarrow> nat \<Rightarrow> md_frame \<Rightarrow> md_manager \<Rightarrow> md_error option \<times> md_manager" where
  "consume_frame took a frame m =
     (case frame of
        ReadError e \<Rightarrow> (Some e, m)
      | Frame (Inl e) \<Rightarrow>
          let n = Suc (st_parserErrors (md_heap m ! a));
              m1 = update_stream a (\<lambda>s. s\<lparr>st_parserErrors := n\<rparr>) (m\<lparr>md_parserErrors := Suc (md_parserErrors m)\<rparr>)
          in (if e = ErrSequenceGap \<or> e = ErrBookUnavailable \<or> n \<ge> 10 then Some e else None, m1)
      | Frame (Inr None) \<Rightarrow> (None, update_stream a (\<lambda>s. s\<lparr>st_parserErrors := 0\<rparr>) m)
      | Frame (Inr (Some bbo)) \<Rightarrow> (None, md_publish took a bbo (update_stream a (\<lambda>s. s\<lparr>st_parserErrors := 0\<rparr>) m)))"

text \<open>Without interference: the frames of a connection until the first that ends it.\<close>

fun md_consume :: "nat \<Rightarrow> md_frame list \<Rightarrow> md_manager \<Rightarrow> md_error option \<times> md_manager" where
  "md_consume a [] m = (None, m)"
| "md_consume a (frame # frames) m =
     (case consume_frame (\<lambda>_. (0, 0)) a frame m of (Some e, m1) \<Rightarrow> (Some e, m1) | (None, m1) \<Rightarrow> md_consume a frames m1)"

definition run_connected :: "md_config \<Rightarrow> nat \<Rightarrow> md_manager \<Rightarrow> md_manager" where
  "run_connected cfg a m =
     update_stream a (\<lambda>s. s\<lparr>st_backoff := mc_reconnectInitial cfg, st_parserErrors := 0\<rparr>) (m\<lparr>md_connects := Suc (md_connects m)\<rparr>)"

definition run_ended :: "nat \<Rightarrow> bool \<Rightarrow> md_error \<Rightarrow> md_manager \<Rightarrow> md_manager" where
  "run_ended a wasConnected err m =
     (if st_cancelled (md_heap m ! a) then m
      else let m1 = update_stream a (\<lambda>s. s\<lparr>st_consecutiveFailures := Suc (st_consecutiveFailures s)\<rparr>)
                      (m\<lparr>md_reconnects := Suc (md_reconnects m)\<rparr>);
               m2 = (if wasConnected then md_classifyDisconnect err (m1\<lparr>md_disconnects := Suc (md_disconnects m1)\<rparr>) else m1)
           in md_invalidate a m2)"

definition jitter_max :: "duration \<Rightarrow> duration" where
  "jitter_max backoff = max Millisecond (go_div backoff 4)"

definition run_waited :: "md_config \<Rightarrow> nat \<Rightarrow> md_manager \<Rightarrow> md_manager" where
  "run_waited cfg a m = update_stream a (\<lambda>s. s\<lparr>st_backoff := min (mc_reconnectMax cfg) (wrap64 (st_backoff s * 2))\<rparr>) m"

record md_stats =
  ms_ActiveStreams :: nat
  ms_References :: int
  ms_Connects :: nat
  ms_Reconnects :: nat
  ms_Disconnects :: nat
  ms_Updates :: nat
  ms_StaleReads :: nat
  ms_ParserErrors :: nat
  ms_SubscriptionRejections :: nat
  ms_SubscriptionAckTimeouts :: nat
  ms_ReadTimeouts :: nat

definition md_Stats :: "md_manager \<Rightarrow> md_stats" where
  "md_Stats m =
     \<lparr>ms_ActiveStreams = length (live_streams m), ms_References = sum_list (map (\<lambda>a. st_refs (md_heap m ! a)) (live_streams m)),
      ms_Connects = md_connects m, ms_Reconnects = md_reconnects m, ms_Disconnects = md_disconnects m,
      ms_Updates = md_updates m, ms_StaleReads = md_staleReads m, ms_ParserErrors = md_parserErrors m,
      ms_SubscriptionRejections = md_subscriptionRejections m, ms_SubscriptionAckTimeouts = md_subscriptionAckTimeouts m, ms_ReadTimeouts = md_readTimeouts m\<rparr>"

section \<open>Steps\<close>

inductive md_step :: "md_config \<Rightarrow> md_manager \<Rightarrow> md_manager \<Rightarrow> bool" for cfg where
  subscribe: "md_step cfg m (snd (md_Subscribe cfg key m))"
| fired: "n < length (md_subs m) \<Longrightarrow> \<not> sb_done (md_subs m ! n) \<Longrightarrow> md_step cfg m (sub_done n m)"
| release: "n < length (md_subs m) \<Longrightarrow> sb_done (md_subs m ! n) \<Longrightarrow> \<not> sb_released (md_subs m ! n) \<Longrightarrow> md_step cfg m (sub_release n m)"
| received: "md_step cfg m (m\<lparr>md_chans := take_chan c (md_chans m)\<rparr>)"
| read: "md_step cfg m (snd (md_Latest cfg now key m))"
| closed: "md_step cfg m (md_Close m)"
| connected: "a < length (md_heap m) \<Longrightarrow> md_step cfg m (run_connected cfg a m)"
| frame: "a < length (md_heap m) \<Longrightarrow> md_step cfg m (snd (consume_frame took a frame m))"
| ended: "a < length (md_heap m) \<Longrightarrow> md_step cfg m (run_ended a wasConnected err m)"
| waited: "a < length (md_heap m) \<Longrightarrow> md_step cfg m (run_waited cfg a m)"

section \<open>Invariant\<close>

definition live :: "nat \<Rightarrow> md_manager \<Rightarrow> bool" where
  "live n m \<longleftrightarrow> n < length (md_subs m) \<and> \<not> sb_released (md_subs m ! n) \<and> \<not> md_closed m"

definition subscriber_ok :: "md_manager \<Rightarrow> md_stream \<Rightarrow> nat \<Rightarrow> nat \<Rightarrow> bool" where
  "subscriber_ok m s i n \<longleftrightarrow>
     i \<le> st_nextID s \<and> live n m \<and> sb_key (md_subs m ! n) = st_key s \<and> sb_id (md_subs m ! n) = i \<and>
     (st_hasData s \<longrightarrow> buffered n (md_chans m) = [] \<or> buffered n (md_chans m) = [st_latest s])"

definition stream_ok :: "md_manager \<Rightarrow> md_stream \<Rightarrow> bool" where
  "stream_ok m s \<longleftrightarrow>
     \<not> st_cancelled s \<and> st_refs s = int (length (st_subs s)) \<and> distinct (map fst (st_subs s)) \<and>
     (\<forall>(i, n) \<in> set (st_subs s). subscriber_ok m s i n)"

definition chans_ok :: "md_manager \<Rightarrow> bool" where
  "chans_ok m \<longleftrightarrow>
     \<not> hp_panic (md_chans m) \<and> length (hp_chans (md_chans m)) = length (md_subs m) \<and>
     (\<forall>n < length (md_subs m). sb_updates (md_subs m ! n) = n \<and> ch_cap (hp_chans (md_chans m) ! n) = 1 \<and> length (buffered n (md_chans m)) \<le> 1) \<and>
     (\<forall>n. is_open n (md_chans m) \<longleftrightarrow> live n m)"

definition registered :: "nat \<Rightarrow> md_manager \<Rightarrow> bool" where
  "registered n m \<longleftrightarrow>
     (\<exists>a. md_streams m (sb_key (md_subs m ! n)) = Some a \<and> (sb_id (md_subs m ! n), n) \<in> set (st_subs (md_heap m ! a)))"

text \<open>Between the parts of an operation, the streams in \<open>X\<close> may lack subscribers.\<close>

definition md_okx :: "nat set \<Rightarrow> md_manager \<Rightarrow> bool" where
  "md_okx X m \<longleftrightarrow>
     chans_ok m \<and>
     (\<forall>k a. md_streams m k = Some a \<longrightarrow>
        a < length (md_heap m) \<and> st_key (md_heap m ! a) = k \<and> stream_ok m (md_heap m ! a) \<and> (a \<in> X \<or> st_subs (md_heap m ! a) \<noteq> [])) \<and>
     (\<forall>n. live n m \<longrightarrow> registered n m) \<and>
     (\<forall>a < length (md_heap m). current_stream a m \<or> st_cancelled (md_heap m ! a)) \<and>
     (md_closed m \<longrightarrow> (\<forall>k. md_streams m k = None))"

lemma md_okD:
  assumes "md_okx X m"
  shows "chans_ok m" "live n m \<Longrightarrow> registered n m" "md_closed m \<Longrightarrow> md_streams m k = None"
    and no_leak: "b < length (md_heap m) \<Longrightarrow> \<not> current_stream b m \<Longrightarrow> st_cancelled (md_heap m ! b)"
    and "md_streams m k = Some a \<Longrightarrow> a < length (md_heap m) \<and> st_key (md_heap m ! a) = k \<and> stream_ok m (md_heap m ! a) \<and> (a \<in> X \<or> st_subs (md_heap m ! a) \<noteq> [])"
  using assms by (auto simp: md_okx_def)

lemma chans_okD:
  assumes "chans_ok m"
  shows "\<not> hp_panic (md_chans m)" "length (hp_chans (md_chans m)) = length (md_subs m)" "is_open n (md_chans m) \<longleftrightarrow> live n m"
    and "n < length (md_subs m) \<Longrightarrow> sb_updates (md_subs m ! n) = n" "n < length (md_subs m) \<Longrightarrow> ch_cap (hp_chans (md_chans m) ! n) = 1"
    and "n < length (md_subs m) \<Longrightarrow> length (buffered n (md_chans m)) \<le> 1"
  using assms by (simp_all add: chans_ok_def)

lemma chans_okI:
  assumes "\<not> hp_panic (md_chans m)" "length (hp_chans (md_chans m)) = length (md_subs m)" "\<And>n. is_open n (md_chans m) \<longleftrightarrow> live n m"
    and "\<And>n. n < length (md_subs m) \<Longrightarrow> sb_updates (md_subs m ! n) = n" "\<And>n. n < length (md_subs m) \<Longrightarrow> ch_cap (hp_chans (md_chans m) ! n) = 1"
    and "\<And>n. n < length (md_subs m) \<Longrightarrow> length (buffered n (md_chans m)) \<le> 1"
  shows "chans_ok m"
  using assms by (simp add: chans_ok_def)

lemma md_ok_start: "md_okx X md_start"
  by (simp add: md_okx_def md_start_def chans_ok_def no_chans_def live_def is_open_def)

text \<open>Counters do not matter, nor what a stream keeps besides its subscribers and its quote.\<close>

abbreviation md_ok :: "md_manager \<Rightarrow> bool" where
  "md_ok \<equiv> md_okx {}"

definition same_members :: "md_stream \<Rightarrow> md_stream \<Rightarrow> bool" where
  "same_members s s' \<longleftrightarrow>
     st_key s' = st_key s \<and> st_cancelled s' = st_cancelled s \<and> st_refs s' = st_refs s \<and> st_nextID s' = st_nextID s \<and>
     st_subs s' = st_subs s"

lemma update_stream_simps [simp]:
  "md_streams (update_stream a f m) = md_streams m" "md_closed (update_stream a f m) = md_closed m"
  "md_chans (update_stream a f m) = md_chans m" "md_subs (update_stream a f m) = md_subs m"
  "length (md_heap (update_stream a f m)) = length (md_heap m)"
  by (simp_all add: update_stream_def)

lemma update_stream_nth: "b < length (md_heap m) \<Longrightarrow> md_heap (update_stream a f m) ! b = (if b = a then f (md_heap m ! b) else md_heap m ! b)"
  by (simp add: update_stream_def)

lemma live_update [simp]: "live n (update_stream a f m) = live n m"
  by (simp add: live_def)

text \<open>Changes of the buffers and of a stream that keep the members.\<close>

lemma md_ok_change:
  assumes ok: "md_okx X m" and same: "md_streams m' = md_streams m" "md_closed m' = md_closed m" "md_subs m' = md_subs m"
    "length (md_heap m') = length (md_heap m)"
    and heap: "\<And>a. a < length (md_heap m) \<Longrightarrow> same_members (md_heap m ! a) (md_heap m' ! a)"
    and chans: "chans_ok m'"
    and quotes: "\<And>k a i n. md_streams m k = Some a \<Longrightarrow> (i, n) \<in> set (st_subs (md_heap m ! a)) \<Longrightarrow> subscriber_ok m (md_heap m ! a) i n \<Longrightarrow>
      st_hasData (md_heap m' ! a) \<Longrightarrow> buffered n (md_chans m') = [] \<or> buffered n (md_chans m') = [st_latest (md_heap m' ! a)]"
  shows "md_okx X m'"
proof -
  have live: "live n m' = live n m" for n using same by (simp add: live_def)
  have "a < length (md_heap m') \<and> st_key (md_heap m' ! a) = k \<and> stream_ok m' (md_heap m' ! a) \<and>
      (a \<in> X \<or> st_subs (md_heap m' ! a) \<noteq> [])" if k: "md_streams m k = Some a" for k a
  proof -
    have s: "a < length (md_heap m)" "st_key (md_heap m ! a) = k" "stream_ok m (md_heap m ! a)"
      "a \<in> X \<or> st_subs (md_heap m ! a) \<noteq> []" using md_okD(5) [OF ok k] by auto
    note h = heap [OF s(1), unfolded same_members_def]
    have "subscriber_ok m' (md_heap m' ! a) i n" if i: "(i, n) \<in> set (st_subs (md_heap m ! a))" for i n
    proof -
      have o: "subscriber_ok m (md_heap m ! a) i n" using s(3) i by (auto simp: stream_ok_def)
      show ?thesis using o quotes [OF k i o] h same(3) live by (simp add: subscriber_ok_def)
    qed
    then show ?thesis using s h same(4) by (auto simp: stream_ok_def)
  qed
  moreover have "registered n m'" if "live n m" for n
    using md_okD(2) [OF ok that] md_okD(5) [OF ok] heap same by (fastforce simp: registered_def same_members_def)
  moreover have "current_stream a m' \<or> st_cancelled (md_heap m' ! a)" if "a < length (md_heap m)" for a
    using md_okD(4) [OF ok that] heap [OF that] same that by (auto simp: current_stream_def same_members_def)
  ultimately show ?thesis using chans md_okD(3) [OF ok] by (simp add: md_okx_def same live)
qed

lemma md_ok_cong:
  assumes "md_okx X m" "md_streams m' = md_streams m" "md_heap m' = md_heap m" "md_closed m' = md_closed m" "md_chans m' = md_chans m"
    "md_subs m' = md_subs m"
  shows "md_okx X m'"
  by (rule md_ok_change [OF assms(1)])
     (use md_okD(1) [OF assms(1)] assms(2-) in \<open>auto simp: same_members_def chans_ok_def live_def subscriber_ok_def\<close>)

lemma md_ok_update:
  assumes "md_okx X m" "\<And>s. same_members s (f s)" "\<And>s. st_hasData (f s) \<Longrightarrow> st_hasData s \<and> st_latest (f s) = st_latest s"
  shows "md_okx X (update_stream a f m)"
proof (rule md_ok_change [OF assms(1)])
  show "chans_ok (update_stream a f m)" using md_okD(1) [OF assms(1)] by (simp add: chans_ok_def)
  show "same_members (md_heap m ! b) (md_heap (update_stream a f m) ! b)" if "b < length (md_heap m)" for b
    using assms(2) that by (simp add: update_stream_nth same_members_def)
  show "buffered n (md_chans (update_stream a f m)) = [] \<or> buffered n (md_chans (update_stream a f m)) = [st_latest (md_heap (update_stream a f m) ! b)]"
    if "md_streams m k = Some b" "subscriber_ok m (md_heap m ! b) i n" "st_hasData (md_heap (update_stream a f m) ! b)" for k b i n
    using that assms(3) [of "md_heap m ! b"] md_okD(5) [OF assms(1) that(1)]
    by (cases "b = a") (auto simp: update_stream_nth subscriber_ok_def)
qed simp_all

section \<open>Every step keeps the invariant\<close>

lemma chans_ok_buffers:
  assumes "chans_ok m" "md_subs m' = md_subs m" "md_closed m' = md_closed m"
    and "hp_panic (md_chans m') = hp_panic (md_chans m)" "length (hp_chans (md_chans m')) = length (hp_chans (md_chans m))"
    and "\<And>d. is_open d (md_chans m') = is_open d (md_chans m)"
    and "\<And>d. d < length (hp_chans (md_chans m)) \<Longrightarrow> ch_cap (hp_chans (md_chans m') ! d) = ch_cap (hp_chans (md_chans m) ! d)"
    and "\<And>d. d < length (hp_chans (md_chans m)) \<Longrightarrow> length (buffered d (md_chans m')) \<le> 1"
  shows "chans_ok m'"
  using assms by (auto simp: chans_ok_def live_def)

lemma md_ok_received:
  assumes "md_okx X m" shows "md_okx X (m\<lparr>md_chans := take_chan c (md_chans m)\<rparr>)"
proof (rule md_ok_change [OF assms])
  show "chans_ok (m\<lparr>md_chans := take_chan c (md_chans m)\<rparr>)"
    by (rule chans_ok_buffers [OF md_okD(1) [OF assms]])
       (use md_okD(1) [OF assms] in \<open>auto simp: buffered_take chans_ok_def le_diff_conv\<close>)
qed (auto simp: same_members_def buffered_take subscriber_ok_def)

lemma buffered_send_single:
  assumes "is_open c h" "ch_cap (hp_chans h ! c) = 1" "length (buffered c h) \<le> 1"
  shows "buffered c (snd (send_dropping t x c h)) = [x]"
proof -
  obtain n where n: "buffered c (snd (send_dropping t x c h)) = drop n (buffered c h) @ [x]"
    using buffered_send(1) [of c h t x] assms by auto
  moreover have "length (buffered c (snd (send_dropping t x c h))) \<le> 1" using buffered_send(2) [of c h t x] assms by simp
  ultimately show ?thesis by simp
qed

lemma buffered_send_all_single:
  assumes "distinct cs" "c \<in> set cs" "\<And>d. d \<in> set cs \<Longrightarrow> is_open d h \<and> ch_cap (hp_chans h ! d) = 1 \<and> length (buffered d h) \<le> 1"
  shows "buffered c (send_all took x cs h) = [x]"
  using assms
proof (induction cs arbitrary: h)
  case (Cons d cs)
  let ?h = "snd (send_dropping (took d) x d h)"
  have step: "send_all took x (d # cs) h = send_all took x cs ?h" by (simp add: send_all_def)
  show ?case
  proof (cases "c = d")
    case True
    then show ?thesis
      using Cons.prems(1,3) buffered_send_single [of d h] by (simp add: step buffered_send_all_other)
  next
    case False
    have "is_open e ?h \<and> ch_cap (hp_chans ?h ! e) = 1 \<and> length (buffered e ?h) \<le> 1" if e: "e \<in> set cs" for e
    proof -
      have "e \<noteq> d" using Cons.prems(1) e by auto
      moreover have h: "is_open e h" "ch_cap (hp_chans h ! e) = 1" "length (buffered e h) \<le> 1" using Cons.prems(3) [of e] e by simp_all
      moreover have "e < length (hp_chans h)" using h(1) by (simp add: is_open_def)
      ultimately show ?thesis by (simp add: buffered_send_other)
    qed
    then show ?thesis using Cons.IH [of ?h] Cons.prems(1,2) False by (simp add: step)
  qed
qed simp

text \<open>The channels of a stream are open and distinct, and no other stream has them.\<close>

lemma stream_channels:
  assumes ok: "md_okx X m" and k: "md_streams m k = Some a" and i: "(i, n) \<in> set (st_subs (md_heap m ! a))"
  shows "is_open n (md_chans m)" "n < length (md_subs m)" "sb_key (md_subs m ! n) = k" "sb_id (md_subs m ! n) = i" "live n m"
  using md_okD(1) [OF ok] md_okD(5) [OF ok k] i by (auto simp: stream_ok_def subscriber_ok_def chans_ok_def live_def)

lemma stream_channels_distinct:
  assumes "md_okx X m" "md_streams m k = Some a" shows "distinct (map snd (st_subs (md_heap m ! a)))"
proof -
  have "distinct (st_subs (md_heap m ! a))" using md_okD(5) [OF assms] by (simp add: stream_ok_def distinct_map)
  moreover have "inj_on snd (set (st_subs (md_heap m ! a)))"
  proof (rule inj_onI)
    fix x y assume xy: "x \<in> set (st_subs (md_heap m ! a))" "y \<in> set (st_subs (md_heap m ! a))" "snd x = snd y"
    have "fst x = sb_id (md_subs m ! snd x)" "fst y = sb_id (md_subs m ! snd y)"
      using stream_channels(4) [OF assms, of "fst x" "snd x"] stream_channels(4) [OF assms, of "fst y" "snd y"] xy(1,2) by simp_all
    then show "x = y" using xy(3) by (simp add: prod_eq_iff)
  qed
  ultimately show ?thesis by (simp add: distinct_map)
qed

lemma md_ok_publish:
  assumes ok: "md_okx X m" shows "md_okx X (md_publish took a bbo m)"
proof (cases "current_stream a m")
  case True
  let ?s = "md_heap m ! a" and ?cs = "map snd (st_subs (md_heap m ! a))"
  have a: "a < length (md_heap m)" "md_streams m (st_key ?s) = Some a" using True by (simp_all add: current_stream_def)
  define m' where "m' = md_publish took a bbo m"
  have fields: "md_streams m' = md_streams m" "md_closed m' = md_closed m" "md_subs m' = md_subs m" "length (md_heap m') = length (md_heap m)"
    "md_chans m' = send_all took bbo ?cs (md_chans m)"
    using True by (simp_all add: m'_def md_publish_def)
  have heap: "md_heap m' ! b = (if b = a then ?s\<lparr>st_latest := bbo, st_hasData := True, st_consecutiveFailures := 0\<rparr> else md_heap m ! b)"
    if "b < length (md_heap m)" for b
    using True that by (simp add: m'_def md_publish_def update_stream_def)
  have single: "is_open n (md_chans m) \<and> ch_cap (hp_chans (md_chans m) ! n) = 1 \<and> length (buffered n (md_chans m)) \<le> 1" if "n \<in> set ?cs" for n
    using that md_okD(1) [OF ok] stream_channels(1,2) [OF ok a(2)] by (auto simp: chans_ok_def)
  have sent: "buffered n (md_chans m') = [bbo]" if "n \<in> set ?cs" for n
    using buffered_send_all_single [OF stream_channels_distinct [OF ok a(2)] that single] by (simp add: fields)
  have kept: "buffered n (md_chans m') = buffered n (md_chans m)" if "n \<notin> set ?cs" for n
    using that by (simp add: fields(5) buffered_send_all_other)
  have "md_okx X m'"
  proof (rule md_ok_change [OF ok fields(1-4)])
    show "same_members (md_heap m ! b) (md_heap m' ! b)" if "b < length (md_heap m)" for b
      using heap [OF that] by (auto simp: same_members_def)
    show "chans_ok m'"
    proof (rule chans_ok_buffers [OF md_okD(1) [OF ok] fields(3,2)])
      show "length (buffered d (md_chans m')) \<le> 1" if "d < length (hp_chans (md_chans m))" for d
        using sent [of d] kept [of d] md_okD(1) [OF ok] that by (cases "d \<in> set ?cs") (auto simp: chans_ok_def)
    qed (use single in \<open>auto simp: fields(5) send_all_panic\<close>)
    show "buffered n (md_chans m') = [] \<or> buffered n (md_chans m') = [st_latest (md_heap m' ! b)]"
      if b: "md_streams m k = Some b" "(i, n) \<in> set (st_subs (md_heap m ! b))" "subscriber_ok m (md_heap m ! b) i n" "st_hasData (md_heap m' ! b)" for k b i n
    proof (cases "b = a")
      case True
      then have "n \<in> set ?cs" using b(2) by force
      then show ?thesis using sent True heap [OF a(1)] by simp
    next
      case False
      have "n \<notin> set ?cs"
        using stream_channels(3) [OF ok b(1,2)] stream_channels(3) [OF ok a(2)] a(2) b(1) False by auto
      then show ?thesis using kept b(3,4) False heap [of b] md_okD(5) [OF ok b(1)] by (auto simp: subscriber_ok_def)
    qed
  qed
  then show ?thesis by (simp add: m'_def)
qed (use ok in \<open>simp add: md_publish_def\<close>)

text \<open>A new stream has no subscriber yet.\<close>

lemma live_heap [simp]: "live n (m\<lparr>md_streams := x, md_heap := y\<rparr>) = live n m"
  by (simp add: live_def)

lemma ensure_stream_ok:
  assumes ok: "md_ok m" and e: "ensure_stream cfg key m = (a, m1)" and not_closed: "\<not> md_closed m"
  shows "md_okx {a} m1" "md_streams m1 key = Some a" "md_subs m1 = md_subs m" "md_closed m1 = md_closed m" "md_chans m1 = md_chans m"
proof -
  have "md_okx {a} m1 \<and> md_streams m1 key = Some a \<and> md_subs m1 = md_subs m \<and> md_closed m1 = md_closed m \<and> md_chans m1 = md_chans m"
  proof (cases "md_streams m key")
    case None
    let ?m = "m\<lparr>md_streams := (md_streams m)(key := Some (length (md_heap m))), md_heap := md_heap m @ [new_stream cfg key]\<rparr>"
    have m1: "a = length (md_heap m)" "m1 = ?m" using e None by (auto simp: ensure_stream_def)
    have kept: "stream_ok ?m s = stream_ok m s" for s by (simp add: stream_ok_def subscriber_ok_def)
    have old: "b < length (md_heap m) \<and> st_key (md_heap m ! b) = k \<and> stream_ok m (md_heap m ! b) \<and> st_subs (md_heap m ! b) \<noteq> []"
      if "md_streams m k = Some b" for k b using md_okD(5) [OF ok that] by simp
    have "stream_ok m (new_stream cfg key)" by (simp add: stream_ok_def new_stream_def)
    then have "b < length (md_heap ?m) \<and> st_key (md_heap ?m ! b) = k \<and> stream_ok ?m (md_heap ?m ! b) \<and> (b \<in> {a} \<or> st_subs (md_heap ?m ! b) \<noteq> [])"
      if "md_streams ?m k = Some b" for k b
      using that old [of k b] m1(1) unfolding kept by (cases "k = key") (auto simp: nth_append new_stream_def)
    moreover have "registered n ?m" if n: "live n m" for n
    proof -
      obtain b where b: "md_streams m (sb_key (md_subs m ! n)) = Some b" "(sb_id (md_subs m ! n), n) \<in> set (st_subs (md_heap m ! b))"
        using md_okD(2) [OF ok n] by (auto simp: registered_def)
      then have "sb_key (md_subs m ! n) \<noteq> key" using None by auto
      then show ?thesis using b old [OF b(1)] by (simp add: registered_def nth_append)
    qed
    moreover have "chans_ok ?m" using md_okD(1) [OF ok] by (simp add: chans_ok_def)
    moreover have "current_stream b ?m \<or> st_cancelled (md_heap ?m ! b)" if "b < length (md_heap ?m)" for b
      using that md_okD(4) [OF ok, of b] None by (auto simp: current_stream_def nth_append less_Suc_eq new_stream_def)
    ultimately show ?thesis using not_closed by (simp add: md_okx_def m1)
  next
    case (Some b)
    then show ?thesis using ok e by (auto simp: ensure_stream_def md_okx_def)
  qed
  then show "md_okx {a} m1" "md_streams m1 key = Some a" "md_subs m1 = md_subs m" "md_closed m1 = md_closed m" "md_chans m1 = md_chans m"
    by blast+
qed

lemma add_subscriber_ok:
  assumes ok: "md_okx {a} m" and k: "md_streams m key = Some a" and not_closed: "\<not> md_closed m"
  shows "md_ok (add_subscriber a key m)"
proof -
  let ?n = "length (md_subs m)" and ?s = "md_heap m ! a" and ?i = "Suc (st_nextID (md_heap m ! a))"
  define m' where "m' = add_subscriber a key m"
  note chans = chans_okD [OF md_okD(1) [OF ok]]
  have a: "a < length (md_heap m)" "st_key ?s = key" "stream_ok m ?s" using md_okD(5) [OF ok k] by auto
  have n: "length (hp_chans (md_chans m)) = ?n" using chans(2) .
  have fields: "md_streams m' = md_streams m" "md_closed m' = md_closed m" "length (md_heap m') = length (md_heap m)"
    "md_subs m' = md_subs m @ [\<lparr>sb_key = key, sb_id = ?i, sb_updates = ?n, sb_done = False, sb_released = False\<rparr>]"
    "md_chans m' = (if st_hasData ?s then offer (st_latest ?s) ?n (make_chan 1 (md_chans m)) else make_chan 1 (md_chans m))"
    by (simp_all add: m'_def add_subscriber_def Let_def n)
  have heap: "md_heap m' ! b = (if b = a then ?s\<lparr>st_nextID := ?i, st_subs := st_subs ?s @ [(?i, ?n)], st_refs := st_refs ?s + 1\<rparr> else md_heap m ! b)"
    if "b < length (md_heap m)" for b using that by (simp add: m'_def add_subscriber_def Let_def n update_stream_def)
  have live: "live j m' \<longleftrightarrow> live j m \<or> j = ?n" for j
    using not_closed by (auto simp: live_def fields nth_append)
  have fresh: "buffered ?n (md_chans m) = []" using n by (simp add: buffered_def)
  have opened: "is_open j (md_chans m') \<longleftrightarrow> is_open j (md_chans m) \<or> j = ?n" for j by (auto simp: fields(5) n)
  have buffers: "buffered j (md_chans m') = (if j = ?n \<and> st_hasData ?s then [st_latest ?s] else buffered j (md_chans m))" for j
    using fresh has_room_make [of "md_chans m" 1] unfolding n by (auto simp: fields(5) buffered_offer n)
  have caps: "ch_cap (hp_chans (md_chans m') ! ?n) = 1" "j < ?n \<Longrightarrow> ch_cap (hp_chans (md_chans m') ! j) = ch_cap (hp_chans (md_chans m) ! j)" for j
    using make_simps(6) [of 1 "md_chans m"] n by (simp_all add: fields(5) del: One_nat_def)
  have "chans_ok m'"
  proof (rule chans_okI)
    show "\<not> hp_panic (md_chans m')" using chans(1) n by (simp add: fields(5) offer_panic)
    show "is_open j (md_chans m') \<longleftrightarrow> live j m'" for j unfolding opened live chans(3) ..
    show "length (hp_chans (md_chans m')) = length (md_subs m')" using n by (simp add: fields)
    fix j assume "j < length (md_subs m')"
    then have j: "j \<noteq> ?n \<Longrightarrow> j < ?n" by (auto simp: fields(4))
    show "sb_updates (md_subs m' ! j) = j" using chans(4) [OF j] by (cases "j = ?n") (simp_all add: fields(4) nth_append j)
    show "ch_cap (hp_chans (md_chans m') ! j) = 1" using chans(5) [OF j] caps(2) [OF j] caps(1) by (cases "j = ?n") simp_all
    show "length (buffered j (md_chans m')) \<le> 1" unfolding buffers using chans(6) [OF j] fresh by (cases "j = ?n") simp_all
  qed
  moreover have old: "subscriber_ok m' t i j"
    if "subscriber_ok m r i j" "st_key t = st_key r" "st_nextID r \<le> st_nextID t" "st_hasData t = st_hasData r" "st_latest t = st_latest r" for r t i j
    using that live [of j] buffers [of j] by (auto simp: subscriber_ok_def live_def fields nth_append)
  moreover have "b < length (md_heap m') \<and> st_key (md_heap m' ! b) = l \<and> stream_ok m' (md_heap m' ! b) \<and> st_subs (md_heap m' ! b) \<noteq> []"
    if l: "md_streams m l = Some b" for l b
  proof -
    have b: "b < length (md_heap m)" "st_key (md_heap m ! b) = l" "stream_ok m (md_heap m ! b)" "b = a \<or> st_subs (md_heap m ! b) \<noteq> []"
      using md_okD(5) [OF ok l] by auto
    have "subscriber_ok m' (md_heap m' ! a) ?i ?n"
      using live [of ?n] heap [OF a(1)] a(2) buffers [of ?n] by (simp add: subscriber_ok_def fields(4) nth_append)
    moreover have "?i \<notin> fst ` set (st_subs ?s)" using a(3) by (auto simp: stream_ok_def subscriber_ok_def)
    moreover have "subscriber_ok m' (md_heap m' ! b) i j" if "(i, j) \<in> set (st_subs (md_heap m ! b))" for i j
      using old [of "md_heap m ! b" i j "md_heap m' ! b"] b(3) that heap [OF b(1)] by (auto simp: stream_ok_def)
    ultimately show ?thesis
      using b heap [OF b(1)] fields(3) by (cases "b = a") (auto simp: stream_ok_def)
  qed
  moreover have "registered j m'" if j: "live j m'" for j
  proof (cases "j = ?n")
    case True
    then show ?thesis using k a heap [OF a(1)] by (simp add: registered_def fields nth_append)
  next
    case False
    then have old: "live j m" "j < ?n" using j live [of j] by (auto simp: live_def)
    obtain b where b: "md_streams m (sb_key (md_subs m ! j)) = Some b" "(sb_id (md_subs m ! j), j) \<in> set (st_subs (md_heap m ! b))"
      using md_okD(2) [OF ok old(1)] by (auto simp: registered_def)
    then show ?thesis using old(2) heap [of b] md_okD(5) [OF ok b(1)] by (auto simp: registered_def fields nth_append)
  qed
  moreover have "current_stream b m' \<or> st_cancelled (md_heap m' ! b)" if "b < length (md_heap m)" for b
    using md_okD(4) [OF ok that] heap [OF that] that fields(1,3) by (auto simp: current_stream_def)
  ultimately show ?thesis using not_closed by (simp add: md_okx_def fields m'_def [symmetric])
qed

lemma md_ok_Subscribe: "md_ok m \<Longrightarrow> md_ok (snd (md_Subscribe cfg key m))"
  using ensure_stream_ok add_subscriber_ok by (auto simp: md_Subscribe_def split: option.splits prod.splits)

text \<open>Releasing a subscription of a manager that is not closed removes it from its stream; the last one ends the stream.\<close>

lemma filter_id_length:
  assumes "distinct (map fst xs)" "(i, n) \<in> set xs" shows "length (filter (\<lambda>(j, _). j \<noteq> i) xs) = length xs - 1"
proof -
  have "filter (\<lambda>(j, _). j = i) xs = [(i, n)]"
    using assms by (induction xs) (auto simp: filter_empty_conv image_iff)
  moreover have "length xs = length (filter (\<lambda>(j, _). j = i) xs) + length (filter (\<lambda>(j, _). j \<noteq> i) xs)"
    using sum_length_filter_compl [of "\<lambda>(j, _). j = i" xs] by (simp add: case_prod_beta')
  ultimately show ?thesis by simp
qed

lemma release_live:
  assumes ok: "md_ok m" and l: "live n m"
  shows "md_ok (sub_release n m)"
proof -
  let ?h = "md_subs m ! n"
  note chans = chans_okD [OF md_okD(1) [OF ok]]
  have n: "n < length (md_subs m)" "\<not> md_closed m" using l by (simp_all add: live_def)
  obtain a where a: "md_streams m (sb_key ?h) = Some a" "(sb_id ?h, n) \<in> set (st_subs (md_heap m ! a))"
    using md_okD(2) [OF ok l] by (auto simp: registered_def)
  let ?s = "md_heap m ! a" and ?rest = "filter (\<lambda>(j, _). j \<noteq> sb_id ?h) (st_subs (md_heap m ! a))"
  have s: "a < length (md_heap m)" "st_key ?s = sb_key ?h" "stream_ok m ?s" using md_okD(5) [OF ok a(1)] by auto
  have "map_of (st_subs ?s) (sb_id ?h) = Some n" using s(3) a(2) by (simp add: stream_ok_def)
  moreover have size: "length ?rest = length (st_subs ?s) - 1" using s(3) a(2) by (intro filter_id_length) (auto simp: stream_ok_def)
  moreover have "st_refs ?s - 1 = 0 \<longleftrightarrow> ?rest = []" using size s(3) a(2) by (cases "st_subs ?s") (auto simp: stream_ok_def)
  moreover define m' where "m' = sub_release n m"
  ultimately have fields: "md_streams m' = (if ?rest = [] then (md_streams m)(sb_key ?h := None) else md_streams m)"
    "md_subs m' = (md_subs m)[n := ?h\<lparr>sb_released := True\<rparr>]" "md_closed m' = md_closed m" "md_chans m' = close_chan n (md_chans m)"
    "length (md_heap m') = length (md_heap m)"
    and heap: "\<And>b. b < length (md_heap m) \<Longrightarrow> md_heap m' ! b = (if b = a then ?s\<lparr>st_subs := ?rest, st_refs := st_refs ?s - 1,
      st_cancelled := (st_cancelled ?s \<or> ?rest = [])\<rparr> else md_heap m ! b)"
    using a(1) s(1,3) by (auto simp: sub_release_def unsubscribe_def Let_def update_stream_def stream_ok_def)
  have live: "live j m' \<longleftrightarrow> live j m \<and> j \<noteq> n" for j using n(1) by (cases "j = n") (auto simp: live_def fields)
  have "chans_ok m'"
  proof (rule chans_okI)
    show "\<not> hp_panic (md_chans m')" using chans(1) chans(3) [of n] l by (simp add: fields)
    show "is_open j (md_chans m') \<longleftrightarrow> live j m'" for j by (simp add: fields(4) live chans(3))
    fix j assume "j < length (md_subs m')"
    then have j: "j < length (md_subs m)" by (simp add: fields)
    show "sb_updates (md_subs m' ! j) = j" using chans(4) [OF j] n(1) by (cases "j = n") (simp_all add: fields(2))
    show "ch_cap (hp_chans (md_chans m') ! j) = 1" "length (buffered j (md_chans m')) \<le> 1"
      using chans(2) chans(5,6) [OF j] j by (simp_all add: fields(4))
  qed (simp add: fields chans(2))
  moreover have "b < length (md_heap m') \<and> st_key (md_heap m' ! b) = k \<and> stream_ok m' (md_heap m' ! b) \<and> st_subs (md_heap m' ! b) \<noteq> []"
    if k: "md_streams m' k = Some b" for k b
  proof -
    have k': "md_streams m k = Some b" using k by (auto simp: fields split: if_splits)
    have b: "b < length (md_heap m)" "st_key (md_heap m ! b) = k" "stream_ok m (md_heap m ! b)" "st_subs (md_heap m ! b) \<noteq> []"
      using md_okD(5) [OF ok k'] by auto
    have other: "subscriber_ok m' (md_heap m' ! b) i j" if i: "(i, j) \<in> set (st_subs (md_heap m ! b))" "j \<noteq> n" for i j
    proof -
      have "subscriber_ok m (md_heap m ! b) i j" using b(3) i(1) by (auto simp: stream_ok_def)
      then show ?thesis using i(2) live [of j] heap [OF b(1)] by (auto simp: subscriber_ok_def fields)
    qed
    show ?thesis
    proof (cases "b = a")
      case True
      then have "?rest \<noteq> []" using k k' a(1) s(2) b(2) by (auto simp: fields split: if_splits)
      moreover have "j \<noteq> n" if "(i, j) \<in> set ?rest" for i j
        using that stream_channels(4) [OF ok a(1), of i j] by auto
      ultimately show ?thesis
        using True b s(3) other heap [OF b(1)] size fields(5)
        by (auto simp: stream_ok_def distinct_map_filter of_nat_diff Suc_le_eq)
    next
      case False
      then have "k \<noteq> sb_key ?h" using k' a(1) by auto
      then have "j \<noteq> n" if "(i, j) \<in> set (st_subs (md_heap m ! b))" for i j
        using stream_channels(3) [OF ok k' that] by auto
      then show ?thesis using False b other heap [OF b(1)] fields(5) by (auto simp: stream_ok_def)
    qed
  qed
  moreover have "registered j m'" if j: "live j m'" for j
  proof -
    have j': "live j m" "j \<noteq> n" using j live by auto
    obtain b where b: "md_streams m (sb_key (md_subs m ! j)) = Some b" "(sb_id (md_subs m ! j), j) \<in> set (st_subs (md_heap m ! b))"
      using md_okD(2) [OF ok j'(1)] by (auto simp: registered_def)
    have "sb_id (md_subs m ! j) \<noteq> sb_id ?h" if "b = a"
      using that b(2) a(2) s(3) j'(2) by (auto simp: stream_ok_def dest: eq_key_imp_eq_value)
    moreover have "b = a" if "sb_key (md_subs m ! j) = sb_key ?h" using that a(1) b(1) by simp
    ultimately have "(sb_id (md_subs m ! j), j) \<in> set (st_subs (md_heap m' ! b))" "md_streams m' (sb_key (md_subs m ! j)) = Some b"
      using b heap [of b] md_okD(5) [OF ok b(1)] by (auto simp: fields filter_empty_conv)
    then show ?thesis using j'(2) by (auto simp: registered_def fields)
  qed
  moreover have "current_stream b m' \<or> st_cancelled (md_heap m' ! b)" if "b < length (md_heap m)" for b
    using md_okD(4) [OF ok that] heap [OF that] that a(1) s(2) by (auto simp: current_stream_def fields)
  ultimately show ?thesis using n(2) fields(5) by (simp add: md_okx_def fields(3) m'_def [symmetric])
qed

lemma md_ok_handles:
  assumes ok: "md_ok m" and "md_subs m' = (md_subs m)[n := h]" "sb_key h = sb_key (md_subs m ! n)" "sb_id h = sb_id (md_subs m ! n)"
    "sb_updates h = sb_updates (md_subs m ! n)" "sb_released h = sb_released (md_subs m ! n) \<or> md_closed m"
    and "md_streams m' = md_streams m" "md_heap m' = md_heap m" "md_closed m' = md_closed m" "md_chans m' = md_chans m"
  shows "md_ok m'"
proof -
  have live: "live j m' = live j m" for j using assms by (cases "j = n") (auto simp: live_def)
  have same: "j < length (md_subs m) \<Longrightarrow> sb_key (md_subs m' ! j) = sb_key (md_subs m ! j) \<and> sb_id (md_subs m' ! j) = sb_id (md_subs m ! j) \<and>
    sb_updates (md_subs m' ! j) = sb_updates (md_subs m ! j)" for j
    using assms by (cases "j = n") auto
  have "subscriber_ok m' r i j = subscriber_ok m r i j" for r i j
    using live [of j] same [of j] assms(10) by (auto simp: subscriber_ok_def live_def)
  moreover have "registered j m' = registered j m" if "live j m" for j
    using that same [of j] assms(7,8) by (simp add: registered_def live_def)
  moreover have "chans_ok m' = chans_ok m" using live same assms(2,10) by (auto simp: chans_ok_def)
  moreover have "current_stream a m' = current_stream a m" for a using assms(7,8) by (simp add: current_stream_def)
  ultimately show ?thesis using ok live assms(7,8,9) by (simp add: md_okx_def stream_ok_def)
qed

lemma md_ok_release:
  assumes ok: "md_ok m" and n: "n < length (md_subs m)" "\<not> sb_released (md_subs m ! n)"
  shows "md_ok (sub_release n m)"
proof (cases "md_closed m")
  case True
  let ?m = "m\<lparr>md_subs := (md_subs m)[n := (md_subs m ! n)\<lparr>sb_released := True\<rparr>]\<rparr>"
  have "sub_release n m = ?m" using md_okD(3) [OF ok True] by (simp add: sub_release_def unsubscribe_def)
  moreover have "md_ok ?m"
    by (rule md_ok_handles [OF ok, of ?m n "(md_subs m ! n)\<lparr>sb_released := True\<rparr>"]) (use True in simp_all)
  ultimately show ?thesis by simp
next
  case False
  then show ?thesis using release_live [OF ok] n by (simp add: live_def)
qed

lemma md_ok_done:
  assumes "md_ok m" shows "md_ok (sub_done n m)"
  by (rule md_ok_handles [OF assms, of _ n "(md_subs m ! n)\<lparr>sb_done := True\<rparr>"]) (simp_all add: sub_done_def)

text \<open>Closing the manager closes every channel that is still open, once.\<close>

lemma current_streams:
  assumes "md_ok m" shows "a \<in> set (live_streams m) \<longleftrightarrow> (\<exists>k. md_streams m k = Some a)"
  using md_okD(5) [OF assms] by (fastforce simp: live_streams_def current_stream_def)

lemma live_channels:
  assumes ok: "md_ok m"
  shows "distinct (concat (map (\<lambda>a. map snd (st_subs (md_heap m ! a))) (live_streams m)))"
    "set (concat (map (\<lambda>a. map snd (st_subs (md_heap m ! a))) (live_streams m))) = {n. live n m}"
proof -
  let ?cs = "\<lambda>a. map snd (st_subs (md_heap m ! a))"
  have owner: "md_streams m (sb_key (md_subs m ! n)) = Some a" if a: "a \<in> set (live_streams m)" and n: "n \<in> set (?cs a)" for a n
  proof -
    obtain k where k: "md_streams m k = Some a" using a current_streams [OF ok] by auto
    obtain i where "(i, n) \<in> set (st_subs (md_heap m ! a))" using n by auto
    then show ?thesis using stream_channels(3) [OF ok k] k by simp
  qed
  have "inj_on ?cs (set (live_streams m))"
  proof (rule inj_onI)
    fix a b assume ab: "a \<in> set (live_streams m)" "b \<in> set (live_streams m)" "?cs a = ?cs b"
    obtain k where "md_streams m k = Some a" using ab(1) current_streams [OF ok] by auto
    then have "?cs a \<noteq> []" using md_okD(5) [OF ok] by simp
    then obtain n where "n \<in> set (?cs a)" by (cases "st_subs (md_heap m ! a)") auto
    then have "Some a = Some b" using owner [OF ab(1), of n] owner [OF ab(2), of n] unfolding ab(3) by metis
    then show "a = b" by simp
  qed
  then have "distinct (map ?cs (live_streams m))" by (simp add: distinct_map live_streams_def)
  moreover have "distinct cs" if "cs \<in> set (map ?cs (live_streams m))" for cs
    using that stream_channels_distinct [OF ok] current_streams [OF ok] by auto
  moreover have "set cs \<inter> set ds = {}" if d: "cs \<in> set (map ?cs (live_streams m))" "ds \<in> set (map ?cs (live_streams m))" "cs \<noteq> ds" for cs ds
  proof -
    obtain a b where ab: "a \<in> set (live_streams m)" "cs = ?cs a" "b \<in> set (live_streams m)" "ds = ?cs b" using d(1,2) by auto
    show ?thesis using owner [OF ab(1)] owner [OF ab(3)] d(3) unfolding ab(2,4) by (metis disjoint_iff option.inject)
  qed
  ultimately show "distinct (concat (map ?cs (live_streams m)))" by (rule distinct_concat)
  have "live n m" if "a \<in> set (live_streams m)" "n \<in> set (?cs a)" for a n
    using that current_streams [OF ok] stream_channels(5) [OF ok] by auto
  moreover have "\<exists>a \<in> set (live_streams m). n \<in> set (?cs a)" if "live n m" for n
    using md_okD(2) [OF ok that] current_streams [OF ok] by (force simp: registered_def)
  ultimately show "set (concat (map ?cs (live_streams m))) = {n. live n m}" by auto
qed

lemma md_ok_Close:
  assumes ok: "md_ok m" shows "md_ok (md_Close m)"
proof (cases "md_closed m")
  case False
  note chans = chans_okD [OF md_okD(1) [OF ok]]
  have "chans_ok (md_Close m)"
    by (rule chans_okI) (use chans live_channels [OF ok] False in \<open>auto simp: md_Close_def live_def close_all_panic\<close>)
  moreover have "st_cancelled (md_heap (md_Close m) ! a)" if "a < length (md_heap m)" for a
    using md_okD(4) [OF ok that] that False by (simp add: md_Close_def Let_def)
  ultimately show ?thesis using False by (simp add: md_okx_def) (simp add: md_Close_def live_def)
qed (simp add: md_Close_def ok)

lemma md_ok_updates:
  assumes "md_ok m"
  shows "md_ok (update_stream a (\<lambda>s. s\<lparr>st_latest := zero_BBO, st_hasData := False\<rparr>) m)"
    "md_ok (update_stream a (\<lambda>s. s\<lparr>st_parserErrors := n\<rparr>) m)"
    "md_ok (update_stream a (\<lambda>s. s\<lparr>st_consecutiveFailures := Suc (st_consecutiveFailures s)\<rparr>) m)"
    "md_ok (update_stream a (\<lambda>s. s\<lparr>st_backoff := d, st_parserErrors := n\<rparr>) m)"
    "md_ok (update_stream a (\<lambda>s. s\<lparr>st_backoff := f (st_backoff s)\<rparr>) m)"
  by (rule md_ok_update [OF assms]; simp add: same_members_def)+

lemma md_ok_invalidate: "md_ok m \<Longrightarrow> md_ok (md_invalidate a m)"
  by (simp add: md_invalidate_def md_ok_updates)

lemma md_ok_frame: "md_ok m \<Longrightarrow> md_ok (snd (consume_frame took a frame m))"
proof -
  assume ok: "md_ok m"
  have "md_ok (m\<lparr>md_parserErrors := x\<rparr>)" for x by (rule md_ok_cong [OF ok]) simp_all
  then show ?thesis
    using ok by (auto simp: consume_frame_def Let_def md_ok_updates md_ok_publish split: md_frame.splits sum.splits option.splits)
qed

lemma md_ok_ended:
  assumes ok: "md_ok m" shows "md_ok (run_ended a c err m)"
proof -
  have 1: "md_ok (m\<lparr>md_reconnects := x\<rparr>)" for x by (rule md_ok_cong [OF ok]) simp_all
  have 2: "md_ok (md_classifyDisconnect err (m1\<lparr>md_disconnects := x\<rparr>))" if "md_ok m1" for m1 x
    by (rule md_ok_cong [OF that]) (simp_all add: md_classifyDisconnect_def)
  show ?thesis using ok 1 2 by (simp add: run_ended_def Let_def md_ok_invalidate md_ok_updates)
qed

lemma md_ok_connected: "md_ok m \<Longrightarrow> md_ok (run_connected cfg a m)"
proof -
  assume "md_ok m"
  then have "md_ok (m\<lparr>md_connects := x\<rparr>)" for x by (rule md_ok_cong) simp_all
  then show ?thesis by (simp add: run_connected_def md_ok_updates)
qed

lemma md_ok_read: "md_ok m \<Longrightarrow> md_ok (snd (md_Latest cfg now key m))"
proof -
  assume ok: "md_ok m"
  then have "md_ok (m\<lparr>md_staleReads := x\<rparr>)" for x by (rule md_ok_cong) simp_all
  then show ?thesis using ok by (simp add: md_Latest_def Let_def split: option.splits)
qed

lemma md_step_ok: "md_step cfg m m' \<Longrightarrow> md_ok m \<Longrightarrow> md_ok m'"
  by (induction rule: md_step.induct)
     (simp_all add: md_ok_Subscribe md_ok_done md_ok_release md_ok_received md_ok_read md_ok_Close md_ok_connected md_ok_frame
        md_ok_ended run_waited_def md_ok_updates(5) [where f = "\<lambda>d. min (mc_reconnectMax cfg) (wrap64 (d * 2))"])

lemma md_reachable_ok: "(md_step cfg)\<^sup>*\<^sup>* md_start m \<Longrightarrow> md_ok m"
  by (induction rule: rtranclp_induct) (auto intro: md_step_ok md_ok_start)

lemma stream_members:
  assumes ok: "md_ok m" and k: "md_streams m k = Some a"
  shows "set (map snd (st_subs (md_heap m ! a))) = {n. live n m \<and> sb_key (md_subs m ! n) = k}"
    "st_refs (md_heap m ! a) = int (card {n. live n m \<and> sb_key (md_subs m ! n) = k})"
proof -
  show members: "set (map snd (st_subs (md_heap m ! a))) = {n. live n m \<and> sb_key (md_subs m ! n) = k}"
  proof (intro set_eqI iffI)
    fix n assume "n \<in> set (map snd (st_subs (md_heap m ! a)))"
    then show "n \<in> {n. live n m \<and> sb_key (md_subs m ! n) = k}" using stream_channels(3,5) [OF ok k] by auto
  next
    fix n assume "n \<in> {n. live n m \<and> sb_key (md_subs m ! n) = k}"
    then show "n \<in> set (map snd (st_subs (md_heap m ! a)))" using md_okD(2) [OF ok, of n] k by (force simp: registered_def)
  qed
  show "st_refs (md_heap m ! a) = int (card {n. live n m \<and> sb_key (md_subs m ! n) = k})"
    using md_okD(5) [OF ok k] distinct_card [OF stream_channels_distinct [OF ok k]] by (simp add: members [symmetric] stream_ok_def)
qed

text \<open>C4: Quotes reach their subscribers and nothing else. In every state that subscribers, the goroutines of the streams,
  receivers and the shutdown reach, no channel was closed twice or sent to after it was closed; a subscription that was not
  released has an open channel, which is empty or holds exactly the latest quote of the stream while the stream has one;
  a stream exists for a key exactly as long as there are subscriptions for it, which its counter counts; every other stream
  is cancelled, so its goroutine ends.\<close>

theorem market_streams_safe:
  assumes "(md_step cfg)\<^sup>*\<^sup>* md_start m"
  shows "\<not> hp_panic (md_chans m) \<and>
    (\<forall>n. is_open n (md_chans m) \<longleftrightarrow> live n m) \<and>
    (\<forall>n. live n m \<longrightarrow> (\<exists>a. md_streams m (sb_key (md_subs m ! n)) = Some a \<and>
       (st_hasData (md_heap m ! a) \<longrightarrow> buffered n (md_chans m) \<in> {[], [st_latest (md_heap m ! a)]}))) \<and>
    (\<forall>k a. md_streams m k = Some a \<longrightarrow> \<not> st_cancelled (md_heap m ! a) \<and> 0 < st_refs (md_heap m ! a) \<and>
       st_refs (md_heap m ! a) = int (card {n. live n m \<and> sb_key (md_subs m ! n) = k})) \<and>
    (\<forall>a < length (md_heap m). current_stream a m \<or> st_cancelled (md_heap m ! a))"
proof -
  have ok: "md_ok m" by (rule md_reachable_ok [OF assms])
  have "\<exists>a. md_streams m (sb_key (md_subs m ! n)) = Some a \<and>
      (st_hasData (md_heap m ! a) \<longrightarrow> buffered n (md_chans m) \<in> {[], [st_latest (md_heap m ! a)]})" if l: "live n m" for n
  proof -
    obtain a where a: "md_streams m (sb_key (md_subs m ! n)) = Some a" "(sb_id (md_subs m ! n), n) \<in> set (st_subs (md_heap m ! a))"
      using md_okD(2) [OF ok l] by (auto simp: registered_def)
    then show ?thesis using md_okD(5) [OF ok a(1)] by (auto simp: stream_ok_def subscriber_ok_def)
  qed
  moreover have "\<not> st_cancelled (md_heap m ! a) \<and> 0 < st_refs (md_heap m ! a) \<and>
      st_refs (md_heap m ! a) = int (card {n. live n m \<and> sb_key (md_subs m ! n) = k})" if "md_streams m k = Some a" for k a
    using md_okD(5) [OF ok that] stream_members(2) [OF ok that] by (auto simp: stream_ok_def)
  ultimately show ?thesis using chans_okD(1,3) [OF md_okD(1) [OF ok]] md_okD(4) [OF ok] by blast
qed

text \<open>Two subscribers of one instrument, two quotes, and a subscriber that leaves.\<close>

definition sample_config :: md_config where
  "sample_config = \<lparr>mc_parsers = (\<lambda>_. True), mc_staleAfter = 15 * Second, mc_reconnectInitial = 250 * Millisecond, mc_reconnectMax = 30 * Second\<rparr>"

definition sample_key :: Key where
  "sample_key = \<lparr>key_Venue = ''Binance'', key_Product = ''spot'', key_Symbol = ''BTCUSDT''\<rparr>"

definition sample_quote_bbo :: "string \<Rightarrow> BBO" where
  "sample_quote_bbo bid = zero_BBO\<lparr>bbo_BidPrice := bid\<rparr>"

definition sample_subscribed :: md_manager where
  "sample_subscribed = snd (md_Subscribe sample_config sample_key (snd (md_Subscribe sample_config sample_key md_start)))"

definition sample_published :: md_manager where
  "sample_published = snd (consume_frame (\<lambda>_. (0, 0)) 0 (Frame (Inr (Some (sample_quote_bbo ''2''))))
     (snd (consume_frame (\<lambda>_. (0, 0)) 0 (Frame (Inr (Some (sample_quote_bbo ''1'')))) sample_subscribed)))"

definition sample_left :: md_manager where
  "sample_left = sub_release 0 (sub_done 0 sample_published)"

theorem market_streams_safe_witness:
  "(\<exists>a. md_streams sample_left (sb_key (md_subs sample_left ! 1)) = Some a \<and> st_refs (md_heap sample_left ! a) = 1) \<and>
   buffered 1 (md_chans sample_left) = [sample_quote_bbo ''2''] \<and> \<not> is_open 0 (md_chans sample_left) \<and> \<not> hp_panic (md_chans sample_left)"
proof -
  have "md_step sample_config md_start (snd (md_Subscribe sample_config sample_key md_start))" by (rule md_step.subscribe)
  moreover have "md_step sample_config (snd (md_Subscribe sample_config sample_key md_start)) sample_subscribed"
    unfolding sample_subscribed_def by (rule md_step.subscribe)
  moreover have "md_step sample_config sample_subscribed
      (snd (consume_frame (\<lambda>_. (0, 0)) 0 (Frame (Inr (Some (sample_quote_bbo ''1'')))) sample_subscribed))"
    by (rule md_step.frame) code_simp
  moreover have "md_step sample_config
      (snd (consume_frame (\<lambda>_. (0, 0)) 0 (Frame (Inr (Some (sample_quote_bbo ''1'')))) sample_subscribed)) sample_published"
    unfolding sample_published_def by (rule md_step.frame) code_simp
  moreover have "md_step sample_config sample_published (sub_done 0 sample_published)" by (rule md_step.fired) code_simp+
  moreover have "md_step sample_config (sub_done 0 sample_published) sample_left"
    unfolding sample_left_def by (rule md_step.release) code_simp+
  ultimately have "(md_step sample_config)\<^sup>*\<^sup>* md_start sample_left"
    by (meson rtranclp.rtrancl_refl rtranclp.rtrancl_into_rtrancl)
  note safe = market_streams_safe [OF this]
  have "live 1 sample_left" "\<not> live 0 sample_left" unfolding live_def by code_simp+
  moreover have "buffered 1 (md_chans sample_left) = [sample_quote_bbo ''2'']" by code_simp
  moreover have "md_streams sample_left (sb_key (md_subs sample_left ! 1)) = Some 0" "st_refs (md_heap sample_left ! 0) = 1" by code_simp+
  ultimately show ?thesis using safe by blast
qed

section \<open>A connection that sends garbage ends\<close>

lemma publish_errors [simp]:
  "length (md_heap (md_publish took a bbo m)) = length (md_heap m)"
  "st_parserErrors (md_heap (md_publish took a bbo m) ! b) = st_parserErrors (md_heap m ! b)"
  by (cases "b < length (md_heap m)"; simp add: md_publish_def update_stream_def nth_list_update)+

lemma consume_frame_heap [simp]: "length (md_heap (snd (consume_frame took a frame m))) = length (md_heap m)"
  by (simp add: consume_frame_def Let_def split: md_frame.splits sum.splits option.splits)

lemma malformed_frame:
  assumes "a < length (md_heap m)"
  shows "fst (consume_frame took a (Frame (Inl e)) m) \<noteq> None \<or>
    st_parserErrors (md_heap (snd (consume_frame took a (Frame (Inl e)) m)) ! a) = Suc (st_parserErrors (md_heap m ! a)) \<and>
    st_parserErrors (md_heap m ! a) < 9"
  using assms by (simp add: consume_frame_def Let_def update_stream_nth)

lemma malformed_frames_end:
  assumes "a < length (md_heap m)" "10 \<le> st_parserErrors (md_heap m ! a) + length bad" "bad \<noteq> []"
  shows "fst (md_consume a (map (\<lambda>e. Frame (Inl e)) bad @ frames) m) \<noteq> None"
  using assms
proof (induction bad arbitrary: m)
  case (Cons e bad)
  let ?r = "consume_frame (\<lambda>_. (0, 0)) a (Frame (Inl e)) m"
  show ?case
  proof (cases "fst ?r")
    case None
    then have n: "st_parserErrors (md_heap (snd ?r) ! a) = Suc (st_parserErrors (md_heap m ! a))" "st_parserErrors (md_heap m ! a) < 9"
      using malformed_frame [OF Cons.prems(1), of "\<lambda>_. (0, 0)" e] by auto
    then have "bad \<noteq> []" using Cons.prems(2) by (cases bad) auto
    then have "fst (md_consume a (map (\<lambda>e. Frame (Inl e)) bad @ frames) (snd ?r)) \<noteq> None"
      using Cons.IH [of "snd ?r"] Cons.prems(1,2) n(1) by simp
    then show ?thesis using None by (cases ?r) simp
  qed (auto split: prod.splits)
qed simp

text \<open>C14: A connection that sends garbage ends. Whatever was received before, ten malformed frames in a row end the
  loop that reads the connection, with an error that makes the stream reconnect; no later frame is read.\<close>

theorem garbage_ends_connection:
  assumes "a < length (md_heap m)" and "length bad = 10"
  shows "\<exists>e m'. md_consume a (before @ map (\<lambda>e. Frame (Inl e)) bad @ later) m = (Some e, m') \<and>
    md_consume a (before @ map (\<lambda>e. Frame (Inl e)) bad) m = (Some e, m')"
  using assms(1)
proof (induction before arbitrary: m)
  case Nil
  have stop: "md_consume a (xs @ ys) m = md_consume a xs m" if "fst (md_consume a xs m) \<noteq> None" for xs ys m
    using that by (induction xs arbitrary: m) (auto split: prod.splits option.splits)
  have "fst (md_consume a (map (\<lambda>e. Frame (Inl e)) bad @ []) m) \<noteq> None"
    by (rule malformed_frames_end [OF Nil]) (use assms(2) in auto)
  then show ?case using stop [of "map (\<lambda>e. Frame (Inl e)) bad" m later]
    by (cases "md_consume a (map (\<lambda>e. Frame (Inl e)) bad) m") auto
next
  case (Cons frame before)
  show ?case
  proof (cases "consume_frame (\<lambda>_. (0, 0)) a frame m")
    case (Pair ended m1)
    then have "length (md_heap m1) = length (md_heap m)" using consume_frame_heap [of "\<lambda>_. (0, 0)" a frame m] by simp
    then show ?thesis using Pair Cons.IH [of m1] Cons.prems by (cases ended) simp_all
  qed
qed

theorem garbage_ends_connection_witness:
  "\<exists>e m'. md_consume 0 ([Frame (Inr (Some (sample_quote_bbo ''1'')))] @ map (\<lambda>e. Frame (Inl e)) (replicate 10 (MdText ''x'')) @
     [Frame (Inr (Some (sample_quote_bbo ''2'')))]) sample_subscribed = (Some e, m')"
proof -
  have "0 < length (md_heap sample_subscribed)" by code_simp
  from garbage_ends_connection [OF this, of "replicate 10 (MdText ''x'')"] show ?thesis by fastforce
qed

end
