(* ===== verification/Spec2Isabelle.thy ===== *)
theory Spec2Isabelle
  imports Metrics_Worker Arbitrage_Sizing Last_Close Funding_Window Work_Permits
    Order_Lifecycle Twap_Steps Market_Streams
begin

text \<open>
  Verification of the trading core of \<^verbatim>\<open>self-quant\<close>, the Go backend under \<^verbatim>\<open>src/backend/internal\<close>. All paths below are
  relative to that directory.

  \<^bold>\<open>The program.\<close> The package \<^verbatim>\<open>trader\<close> places orders at crypto venues on behalf of users. Requests arrive at a
  service, which validates them, stores an intention in the tables of orders and submits it to a venue adapter. What the
  venue answers, what polling finds and what private streams report is merged into the stored order. On top of the orders
  work two strategies: TWAP jobs, which cut a total into slices over a window, and arbitrage combinations, which hold a
  position in one venue against the opposite position in another and are opened, hedged, priced and closed by an executor
  with several workers.

  \<^bold>\<open>Foundations.\<close>
  \<^item> \<open>Go_Prelude\<close>: strings, 64-bit integers with wrap-around, times and durations (\<open>int\<close> nanoseconds), and decimals.
    A decimal is a rational number; parsing, printing, the rounding division and the exponent are the record
    \<open>decimal_lib\<close>, because the decimal package is not part of the sources.
  \<^item> \<open>Decimal_Library\<close>: the documented behaviour of that package as the locale \<open>decimal_library\<close>, and an implementation
    of it, \<open>std_lib\<close>, which interprets the locale and on which all sample runs are evaluated.
  \<^item> \<open>Trader_Types\<close>: the structs of \<^verbatim>\<open>trader/types.go\<close> and \<^verbatim>\<open>trader/arbitrage_types.go\<close> as records, their zero values,
    the sentinel errors as a datatype and the status predicates.

  \<^bold>\<open>Rules and arithmetic\<close> (functions without state).
  \<^item> \<open>Quantity_Steps\<close>: rounding to steps and the common step of two venues.
  \<^item> \<open>Order_Rules\<close> (\<^verbatim>\<open>trader/validate.go\<close>, \<^verbatim>\<open>trader/exchange/quantity.go\<close>): an order is accepted exactly when it
    satisfies the rules of its instrument, preparing is idempotent, conversion to venue contracts and back is exact up to
    the rounding of the division, and a validated TWAP request fits its window.
  \<^item> \<open>Arbitrage_Math\<close>, \<open>Arbitrage_Sizing\<close> (\<^verbatim>\<open>trader/arbitrage_math.go\<close>, \<^verbatim>\<open>arbitrage_order_size.go\<close>): planned positions
    stay between zero and the target and reach it, closing and flattening never reverse a leg, sized orders respect every
    cap, hedge quantities reported as executable pass the order rules.
  \<^item> \<open>Cost_Replay\<close> (\<^verbatim>\<open>trader/arbitrage_position_metrics.go\<close>): the replay of fills conserves cash and never owns more than
    the account holds.
  \<^item> \<open>One_Shot\<close>, \<open>Last_Close\<close>, \<open>Funding_Window\<close> (\<^verbatim>\<open>trader/arbitrage_one_shot_exit.go\<close>, \<^verbatim>\<open>arbitrage_one_shot_dust.go\<close>,
    \<^verbatim>\<open>arbitrage_last_close_residual.go\<close>, \<^verbatim>\<open>arbitrage_funding_8h.go\<close>): exits are justified by their samples, dust cannot be
    traded, the allocation of residual fills does not depend on their order, funding rates are summed only over a covered
    window.

  \<^bold>\<open>Concurrent parts\<close> (step relations over critical sections, with invariants of all reachable states).
  \<^item> \<open>Metrics_Worker\<close> (\<^verbatim>\<open>trader/arbitrage_position_metrics_worker.go\<close>): members, jobs in flight and exit windows.
  \<^item> \<open>Work_Permits\<close> (\<^verbatim>\<open>trader/execution_work_permit.go\<close>): permits never exceed the workers, urgent work keeps a reserve.
  \<^item> \<open>Fill_Average\<close> (\<^verbatim>\<open>trader/order_fill_average.go\<close>): a heap of shared fill states with handles; trades count once.

  \<^bold>\<open>Orders.\<close>
  \<^item> \<open>Order_Merge\<close> (\<^verbatim>\<open>trader/repository.go\<close>): the update transaction; stored orders only move forward.
  \<^item> \<open>Venue_Orders\<close> (\<^verbatim>\<open>trader/exchange/types.go\<close>, \<^verbatim>\<open>trader/order_resolution.go\<close>): adapters are records of functions,
    arguments of the model, and the evidence that an order is absent is checked.
  \<^item> \<open>Order_Tables\<close> (\<^verbatim>\<open>trader/repository.go\<close>, \<^verbatim>\<open>trader/arbitrage_repository.go\<close>, \<^verbatim>\<open>trader/confirmed_absent_finalize.go\<close>):
    the tables of orders, executions and combinations as the record \<open>trader_db\<close>, one definition per statement. The locales
    \<open>store_relation\<close> and \<open>command_relation\<close> are the contract between the tables and their clients: a relation that the
    statements respect is respected by the reconciler, the streams and the service. They are interpreted by the relations
    that rows keep their identity and that orders move forward.
  \<^item> \<open>Order_Reconciler\<close> (\<^verbatim>\<open>trader/reconciler.go\<close>): polling and streams keep positions equal to what orders filled; an
    order counts as absent after three confirmations.
  \<^item> \<open>Order_Service\<close>, \<open>Order_Lifecycle\<close> (\<^verbatim>\<open>trader/service.go\<close>): the handlers, and the system of service, reconciler and
    streams as a step relation; the property in this theory is that an idempotency key is submitted at most once.

  \<^bold>\<open>TWAP.\<close>
  \<^item> \<open>Twap_Tables\<close>, \<open>Twap_Scheduler\<close>, \<open>Twap_Service\<close> (\<^verbatim>\<open>trader/twap_repository.go\<close>, \<^verbatim>\<open>twap_scheduler.go\<close>,
    \<^verbatim>\<open>twap_service.go\<close>, \<^verbatim>\<open>twap_cleanup.go\<close>): the table of jobs beside the tables of orders (\<open>twap_world\<close>) and every
    operation on it.
  \<^item> \<open>Twap_Safety\<close>, \<open>Twap_Steps\<close>: the invariant that sizes of children fit the total, and the step relation of all the
    parts; a job never commits more than its total, its rows keep their types, it ends with its window.

  \<^bold>\<open>Market data.\<close>
  \<^item> \<open>Go_Channels\<close>: buffered channels as addresses of a heap, with sending, receiving and closing; sending to a closed
    channel and closing twice are panics.
  \<^item> \<open>Market_Streams\<close> (\<^verbatim>\<open>trader/marketdata/manager.go\<close>): the streams of quotes that subscribers share, as a step relation
    over the critical sections of the manager and the steps of the goroutines. Channels are used safely, streams live as
    long as their subscribers, and a connection that sends garbage is given up.

  \<^bold>\<open>Conventions and bounds.\<close> A transaction is atomic, as the database isolates it. A handler that uses several
  transactions is one step, except that an order is admitted and submitted in separate steps; critical sections under a
  mutex are steps of their own. Goroutines of one run are a schedule, an argument that is universally quantified. Clocks, random numbers, digests, the parser of identifiers, the
  division of the database, catalogues, accounts and venue adapters are arguments. Times read back from a null column are
  the epoch. No definition uses fuel: loops are structural over lists or over a bound of the code.

  \<^bold>\<open>Not modelled.\<close> The order workflow of \<^verbatim>\<open>trader/arbitrage_executor.go\<close>, \<^verbatim>\<open>arbitrage_scheduler.go\<close> and most of
  \<^verbatim>\<open>arbitrage_repository.go\<close>: several thousand lines of SQL and orchestration, of which only the checks of quantities and
  the recomputation of positions are covered. Venue adapters and the WebSocket sessions of streams: protocols of third parties over
  HTTP. The packages \<^verbatim>\<open>funding\<close>, \<^verbatim>\<open>jev\<close>, \<^verbatim>\<open>report\<close>: mostly floating point and SQL. \<^verbatim>\<open>account\<close>, \<^verbatim>\<open>polymarket\<close>,
  \<^verbatim>\<open>gateway\<close>, \<^verbatim>\<open>rpc\<close>, \<^verbatim>\<open>ai\<close>, \<^verbatim>\<open>admin\<close>, \<^verbatim>\<open>config\<close>: clients, request decoding and glue.
\<close>

section \<open>Orders across the service, the reconciler and the streams\<close>

text \<open>C1: however requests, answers of the venues, polls, stream updates and restarts interleave, at most one order
  request is ever sent for an idempotency key, and every request that is sent asks for what a stored row says
  (client id, side, type, quantity and price).\<close>

theorem order_submitted_once:
  assumes "(trader_step L)\<^sup>*\<^sup>* s s'" "rows_unique (tw_db (sy_world s))" "tw_submitted (sy_world s) = []" "sy_running s = {#}"
  shows "length (requests_for key (sy_world s')) \<le> 1 \<and>
         (\<forall>r \<in> set (tw_submitted (sy_world s')). \<exists>row \<in> set (order_rows (tw_db (sy_world s'))). asks_for r row)"
proof -
  have "system_ok s" using assms(2-4) by (simp add: system_ok_def client_ids_def)
  then have "system_ok s'" by (rule system_ok_reachable [OF assms(1)])
  then show ?thesis using system_ok_once [of s' key] by (simp add: system_ok_def)
qed

theorem order_submitted_once_witness:
  "\<exists>s. (trader_step std_lib)\<^sup>*\<^sup>* sample_system s \<and> length (requests_for ''key-1'' (sy_world s)) = 1 \<and>
     length (requests_for ''key-1'' (sy_world s)) \<le> 1 \<and>
     (\<forall>r \<in> set (tw_submitted (sy_world s)). \<exists>row \<in> set (order_rows (tw_db (sy_world s))). asks_for r row)"
proof -
  let ?env = sample_service_env and ?admit = "place_admit std_lib sample_service_env sample_place_input"
  obtain sub w where run: "?admit (sy_world sample_system) = (Inr sub, w)"
    "length (requests_for ''key-1'' (snd (submit_admitted std_lib ?env sub w))) = 1"
    "isl (fst (?admit (snd (submit_admitted std_lib ?env sub w))))"
    by (rule sample_admitted)
  define w1 where "w1 = snd (submit_admitted std_lib ?env sub w)"
  obtain r w2 where again: "?admit w1 = (Inl r, w2)" using run(3) by (cases "?admit w1"; cases "fst (?admit w1)") (simp_all add: w1_def)
  have w2: "w2 = w1" by (rule admit_answered [OF again])
  let ?s1 = "\<lparr>sy_world = w, sy_running = add_mset sub (sy_running sample_system)\<rparr>"
  let ?s2 = "\<lparr>sy_world = w1, sy_running = sy_running ?s1 - {#sub#}\<rparr>"
  have "trader_step std_lib sample_system ?s1" by (rule trader_step.admitted [OF run(1)])
  moreover have "trader_step std_lib ?s1 ?s2"
    by (rule trader_step.submitted [where r = "fst (submit_admitted std_lib ?env sub w)" and env = ?env]) (simp_all add: w1_def)
  moreover have "trader_step std_lib ?s2 ?s2"
    using trader_step.answered [of std_lib ?env sample_place_input ?s2 r w2] again w2 by simp
  ultimately have reach: "(trader_step std_lib)\<^sup>*\<^sup>* sample_system ?s2" by (meson rtranclp.rtrancl_into_rtrancl rtranclp.rtrancl_refl)
  have "rows_unique (tw_db (sy_world sample_system))"
    by (simp add: sample_system_def sample_world_def rows_unique_def rows_keyed_def order_rows_def sample_db_def map_filter_simps
      sample_leg_order_def sample_stored_order_def)
  then have "length (requests_for ''key-1'' (sy_world ?s2)) \<le> 1 \<and>
     (\<forall>r \<in> set (tw_submitted (sy_world ?s2)). \<exists>row \<in> set (order_rows (tw_db (sy_world ?s2))). asks_for r row)"
    by (rule order_submitted_once [OF reach]) (simp_all add: sample_system_def sample_world_def)
  then show ?thesis using reach run(2) by (intro exI [of _ ?s2]) (simp add: w1_def)
qed

end
